(* ===== verification/Prelude.thy ===== *)
theory Prelude
  imports Main "HOL-Library.Monad_Syntax"
begin

text \<open>
  What the component theories share: the names of the Go types that have a direct HOL
  counterpart, reads and deletions of a Go map with string keys, decimal rendering, the
  string functions of the Go standard library that the sources call, and the collections
  of rewrite rules that carry the component proofs. Strings are lists of bytes
  (\<^typ>\<open>char\<close>), as Go strings are.
\<close>

type_synonym bytes = string

text \<open>A map with string keys: a \<open>nil\<close> map and an empty one read alike, so both are the
  empty map.\<close>

type_synonym strmap = "string \<rightharpoonup> string"

text \<open>The equations that unfold a step of the code, and those that unfold the updates of a
  status; \<open>go_simps\<close> holds facts on the standard library.\<close>

named_theorems step_simps "unfolding rules of the reconcile steps"
named_theorems frame_simps "fields an operation leaves alone"
named_theorems go_simps "facts on the modelled standard library"

subsection \<open>Go maps\<close>

text \<open>\<open>m[k]\<close> of a map from strings to strings: the zero value where the key is absent.\<close>

definition map_read :: "strmap \<Rightarrow> string \<Rightarrow> string" where
  "map_read m k = (case m k of None \<Rightarrow> '''' | Some v \<Rightarrow> v)"

text \<open>The built-in \<open>delete(m, k)\<close>.\<close>

definition map_delete :: "strmap \<Rightarrow> string \<Rightarrow> strmap" where
  "map_delete m k = m(k := None)"

lemma map_read_empty [simp]: "map_read Map.empty k = ''''"
  by (simp add: map_read_def)

lemma map_read_upd [simp]:
  "map_read (m(k \<mapsto> v)) k' = (if k' = k then v else map_read m k')"
  by (simp add: map_read_def)

lemma map_read_delete [simp]:
  "map_read (map_delete m k) k' = (if k' = k then '''' else map_read m k')"
  by (simp add: map_read_def map_delete_def)

lemma map_read_add [simp]:
  "map_read (m ++ m') k = (if k \<in> dom m' then map_read m' k else map_read m k)"
  by (auto simp: map_read_def map_add_def split: option.splits)

lemma map_read_dom: "map_read m k \<noteq> '''' \<Longrightarrow> k \<in> dom m"
  by (auto simp: map_read_def split: option.splits)

subsection \<open>Bytes and decimal numbers\<close>

definition byte_val :: "char \<Rightarrow> nat" where
  "byte_val c = of_char c"

definition is_digit :: "char \<Rightarrow> bool" where
  "is_digit c \<longleftrightarrow> 48 \<le> byte_val c \<and> byte_val c \<le> 57"

definition digit_val :: "char \<Rightarrow> int" where
  "digit_val c = int (byte_val c) - 48"

definition digit_char :: "int \<Rightarrow> char" where
  "digit_char n = char_of (nat (48 + n))"

lemma byte_val_lt: "byte_val c < 256"
  by (simp add: byte_val_def)

lemma byte_val_char_of: "n < 256 \<Longrightarrow> byte_val (char_of n) = n"
  by (simp add: byte_val_def)

lemma is_digit_digit_char [simp]: "0 \<le> n \<Longrightarrow> n < 10 \<Longrightarrow> is_digit (digit_char n)"
  by (simp add: is_digit_def digit_char_def byte_val_char_of nat_le_iff)

lemma digit_val_digit_char [simp]: "0 \<le> n \<Longrightarrow> n < 10 \<Longrightarrow> digit_val (digit_char n) = n"
  by (simp add: digit_val_def digit_char_def byte_val_char_of)

text \<open>Decimal digits of a natural number, most significant first (\<open>strconv.Itoa\<close> of a
  non-negative integer).\<close>

fun show_nat :: "nat \<Rightarrow> string" where
  "show_nat n = (if n < 10 then [digit_char (int n)]
     else show_nat (n div 10) @ [digit_char (int (n mod 10))])"

declare show_nat.simps [simp del]

text \<open>Verb \<open>%d\<close> of package \<open>fmt\<close>.\<close>

definition show_int :: "int \<Rightarrow> string" where
  "show_int n = (if n < 0 then ''-'' @ show_nat (nat (- n)) else show_nat (nat n))"

subsection \<open>Functions of package strings\<close>

definition has_prefix :: "string \<Rightarrow> string \<Rightarrow> bool" where
  "has_prefix p s \<longleftrightarrow> take (length p) s = p"

text \<open>\<open>strings.TrimPrefix\<close>, and \<open>strings.Split(s, sep)\<close> for a one-byte separator.\<close>

definition trim_prefix :: "string \<Rightarrow> string \<Rightarrow> string" where
  "trim_prefix p s = (if has_prefix p s then drop (length p) s else s)"

fun split_on :: "char \<Rightarrow> string \<Rightarrow> string list" where
  "split_on sep [] = [[]]"
| "split_on sep (c # s) = (if c = sep then [] # split_on sep s
     else case split_on sep s of p # ps \<Rightarrow> (c # p) # ps | [] \<Rightarrow> [[c]])"

abbreviation split_path :: "string \<Rightarrow> string list" where
  "split_path \<equiv> split_on CHR ''/''"

lemma split_on_none: "sep \<notin> set s \<Longrightarrow> split_on sep s = [s]"
  by (induction s) auto

lemma split_on_append: "sep \<notin> set s \<Longrightarrow> split_on sep (s @ sep # t) = s # split_on sep t"
  by (induction s) auto

text \<open>\<open>strings.TrimRight(s, cutset)\<close> for a one-byte cutset.\<close>

definition trim_right :: "string \<Rightarrow> char \<Rightarrow> string" where
  "trim_right s c = rev (dropWhile (\<lambda>x. x = c) (rev s))"

text \<open>\<open>strings.TrimSpace\<close>, on the ASCII white space of package unicode.\<close>

definition is_space :: "char \<Rightarrow> bool" where
  "is_space c \<longleftrightarrow> byte_val c \<in> {9, 10, 11, 12, 13, 32}"

definition trim_space :: "string \<Rightarrow> string" where
  "trim_space s = rev (dropWhile is_space (rev (dropWhile is_space s)))"

lemma trim_right_last: "trim_right s c = [] \<or> last (trim_right s c) \<noteq> c"
proof (cases "dropWhile (\<lambda>x. x = c) (rev s)")
  case Nil
  then show ?thesis by (simp add: trim_right_def)
next
  case (Cons x xs)
  have "hd (dropWhile (\<lambda>x. x = c) (rev s)) \<noteq> c"
    using hd_dropWhile [of "\<lambda>x. x = c" "rev s"] Cons by simp
  with Cons show ?thesis by (simp add: trim_right_def)
qed

lemma trim_right_id: "s \<noteq> [] \<Longrightarrow> last s \<noteq> c \<Longrightarrow> trim_right s c = s"
  by (cases s rule: rev_cases) (simp_all add: trim_right_def)

text \<open>Verb \<open>%q\<close> of package \<open>fmt\<close> on a string whose bytes above 127 form printable
  characters: the bytes that are escaped are the quote, the backslash and the control
  characters.\<close>

definition hex_digit :: "nat \<Rightarrow> char" where
  "hex_digit n = (if n < 10 then char_of (48 + n) else char_of (87 + n))"

definition quote_byte :: "char \<Rightarrow> string" where
  "quote_byte c = (let n = byte_val c in
     if n = 34 then [char_of (92::nat), c]
     else if n = 92 then [c, c]
     else if n = 7 then [char_of (92::nat), CHR ''a'']
     else if n = 8 then [char_of (92::nat), CHR ''b'']
     else if n = 9 then [char_of (92::nat), CHR ''t'']
     else if n = 10 then [char_of (92::nat), CHR ''n'']
     else if n = 11 then [char_of (92::nat), CHR ''v'']
     else if n = 12 then [char_of (92::nat), CHR ''f'']
     else if n = 13 then [char_of (92::nat), CHR ''r'']
     else if n < 32 \<or> n = 127
       then [char_of (92::nat), CHR ''x'', hex_digit (n div 16), hex_digit (n mod 16)]
     else [c])"

definition go_quote :: "string \<Rightarrow> string" where
  "go_quote s = [char_of (34::nat)] @ concat (map quote_byte s) @ [char_of (34::nat)]"

end
