(* ===== verification/GoTime.thy ===== *)
theory GoTime
  imports Prelude
begin

text \<open>
  The part of Go's package \<open>time\<close> the controllers rely on: instants as nanoseconds since
  the Unix epoch, \<open>Add\<close>, \<open>Sub\<close> and \<open>After\<close>, and the \<open>time.RFC3339\<close> layout in both
  directions (\<open>t.UTC().Format(time.RFC3339)\<close> and \<open>time.Parse(time.RFC3339, v)\<close>), with
  the proleptic Gregorian calendar underneath. The main result is the round trip: what
  \<open>Format\<close> wrote is parsed back as the instant cut down to the whole second.
\<close>

type_synonym time = int
type_synonym duration = int

definition nanos :: int where "nanos = 1000000000"

definition seconds :: "int \<Rightarrow> duration" where "seconds n = n * nanos"

definition time_Add :: "time \<Rightarrow> duration \<Rightarrow> time" where
  "time_Add t d = t + d"

text \<open>A \<open>Duration\<close> is an \<open>int64\<close>, and \<open>Sub\<close> saturates instead of wrapping.\<close>

definition max_duration :: duration where "max_duration = 2 ^ 63 - 1"
definition min_duration :: duration where "min_duration = - (2 ^ 63)"

definition time_Sub :: "time \<Rightarrow> time \<Rightarrow> duration" where
  "time_Sub t u = max min_duration (min max_duration (t - u))"

definition time_After :: "time \<Rightarrow> time \<Rightarrow> bool" where
  "time_After t u \<longleftrightarrow> u < t"

text \<open>The zero \<open>Time\<close> is the first instant of the year 1.\<close>

definition zero_time :: time where "zero_time = - (62135596800 * nanos)"

lemma time_Sub_exact: "\<bar>t - u\<bar> \<le> max_duration \<Longrightarrow> time_Sub t u = t - u"
  by (simp add: time_Sub_def max_duration_def min_duration_def)

lemma time_Sub_pos_iff: "0 < time_Sub t u \<longleftrightarrow> u < t"
  by (auto simp: time_Sub_def max_duration_def min_duration_def)

lemma time_Sub_le: "u \<le> t \<Longrightarrow> time_Sub t u \<le> t - u"
  by (simp add: time_Sub_def max_duration_def min_duration_def)

subsection \<open>The calendar\<close>

definition isLeap :: "int \<Rightarrow> bool" where
  "isLeap y \<longleftrightarrow> y mod 4 = 0 \<and> (y mod 100 \<noteq> 0 \<or> y mod 400 = 0)"

text \<open>\<open>daysBefore[m]\<close> counts the days of a non-leap year before month \<open>m + 1\<close> begins.\<close>

definition daysBefore :: "int \<Rightarrow> int" where
  "daysBefore m = (if m \<le> 0 then 0 else if m = 1 then 31 else if m = 2 then 59 else if m = 3 then 90
     else if m = 4 then 120 else if m = 5 then 151 else if m = 6 then 181 else if m = 7 then 212
     else if m = 8 then 243 else if m = 9 then 273 else if m = 10 then 304 else if m = 11 then 334
     else 365)"

definition daysIn :: "int \<Rightarrow> int \<Rightarrow> int" where
  "daysIn m y = (if m = 2 \<and> isLeap y then 29 else daysBefore m - daysBefore (m - 1))"

text \<open>Days from 1 January of the year 1 to 1 January of the year \<open>y\<close>.\<close>

definition days_to_year :: "int \<Rightarrow> int" where
  "days_to_year y = (let p = y - 1 in 365 * p + p div 4 - p div 100 + p div 400)"

definition epoch_day :: int where "epoch_day = 719162"

definition days_of_date :: "int \<Rightarrow> int \<Rightarrow> int \<Rightarrow> int" where
  "days_of_date y m d = days_to_year y + daysBefore (m - 1)
     + (if isLeap y \<and> 3 \<le> m then 1 else 0) + d - 1 - epoch_day"

text \<open>\<open>time.Date\<close> in UTC, for fields in their ranges.\<close>

definition time_Date :: "int \<Rightarrow> int \<Rightarrow> int \<Rightarrow> int \<Rightarrow> int \<Rightarrow> int \<Rightarrow> int \<Rightarrow> time" where
  "time_Date y m d hh mi ss ns =
     (days_of_date y m d * 86400 + hh * 3600 + mi * 60 + ss) * nanos + ns"

text \<open>The year and the day of the year of a day counted from 1 January of the year 1:
  400-year cycles first, then centuries (the last one a day longer), 4-year cycles and
  years (the last one a day longer).\<close>

definition year_yday :: "int \<Rightarrow> int \<times> int" where
  "year_yday dd =
     (let n400 = dd div 146097; d = dd mod 146097;
          n100 = d div 36524 - (d div 36524) div 4; d100 = d - 36524 * n100;
          n4 = d100 div 1461; d4 = d100 - 1461 * n4;
          n1 = d4 div 365 - (d4 div 365) div 4; d1 = d4 - 365 * n1
      in (400 * n400 + 100 * n100 + 4 * n4 + n1 + 1, d1))"

text \<open>Month and day of the month from the day of the year.\<close>

definition month_of_day :: "int \<Rightarrow> int" where
  "month_of_day day = (if day < 31 then 1 else if day < 59 then 2 else if day < 90 then 3
     else if day < 120 then 4 else if day < 151 then 5 else if day < 181 then 6
     else if day < 212 then 7 else if day < 243 then 8 else if day < 273 then 9
     else if day < 304 then 10 else if day < 334 then 11 else 12)"

definition month_day :: "bool \<Rightarrow> int \<Rightarrow> int \<times> int" where
  "month_day leap yday =
     (if leap \<and> yday = 59 then (2, 29)
      else let day = (if leap \<and> 59 < yday then yday - 1 else yday); m = month_of_day day
           in (m, day - daysBefore (m - 1) + 1))"

definition date_of_day :: "int \<Rightarrow> int \<times> int \<times> int" where
  "date_of_day d =
     (let (y, yd) = year_yday (d + epoch_day); (m, dom) = month_day (isLeap y) yd in (y, m, dom))"

subsection \<open>The calendar is consistent\<close>

lemma year_split:
  fixes a b c e :: int
  assumes "0 \<le> b" "b \<le> 3" "0 \<le> c" "c \<le> 24" "0 \<le> e" "e \<le> 3"
  defines "p \<equiv> 400 * a + 100 * b + 4 * c + e"
  shows "p div 4 = 100 * a + 25 * b + c" "p div 100 = 4 * a + b" "p div 400 = a"
  using assms by (simp_all add: p_def)

lemma days_to_year_split:
  fixes a b c e :: int
  assumes "0 \<le> b" "b \<le> 3" "0 \<le> c" "c \<le> 24" "0 \<le> e" "e \<le> 3"
  shows "days_to_year (400 * a + 100 * b + 4 * c + e + 1)
    = 146097 * a + 36524 * b + 1461 * c + 365 * e"
  using year_split [OF assms, of a] by (simp add: days_to_year_def Let_def)

lemma isLeap_split:
  fixes a b c e :: int
  assumes "0 \<le> b" "b \<le> 3" "0 \<le> c" "c \<le> 24" "0 \<le> e" "e \<le> 3"
  shows "isLeap (400 * a + 100 * b + 4 * c + e + 1) \<longleftrightarrow> e = 3 \<and> (c \<noteq> 24 \<or> b = 3)"
proof -
  let ?y = "400 * a + 100 * b + 4 * c + e + 1"
  have "?y = (e + 1) + 4 * (100 * a + 25 * b + c)" by simp
  then have 4: "?y mod 4 = (e + 1) mod 4" by (metis mod_mult_self2)
  have "?y = (4 * c + e + 1) + 100 * (4 * a + b)" by simp
  then have 100: "?y mod 100 = (4 * c + e + 1) mod 100" by (metis mod_mult_self2)
  have "?y = (100 * b + 4 * c + e + 1) + 400 * a" by simp
  then have 400: "?y mod 400 = (100 * b + 4 * c + e + 1) mod 400" by (metis mod_mult_self2)
  have e: "(e + 1) mod 4 = 0 \<longleftrightarrow> e = 3"
    using assms(5,6) by (cases "e = 3") (simp_all add: mod_pos_pos_trivial)
  have c: "(4 * c + 4) mod 100 = 0 \<longleftrightarrow> c = 24"
    using assms(3,4) by (cases "c = 24") (simp_all add: mod_pos_pos_trivial)
  have b: "(100 * b + 100) mod 400 = 0 \<longleftrightarrow> b = 3"
    using assms(1,2) by (cases "b = 3") (simp_all add: mod_pos_pos_trivial)
  show ?thesis
  proof (cases "e = 3")
    case False
    then show ?thesis by (simp add: isLeap_def 4 e)
  next
    case True
    have leap: "isLeap ?y \<longleftrightarrow> (4 * c + 4) mod 100 \<noteq> 0 \<or> (100 * b + 4 * c + 4) mod 400 = 0"
      unfolding isLeap_def 4 100 400 unfolding True by (simp add: add.assoc)
    show ?thesis
    proof (cases "c = 24")
      case True
      with leap b \<open>e = 3\<close> show ?thesis by (simp add: add.commute)
    next
      case False
      with leap c \<open>e = 3\<close> show ?thesis by simp
    qed
  qed
qed

text \<open>The cycle counts that \<^const>\<open>year_yday\<close> computes are within their cycles, and the day of
  the year it leaves is within the year.\<close>

lemma cut_last_cycle: "0 \<le> q \<Longrightarrow> q \<le> 4 \<Longrightarrow> q - q div 4 = min q (3::int)"
  by (cases "q = 4") (simp_all add: div_pos_pos_trivial)

lemma div_bounds: "0 < m \<Longrightarrow> m * (x div m) \<le> x \<and> x < m * (x div m) + (m::int)"
  using pos_mod_bound [of m x] pos_mod_sign [of m x] mult_div_mod_eq [of m x] by linarith

lemma year_yday_correct:
  assumes "year_yday dd = (y, yd)"
  shows "0 \<le> yd" "yd < 365 + (if isLeap y then 1 else 0)" "days_to_year y + yd = dd"
proof -
  define a d where "a = dd div 146097" and "d = dd mod 146097"
  define b d100 where "b = d div 36524 - (d div 36524) div 4" and "d100 = d - 36524 * b"
  define c d4 where "c = d100 div 1461" and "d4 = d100 - 1461 * c"
  define e d1 where "e = d4 div 365 - (d4 div 365) div 4" and "d1 = d4 - 365 * e"
  have d: "0 \<le> d" "d < 146097" by (simp_all add: d_def)
  let ?q = "d div 36524" and ?r = "d4 div 365"
  have q: "36524 * ?q \<le> d" "d < 36524 * ?q + 36524" using div_bounds [of 36524 d] by simp_all
  then have q4: "0 \<le> ?q" "?q \<le> 4" using d by linarith+
  have bq: "b = min ?q 3" unfolding b_def by (rule cut_last_cycle [OF q4])
  then have b: "0 \<le> b" "b \<le> 3" using q4 by simp_all
  have d100: "0 \<le> d100" "d100 < 36524 + (if b = 3 then 1 else 0)"
    using d q q4 unfolding d100_def bq by (cases "?q \<le> 3"; simp; linarith)+
  have cq: "1461 * c \<le> d100" "d100 < 1461 * c + 1461"
    using div_bounds [of 1461 d100] by (simp_all add: c_def)
  then have c: "0 \<le> c" "c \<le> 24" using d100 by (auto split: if_splits)
  have d4: "0 \<le> d4" "d4 < (if c = 24 \<and> b \<noteq> 3 then 1460 else 1461)"
    using d100 cq unfolding d4_def by (auto split: if_splits)
  have r: "365 * ?r \<le> d4" "d4 < 365 * ?r + 365" using div_bounds [of 365 d4] by simp_all
  then have r4: "0 \<le> ?r" "?r \<le> 4" using d4 by (auto split: if_splits)
  have er: "e = min ?r 3" unfolding e_def by (rule cut_last_cycle [OF r4])
  then have e: "0 \<le> e" "e \<le> 3" using r4 by simp_all
  have d1: "0 \<le> d1" "d1 < 365 + (if e = 3 \<and> (c \<noteq> 24 \<or> b = 3) then 1 else 0)"
  proof -
    have "d4 \<le> 1460" using d4 by (simp split: if_splits)
    then have "0 \<le> d1" "d1 < 365 + (if e = 3 then 1 else 0)"
      using r r4 unfolding d1_def er by (cases "?r \<le> 3"; simp; linarith)+
    moreover have "d1 < 365" if "c = 24 \<and> b \<noteq> 3"
      using that r r4 d4 unfolding d1_def er by (cases "?r \<le> 3"; simp; linarith)
    ultimately show "0 \<le> d1" "d1 < 365 + (if e = 3 \<and> (c \<noteq> 24 \<or> b = 3) then 1 else 0)"
      by (auto split: if_splits)
  qed
  have y: "y = 400 * a + 100 * b + 4 * c + e + 1" and yd: "yd = d1"
    using assms unfolding year_yday_def Let_def a_def [symmetric] d_def [symmetric] b_def [symmetric]
      d100_def [symmetric] c_def [symmetric] d4_def [symmetric] e_def [symmetric] d1_def [symmetric]
    by simp_all
  show "0 \<le> yd" "yd < 365 + (if isLeap y then 1 else 0)"
    using d1 isLeap_split [OF b c e, of a] by (simp_all add: y yd)
  have "dd = 146097 * a + d" by (simp add: a_def d_def)
  moreover have "d = 36524 * b + 1461 * c + 365 * e + d1"
    unfolding d1_def d4_def d100_def by linarith
  ultimately show "days_to_year y + yd = dd"
    unfolding y yd days_to_year_split [OF b c e] by linarith
qed

lemma div_pred:
  assumes "0 < m"
  shows "z div m = (z - 1) div m + (if z mod m = 0 then 1 else (0::int))"
proof (cases "z mod m = 0")
  case True
  then have "z - 1 = m * (z div m - 1) + (m - 1)"
    using mult_div_mod_eq [of m z] by (simp add: right_diff_distrib)
  then have "(z - 1) div m = z div m - 1" by (rule int_div_pos_eq) (use assms in simp_all)
  with True show ?thesis by simp
next
  case False
  have "z - 1 = m * (z div m) + (z mod m - 1)" using mult_div_mod_eq [of m z] by simp
  moreover have "0 \<le> z mod m - 1" "z mod m - 1 < m"
    using False pos_mod_sign [OF assms, of z] pos_mod_bound [OF assms, of z] by linarith+
  ultimately have "(z - 1) div m = z div m" by (rule int_div_pos_eq)
  with False show ?thesis by simp
qed

lemma leap_count:
  fixes a b c y :: int
  assumes "a' = a + (if P then 1 else 0)" "b' = b + (if Q then 1 else 0)" "c' = c + (if R then 1 else 0)"
    and "Q \<Longrightarrow> P" "R \<Longrightarrow> Q"
  shows "365 * y + a' - b' + c'
    = (365 * (y - 1) + a - b + c) + 365 + (if P \<and> (\<not> Q \<or> R) then 1 else 0)"
  using assms(4,5) unfolding assms(1,2,3) by (cases P; cases Q; cases R) simp_all

lemma mod_0_weaken: "y mod n = 0 \<Longrightarrow> m dvd n \<Longrightarrow> y mod m = (0::int)"
  unfolding mod_eq_0_iff_dvd by (rule dvd_trans)

text \<open>A year is as long as its day count says.\<close>

lemma days_to_year_Suc: "days_to_year (y + 1) = days_to_year y + 365 + (if isLeap y then 1 else 0)"
proof -
  have "y mod 100 = 0 \<Longrightarrow> y mod 4 = 0" "y mod 400 = 0 \<Longrightarrow> y mod 100 = 0"
    by (erule mod_0_weaken, simp)+
  note step = leap_count [OF div_pred [of 4 y] div_pred [of 100 y] div_pred [of 400 y] this, of y]
  show ?thesis
    unfolding days_to_year_def Let_def isLeap_def add_diff_cancel_right' by (rule step) simp_all
qed

lemma days_to_year_mono: "y \<le> z \<Longrightarrow> days_to_year y \<le> days_to_year z"
  by (induction z rule: int_ge_induct) (simp_all add: days_to_year_Suc)

lemma month_of_day_correct:
  assumes "0 \<le> day" "day < 365"
  shows "1 \<le> month_of_day day" "month_of_day day \<le> 12"
    and "daysBefore (month_of_day day - 1) \<le> day" "day < daysBefore (month_of_day day)"
    and "3 \<le> month_of_day day \<longleftrightarrow> 59 \<le> day"
  using assms by (simp_all add: month_of_day_def daysBefore_def)

lemma month_day_correct:
  assumes "month_day leap yday = (m, d)" "0 \<le> yday" "yday < 365 + (if leap then 1 else 0)"
    and "leap = isLeap y"
  shows "1 \<le> m" "m \<le> 12" "1 \<le> d" "d \<le> daysIn m y"
    and "daysBefore (m - 1) + (if isLeap y \<and> 3 \<le> m then 1 else 0) + d - 1 = yday"
proof -
  have all: "1 \<le> m \<and> m \<le> 12 \<and> 1 \<le> d \<and> d \<le> daysIn m y
    \<and> daysBefore (m - 1) + (if isLeap y \<and> 3 \<le> m then 1 else 0) + d - 1 = yday"
  proof (cases "leap \<and> yday = 59")
    case True
    then show ?thesis using assms(1,4) by (auto simp: month_day_def daysIn_def daysBefore_def)
  next
    case False
    define day where "day = (if leap \<and> 59 < yday then yday - 1 else yday)"
    have day: "0 \<le> day" "day < 365" "leap \<and> 59 \<le> day \<longleftrightarrow> leap \<and> 59 < yday"
      using assms(2,3) False by (auto simp: day_def split: if_splits)
    have md: "m = month_of_day day" "d = day - daysBefore (m - 1) + 1"
      using assms(1) False by (auto simp: month_day_def Let_def day_def [symmetric])
    note M = month_of_day_correct [OF day(1,2), folded md(1)]
    have "daysBefore m - daysBefore (m - 1) \<le> daysIn m y"
      by (auto simp: daysIn_def daysBefore_def)
    then show ?thesis
      using M day(3) assms(4) by (auto simp: md(2)) (auto simp: day_def split: if_splits)
  qed
  then show "1 \<le> m" "m \<le> 12" "1 \<le> d" "d \<le> daysIn m y"
    and "daysBefore (m - 1) + (if isLeap y \<and> 3 \<le> m then 1 else 0) + d - 1 = yday"
    by blast+
qed

text \<open>The civil date of a day is a date of the calendar, and it names that day.\<close>

lemma date_of_day_correct:
  assumes "date_of_day dd = (y, m, d)"
  shows "1 \<le> m" "m \<le> 12" "1 \<le> d" "d \<le> daysIn m y" "days_of_date y m d = dd"
proof -
  obtain yd where yd: "year_yday (dd + epoch_day) = (y, yd)" and md: "month_day (isLeap y) yd = (m, d)"
    using assms by (auto simp: date_of_day_def split: prod.splits)
  note Y = year_yday_correct [OF yd]
  note M = month_day_correct [OF md Y(1,2) refl]
  show "1 \<le> m" "m \<le> 12" "1 \<le> d" "d \<le> daysIn m y" by (fact M)+
  show "days_of_date y m d = dd"
    using M(5) Y(3) by (simp add: days_of_date_def)
qed

lemma date_of_day_year:
  assumes "date_of_day dd = (y, m, d)" "days_to_year 0 \<le> dd + epoch_day"
    and "dd + epoch_day < days_to_year 10000"
  shows "0 \<le> y" "y \<le> 9999"
proof -
  obtain yd where yd: "year_yday (dd + epoch_day) = (y, yd)"
    using assms(1) by (auto simp: date_of_day_def split: prod.splits)
  note Y = year_yday_correct [OF yd]
  show "0 \<le> y"
  proof (rule ccontr)
    assume "\<not> 0 \<le> y"
    then have "days_to_year (y + 1) \<le> days_to_year 0" by (intro days_to_year_mono) simp
    then show False using Y assms(2) by (simp add: days_to_year_Suc)
  qed
  show "y \<le> 9999"
  proof (rule ccontr)
    assume "\<not> y \<le> 9999"
    then have "days_to_year 10000 \<le> days_to_year y" by (intro days_to_year_mono) simp
    then show False using Y assms(3) by simp
  qed
qed

subsection \<open>The RFC 3339 layout\<close>

text \<open>The decimal digits of an instant's fields. \<open>pad_int\<close> is package time's
  \<open>appendInt(x, width)\<close>.\<close>

fun pad_nat :: "nat \<Rightarrow> nat \<Rightarrow> string" where
  "pad_nat 0 n = (if n = 0 then [] else show_nat n)"
| "pad_nat (Suc w) n = pad_nat w (n div 10) @ [digit_char (int (n mod 10))]"

definition pad_int :: "nat \<Rightarrow> int \<Rightarrow> string" where
  "pad_int w x = (if x < 0 then CHR ''-'' # pad_nat w (nat (- x)) else pad_nat w (nat x))"

definition unix_secs :: "time \<Rightarrow> int" where "unix_secs t = t div nanos"

definition whole_second :: "time \<Rightarrow> time" where "whole_second t = unix_secs t * nanos"

text \<open>\<open>t.UTC().Format(time.RFC3339)\<close>: the fraction of the second is dropped.\<close>

definition format_RFC3339 :: "time \<Rightarrow> string" where
  "format_RFC3339 t =
     (let secs = unix_secs t; sod = secs mod 86400; (y, m, d) = date_of_day (secs div 86400)
      in pad_int 4 y @ ''-'' @ pad_int 2 m @ ''-'' @ pad_int 2 d @ ''T''
         @ pad_int 2 (sod div 3600) @ '':'' @ pad_int 2 (sod mod 3600 div 60) @ '':''
         @ pad_int 2 (sod mod 60) @ ''Z'')"

text \<open>\<open>getnum(s, fixed)\<close>: one or two digits, two when \<open>fixed\<close>.\<close>

fun getnum :: "bool \<Rightarrow> string \<Rightarrow> (int \<times> string) option" where
  "getnum fixed [] = None"
| "getnum fixed [a] = (if is_digit a \<and> \<not> fixed then Some (digit_val a, []) else None)"
| "getnum fixed (a # b # s) =
     (if \<not> is_digit a then None
      else if is_digit b then Some (digit_val a * 10 + digit_val b, s)
      else if fixed then None else Some (digit_val a, b # s))"

fun getyear :: "string \<Rightarrow> (int \<times> string) option" where
  "getyear (a # b # c # d # s) =
     (if is_digit a \<and> is_digit b \<and> is_digit c \<and> is_digit d
      then Some (((digit_val a * 10 + digit_val b) * 10 + digit_val c) * 10 + digit_val d, s)
      else None)"
| "getyear _ = None"

fun skip_char :: "char \<Rightarrow> string \<Rightarrow> string option" where
  "skip_char c [] = None"
| "skip_char c (x # s) = (if x = c then Some s else None)"

text \<open>A fraction after the seconds is accepted although the layout has none; digits past the
  ninth are dropped.\<close>

fun frac_nanos :: "nat \<Rightarrow> string \<Rightarrow> int" where
  "frac_nanos 0 s = 0"
| "frac_nanos (Suc n) [] = 0"
| "frac_nanos (Suc n) (c # s) = digit_val c * 10 ^ n + frac_nanos n s"

definition getfrac :: "string \<Rightarrow> int \<times> string" where
  "getfrac s = (case s of
       c # d # r \<Rightarrow>
         if (c = CHR ''.'' \<or> c = CHR '','') \<and> is_digit d
         then (frac_nanos 9 (takeWhile is_digit (d # r)), dropWhile is_digit (d # r))
         else (0, s)
     | _ \<Rightarrow> (0, s))"

text \<open>\<open>Z\<close>, or an offset \<open>+hh:mm\<close> or \<open>-hh:mm\<close>, in seconds. The ranges are those of
  \<open>time.Parse\<close>, which lets 24 hours and 60 minutes pass.\<close>

definition getzone :: "string \<Rightarrow> (int \<times> string) option" where
  "getzone s = (case s of
       [] \<Rightarrow> None
     | c # r \<Rightarrow>
         if c = CHR ''Z'' then Some (0, r)
         else if c \<noteq> CHR ''+'' \<and> c \<noteq> CHR ''-'' then None
         else do {
           (hh, r) \<leftarrow> getnum True r;
           r \<leftarrow> skip_char CHR '':'' r;
           (mm, r) \<leftarrow> getnum True r;
           if 24 < hh \<or> 60 < mm then None
           else Some ((if c = CHR ''-'' then - 1 else 1) * ((hh * 60 + mm) * 60), r)
         })"

text \<open>\<open>time.Parse(time.RFC3339, v)\<close>; \<open>None\<close> is a \<open>*time.ParseError\<close>.\<close>

definition parse_RFC3339 :: "string \<Rightarrow> time option" where
  "parse_RFC3339 v = do {
     (y, s) \<leftarrow> getyear v;
     s \<leftarrow> skip_char CHR ''-'' s;
     (m, s) \<leftarrow> getnum True s;
     s \<leftarrow> skip_char CHR ''-'' s;
     (d, s) \<leftarrow> getnum True s;
     s \<leftarrow> skip_char CHR ''T'' s;
     (hh, s) \<leftarrow> getnum False s;
     s \<leftarrow> skip_char CHR '':'' s;
     (mi, s) \<leftarrow> getnum True s;
     s \<leftarrow> skip_char CHR '':'' s;
     (ss, s) \<leftarrow> getnum True s;
     let (ns, s) = getfrac s;
     (zone, s) \<leftarrow> getzone s;
     if m < 1 \<or> 12 < m \<or> 24 \<le> hh \<or> 60 \<le> mi \<or> 60 \<le> ss
        \<or> d < 1 \<or> daysIn m y < d \<or> s \<noteq> []
     then None
     else Some (time_Add (time_Date y m d hh mi ss ns) (- seconds zone))
   }"

subsection \<open>What Format writes, Parse reads\<close>

lemma pad_int_2:
  assumes "0 \<le> n" "n < 100"
  shows "pad_int 2 n = [digit_char (n div 10), digit_char (n mod 10)]"
proof -
  have n: "nat n div 10 < 10" using assms by (simp add: nat_less_iff zdiv_int [symmetric] flip: nat_div_distrib)
  then have "nat n div 10 div 10 = 0" "nat n div 10 mod 10 = nat n div 10" by simp_all
  then show ?thesis
    using assms by (simp add: pad_int_def numeral_2_eq_2 zdiv_int zmod_int)
qed

lemma getnum_pad_int_2:
  assumes "0 \<le> n" "n < 100"
  shows "getnum fixed (pad_int 2 n @ s) = Some (n, s)"
proof -
  have "0 \<le> n div 10" "n div 10 < 10" "0 \<le> n mod 10" "n mod 10 < 10" using assms by simp_all
  moreover have "n div 10 * 10 + n mod 10 = n" by simp
  ultimately show ?thesis by (simp add: pad_int_2 assms)
qed

lemma pad_nat_Suc_digit: "d < 10 \<Longrightarrow> pad_nat (Suc w) (a * 10 + d) = pad_nat w a @ [digit_char (int d)]"
  by simp

lemma four_digits:
  assumes "n < (10000::nat)"
  obtains a b c d where "n = ((a * 10 + b) * 10 + c) * 10 + d" "a < 10" "b < 10" "c < 10" "d < 10"
proof
  let ?p = "n div 10" let ?q = "?p div 10"
  have "?q div 10 * 10 + ?q mod 10 = ?q" "?q * 10 + ?p mod 10 = ?p" "?p * 10 + n mod 10 = n"
    by (rule div_mult_mod_eq)+
  then show "n = ((?q div 10 * 10 + ?q mod 10) * 10 + ?p mod 10) * 10 + n mod 10" by (simp only:)
  have "?p < 1000" "?q < 100" using assms by (simp_all only: less_mult_imp_div_less)
  then show "?q div 10 < 10" by linarith
qed simp_all

lemma getyear_pad_int_4:
  assumes "0 \<le> n" "n < 10000"
  shows "getyear (pad_int 4 n @ s) = Some (n, s)"
proof -
  have "nat n < 10000" using assms by simp
  then obtain a b c d where n: "nat n = ((a * 10 + b) * 10 + c) * 10 + d"
    and lt: "a < 10" "b < 10" "c < 10" "d < 10" by (rule four_digits)
  have 4: "4 = Suc (Suc (Suc (Suc 0)))" by simp
  have "pad_nat (Suc 0) a = [digit_char (int a)]" using lt by simp
  then have "pad_nat 4 (nat n) = map (digit_char \<circ> int) [a, b, c, d]"
    unfolding n 4 pad_nat_Suc_digit [OF lt(4)] pad_nat_Suc_digit [OF lt(3)] pad_nat_Suc_digit [OF lt(2)]
    by simp
  moreover have "n = int (nat n)" using assms by simp
  then have "n = ((int a * 10 + int b) * 10 + int c) * 10 + int d" by (simp only: n) simp
  ultimately show ?thesis using assms lt by (simp add: pad_int_def)
qed

text \<open>The years that have four digits; outside of them \<open>Format\<close> writes what \<open>Parse\<close>
  rejects.\<close>

definition four_digit_year :: "time \<Rightarrow> bool" where
  "four_digit_year t \<longleftrightarrow> - 62167219200 * nanos \<le> t \<and> t < 253402300800 * nanos"

lemma four_digit_year_day:
  assumes "four_digit_year t"
  shows "days_to_year 0 \<le> unix_secs t div 86400 + epoch_day"
    and "unix_secs t div 86400 + epoch_day < days_to_year 10000"
proof -
  have "- 62167219200 \<le> unix_secs t" "unix_secs t < 253402300800"
    using assms div_bounds [of nanos t] by (simp_all add: four_digit_year_def unix_secs_def nanos_def)
  then show "days_to_year 0 \<le> unix_secs t div 86400 + epoch_day"
    and "unix_secs t div 86400 + epoch_day < days_to_year 10000"
    by (simp_all add: days_to_year_def epoch_day_def)
qed

lemma sod_split:
  fixes s :: int
  assumes "0 \<le> s" "s < 86400"
  shows "s div 3600 * 3600 + s mod 3600 div 60 * 60 + s mod 60 = s"
    and "0 \<le> s div 3600" "s div 3600 < 24" "0 \<le> s mod 3600 div 60" "s mod 3600 div 60 < 60"
proof -
  have "s mod 60 = s mod 3600 mod 60" by (simp add: mod_mod_cancel)
  then have "s mod 3600 div 60 * 60 + s mod 60 = s mod 3600" by (simp only: div_mult_mod_eq)
  then show "s div 3600 * 3600 + s mod 3600 div 60 * 60 + s mod 60 = s"
    using div_mult_mod_eq [of s 3600] by (simp only: add.assoc)
  show "0 \<le> s div 3600" "s div 3600 < 24" using assms by linarith+
  show "0 \<le> s mod 3600 div 60" "s mod 3600 div 60 < 60"
    using pos_mod_sign [of 3600 s] pos_mod_bound [of 3600 s] by linarith+
qed

lemma getfrac_Z: "getfrac ''Z'' = (0, ''Z'')"
  by (simp add: getfrac_def)

lemma getzone_Z: "getzone ''Z'' = Some (0, [])"
  by (simp add: getzone_def)

lemma parse_fields:
  assumes "0 \<le> y" "y \<le> 9999" "1 \<le> m" "m \<le> 12" "1 \<le> d" "d \<le> daysIn m y"
    and "0 \<le> hh" "hh < 24" "0 \<le> mi" "mi < 60" "0 \<le> ss" "ss < 60"
  shows "parse_RFC3339 (pad_int 4 y @ ''-'' @ pad_int 2 m @ ''-'' @ pad_int 2 d @ ''T''
      @ pad_int 2 hh @ '':'' @ pad_int 2 mi @ '':'' @ pad_int 2 ss @ ''Z'')
    = Some (time_Date y m d hh mi ss 0)"
proof -
  have "d < 100" using assms(6) by (auto simp: daysIn_def daysBefore_def split: if_splits)
  with assms show ?thesis
    by (simp add: parse_RFC3339_def getyear_pad_int_4 getnum_pad_int_2 getfrac_Z getzone_Z
        time_Add_def seconds_def)
qed

lemma parse_format_RFC3339:
  assumes "four_digit_year t"
  shows "parse_RFC3339 (format_RFC3339 t) = Some (whole_second t)"
proof -
  define sod where "sod = unix_secs t mod 86400"
  obtain y m d where ymd: "date_of_day (unix_secs t div 86400) = (y, m, d)"
    by (cases "date_of_day (unix_secs t div 86400)")
  note D = date_of_day_correct [OF ymd] and Y = date_of_day_year [OF ymd four_digit_year_day [OF assms]]
  have sod: "0 \<le> sod" "sod < 86400" by (simp_all add: sod_def)
  note S = sod_split [OF sod]
  have ss: "0 \<le> sod mod 60" "sod mod 60 < 60" by simp_all
  have "unix_secs t = unix_secs t div 86400 * 86400 + sod"
    unfolding sod_def by (simp only: div_mult_mod_eq)
  then have "time_Date y m d (sod div 3600) (sod mod 3600 div 60) (sod mod 60) 0 = whole_second t"
    unfolding time_Date_def D(5) whole_second_def using S(1) by (simp only: add.assoc add_0_right)
  then show ?thesis
    unfolding format_RFC3339_def Let_def ymd prod.case sod_def [symmetric]
    using parse_fields [OF Y D(1-4) S(2-5) ss] by simp
qed

lemma whole_second_le: "whole_second t \<le> t"
  using div_bounds [of nanos t] by (simp add: whole_second_def unix_secs_def nanos_def mult.commute)

lemma whole_second_gt: "t - nanos < whole_second t"
  using div_bounds [of nanos t] by (simp add: whole_second_def unix_secs_def nanos_def mult.commute)

subsection \<open>Fractions of a second\<close>

text \<open>\<open>t.UTC().Format(time.RFC3339Nano)\<close>: a fraction of up to nine digits, without zeros at its end,
  and none for a whole second.\<close>

definition format_frac :: "int \<Rightarrow> string" where
  "format_frac ns = (if ns = 0 then [] else CHR ''.'' # rev (dropWhile (\<lambda>c. c = CHR ''0'') (rev (pad_nat 9 (nat ns)))))"

definition format_RFC3339Nano :: "time \<Rightarrow> string" where
  "format_RFC3339Nano t = butlast (format_RFC3339 t) @ format_frac (t mod nanos) @ ''Z''"

lemma frac_nanos_snoc:
  "length s = n \<Longrightarrow> frac_nanos (Suc n) (s @ [digit_char d]) = 10 * frac_nanos n s + digit_val (digit_char d)"
  by (induction s arbitrary: n) auto

lemma length_pad_nat: "n < 10 ^ w \<Longrightarrow> length (pad_nat w n) = w"
proof (induction w arbitrary: n)
  case (Suc w)
  then have "n div 10 < 10 ^ w" by (simp add: less_mult_imp_div_less mult.commute)
  then show ?case using Suc.IH by simp
qed simp

lemma pad_nat_digits: "n < 10 ^ w \<Longrightarrow> \<forall>c \<in> set (pad_nat w n). is_digit c"
proof (induction w arbitrary: n)
  case (Suc w)
  then have "n div 10 < 10 ^ w" by (simp add: less_mult_imp_div_less mult.commute)
  then show ?case using Suc.IH by simp
qed simp

lemma frac_nanos_pad_nat: "n < 10 ^ w \<Longrightarrow> frac_nanos w (pad_nat w n) = int n"
proof (induction w arbitrary: n)
  case (Suc w)
  then have "n div 10 < 10 ^ w" by (simp add: less_mult_imp_div_less mult.commute)
  then show ?case
    using Suc.IH [of "n div 10"] frac_nanos_snoc [OF length_pad_nat, of "n div 10" w "int (n mod 10)"]
    by (simp add: zdiv_int zmod_int del: frac_nanos.simps)
qed simp

lemma digit_val_0: "digit_val (CHR ''0'') = 0"
  by code_simp

lemma frac_nanos_zeros: "frac_nanos n (s @ replicate k (CHR ''0'')) = frac_nanos n s"
proof (induction n s rule: frac_nanos.induct)
  case (2 n)
  have "frac_nanos m (replicate k (CHR ''0'')) = 0" for m
  proof (induction m arbitrary: k)
    case (Suc m)
    then show ?case by (cases k) (simp_all add: digit_val_0)
  qed simp
  then show ?case by simp
qed auto

lemma strip_zeros:
  obtains k where "s = rev (dropWhile (\<lambda>c. c = CHR ''0'') (rev s)) @ replicate k (CHR ''0'')"
proof -
  have "rev s = takeWhile (\<lambda>c. c = CHR ''0'') (rev s) @ dropWhile (\<lambda>c. c = CHR ''0'') (rev s)" by simp
  moreover have "takeWhile (\<lambda>c. c = CHR ''0'') (rev s) = replicate (length (takeWhile (\<lambda>c. c = CHR ''0'') (rev s))) (CHR ''0'')"
    by (rule replicate_length_same [symmetric]) (auto dest: set_takeWhileD)
  ultimately show ?thesis using that by (metis rev_append rev_replicate rev_rev_ident)
qed

lemma getfrac_format_frac:
  assumes "0 \<le> ns" "ns < nanos"
  shows "getfrac (format_frac ns @ ''Z'') = (ns, ''Z'')"
proof (cases "ns = 0")
  case True
  then show ?thesis by (simp add: format_frac_def getfrac_Z)
next
  case False
  define p where "p = pad_nat 9 (nat ns)"
  define d where "d = rev (dropWhile (\<lambda>c. c = CHR ''0'') (rev p))"
  have lt: "nat ns < 10 ^ 9" using assms by (simp add: nanos_def nat_less_iff)
  obtain k where k: "p = d @ replicate k (CHR ''0'')" using strip_zeros [of p] d_def by metis
  have v: "frac_nanos 9 d = ns"
    using frac_nanos_pad_nat [OF lt] frac_nanos_zeros [of 9 d k] assms(1) by (simp add: p_def [symmetric] k)
  have digits: "\<forall>c \<in> set d. is_digit c" using pad_nat_digits [OF lt] k by (simp add: p_def [symmetric])
  have "d \<noteq> []" using v False by (auto simp: numeral_eq_Suc)
  then obtain c r where c: "d = c # r" by (cases d) auto
  have z: "\<not> is_digit (CHR ''Z'')" by code_simp
  have "takeWhile is_digit (d @ ''Z'') = d" "dropWhile is_digit (d @ ''Z'') = ''Z''"
    using digits z by (simp_all add: takeWhile_append dropWhile_append)
  then show ?thesis
    using False digits v c by (simp add: format_frac_def getfrac_def p_def [symmetric] d_def [symmetric])
qed

lemma parse_fields_frac:
  assumes "0 \<le> y" "y \<le> 9999" "1 \<le> m" "m \<le> 12" "1 \<le> d" "d \<le> daysIn m y"
    and "0 \<le> hh" "hh < 24" "0 \<le> mi" "mi < 60" "0 \<le> ss" "ss < 60" "getfrac (f @ ''Z'') = (ns, ''Z'')"
  shows "parse_RFC3339 (pad_int 4 y @ ''-'' @ pad_int 2 m @ ''-'' @ pad_int 2 d @ ''T''
      @ pad_int 2 hh @ '':'' @ pad_int 2 mi @ '':'' @ pad_int 2 ss @ f @ ''Z'')
    = Some (time_Date y m d hh mi ss ns)"
proof -
  have "d < 100" using assms(6) by (auto simp: daysIn_def daysBefore_def split: if_splits)
  with assms show ?thesis
    by (simp add: parse_RFC3339_def getyear_pad_int_4 getnum_pad_int_2 getzone_Z time_Add_def seconds_def)
qed

text \<open>The format in parts, with the characters that a strict reading looks at.\<close>

lemma format_RFC3339_parts:
  assumes "four_digit_year t"
  obtains s where "format_RFC3339 t = s @ ''Z''" "length s = 19" "is_digit (s ! 12)"
    "\<And>f ns. getfrac (f @ ''Z'') = (ns, ''Z'') \<Longrightarrow> parse_RFC3339 (s @ f @ ''Z'') = Some (whole_second t + ns)"
proof -
  define sod where "sod = unix_secs t mod 86400"
  obtain y m d where ymd: "date_of_day (unix_secs t div 86400) = (y, m, d)"
    by (cases "date_of_day (unix_secs t div 86400)")
  note D = date_of_day_correct [OF ymd] and Y = date_of_day_year [OF ymd four_digit_year_day [OF assms]]
  have sod: "0 \<le> sod" "sod < 86400" by (simp_all add: sod_def)
  note S = sod_split [OF sod]
  have ss: "0 \<le> sod mod 60" "sod mod 60 < 60" by simp_all
  have "unix_secs t = unix_secs t div 86400 * 86400 + sod"
    unfolding sod_def by (simp only: div_mult_mod_eq)
  then have val: "time_Date y m d (sod div 3600) (sod mod 3600 div 60) (sod mod 60) ns = whole_second t + ns" for ns
    unfolding time_Date_def D(5) whole_second_def using S(1) by (simp only: add.assoc)
  let ?s = "pad_int 4 y @ ''-'' @ pad_int 2 m @ ''-'' @ pad_int 2 d @ ''T''
      @ pad_int 2 (sod div 3600) @ '':'' @ pad_int 2 (sod mod 3600 div 60) @ '':'' @ pad_int 2 (sod mod 60)"
  have "d < 100" using D(4) by (auto simp: daysIn_def daysBefore_def split: if_splits)
  then have two: "length (pad_int 2 m) = 2" "length (pad_int 2 d) = 2" "length (pad_int 2 (sod mod 3600 div 60)) = 2"
    "length (pad_int 2 (sod mod 60)) = 2"
    using D(1-4) S(4,5) ss by (simp_all add: pad_int_2)
  have four: "length (pad_int 4 y) = 4" using Y length_pad_nat [of "nat y" 4] by (simp add: pad_int_def nat_less_iff)
  have "sod div 3600 < 24" "0 \<le> sod div 3600" using S by simp_all
  then have hh: "pad_int 2 (sod div 3600) = [digit_char (sod div 3600 div 10), digit_char (sod div 3600 mod 10)]"
    by (intro pad_int_2) simp_all
  have "?s ! 12 = digit_char (sod div 3600 mod 10)"
    using two(1,2) four by (simp add: nth_append hh)
  then have "is_digit (?s ! 12)" by simp
  moreover have "format_RFC3339 t = ?s @ ''Z''"
    unfolding format_RFC3339_def Let_def ymd prod.case sod_def [symmetric] by simp
  moreover have "length ?s = 19" using two four by (simp add: hh)
  moreover have "parse_RFC3339 (?s @ f @ ''Z'') = Some (whole_second t + ns)" if "getfrac (f @ ''Z'') = (ns, ''Z'')" for f ns
    using parse_fields_frac [OF Y D(1-4) S(2-5) ss that] val by simp
  ultimately show ?thesis using that [of ?s] by blast
qed

lemma whole_second_split: "whole_second t + t mod nanos = t"
  by (simp add: whole_second_def unix_secs_def)

text \<open>Nothing of the instant is lost.\<close>

lemma parse_format_RFC3339Nano:
  assumes "four_digit_year t"
  shows "parse_RFC3339 (format_RFC3339Nano t) = Some t"
proof -
  obtain s where s: "format_RFC3339 t = s @ ''Z''"
    "\<And>f ns. getfrac (f @ ''Z'') = (ns, ''Z'') \<Longrightarrow> parse_RFC3339 (s @ f @ ''Z'') = Some (whole_second t + ns)"
    using format_RFC3339_parts [OF assms] by metis
  have "0 \<le> t mod nanos" "t mod nanos < nanos" by (simp_all add: nanos_def)
  from s(2) [OF getfrac_format_frac [OF this]] show ?thesis
    by (simp add: format_RFC3339Nano_def s(1) butlast_append whole_second_split)
qed

text \<open>The characters of a time.\<close>

lemma show_nat_digits: "\<forall>c \<in> set (show_nat n). is_digit c"
  by (induction n rule: show_nat.induct) (subst show_nat.simps, simp)

lemma pad_digits: "\<forall>c \<in> set (pad_nat w n). is_digit c"
  by (induction w arbitrary: n) (simp_all add: show_nat_digits)

definition time_char :: "char \<Rightarrow> bool" where
  "time_char c \<longleftrightarrow> is_digit c \<or> c \<in> set ''-T:.Z''"

lemma pad_int_chars: "\<forall>c \<in> set (pad_int w x). time_char c"
  using pad_digits by (simp add: pad_int_def time_char_def)

lemma format_frac_chars: "\<forall>c \<in> set (format_frac ns). time_char c"
  using pad_digits by (auto simp: format_frac_def time_char_def dest!: set_dropWhileD)

lemma format_chars: "\<forall>c \<in> set (format_RFC3339Nano t). time_char c"
proof -
  have "\<forall>c \<in> set (format_RFC3339 t). time_char c"
    using pad_int_chars by (auto simp: format_RFC3339_def Let_def time_char_def split: prod.splits)
  then show ?thesis using format_frac_chars
    by (auto simp: format_RFC3339Nano_def time_char_def dest: in_set_butlastD)
qed

end
