(* ===== verification/Api.thy ===== *)
theory Api
  imports GoTime "HOL-Library.Word"
begin

text \<open>
  The API types of \<open>api/v1alpha1\<close>, with the parts of the Kubernetes and Cluster API types that
  the controllers touch. Labels, type metadata and the fields no code here reads are left out;
  \<open>int32\<close> and \<open>int64\<close> fields are words of that width.
\<close>

subsection \<open>Kubernetes and Cluster API types\<close>

record OwnerReference =
  or_APIVersion :: string
  or_Kind :: string
  or_Name :: string
  or_UID :: string
  or_Controller :: "bool option"

record ObjectMeta =
  om_Namespace :: string
  om_Name :: string
  om_UID :: string
  om_Generation :: "64 word"
  om_Annotations :: strmap
  om_Labels :: strmap
  om_Finalizers :: "string list"
  om_OwnerReferences :: "OwnerReference list"
  om_DeletionTimestamp :: "time option"

text \<open>\<open>DeletionTimestamp.IsZero()\<close> on a \<open>*metav1.Time\<close>.\<close>

definition is_zero_time :: "time option \<Rightarrow> bool" where
  "is_zero_time t = (case t of None \<Rightarrow> True | Some t \<Rightarrow> t = zero_time)"

record NamespacedName =
  nn_Namespace :: string
  nn_Name :: string

definition key_string :: "NamespacedName \<Rightarrow> string" where
  "key_string k = nn_Namespace k @ ''/'' @ nn_Name k"

datatype ConditionStatus = ConditionTrue | ConditionFalse | ConditionUnknown

record Condition =
  c_Type :: string
  c_Status :: ConditionStatus
  c_ObservedGeneration :: "64 word"
  c_LastTransitionTime :: time
  c_Reason :: string
  c_Message :: string

text \<open>A condition as the code writes it, its transition time left at the zero value for
  \<open>meta.SetStatusCondition\<close> to fill.\<close>

definition new_condition ::
  "string \<Rightarrow> ConditionStatus \<Rightarrow> 64 word \<Rightarrow> string \<Rightarrow> string \<Rightarrow> Condition" where
  "new_condition t s gen reason msg = \<lparr>c_Type = t, c_Status = s, c_ObservedGeneration = gen,
     c_LastTransitionTime = zero_time, c_Reason = reason, c_Message = msg\<rparr>"

definition find_condition :: "Condition list \<Rightarrow> string \<Rightarrow> Condition option" where
  "find_condition cs t = List.find (\<lambda>c. c_Type c = t) cs"

definition ReadyCondition :: string where "ReadyCondition = ''Ready''"

record APIEndpoint =
  ep_Host :: string
  ep_Port :: "32 word"

record MachineAddress =
  ma_Type :: string
  ma_Address :: string

definition MachineHostName :: string where "MachineHostName = ''Hostname''"

record Secret =
  s_Data :: strmap

record Cluster =
  cl_Meta :: ObjectMeta
  cl_InfrastructureRef_Name :: string

record Machine =
  m_Meta :: ObjectMeta
  m_DataSecretName :: "string option"

subsection \<open>KairosFleetCluster\<close>

definition KairosFleetClusterFinalizer :: string where
  "KairosFleetClusterFinalizer = ''kairosfleetcluster.infrastructure.cluster.x-k8s.io''"

record LocalSecretReference =
  sr_Name :: string

record AuroraBootConnection =
  ab_URL :: string
  ab_AdminTokenSecretRef :: LocalSecretReference

record KairosFleetClusterSpec =
  fcs_ControlPlaneEndpoint :: "APIEndpoint option"
  fcs_AuroraBoot :: AuroraBootConnection

record KairosFleetClusterInitializationStatus =
  fci_Provisioned :: "bool option"

record KairosFleetClusterStatus =
  fct_Initialization :: KairosFleetClusterInitializationStatus
  fct_Conditions :: "Condition list"
  fct_FailureReason :: "string option"
  fct_FailureMessage :: "string option"

record KairosFleetCluster =
  fc_Meta :: ObjectMeta
  fc_Spec :: KairosFleetClusterSpec
  fc_Status :: KairosFleetClusterStatus

subsection \<open>KairosFleetMachine\<close>

definition KairosFleetMachineFinalizer :: string where
  "KairosFleetMachineFinalizer = ''kairosfleetmachine.infrastructure.cluster.x-k8s.io''"

definition NodeIDAnnotation :: string where
  "NodeIDAnnotation = ''kairos-fleet.infrastructure.cluster.x-k8s.io/node-id''"

record KairosFleetMachineSpec =
  fms_Group :: string
  fms_ProviderID :: "string option"

record KairosFleetMachineInitializationStatus =
  fmi_Provisioned :: "bool option"

record KairosFleetMachineStatus =
  fmt_Initialization :: KairosFleetMachineInitializationStatus
  fmt_Addresses :: "MachineAddress list"
  fmt_Conditions :: "Condition list"
  fmt_FailureReason :: "string option"
  fmt_FailureMessage :: "string option"

record KairosFleetMachine =
  fm_Meta :: ObjectMeta
  fm_Spec :: KairosFleetMachineSpec
  fm_Status :: KairosFleetMachineStatus

subsection \<open>Templates\<close>

text \<open>A template's \<open>metadata\<close> is Cluster API's own, with labels and annotations only.\<close>

record TemplateMeta =
  tm_Labels :: strmap
  tm_Annotations :: strmap

record KairosFleetMachineTemplateResource =
  fmtr_ObjectMeta :: TemplateMeta
  fmtr_Spec :: KairosFleetMachineSpec

record KairosFleetMachineTemplateSpec =
  fmts_Template :: KairosFleetMachineTemplateResource

record KairosFleetMachineTemplate =
  fmtp_Meta :: ObjectMeta
  fmtp_Spec :: KairosFleetMachineTemplateSpec

record KairosFleetClusterTemplateResource =
  fctr_ObjectMeta :: TemplateMeta
  fctr_Spec :: KairosFleetClusterSpec

record KairosFleetClusterTemplateSpec =
  fcts_Template :: KairosFleetClusterTemplateResource

record KairosFleetClusterTemplate =
  fctp_Meta :: ObjectMeta
  fctp_Spec :: KairosFleetClusterTemplateSpec

subsection \<open>Access to a machine's annotations and status\<close>

abbreviation fm_Annotations :: "KairosFleetMachine \<Rightarrow> strmap" where
  "fm_Annotations fm \<equiv> om_Annotations (fm_Meta fm)"

text \<open>\<open>fleetMachine.Annotations[k]\<close>.\<close>

definition ann :: "KairosFleetMachine \<Rightarrow> string \<Rightarrow> string" where
  "ann fm k = map_read (fm_Annotations fm) k"

text \<open>\<open>delete(fleetMachine.Annotations, k)\<close>.\<close>

definition del_ann :: "string \<Rightarrow> KairosFleetMachine \<Rightarrow> KairosFleetMachine" where
  "del_ann k fm = fm\<lparr>fm_Meta := (fm_Meta fm)\<lparr>om_Annotations := map_delete (fm_Annotations fm) k\<rparr>\<rparr>"

lemma ann_del_ann [simp]: "ann (del_ann k fm) k' = (if k' = k then '''' else ann fm k')"
  by (simp add: ann_def del_ann_def)

lemma del_ann_frame [simp, frame_simps]:
  "fm_Spec (del_ann k fm) = fm_Spec fm" "fm_Status (del_ann k fm) = fm_Status fm"
  "om_UID (fm_Meta (del_ann k fm)) = om_UID (fm_Meta fm)"
  "om_Finalizers (fm_Meta (del_ann k fm)) = om_Finalizers (fm_Meta fm)"
  "om_DeletionTimestamp (fm_Meta (del_ann k fm)) = om_DeletionTimestamp (fm_Meta fm)"
  "om_Generation (fm_Meta (del_ann k fm)) = om_Generation (fm_Meta fm)"
  by (simp_all add: del_ann_def)

abbreviation provisioned :: "KairosFleetMachine \<Rightarrow> bool option" where
  "provisioned fm \<equiv> fmi_Provisioned (fmt_Initialization (fm_Status fm))"

end
