(* ===== verification/Fleet.thy ===== *)
theory Fleet
  imports GoTime
begin

text \<open>
  Package \<open>internal/fleet\<close> up to its transport: the error values, the node, command and group
  types, the names of phases and commands, and the \<open>Client\<close> interface the controllers depend
  on (\<open>client.go\<close>; \<open>APIError\<close> and its classifiers from \<open>http.go\<close>; the error builders of
  \<open>fake.go\<close>).
\<close>

subsection \<open>Errors\<close>

text \<open>\<open>APIError\<close> of \<open>http.go\<close>.\<close>

record APIError =
  StatusCode :: int
  ErrorMsg :: string
  Detail :: string
  Code :: string

text \<open>
  The error values the program handles. \<open>WrapErr p e\<close> is \<open>fmt.Errorf\<close> of a format that ends
  in the verb \<open>%w\<close>, with \<open>p\<close> the text in front of it; \<open>ConnectionIncomplete\<close> is the sentinel
  \<open>errConnectionIncomplete\<close> of the controller package; \<open>PlainErr\<close> is an error made by
  \<open>fmt.Errorf\<close> without \<open>%w\<close>; \<open>ForeignErr\<close> is an error value built by code outside the
  repository (the Kubernetes client, the HTTP transport), told apart by its text.
\<close>

datatype goerror =
    APIErr APIError
  | ConnectionIncomplete
  | PlainErr string
  | ForeignErr string
  | WrapErr string goerror

type_synonym 'a res = "goerror + 'a"

text \<open>\<open>errors.As(err, &e)\<close> for an \<open>*APIError\<close>, and \<open>errors.Is\<close> for the sentinel: both walk the
  chain of wrapped errors.\<close>

fun as_APIError :: "goerror \<Rightarrow> APIError option" where
  "as_APIError (APIErr e) = Some e"
| "as_APIError (WrapErr p e) = as_APIError e"
| "as_APIError _ = None"

fun is_ConnectionIncomplete :: "goerror \<Rightarrow> bool" where
  "is_ConnectionIncomplete ConnectionIncomplete = True"
| "is_ConnectionIncomplete (WrapErr p e) = is_ConnectionIncomplete e"
| "is_ConnectionIncomplete _ = False"

definition APIError_Error :: "APIError \<Rightarrow> string" where
  "APIError_Error e =
     (if Detail e \<noteq> '''' then
        ''auroraboot api: '' @ show_int (StatusCode e) @ '' '' @ ErrorMsg e @ '': '' @ Detail e
      else if ErrorMsg e \<noteq> '''' then
        ''auroraboot api: '' @ show_int (StatusCode e) @ '' '' @ ErrorMsg e
      else ''auroraboot api: '' @ show_int (StatusCode e))"

fun Error :: "goerror \<Rightarrow> string" where
  "Error (APIErr e) = APIError_Error e"
| "Error ConnectionIncomplete = ''AuroraBoot connection is incomplete''"
| "Error (PlainErr s) = s"
| "Error (ForeignErr s) = s"
| "Error (WrapErr p e) = p @ Error e"

definition IsNoCapacity :: "goerror \<Rightarrow> bool" where
  "IsNoCapacity err = (case as_APIError err of None \<Rightarrow> False | Some e \<Rightarrow> Code e = ''NoCapacity'')"

definition IsNotFound :: "goerror \<Rightarrow> bool" where
  "IsNotFound err = (case as_APIError err of None \<Rightarrow> False | Some e \<Rightarrow> StatusCode e = 404)"

definition IsClaimMismatch :: "goerror \<Rightarrow> bool" where
  "IsClaimMismatch err = (case as_APIError err of None \<Rightarrow> False | Some e \<Rightarrow> Code e = ''ClaimMismatch'')"

definition IsConflict :: "goerror \<Rightarrow> bool" where
  "IsConflict err = (case as_APIError err of None \<Rightarrow> False | Some e \<Rightarrow> StatusCode e = 409)"

definition NoCapacityError :: goerror where
  "NoCapacityError = APIErr \<lparr>StatusCode = 409, ErrorMsg = ''no capacity'', Detail = '''', Code = ''NoCapacity''\<rparr>"

definition ClaimMismatchError :: goerror where
  "ClaimMismatchError = APIErr \<lparr>StatusCode = 409, ErrorMsg = ''node is claimed by a different key'',
     Detail = '''', Code = ''ClaimMismatch''\<rparr>"

definition NotFoundError :: goerror where
  "NotFoundError = APIErr \<lparr>StatusCode = 404, ErrorMsg = ''not found'', Detail = '''', Code = ''''\<rparr>"

lemma classify_WrapErr [simp]:
  "IsNoCapacity (WrapErr p e) = IsNoCapacity e" "IsNotFound (WrapErr p e) = IsNotFound e"
  "IsClaimMismatch (WrapErr p e) = IsClaimMismatch e" "IsConflict (WrapErr p e) = IsConflict e"
  by (simp_all add: IsNoCapacity_def IsNotFound_def IsClaimMismatch_def IsConflict_def)

lemma classify_built_errors [simp]:
  "IsNoCapacity NoCapacityError" "\<not> IsNotFound NoCapacityError" "IsConflict NoCapacityError"
  "IsClaimMismatch ClaimMismatchError" "\<not> IsNotFound ClaimMismatchError" "IsConflict ClaimMismatchError"
  "IsNotFound NotFoundError" "\<not> IsClaimMismatch NotFoundError"
  by (simp_all add: IsNoCapacity_def IsNotFound_def IsClaimMismatch_def IsConflict_def
      NoCapacityError_def ClaimMismatchError_def NotFoundError_def)

text \<open>One error is never classified as two of the claim outcomes the controller tells apart.\<close>

lemma NoCapacity_not_ClaimMismatch: "IsNoCapacity e \<Longrightarrow> \<not> IsClaimMismatch e"
  by (auto simp: IsNoCapacity_def IsClaimMismatch_def split: option.splits)

subsection \<open>Nodes, commands, groups\<close>

definition PhasePending :: string where "PhasePending = ''Pending''"
definition PhaseRegistered :: string where "PhaseRegistered = ''Registered''"
definition PhaseOnline :: string where "PhaseOnline = ''Online''"
definition PhaseOffline :: string where "PhaseOffline = ''Offline''"

definition CommandApplyCloudConfig :: string where "CommandApplyCloudConfig = ''apply-cloud-config''"
definition CommandReboot :: string where "CommandReboot = ''reboot''"
definition CommandReset :: string where "CommandReset = ''reset''"
definition ApplyCloudConfigArg :: string where "ApplyCloudConfigArg = ''config''"

definition CommandPhasePending :: string where "CommandPhasePending = ''Pending''"
definition CommandPhaseDelivered :: string where "CommandPhaseDelivered = ''Delivered''"
definition CommandPhaseRunning :: string where "CommandPhaseRunning = ''Running''"
definition CommandPhaseCompleted :: string where "CommandPhaseCompleted = ''Completed''"
definition CommandPhaseFailed :: string where "CommandPhaseFailed = ''Failed''"
definition CommandPhaseExpired :: string where "CommandPhaseExpired = ''Expired''"

lemmas command_phase_defs =
  CommandPhasePending_def CommandPhaseDelivered_def CommandPhaseRunning_def
  CommandPhaseCompleted_def CommandPhaseFailed_def CommandPhaseExpired_def

lemmas phase_defs = PhasePending_def PhaseRegistered_def PhaseOnline_def PhaseOffline_def

record Node =
  node_ID :: string
  node_MachineID :: string
  node_Hostname :: string
  node_GroupID :: string
  node_Phase :: string
  node_ClaimKey :: "string option"
  node_LastHeartbeat :: "time option"

record Command =
  cmd_ID :: string
  cmd_Command :: string
  cmd_Phase :: string
  cmd_Result :: string
  cmd_CreatedAt :: "time option"

record Group =
  group_ID :: string
  group_Name :: string

subsection \<open>The client interface\<close>

text \<open>
  \<open>Client\<close> of \<open>client.go\<close> as a record of operations over the world \<open>'w\<close> (AuroraBoot, the
  network and the clock): each returns an error or a value, and the world after the call. A
  Go pointer result may be \<open>nil\<close> beside a \<open>nil\<close> error, hence the options.
\<close>

record 'w Client =
  Claim :: "string \<Rightarrow> string \<Rightarrow> 'w \<Rightarrow> Node option res \<times> 'w"
  GetNode :: "string \<Rightarrow> 'w \<Rightarrow> Node option res \<times> 'w"
  ApplyCloudConfig :: "string \<Rightarrow> string \<Rightarrow> 'w \<Rightarrow> Command option res \<times> 'w"
  Reboot :: "string \<Rightarrow> 'w \<Rightarrow> Command option res \<times> 'w"
  GetCommands :: "string \<Rightarrow> 'w \<Rightarrow> Command list res \<times> 'w"
  Release :: "string \<Rightarrow> string \<Rightarrow> 'w \<Rightarrow> bool res \<times> 'w"
  ResolveGroupID :: "string \<Rightarrow> 'w \<Rightarrow> string res \<times> 'w"

end
