(* ===== verification/Json.thy ===== *)
theory Json
  imports GoTime
begin

text \<open>
  The part of Go's \<open>encoding/json\<close> (and of \<open>unicode/utf8\<close>) that the fleet client goes
  through: string escaping and unescaping, the compact encoding of a value, and the decoder's
  reading of one value from a stream of bytes. String literals are kept raw, as the bytes
  between the quotes, because \<open>time.Time\<close> is decoded from the raw literal and every other field
  from the unescaped one. The main results are the round trips: escaping then unescaping a
  string gives it back, with each byte that is not UTF-8 replaced by U+FFFD, and decoding an
  encoded value gives the value.
\<close>

subsection \<open>UTF-8\<close>

definition cont :: "char \<Rightarrow> bool" where
  "cont c \<longleftrightarrow> 128 \<le> byte_val c \<and> byte_val c \<le> 191"

definition RuneError :: nat where "RuneError = 65533"

text \<open>\<open>utf8.DecodeRuneInString\<close> on a non-empty string: the rune and its width; an invalid
  encoding is \<open>(RuneError, 1)\<close>.\<close>

definition lo6 :: "char \<Rightarrow> nat" where "lo6 c = byte_val c - 128"

definition in_range :: "nat \<Rightarrow> nat \<Rightarrow> char \<Rightarrow> bool" where
  "in_range a b c \<longleftrightarrow> a \<le> byte_val c \<and> byte_val c \<le> b"

fun decode_rune :: "string \<Rightarrow> nat \<times> nat" where
  "decode_rune [] = (RuneError, 0)"
| "decode_rune (c # s) =
    (let n = byte_val c; bad = (RuneError, 1) in
     if n < 128 then (n, 1)
     else if 194 \<le> n \<and> n \<le> 223 then
       (case s of b # _ \<Rightarrow> if cont b then ((n - 192) * 64 + lo6 b, 2) else bad | _ \<Rightarrow> bad)
     else if 224 \<le> n \<and> n \<le> 239 then
       (case s of b # d # _ \<Rightarrow>
          if in_range (if n = 224 then 160 else 128) (if n = 237 then 159 else 191) b \<and> cont d
          then ((n - 224) * 4096 + lo6 b * 64 + lo6 d, 3) else bad
        | _ \<Rightarrow> bad)
     else if 240 \<le> n \<and> n \<le> 244 then
       (case s of b # d # e # _ \<Rightarrow>
          if in_range (if n = 240 then 144 else 128) (if n = 244 then 143 else 191) b \<and> cont d \<and> cont e
          then ((n - 240) * 262144 + lo6 b * 4096 + lo6 d * 64 + lo6 e, 4) else bad
        | _ \<Rightarrow> bad)
     else bad)"

text \<open>\<open>utf8.AppendRune\<close>; surrogates and values past U+10FFFF are encoded as U+FFFD.\<close>

definition byte_of :: "nat \<Rightarrow> char" where "byte_of n = char_of n"

definition encode_rune :: "nat \<Rightarrow> string" where
  "encode_rune r0 = (let r = (if 55296 \<le> r0 \<and> r0 \<le> 57343 \<or> 1114111 < r0 then RuneError else r0) in
     if r < 128 then [byte_of r]
     else if r < 2048 then [byte_of (192 + r div 64), byte_of (128 + r mod 64)]
     else if r < 65536 then
       [byte_of (224 + r div 4096), byte_of (128 + r div 64 mod 64), byte_of (128 + r mod 64)]
     else [byte_of (240 + r div 262144), byte_of (128 + r div 4096 mod 64),
       byte_of (128 + r div 64 mod 64), byte_of (128 + r mod 64)])"

lemma decode_rune_width: "s \<noteq> [] \<Longrightarrow> 1 \<le> snd (decode_rune s) \<and> snd (decode_rune s) \<le> length s"
  by (cases s) (auto simp: Let_def split: list.splits)

text \<open>Every byte that starts no valid encoding becomes U+FFFD, as \<open>strings.ToValidUTF8\<close>
  with that replacement for each byte.\<close>

function to_valid :: "string \<Rightarrow> string" where
  "to_valid [] = []"
| "to_valid (c # s) = (let (r, n) = decode_rune (c # s) in
     (if r = RuneError \<and> n = 1 then encode_rune RuneError else take n (c # s))
     @ to_valid (drop n (c # s)))"
  by pat_completeness auto
termination
proof (relation "measure length")
  fix c :: char and s x xa y
  assume "x = decode_rune (c # s)" "(xa, y) = x"
  then have "1 \<le> y" using decode_rune_width [of "c # s"] by (metis list.distinct(1) snd_conv)
  then show "(drop y (c # s), c # s) \<in> measure length" by simp
qed simp

function utf8_valid :: "string \<Rightarrow> bool" where
  "utf8_valid [] = True"
| "utf8_valid (c # s) = (let (r, n) = decode_rune (c # s) in
     \<not> (r = RuneError \<and> n = 1) \<and> utf8_valid (drop n (c # s)))"
  by pat_completeness auto
termination
proof (relation "measure length")
  fix c :: char and s x xa y
  assume "x = decode_rune (c # s)" "(xa, y) = x"
  then have "1 \<le> y" using decode_rune_width [of "c # s"] by (metis list.distinct(1) snd_conv)
  then show "(drop y (c # s), c # s) \<in> measure length" by simp
qed simp

declare to_valid.simps(2) [simp del] utf8_valid.simps(2) [simp del]

subsection \<open>Strings\<close>

text \<open>The bytes of an ASCII character inside a string literal: \<open>appendString\<close> with
  \<open>escapeHTML\<close>, as \<open>json.Marshal\<close> calls it.\<close>

definition bs :: char where "bs = char_of (92::nat)"
definition dq :: char where "dq = char_of (34::nat)"

definition escape_ascii :: "char \<Rightarrow> string" where
  "escape_ascii c = (let n = byte_val c in
     if n = 34 \<or> n = 92 then [bs, c]
     else if n = 8 then [bs, CHR ''b'']
     else if n = 12 then [bs, CHR ''f'']
     else if n = 10 then [bs, CHR ''n'']
     else if n = 13 then [bs, CHR ''r'']
     else if n = 9 then [bs, CHR ''t'']
     else if n < 32 \<or> n = 60 \<or> n = 62 \<or> n = 38
       then [bs, CHR ''u'', CHR ''0'', CHR ''0'', hex_digit (n div 16), hex_digit (n mod 16)]
     else [c])"

function json_escape :: "string \<Rightarrow> string" where
  "json_escape [] = []"
| "json_escape (c # s) =
     (if byte_val c < 128 then escape_ascii c @ json_escape s
      else let (r, n) = decode_rune (c # s) in
        (if r = RuneError \<and> n = 1 then bs # ''ufffd''
         else if r = 8232 \<or> r = 8233 then bs # ''u202'' @ [hex_digit (r mod 16)]
         else take n (c # s))
        @ json_escape (drop n (c # s)))"
  by pat_completeness auto
termination
proof (relation "measure length")
  fix c :: char and s x xa y
  assume "x = decode_rune (c # s)" "(xa, y) = x"
  then have "1 \<le> y" using decode_rune_width [of "c # s"] by (metis list.distinct(1) snd_conv)
  then show "(drop y (c # s), c # s) \<in> measure length" by simp
qed auto

declare json_escape.simps(2) [simp del]

definition hex_val :: "char \<Rightarrow> nat option" where
  "hex_val c = (let n = byte_val c in
     if 48 \<le> n \<and> n \<le> 57 then Some (n - 48)
     else if 97 \<le> n \<and> n \<le> 102 then Some (n - 87)
     else if 65 \<le> n \<and> n \<le> 70 then Some (n - 55) else None)"

text \<open>\<open>getu4\<close> on what follows a backslash and a \<open>u\<close>.\<close>

fun hex4 :: "string \<Rightarrow> nat option" where
  "hex4 (a # b # c # d # s) = do {
     a \<leftarrow> hex_val a; b \<leftarrow> hex_val b; c \<leftarrow> hex_val c; d \<leftarrow> hex_val d;
     Some (((a * 16 + b) * 16 + c) * 16 + d) }"
| "hex4 _ = None"

text \<open>The second half of a surrogate pair, if \<open>s\<close> starts with its escape.\<close>

definition low_surrogate :: "string \<Rightarrow> nat option" where
  "low_surrogate s = (case s of
       a # b # t \<Rightarrow> if a = bs \<and> b = CHR ''u'' then
           (case hex4 t of Some r \<Rightarrow> if 56320 \<le> r \<and> r \<le> 57343 then Some r else None | None \<Rightarrow> None)
         else None
     | _ \<Rightarrow> None)"

definition simple_escape :: "char \<Rightarrow> char option" where
  "simple_escape e = (if e = dq \<or> e = bs \<or> e = CHR ''/'' then Some e
     else if e = CHR ''b'' then Some (char_of (8::nat))
     else if e = CHR ''f'' then Some (char_of (12::nat))
     else if e = CHR ''n'' then Some (char_of (10::nat))
     else if e = CHR ''r'' then Some (char_of (13::nat))
     else if e = CHR ''t'' then Some (char_of (9::nat)) else None)"

text \<open>\<open>unquote\<close> on the bytes between the quotes of a scanned literal.\<close>

function json_unquote :: "string \<Rightarrow> string" where
  "json_unquote [] = []"
| "json_unquote (c # s) =
     (if c = bs then
        (case s of [] \<Rightarrow> []
         | e # t \<Rightarrow>
             if e = CHR ''u'' then
               (case hex4 t of None \<Rightarrow> []
                | Some r \<Rightarrow>
                    if 55296 \<le> r \<and> r \<le> 57343 then
                      (case (if r \<le> 56319 then low_surrogate (drop 4 t) else None) of
                         Some r2 \<Rightarrow> encode_rune ((r - 55296) * 1024 + (r2 - 56320) + 65536)
                           @ json_unquote (drop 10 t)
                       | None \<Rightarrow> encode_rune RuneError @ json_unquote (drop 4 t))
                    else encode_rune r @ json_unquote (drop 4 t))
             else (case simple_escape e of Some x \<Rightarrow> x # json_unquote t | None \<Rightarrow> []))
      else if byte_val c < 128 then c # json_unquote s
      else let (r, n) = decode_rune (c # s) in encode_rune r @ json_unquote (drop n (c # s)))"
  by pat_completeness auto
termination
proof (relation "measure length")
  fix c :: char and s x xa y
  assume "x = decode_rune (c # s)" "(xa, y) = x"
  then have "1 \<le> y" using decode_rune_width [of "c # s"] by (metis list.distinct(1) snd_conv)
  then show "(drop y (c # s), c # s) \<in> measure length" by simp
qed auto

declare json_unquote.simps(2) [simp del]

subsection \<open>Values\<close>

datatype json =
    JNull
  | JBool bool
  | JNum string
  | JStr string
  | JArr "json list"
  | JObj "(string \<times> json) list"

definition json_string :: "string \<Rightarrow> json" where
  "json_string s = JStr (json_escape s)"

fun json_encode :: "json \<Rightarrow> string"
  and json_encode_elems :: "json list \<Rightarrow> string"
  and json_encode_members :: "(string \<times> json) list \<Rightarrow> string" where
  "json_encode JNull = ''null''"
| "json_encode (JBool b) = (if b then ''true'' else ''false'')"
| "json_encode (JNum n) = n"
| "json_encode (JStr s) = dq # s @ [dq]"
| "json_encode (JArr js) = CHR ''['' # json_encode_elems js @ '']''"
| "json_encode (JObj ms) = CHR ''{'' # json_encode_members ms @ ''}''"
| "json_encode_elems [] = []"
| "json_encode_elems [j] = json_encode j"
| "json_encode_elems (j # js) = json_encode j @ '','' @ json_encode_elems js"
| "json_encode_members [] = []"
| "json_encode_members [(k, j)] = dq # k @ dq # CHR '':'' # json_encode j"
| "json_encode_members ((k, j) # ms) =
     dq # k @ dq # CHR '':'' # json_encode j @ '','' @ json_encode_members ms"

subsection \<open>The scanner\<close>

definition is_jspace :: "char \<Rightarrow> bool" where
  "is_jspace c \<longleftrightarrow> byte_val c \<in> {9, 10, 13, 32}"

definition skip_ws :: "string \<Rightarrow> string" where
  "skip_ws s = dropWhile is_jspace s"

text \<open>The bytes of a literal up to its closing quote, and what follows that quote.\<close>

function scan_string :: "string \<Rightarrow> (string \<times> string) option" where
  "scan_string [] = None"
| "scan_string (c # s) =
     (if c = dq then Some ([], s)
      else if c = bs then
        (case s of [] \<Rightarrow> None
         | e # t \<Rightarrow>
             if e = CHR ''u'' then
               (case hex4 t of None \<Rightarrow> None
                | Some _ \<Rightarrow> map_option (\<lambda>(r, u). (c # e # take 4 t @ r, u)) (scan_string (drop 4 t)))
             else if simple_escape e = None then None
             else map_option (\<lambda>(r, u). (c # e # r, u)) (scan_string t))
      else if byte_val c < 32 then None
      else map_option (\<lambda>(r, u). (c # r, u)) (scan_string s))"
  by pat_completeness auto
termination by (relation "measure length") auto

declare scan_string.simps(2) [simp del]

text \<open>Numbers: an optional sign, an integer part without leading zeros, an optional fraction
  and an optional exponent.\<close>

definition scan_int :: "string \<Rightarrow> (string \<times> string) option" where
  "scan_int s = (case s of [] \<Rightarrow> None
     | c # r \<Rightarrow> if c = CHR ''0'' then Some ([c], r)
         else if is_digit c then Some (takeWhile is_digit s, dropWhile is_digit s) else None)"

definition scan_digits :: "string \<Rightarrow> (string \<times> string) option" where
  "scan_digits s = (case s of c # _ \<Rightarrow>
      if is_digit c then Some (takeWhile is_digit s, dropWhile is_digit s) else None
    | [] \<Rightarrow> None)"

definition scan_frac :: "string \<Rightarrow> (string \<times> string) option" where
  "scan_frac s = (case s of c # r \<Rightarrow>
      if c = CHR ''.'' then map_option (\<lambda>(d, u). (c # d, u)) (scan_digits r) else Some ([], s)
    | [] \<Rightarrow> Some ([], s))"

definition scan_exp :: "string \<Rightarrow> (string \<times> string) option" where
  "scan_exp s = (case s of c # r \<Rightarrow>
      if c = CHR ''e'' \<or> c = CHR ''E'' then
        (case r of x # t \<Rightarrow>
           if x = CHR ''+'' \<or> x = CHR ''-''
           then map_option (\<lambda>(d, u). (c # x # d, u)) (scan_digits t)
           else map_option (\<lambda>(d, u). (c # d, u)) (scan_digits r)
         | [] \<Rightarrow> None)
      else Some ([], s)
    | [] \<Rightarrow> Some ([], s))"

definition scan_number :: "string \<Rightarrow> (string \<times> string) option" where
  "scan_number s = do {
     let (sg, s) = (case s of c # r \<Rightarrow> if c = CHR ''-'' then ([c], r) else ([], s) | [] \<Rightarrow> ([], s));
     (i, s) \<leftarrow> scan_int s;
     (f, s) \<leftarrow> scan_frac s;
     (e, s) \<leftarrow> scan_exp s;
     Some (sg @ i @ f @ e, s) }"

definition scan_word :: "string \<Rightarrow> json \<Rightarrow> string \<Rightarrow> (json \<times> string) option" where
  "scan_word w j s = (if take (length w) s = w then Some (j, drop (length w) s) else None)"

text \<open>One value from the front of the input, and the rest; \<open>None\<close> is a syntax error or an
  unexpected end. The first argument is fuel: twice the length of the input and two more is enough
  (theory JsonProofs).\<close>

fun json_value :: "nat \<Rightarrow> string \<Rightarrow> (json \<times> string) option"
  and json_elems :: "nat \<Rightarrow> string \<Rightarrow> (json list \<times> string) option"
  and json_members :: "nat \<Rightarrow> string \<Rightarrow> ((string \<times> json) list \<times> string) option" where
  "json_value 0 s = None"
| "json_value (Suc n) s = (case skip_ws s of [] \<Rightarrow> None
     | c # r \<Rightarrow>
         if c = CHR ''{'' then
           (case skip_ws r of
              d # u \<Rightarrow> if d = CHR ''}'' then Some (JObj [], u)
                 else map_option (\<lambda>(ms, u). (JObj ms, u)) (json_members n r)
            | [] \<Rightarrow> None)
         else if c = CHR ''['' then
           (case skip_ws r of
              d # u \<Rightarrow> if d = CHR '']'' then Some (JArr [], u)
                 else map_option (\<lambda>(js, u). (JArr js, u)) (json_elems n r)
            | [] \<Rightarrow> None)
         else if c = dq then map_option (\<lambda>(raw, u). (JStr raw, u)) (scan_string r)
         else if c = CHR ''t'' then scan_word ''true'' (JBool True) (c # r)
         else if c = CHR ''f'' then scan_word ''false'' (JBool False) (c # r)
         else if c = CHR ''n'' then scan_word ''null'' JNull (c # r)
         else map_option (\<lambda>(num, u). (JNum num, u)) (scan_number (c # r)))"
| "json_elems 0 s = None"
| "json_elems (Suc n) s = do {
     (j, s) \<leftarrow> json_value n s;
     case skip_ws s of
       c # u \<Rightarrow> if c = CHR '','' then map_option (\<lambda>(js, u). (j # js, u)) (json_elems n u)
         else if c = CHR '']'' then Some ([j], u) else None
     | [] \<Rightarrow> None }"
| "json_members 0 s = None"
| "json_members (Suc n) s = do {
     s \<leftarrow> skip_char dq (skip_ws s);
     (k, s) \<leftarrow> scan_string s;
     s \<leftarrow> skip_char CHR '':'' (skip_ws s);
     (j, s) \<leftarrow> json_value n s;
     case skip_ws s of
       c # u \<Rightarrow> if c = CHR '','' then map_option (\<lambda>(ms, u). ((k, j) # ms, u)) (json_members n u)
         else if c = CHR ''}'' then Some ([(k, j)], u) else None
     | [] \<Rightarrow> None }"

text \<open>The decoder refuses values nested deeper than 10000.\<close>

fun json_depth :: "json \<Rightarrow> nat" where
  "json_depth (JArr js) = Suc (fold max (map json_depth js) 0)"
| "json_depth (JObj ms) = Suc (fold max (map (\<lambda>m. json_depth (snd m)) ms) 0)"
| "json_depth _ = 0"

text \<open>\<open>json.NewDecoder(r).Decode\<close>: the first value of the stream; what follows it is not
  looked at. \<open>json.Unmarshal\<close>: the whole input is one value.\<close>

definition decode_stream :: "string \<Rightarrow> json option" where
  "decode_stream s = (case json_value (2 * length s + 2) s of
     Some (j, _) \<Rightarrow> if json_depth j \<le> 10000 then Some j else None
   | None \<Rightarrow> None)"

definition decode_whole :: "string \<Rightarrow> json option" where
  "decode_whole s = (case json_value (2 * length s + 2) s of
     Some (j, r) \<Rightarrow> if skip_ws r = [] \<and> json_depth j \<le> 10000 then Some j else None
   | None \<Rightarrow> None)"

end
