(* ===== verification/Http.thy ===== *)
theory Http
  imports Fleet Json
begin

text \<open>
  \<open>internal/fleet/http.go\<close>: the \<open>net/http\<close> client of the AuroraBoot API. Requests and
  responses carry their bodies as bytes; the JSON that goes in and comes out is that of
  theory Json, decoded into the data-transfer types field by field as \<open>encoding/json\<close> does.
  What lies below (building a URL, the network, the AuroraBoot server) is the parameter \<open>net\<close>.
\<close>

subsection \<open>The network\<close>

record Request =
  req_Method :: string
  req_URL :: string
  req_Header :: strmap
  req_Body :: "string option"

text \<open>The body is what can be read before its end or the first read error: the decoder fails
  alike on a value cut short by either.\<close>

record Response =
  resp_StatusCode :: int
  resp_Body :: string

text \<open>An \<open>*http.Client\<close> is its method \<open>Do\<close>.\<close>

type_synonym 'w HTTPClient = "Request \<Rightarrow> 'w \<Rightarrow> Response res \<times> 'w"

record 'w net =
  NewRequest :: "string \<Rightarrow> string \<Rightarrow> goerror option"
  HTTPClientWithTimeout :: "duration \<Rightarrow> 'w HTTPClient"

record 'w httpClient =
  baseURL :: string
  token :: string
  userAgent :: string
  http :: "'w HTTPClient"

definition defaultTimeout :: duration where "defaultTimeout = seconds 30"

type_synonym 'w Option = "'w httpClient \<Rightarrow> 'w httpClient"

definition WithHTTPClient :: "'w HTTPClient option \<Rightarrow> 'w Option" where
  "WithHTTPClient h c = (case h of Some h \<Rightarrow> c\<lparr>http := h\<rparr> | None \<Rightarrow> c)"

definition WithUserAgent :: "string \<Rightarrow> 'w Option" where
  "WithUserAgent ua c = (if ua \<noteq> '''' then c\<lparr>userAgent := ua\<rparr> else c)"

subsection \<open>Decoding into the data-transfer types\<close>

text \<open>A member of an object is stored in the field whose name it matches up to case:
  \<open>foldName\<close> maps ASCII letters to upper case, and the Kelvin sign and the long s to K and S.\<close>

fun fold_name :: "string \<Rightarrow> string" where
  "fold_name (a # b # c # s) =
     (if byte_val a = 226 \<and> byte_val b = 132 \<and> byte_val c = 170 then CHR ''K'' # fold_name s
      else if byte_val a = 197 \<and> byte_val b = 191 then CHR ''S'' # fold_name (c # s)
      else if 97 \<le> byte_val a \<and> byte_val a \<le> 122 then byte_of (byte_val a - 32) # fold_name (b # c # s)
      else a # fold_name (b # c # s))"
| "fold_name [a, b] =
     (if byte_val a = 197 \<and> byte_val b = 191 then ''S''
      else if 97 \<le> byte_val a \<and> byte_val a \<le> 122 then byte_of (byte_val a - 32) # fold_name [b]
      else a # fold_name [b])"
| "fold_name [a] = (if 97 \<le> byte_val a \<and> byte_val a \<le> 122 then [byte_of (byte_val a - 32)] else [a])"
| "fold_name [] = []"

text \<open>A field decoder gets the value and the struct, and returns the struct and whether the
  value did not fit.\<close>

type_synonym 'a field = "string \<times> (json \<Rightarrow> 'a \<Rightarrow> 'a \<times> bool)"

definition string_field :: "(string \<Rightarrow> 'a \<Rightarrow> 'a) \<Rightarrow> json \<Rightarrow> 'a \<Rightarrow> 'a \<times> bool" where
  "string_field upd j x = (case j of
     JStr raw \<Rightarrow> (upd (json_unquote raw) x, False) | JNull \<Rightarrow> (x, False) | _ \<Rightarrow> (x, True))"

definition string_ptr_field :: "(string option \<Rightarrow> 'a \<Rightarrow> 'a) \<Rightarrow> json \<Rightarrow> 'a \<Rightarrow> 'a \<times> bool" where
  "string_ptr_field upd j x = (case j of
     JStr raw \<Rightarrow> (upd (Some (json_unquote raw)) x, False) | JNull \<Rightarrow> (upd None x, False) | _ \<Rightarrow> (x, True))"

definition bool_field :: "(bool \<Rightarrow> 'a \<Rightarrow> 'a) \<Rightarrow> json \<Rightarrow> 'a \<Rightarrow> 'a \<times> bool" where
  "bool_field upd j x = (case j of
     JBool b \<Rightarrow> (upd b x, False) | JNull \<Rightarrow> (x, False) | _ \<Rightarrow> (x, True))"

text \<open>\<open>time.Time.UnmarshalJSON\<close>: RFC 3339 without the liberties of \<open>time.Parse\<close> (one-digit
  hours, a comma before the fraction, offsets of 24 hours or 60 minutes), read from the raw
  literal.\<close>

definition parse_strict_RFC3339 :: "string \<Rightarrow> time option" where
  "parse_strict_RFC3339 s = (case parse_RFC3339 s of None \<Rightarrow> None
     | Some t \<Rightarrow>
         if s ! 12 = CHR '':'' \<or> s ! 19 = CHR '','' then None
         else if last s \<noteq> CHR ''Z'' \<and>
             (case (getnum True (drop (length s - 5) s), getnum True (drop (length s - 2) s)) of
                (Some (hh, _), Some (mm, _)) \<Rightarrow> 24 \<le> hh \<or> 60 \<le> mm | _ \<Rightarrow> True)
           then None
         else Some t)"

definition time_ptr_field :: "(time option \<Rightarrow> 'a \<Rightarrow> 'a) \<Rightarrow> json \<Rightarrow> 'a \<Rightarrow> 'a \<times> bool" where
  "time_ptr_field upd j x = (case j of
     JNull \<Rightarrow> (upd None x, False)
   | JStr raw \<Rightarrow> (case parse_strict_RFC3339 raw of Some t \<Rightarrow> (upd (Some t) x, False) | None \<Rightarrow> (x, True))
   | _ \<Rightarrow> (x, True))"

definition find_field :: "'a field list \<Rightarrow> string \<Rightarrow> (json \<Rightarrow> 'a \<Rightarrow> 'a \<times> bool) option" where
  "find_field fs k = map_option snd (List.find (\<lambda>(name, _). fold_name name = fold_name k) fs)"

fun set_fields :: "'a field list \<Rightarrow> (string \<times> json) list \<Rightarrow> 'a \<Rightarrow> 'a \<times> bool" where
  "set_fields fs [] x = (x, False)"
| "set_fields fs ((raw, j) # ms) x =
     (let (x, e) = (case find_field fs (json_unquote raw) of None \<Rightarrow> (x, False) | Some dec \<Rightarrow> dec j x);
          (x, e') = set_fields fs ms x
      in (x, e \<or> e'))"

definition dec_struct :: "'a field list \<Rightarrow> 'a \<Rightarrow> json \<Rightarrow> 'a \<times> bool" where
  "dec_struct fs zero j = (case j of
     JObj ms \<Rightarrow> set_fields fs ms zero | JNull \<Rightarrow> (zero, False) | _ \<Rightarrow> (zero, True))"

definition dec_slice :: "'a field list \<Rightarrow> 'a \<Rightarrow> json \<Rightarrow> 'a list \<times> bool" where
  "dec_slice fs zero j = (case j of
     JArr js \<Rightarrow> (map (\<lambda>j. fst (dec_struct fs zero j)) js, list_ex (\<lambda>j. snd (dec_struct fs zero j)) js)
   | JNull \<Rightarrow> ([], False) | _ \<Rightarrow> ([], True))"

text \<open>\<open>json.NewDecoder(resp.Body).Decode(out)\<close>, \<open>None\<close> being its error.\<close>

definition decode_with :: "(json \<Rightarrow> 'a \<times> bool) \<Rightarrow> string \<Rightarrow> 'a option" where
  "decode_with dec body = (case decode_stream body of None \<Rightarrow> None
     | Some j \<Rightarrow> let (x, bad) = dec j in if bad then None else Some x)"

record nodeDTO =
  nd_ID :: string
  nd_MachineID :: string
  nd_Hostname :: string
  nd_GroupID :: string
  nd_Phase :: string
  nd_ClaimKey :: "string option"
  nd_LastHeartbeat :: "time option"

definition zero_nodeDTO :: nodeDTO where
  "zero_nodeDTO = \<lparr>nd_ID = '''', nd_MachineID = '''', nd_Hostname = '''', nd_GroupID = '''',
     nd_Phase = '''', nd_ClaimKey = None, nd_LastHeartbeat = None\<rparr>"

definition nodeDTO_fields :: "nodeDTO field list" where
  "nodeDTO_fields =
     [(''id'', string_field (\<lambda>v x. x\<lparr>nd_ID := v\<rparr>)),
      (''machineID'', string_field (\<lambda>v x. x\<lparr>nd_MachineID := v\<rparr>)),
      (''hostname'', string_field (\<lambda>v x. x\<lparr>nd_Hostname := v\<rparr>)),
      (''groupID'', string_field (\<lambda>v x. x\<lparr>nd_GroupID := v\<rparr>)),
      (''phase'', string_field (\<lambda>v x. x\<lparr>nd_Phase := v\<rparr>)),
      (''claimKey'', string_ptr_field (\<lambda>v x. x\<lparr>nd_ClaimKey := v\<rparr>)),
      (''lastHeartbeat'', time_ptr_field (\<lambda>v x. x\<lparr>nd_LastHeartbeat := v\<rparr>))]"

definition toNode :: "nodeDTO \<Rightarrow> Node" where
  "toNode d = \<lparr>node_ID = nd_ID d, node_MachineID = nd_MachineID d, node_Hostname = nd_Hostname d,
     node_GroupID = nd_GroupID d, node_Phase = nd_Phase d, node_ClaimKey = nd_ClaimKey d,
     node_LastHeartbeat = nd_LastHeartbeat d\<rparr>"

record commandDTO =
  cd_ID :: string
  cd_Command :: string
  cd_Phase :: string
  cd_Result :: string
  cd_CreatedAt :: "time option"

definition zero_commandDTO :: commandDTO where
  "zero_commandDTO = \<lparr>cd_ID = '''', cd_Command = '''', cd_Phase = '''', cd_Result = '''', cd_CreatedAt = None\<rparr>"

definition commandDTO_fields :: "commandDTO field list" where
  "commandDTO_fields =
     [(''id'', string_field (\<lambda>v x. x\<lparr>cd_ID := v\<rparr>)),
      (''command'', string_field (\<lambda>v x. x\<lparr>cd_Command := v\<rparr>)),
      (''phase'', string_field (\<lambda>v x. x\<lparr>cd_Phase := v\<rparr>)),
      (''result'', string_field (\<lambda>v x. x\<lparr>cd_Result := v\<rparr>)),
      (''createdAt'', time_ptr_field (\<lambda>v x. x\<lparr>cd_CreatedAt := v\<rparr>))]"

definition toCommand :: "commandDTO \<Rightarrow> Command" where
  "toCommand d = \<lparr>cmd_ID = cd_ID d, cmd_Command = cd_Command d, cmd_Phase = cd_Phase d,
     cmd_Result = cd_Result d, cmd_CreatedAt = cd_CreatedAt d\<rparr>"

record groupDTO =
  gd_ID :: string
  gd_Name :: string

definition zero_groupDTO :: groupDTO where
  "zero_groupDTO = \<lparr>gd_ID = '''', gd_Name = ''''\<rparr>"

definition groupDTO_fields :: "groupDTO field list" where
  "groupDTO_fields =
     [(''id'', string_field (\<lambda>v x. x\<lparr>gd_ID := v\<rparr>)), (''name'', string_field (\<lambda>v x. x\<lparr>gd_Name := v\<rparr>))]"

text \<open>The body of a command request: \<open>args\<close> is left out when empty.\<close>

record createCommandDTO =
  ccd_Command :: string
  ccd_Args :: "(string \<times> string) list"

definition json_strmap :: "(string \<times> string) list \<Rightarrow> json" where
  "json_strmap m = JObj (map (\<lambda>(k, v). (json_escape k, json_string v)) m)"

definition enc_createCommandDTO :: "createCommandDTO \<Rightarrow> json" where
  "enc_createCommandDTO d = JObj ((''command'', json_string (ccd_Command d))
     # (if ccd_Args d = [] then [] else [(''args'', json_strmap (ccd_Args d))]))"

subsection \<open>Requests and responses\<close>

definition APIError_fields :: "APIError field list" where
  "APIError_fields =
     [(''error'', string_field (\<lambda>v x. x\<lparr>ErrorMsg := v\<rparr>)),
      (''detail'', string_field (\<lambda>v x. x\<lparr>Detail := v\<rparr>)),
      (''code'', string_field (\<lambda>v x. x\<lparr>Code := v\<rparr>))]"

definition decodeError :: "Response \<Rightarrow> goerror" where
  "decodeError resp =
     (let body = resp_Body resp;
          ae = \<lparr>StatusCode = resp_StatusCode resp, ErrorMsg = '''', Detail = '''', Code = ''''\<rparr>
      in if body \<noteq> [] then
           let ae = (case decode_whole body of None \<Rightarrow> ae | Some j \<Rightarrow> fst (dec_struct APIError_fields ae j));
               ae = (if ErrorMsg ae = '''' then ae\<lparr>ErrorMsg := trim_space body\<rparr> else ae)
           in APIErr ae
         else APIErr ae)"

definition request_headers :: "'w httpClient \<Rightarrow> bool \<Rightarrow> strmap" where
  "request_headers c has_body =
     (let h = (if has_body then [''Content-Type'' \<mapsto> ''application/json''] else Map.empty);
          h = h(''Accept'' \<mapsto> ''application/json'');
          h = h(''User-Agent'' \<mapsto> userAgent c)
      in if token c \<noteq> '''' then h(''Authorization'' \<mapsto> ''Bearer '' @ token c) else h)"

text \<open>\<open>do\<close>. Marshalling the bodies the client sends cannot fail: they are strings and maps of
  strings. \<open>dec\<close> is the decoding into the caller's \<open>out\<close>.\<close>

definition http_do ::
  "'w net \<Rightarrow> 'w httpClient \<Rightarrow> string \<Rightarrow> string \<Rightarrow> json option \<Rightarrow> (json \<Rightarrow> 'a \<times> bool) \<Rightarrow> 'w \<Rightarrow> 'a res \<times> 'w" where
  "http_do net c method path input dec w =
     (case NewRequest net method (baseURL c @ path) of
        Some err \<Rightarrow> (Inl (WrapErr ''fleet: build request: '' err), w)
      | None \<Rightarrow>
          (case http c \<lparr>req_Method = method, req_URL = baseURL c @ path,
                 req_Header = request_headers c (input \<noteq> None),
                 req_Body = map_option json_encode input\<rparr> w of
             (Inl err, w) \<Rightarrow> (Inl (WrapErr (''fleet: '' @ method @ '' '' @ path @ '': '') err), w)
           | (Inr resp, w) \<Rightarrow>
               if resp_StatusCode resp < 200 \<or> 300 \<le> resp_StatusCode resp then (Inl (decodeError resp), w)
               else (case decode_with dec (resp_Body resp) of
                       None \<Rightarrow> (Inl (WrapErr ''fleet: decode response: '' (ForeignErr ''json'')), w)
                     | Some out \<Rightarrow> (Inr out, w))))"

definition map_res :: "('a \<Rightarrow> 'b) \<Rightarrow> 'a res \<times> 'w \<Rightarrow> 'b res \<times> 'w" where
  "map_res f r = (case r of (Inl e, w) \<Rightarrow> (Inl e, w) | (Inr x, w) \<Rightarrow> (Inr (f x), w))"

definition http_Claim :: "'w net \<Rightarrow> 'w httpClient \<Rightarrow> string \<Rightarrow> string \<Rightarrow> 'w \<Rightarrow> Node option res \<times> 'w" where
  "http_Claim net c groupID claimKey w =
     map_res (\<lambda>out. Some (toNode out))
       (http_do net c ''POST'' (''/api/v1/groups/'' @ groupID @ ''/claim'')
          (Some (json_strmap [(''claimKey'', claimKey)])) (dec_struct nodeDTO_fields zero_nodeDTO) w)"

definition http_GetNode :: "'w net \<Rightarrow> 'w httpClient \<Rightarrow> string \<Rightarrow> 'w \<Rightarrow> Node option res \<times> 'w" where
  "http_GetNode net c nodeID w =
     map_res (\<lambda>out. Some (toNode out))
       (http_do net c ''GET'' (''/api/v1/nodes/'' @ nodeID) None
          (dec_struct nodeDTO_fields zero_nodeDTO) w)"

definition sendCommand ::
  "'w net \<Rightarrow> 'w httpClient \<Rightarrow> string \<Rightarrow> string \<Rightarrow> (string \<times> string) list \<Rightarrow> 'w \<Rightarrow> Command option res \<times> 'w" where
  "sendCommand net c nodeID command args w =
     map_res (\<lambda>out. Some (toCommand out))
       (http_do net c ''POST'' (''/api/v1/nodes/'' @ nodeID @ ''/commands'')
          (Some (enc_createCommandDTO \<lparr>ccd_Command = command, ccd_Args = args\<rparr>))
          (dec_struct commandDTO_fields zero_commandDTO) w)"

definition http_ApplyCloudConfig ::
  "'w net \<Rightarrow> 'w httpClient \<Rightarrow> string \<Rightarrow> string \<Rightarrow> 'w \<Rightarrow> Command option res \<times> 'w" where
  "http_ApplyCloudConfig net c nodeID cloudConfig w =
     sendCommand net c nodeID CommandApplyCloudConfig [(ApplyCloudConfigArg, cloudConfig)] w"

definition http_Reboot :: "'w net \<Rightarrow> 'w httpClient \<Rightarrow> string \<Rightarrow> 'w \<Rightarrow> Command option res \<times> 'w" where
  "http_Reboot net c nodeID w = sendCommand net c nodeID CommandReboot [] w"

definition http_GetCommands :: "'w net \<Rightarrow> 'w httpClient \<Rightarrow> string \<Rightarrow> 'w \<Rightarrow> Command list res \<times> 'w" where
  "http_GetCommands net c nodeID w =
     map_res (map toCommand)
       (http_do net c ''GET'' (''/api/v1/nodes/'' @ nodeID @ ''/commands'') None
          (dec_slice commandDTO_fields zero_commandDTO) w)"

text \<open>The two loops of \<open>ResolveGroupID\<close>: an exact ID first, then a name.\<close>

definition pick_group :: "string \<Rightarrow> groupDTO list \<Rightarrow> string option" where
  "pick_group ref out =
     (case List.find (\<lambda>g. gd_ID g = ref) out of
        Some g \<Rightarrow> Some (gd_ID g)
      | None \<Rightarrow> map_option gd_ID (List.find (\<lambda>g. gd_Name g = ref) out))"

definition http_ResolveGroupID :: "'w net \<Rightarrow> 'w httpClient \<Rightarrow> string \<Rightarrow> 'w \<Rightarrow> string res \<times> 'w" where
  "http_ResolveGroupID net c ref w =
     (case http_do net c ''GET'' ''/api/v1/groups'' None (dec_slice groupDTO_fields zero_groupDTO) w of
        (Inl e, w) \<Rightarrow> (Inl e, w)
      | (Inr out, w) \<Rightarrow>
          (case pick_group ref out of
             Some gid \<Rightarrow> (Inr gid, w)
           | None \<Rightarrow> (Inl (APIErr \<lparr>StatusCode = 404,
               ErrorMsg = ''group '' @ go_quote ref @ '' not found'', Detail = '''', Code = ''''\<rparr>), w)))"

definition http_Release :: "'w net \<Rightarrow> 'w httpClient \<Rightarrow> string \<Rightarrow> string \<Rightarrow> 'w \<Rightarrow> bool res \<times> 'w" where
  "http_Release net c nodeID claimKey w =
     http_do net c ''POST'' (''/api/v1/nodes/'' @ nodeID @ ''/release'')
       (Some (json_strmap [(''claimKey'', claimKey)]))
       (dec_struct [(''released'', bool_field (\<lambda>v _. v))] False) w"

definition http_client :: "'w net \<Rightarrow> 'w httpClient \<Rightarrow> 'w Client" where
  "http_client net c = \<lparr>Claim = http_Claim net c, GetNode = http_GetNode net c,
     ApplyCloudConfig = http_ApplyCloudConfig net c, Reboot = http_Reboot net c,
     GetCommands = http_GetCommands net c, Release = http_Release net c,
     ResolveGroupID = http_ResolveGroupID net c\<rparr>"

text \<open>\<open>New\<close>.\<close>

definition new_httpClient :: "'w net \<Rightarrow> string \<Rightarrow> string \<Rightarrow> 'w Option list \<Rightarrow> 'w httpClient" where
  "new_httpClient net base tok opts =
     fold (\<lambda>opt c. opt c) opts
       \<lparr>baseURL = trim_right base CHR ''/'', token = tok,
        userAgent = ''cluster-api-provider-kairos-fleet'',
        http = HTTPClientWithTimeout net defaultTimeout\<rparr>"

definition New :: "'w net \<Rightarrow> string \<Rightarrow> string \<Rightarrow> 'w Option list \<Rightarrow> 'w Client" where
  "New net base tok opts = http_client net (new_httpClient net base tok opts)"

end
