(* ===== verification/Kube.thy ===== *)
theory Kube
  imports Api Http
begin

text \<open>
  The code outside the repository that the controllers call: controller-runtime's client and
  \<open>controllerutil\<close>, Cluster API's \<open>util\<close>, \<open>annotations\<close> and \<open>patch\<close>, and apimachinery's
  \<open>meta.SetStatusCondition\<close> and \<open>apierrors.IsNotFound\<close>. It is a record of functions, a
  parameter of every controller definition; the locales state the documented behaviour the
  properties rest on, and a reference library shows that the laws can hold together.
\<close>

subsection \<open>The interface\<close>

text \<open>Reads see the world and leave it alone; a patch changes it. \<open>kPatchMachine before after\<close>
  is \<open>patchHelper.Patch\<close> of the object \<open>after\<close> by a helper made on the object \<open>before\<close>.
  \<open>kNow\<close> is \<open>time.Now()\<close>. \<open>kSetStatusCondition\<close> reads the clock too, hence the world.\<close>

record 'w Kube =
  kGetMachine :: "NamespacedName \<Rightarrow> 'w \<Rightarrow> KairosFleetMachine res"
  kGetCluster :: "NamespacedName \<Rightarrow> 'w \<Rightarrow> KairosFleetCluster res"
  kGetSecret :: "NamespacedName \<Rightarrow> 'w \<Rightarrow> Secret res"
  kGetOwnerMachine :: "ObjectMeta \<Rightarrow> 'w \<Rightarrow> Machine option res"
  kGetOwnerCluster :: "ObjectMeta \<Rightarrow> 'w \<Rightarrow> Cluster option res"
  kGetClusterFromMetadata :: "ObjectMeta \<Rightarrow> 'w \<Rightarrow> Cluster res"
  kNewMachineHelper :: "KairosFleetMachine \<Rightarrow> 'w \<Rightarrow> goerror option"
  kPatchMachine :: "KairosFleetMachine \<Rightarrow> KairosFleetMachine \<Rightarrow> 'w \<Rightarrow> goerror option \<times> 'w"
  kNewClusterHelper :: "KairosFleetCluster \<Rightarrow> 'w \<Rightarrow> goerror option"
  kPatchCluster :: "KairosFleetCluster \<Rightarrow> KairosFleetCluster \<Rightarrow> 'w \<Rightarrow> goerror option \<times> 'w"
  kSetControllerReference :: "Machine \<Rightarrow> ObjectMeta \<Rightarrow> ObjectMeta res"
  kIsPaused :: "Cluster \<Rightarrow> ObjectMeta \<Rightarrow> bool"
  kContainsFinalizer :: "ObjectMeta \<Rightarrow> string \<Rightarrow> bool"
  kAddFinalizer :: "ObjectMeta \<Rightarrow> string \<Rightarrow> ObjectMeta"
  kRemoveFinalizer :: "ObjectMeta \<Rightarrow> string \<Rightarrow> ObjectMeta"
  kAddAnnotations :: "ObjectMeta \<Rightarrow> strmap \<Rightarrow> ObjectMeta"
  kSetStatusCondition :: "'w \<Rightarrow> Condition list \<Rightarrow> Condition \<Rightarrow> Condition list"
  kIsNotFound :: "goerror \<Rightarrow> bool"
  kIgnoreNotFound :: "goerror \<Rightarrow> goerror option"
  kNow :: "'w \<Rightarrow> time"

subsection \<open>The laws\<close>

text \<open>Documented behaviour: \<open>AddAnnotations\<close> sets the given annotations, \<open>AddFinalizer\<close> and
  \<open>RemoveFinalizer\<close> change the finalizers only, \<open>SetStatusCondition\<close> replaces the condition of
  the same type or appends it, \<open>IsNotFound\<close> looks through wrapped errors and answers for API
  status errors only, \<open>IgnoreNotFound\<close> is \<open>nil\<close> exactly on those.\<close>

locale kube_lib =
  fixes K :: "'w Kube"
  assumes contains_finalizer: "kContainsFinalizer K om f \<longleftrightarrow> f \<in> set (om_Finalizers om)"
    and add_finalizer: "set (om_Finalizers (kAddFinalizer K om f)) = insert f (set (om_Finalizers om))"
    and add_finalizer_frame:
      "(kAddFinalizer K om f)\<lparr>om_Finalizers := fs\<rparr> = om\<lparr>om_Finalizers := fs\<rparr>"
    and remove_finalizer:
      "set (om_Finalizers (kRemoveFinalizer K om f)) = set (om_Finalizers om) - {f}"
    and remove_finalizer_frame:
      "(kRemoveFinalizer K om f)\<lparr>om_Finalizers := fs\<rparr> = om\<lparr>om_Finalizers := fs\<rparr>"
    and add_annotations: "kAddAnnotations K om m = om\<lparr>om_Annotations := om_Annotations om ++ m\<rparr>"
    and set_controller_reference:
      "kSetControllerReference K owner om = Inr om' \<Longrightarrow>
         om'\<lparr>om_OwnerReferences := rs\<rparr> = om\<lparr>om_OwnerReferences := rs\<rparr>"
    and set_condition_same: "\<exists>t. find_condition (kSetStatusCondition K w cs c) (c_Type c)
      = Some (c\<lparr>c_LastTransitionTime := t\<rparr>)"
    and set_condition_other: "ty \<noteq> c_Type c \<Longrightarrow>
      find_condition (kSetStatusCondition K w cs c) ty = find_condition cs ty"
    and not_found_wrap: "kIsNotFound K (WrapErr p e) = kIsNotFound K e"
    and not_found_incomplete: "\<not> kIsNotFound K ConnectionIncomplete"
    and not_found_api: "\<not> kIsNotFound K (APIErr a)"
    and ignore_not_found: "kIgnoreNotFound K e = (if kIsNotFound K e then None else Some e)"
begin

text \<open>The frames, field by field.\<close>

lemma add_finalizer_fields [simp]:
  "om_Annotations (kAddFinalizer K om f) = om_Annotations om"
  "om_UID (kAddFinalizer K om f) = om_UID om"
  "om_Generation (kAddFinalizer K om f) = om_Generation om"
  "om_Namespace (kAddFinalizer K om f) = om_Namespace om"
  "om_Name (kAddFinalizer K om f) = om_Name om"
  "om_DeletionTimestamp (kAddFinalizer K om f) = om_DeletionTimestamp om"
  using add_finalizer_frame [where om = om and f = f and fs = "[]"]
  by (metis ObjectMeta.select_convs ObjectMeta.surjective ObjectMeta.update_convs(7))+

lemma remove_finalizer_fields [simp]:
  "om_Annotations (kRemoveFinalizer K om f) = om_Annotations om"
  "om_UID (kRemoveFinalizer K om f) = om_UID om"
  "om_Generation (kRemoveFinalizer K om f) = om_Generation om"
  "om_DeletionTimestamp (kRemoveFinalizer K om f) = om_DeletionTimestamp om"
  using remove_finalizer_frame [where om = om and f = f and fs = "[]"]
  by (metis ObjectMeta.select_convs ObjectMeta.surjective ObjectMeta.update_convs(7))+

lemma set_controller_reference_fields:
  assumes "kSetControllerReference K owner om = Inr om'"
  shows "om_Annotations om' = om_Annotations om" "om_UID om' = om_UID om"
    "om_Generation om' = om_Generation om" "om_DeletionTimestamp om' = om_DeletionTimestamp om"
    "om_Finalizers om' = om_Finalizers om" "om_Namespace om' = om_Namespace om"
    "om_Name om' = om_Name om"
  using set_controller_reference [OF assms, where rs = "[]"]
  by (metis ObjectMeta.select_convs ObjectMeta.surjective ObjectMeta.update_convs(8))+

lemma set_condition_status:
  "map_option c_Status (find_condition (kSetStatusCondition K w cs c) (c_Type c)) = Some (c_Status c)"
  "map_option c_Reason (find_condition (kSetStatusCondition K w cs c) (c_Type c)) = Some (c_Reason c)"
  "map_option c_Message (find_condition (kSetStatusCondition K w cs c) (c_Type c)) = Some (c_Message c)"
  using set_condition_same [of w cs c] by auto

end

subsection \<open>A reference library\<close>

text \<open>The documented behaviour, as functions: what a reader of the packages' documentation
  would write down. The reads, the patches and the clock are those of \<open>B\<close>.\<close>

definition ref_set_condition :: "time \<Rightarrow> Condition list \<Rightarrow> Condition \<Rightarrow> Condition list" where
  "ref_set_condition now cs c =
     (case find_condition cs (c_Type c) of
        None \<Rightarrow> cs @ [c\<lparr>c_LastTransitionTime := now\<rparr>]
      | Some old \<Rightarrow>
          let t = (if c_Status old = c_Status c then c_LastTransitionTime old else now)
          in map (\<lambda>x. if c_Type x = c_Type c then c\<lparr>c_LastTransitionTime := t\<rparr> else x) cs)"

definition ref_set_controller :: "Machine \<Rightarrow> ObjectMeta \<Rightarrow> ObjectMeta res" where
  "ref_set_controller owner om =
     (if \<exists>r \<in> set (om_OwnerReferences om). or_Controller r = Some True \<and> or_UID r \<noteq> om_UID (m_Meta owner)
      then Inl (ForeignErr ''already owned'')
      else let r = \<lparr>or_APIVersion = ''cluster.x-k8s.io/v1beta2'', or_Kind = ''Machine'',
             or_Name = om_Name (m_Meta owner), or_UID = om_UID (m_Meta owner), or_Controller = Some True\<rparr>
           in Inr (om\<lparr>om_OwnerReferences := r # filter (\<lambda>x. or_UID x \<noteq> or_UID r) (om_OwnerReferences om)\<rparr>))"

fun ref_not_found :: "goerror \<Rightarrow> bool" where
  "ref_not_found (ForeignErr s) = (s = ''NotFound'')"
| "ref_not_found (WrapErr p e) = ref_not_found e"
| "ref_not_found _ = False"

definition ref_lib :: "'w Kube \<Rightarrow> 'w Kube" where
  "ref_lib B = B\<lparr>
     kSetControllerReference := ref_set_controller,
     kIsPaused := (\<lambda>cl om. om_Annotations om ''cluster.x-k8s.io/paused'' \<noteq> None),
     kContainsFinalizer := (\<lambda>om f. f \<in> set (om_Finalizers om)),
     kAddFinalizer := (\<lambda>om f. if f \<in> set (om_Finalizers om) then om
                              else om\<lparr>om_Finalizers := om_Finalizers om @ [f]\<rparr>),
     kRemoveFinalizer := (\<lambda>om f. om\<lparr>om_Finalizers := filter (\<lambda>x. x \<noteq> f) (om_Finalizers om)\<rparr>),
     kAddAnnotations := (\<lambda>om m. om\<lparr>om_Annotations := om_Annotations om ++ m\<rparr>),
     kSetStatusCondition := (\<lambda>w. ref_set_condition (kNow B w)),
     kIsNotFound := ref_not_found,
     kIgnoreNotFound := (\<lambda>e. if ref_not_found e then None else Some e)\<rparr>"

lemma find_condition_simps [simp]:
  "find_condition [] t = None"
  "find_condition (c # cs) t = (if c_Type c = t then Some c else find_condition cs t)"
  by (simp_all add: find_condition_def)

lemma find_condition_append:
  "find_condition (cs @ ds) t = (case find_condition cs t of None \<Rightarrow> find_condition ds t | Some c \<Rightarrow> Some c)"
  by (induction cs) simp_all

lemma find_condition_map_same:
  "find_condition cs (c_Type c) = Some old \<Longrightarrow> c_Type c' = c_Type c \<Longrightarrow>
   find_condition (map (\<lambda>x. if c_Type x = c_Type c then c' else x) cs) (c_Type c) = Some c'"
  by (induction cs) (auto split: if_splits)

lemma find_condition_map_other:
  "ty \<noteq> c_Type c \<Longrightarrow> c_Type c' = c_Type c \<Longrightarrow>
   find_condition (map (\<lambda>x. if c_Type x = c_Type c then c' else x) cs) ty = find_condition cs ty"
  by (induction cs) auto

lemma ref_set_condition_same:
  "\<exists>t. find_condition (ref_set_condition now cs c) (c_Type c) = Some (c\<lparr>c_LastTransitionTime := t\<rparr>)"
  by (auto simp: ref_set_condition_def find_condition_append find_condition_map_same Let_def
      split: option.split)

lemma ref_set_condition_other:
  "ty \<noteq> c_Type c \<Longrightarrow> find_condition (ref_set_condition now cs c) ty = find_condition cs ty"
  by (auto simp: ref_set_condition_def find_condition_append find_condition_map_other Let_def
      split: option.split)

interpretation ref: kube_lib "ref_lib B" for B :: "'w Kube"
  by unfold_locales
    (auto simp: ref_lib_def ref_set_condition_same ref_set_condition_other ref_set_controller_def
      Let_def split: if_splits)

end
