(* ===== verification/Connection.thy ===== *)
theory Connection
  imports Kube
begin

text \<open>
  \<open>internal/controller/fleet.go\<close>: the annotation keys the machine controller keeps its state
  under, the reconcilers' fields, and \<open>resolveFleetClient\<close>, which both controllers obtain their
  AuroraBoot client through.
\<close>

definition adminTokenSecretKey :: string where "adminTokenSecretKey = ''token''"
definition bootstrapDataSecretKey :: string where "bootstrapDataSecretKey = ''value''"

definition cloudConfigAppliedAnnotation :: string where
  "cloudConfigAppliedAnnotation = ''kairos-fleet.infrastructure.cluster.x-k8s.io/cloud-config-applied''"
definition cloudConfigAppliedValue :: string where "cloudConfigAppliedValue = ''true''"
definition cloudConfigCommandIDAnnotation :: string where
  "cloudConfigCommandIDAnnotation = ''kairos-fleet.infrastructure.cluster.x-k8s.io/cloud-config-command-id''"
definition rebootRequestedAtAnnotation :: string where
  "rebootRequestedAtAnnotation = ''kairos-fleet.infrastructure.cluster.x-k8s.io/reboot-requested-at''"
definition rebootCommandIDAnnotation :: string where
  "rebootCommandIDAnnotation = ''kairos-fleet.infrastructure.cluster.x-k8s.io/reboot-command-id''"
definition retryNotBeforeAnnotation :: string where
  "retryNotBeforeAnnotation = ''kairos-fleet.infrastructure.cluster.x-k8s.io/retry-not-before''"
definition claimKeyAnnotation :: string where
  "claimKeyAnnotation = ''kairos-fleet.infrastructure.cluster.x-k8s.io/claim-key''"
definition providerIDPrefix :: string where "providerIDPrefix = ''kairos-fleet://''"

lemmas annotation_defs =
  NodeIDAnnotation_def cloudConfigAppliedAnnotation_def cloudConfigCommandIDAnnotation_def
  rebootRequestedAtAnnotation_def rebootCommandIDAnnotation_def retryNotBeforeAnnotation_def
  claimKeyAnnotation_def

text \<open>The seven annotations are distinct, so that the proofs never look into the keys.\<close>

lemma annotations_distinct:
  "distinct [NodeIDAnnotation, cloudConfigAppliedAnnotation, cloudConfigCommandIDAnnotation,
     rebootRequestedAtAnnotation, rebootCommandIDAnnotation, retryNotBeforeAnnotation, claimKeyAnnotation]"
  by (simp add: annotation_defs)

lemma annotation_neqs [simp]:
  "NodeIDAnnotation \<noteq> cloudConfigAppliedAnnotation" "NodeIDAnnotation \<noteq> cloudConfigCommandIDAnnotation"
  "NodeIDAnnotation \<noteq> rebootRequestedAtAnnotation" "NodeIDAnnotation \<noteq> rebootCommandIDAnnotation"
  "NodeIDAnnotation \<noteq> retryNotBeforeAnnotation" "NodeIDAnnotation \<noteq> claimKeyAnnotation"
  "cloudConfigAppliedAnnotation \<noteq> NodeIDAnnotation"
  "cloudConfigAppliedAnnotation \<noteq> cloudConfigCommandIDAnnotation"
  "cloudConfigAppliedAnnotation \<noteq> rebootRequestedAtAnnotation"
  "cloudConfigAppliedAnnotation \<noteq> rebootCommandIDAnnotation"
  "cloudConfigAppliedAnnotation \<noteq> retryNotBeforeAnnotation"
  "cloudConfigAppliedAnnotation \<noteq> claimKeyAnnotation"
  "cloudConfigCommandIDAnnotation \<noteq> NodeIDAnnotation"
  "cloudConfigCommandIDAnnotation \<noteq> cloudConfigAppliedAnnotation"
  "cloudConfigCommandIDAnnotation \<noteq> rebootRequestedAtAnnotation"
  "cloudConfigCommandIDAnnotation \<noteq> rebootCommandIDAnnotation"
  "cloudConfigCommandIDAnnotation \<noteq> retryNotBeforeAnnotation"
  "cloudConfigCommandIDAnnotation \<noteq> claimKeyAnnotation"
  "rebootRequestedAtAnnotation \<noteq> NodeIDAnnotation"
  "rebootRequestedAtAnnotation \<noteq> cloudConfigAppliedAnnotation"
  "rebootRequestedAtAnnotation \<noteq> cloudConfigCommandIDAnnotation"
  "rebootRequestedAtAnnotation \<noteq> rebootCommandIDAnnotation"
  "rebootRequestedAtAnnotation \<noteq> retryNotBeforeAnnotation"
  "rebootRequestedAtAnnotation \<noteq> claimKeyAnnotation"
  "rebootCommandIDAnnotation \<noteq> NodeIDAnnotation"
  "rebootCommandIDAnnotation \<noteq> cloudConfigAppliedAnnotation"
  "rebootCommandIDAnnotation \<noteq> cloudConfigCommandIDAnnotation"
  "rebootCommandIDAnnotation \<noteq> rebootRequestedAtAnnotation"
  "rebootCommandIDAnnotation \<noteq> retryNotBeforeAnnotation"
  "rebootCommandIDAnnotation \<noteq> claimKeyAnnotation"
  "retryNotBeforeAnnotation \<noteq> NodeIDAnnotation"
  "retryNotBeforeAnnotation \<noteq> cloudConfigAppliedAnnotation"
  "retryNotBeforeAnnotation \<noteq> cloudConfigCommandIDAnnotation"
  "retryNotBeforeAnnotation \<noteq> rebootRequestedAtAnnotation"
  "retryNotBeforeAnnotation \<noteq> rebootCommandIDAnnotation"
  "retryNotBeforeAnnotation \<noteq> claimKeyAnnotation"
  "claimKeyAnnotation \<noteq> NodeIDAnnotation" "claimKeyAnnotation \<noteq> cloudConfigAppliedAnnotation"
  "claimKeyAnnotation \<noteq> cloudConfigCommandIDAnnotation" "claimKeyAnnotation \<noteq> rebootRequestedAtAnnotation"
  "claimKeyAnnotation \<noteq> rebootCommandIDAnnotation" "claimKeyAnnotation \<noteq> retryNotBeforeAnnotation"
  using annotations_distinct by auto

subsection \<open>Reconcilers\<close>

text \<open>\<open>KairosFleetMachineReconciler\<close> and \<open>KairosFleetClusterReconciler\<close> have the same fields.
  The scheme takes no part in what is modelled; \<open>r_net\<close> is the network the default factory's
  clients run on, a global of the program.\<close>

type_synonym 'w FleetClientFactory = "string \<Rightarrow> string \<Rightarrow> 'w Client"

record 'w Reconciler =
  r_Client :: "'w Kube"
  r_FleetClientFactory :: "'w FleetClientFactory option"
  r_net :: "'w net"

definition DefaultFleetClientFactory :: "'w net \<Rightarrow> 'w FleetClientFactory" where
  "DefaultFleetClientFactory net base tok = New net base tok []"

definition fleetFactory :: "'w Reconciler \<Rightarrow> 'w FleetClientFactory" where
  "fleetFactory r = (case r_FleetClientFactory r of Some f \<Rightarrow> f | None \<Rightarrow> DefaultFleetClientFactory (r_net r))"

text \<open>\<open>ctrl.Result\<close>, and how a reconcile ends: it returns a result and an error, or the
  goroutine panics.\<close>

record Result =
  RequeueAfter :: duration

definition no_requeue :: Result where "no_requeue = \<lparr>RequeueAfter = 0\<rparr>"

definition requeue_after :: "duration \<Rightarrow> Result" where "requeue_after d = \<lparr>RequeueAfter = d\<rparr>"

datatype outcome = Return Result "goerror option" | Panic string

subsection \<open>The AuroraBoot connection\<close>

definition resolveFleetClient ::
  "'w Kube \<Rightarrow> 'w FleetClientFactory \<Rightarrow> KairosFleetCluster \<Rightarrow> 'w \<Rightarrow> 'w Client res" where
  "resolveFleetClient K factory fleetCluster w =
     (let conn = fcs_AuroraBoot (fc_Spec fleetCluster);
          ns = om_Namespace (fc_Meta fleetCluster)
      in if ab_URL conn = '''' then
           Inl (WrapErr (''KairosFleetCluster '' @ ns @ ''/'' @ om_Name (fc_Meta fleetCluster)
             @ '' has no auroraboot.url: '') ConnectionIncomplete)
         else
           let key = \<lparr>nn_Namespace = ns, nn_Name = sr_Name (ab_AdminTokenSecretRef conn)\<rparr> in
           (case kGetSecret K key w of
              Inl err \<Rightarrow>
                Inl (WrapErr (''getting AuroraBoot admin token Secret '' @ key_string key @ '': '') err)
            | Inr secret \<Rightarrow>
                let tok = map_read (s_Data secret) adminTokenSecretKey in
                if tok = '''' then
                  Inl (WrapErr (''AuroraBoot admin token Secret '' @ key_string key @ '' has no ''
                    @ go_quote adminTokenSecretKey @ '' key: '') ConnectionIncomplete)
                else Inr (factory (ab_URL conn) tok)))"

text \<open>A connection is complete when it has a url, its Secret can be read and holds a token.\<close>

definition connection_token :: "'w Kube \<Rightarrow> KairosFleetCluster \<Rightarrow> 'w \<Rightarrow> string option" where
  "connection_token K fleetCluster w =
     (let conn = fcs_AuroraBoot (fc_Spec fleetCluster) in
      if ab_URL conn = '''' then None
      else case kGetSecret K \<lparr>nn_Namespace = om_Namespace (fc_Meta fleetCluster),
                              nn_Name = sr_Name (ab_AdminTokenSecretRef conn)\<rparr> w of
             Inl _ \<Rightarrow> None
           | Inr secret \<Rightarrow>
               (case s_Data secret adminTokenSecretKey of
                  Some t \<Rightarrow> if t = '''' then None else Some t | None \<Rightarrow> None))"

lemma resolveFleetClient_Inr_iff:
  "resolveFleetClient K factory fc w = Inr c \<longleftrightarrow>
     (\<exists>t. connection_token K fc w = Some t \<and> c = factory (ab_URL (fcs_AuroraBoot (fc_Spec fc))) t)"
  by (auto simp: resolveFleetClient_def connection_token_def Let_def map_read_def
      split: sum.splits option.splits if_splits)

lemma resolveFleetClient_Inl_iff:
  "(\<exists>e. resolveFleetClient K factory fc w = Inl e) \<longleftrightarrow> connection_token K fc w = None"
  by (auto simp: resolveFleetClient_def connection_token_def Let_def map_read_def
      split: sum.splits option.splits if_splits)

text \<open>The error tells whether waiting can help: it is the sentinel unless reading the Secret
  failed, and then it wraps the read error.\<close>

lemma resolveFleetClient_error:
  assumes "resolveFleetClient K factory fc w = Inl e"
  shows "is_ConnectionIncomplete e \<or>
    (\<exists>p err. e = WrapErr p err \<and> kGetSecret K \<lparr>nn_Namespace = om_Namespace (fc_Meta fc),
       nn_Name = sr_Name (ab_AdminTokenSecretRef (fcs_AuroraBoot (fc_Spec fc)))\<rparr> w = Inl err)"
  using assms by (auto simp: resolveFleetClient_def Let_def split: sum.splits if_splits)

end
