(* ===== verification/MachineHelpers.thy ===== *)
theory MachineHelpers
  imports Connection
begin

text \<open>
  The helpers of \<open>internal/controller/kairosfleetmachine_controller.go\<close>: the retry window and
  the claim key kept in annotations, the readiness condition, the reading back of a command's
  outcome, the rejoin test, and the resolution of the AuroraBoot client and the bootstrap data.
\<close>

definition waitForCapacityRequeue :: duration where "waitForCapacityRequeue = seconds 30"
definition waitForRejoinRequeue :: duration where "waitForRejoinRequeue = seconds 15"
definition retryCloudConfigRequeue :: duration where "retryCloudConfigRequeue = seconds 60"
definition retryRebootRequeue :: duration where "retryRebootRequeue = seconds 60"

lemmas requeue_defs = waitForCapacityRequeue_def waitForRejoinRequeue_def
  retryCloudConfigRequeue_def retryRebootRequeue_def seconds_def nanos_def

subsection \<open>State kept in annotations\<close>

definition add_annotations :: "'w Kube \<Rightarrow> strmap \<Rightarrow> KairosFleetMachine \<Rightarrow> KairosFleetMachine" where
  "add_annotations K m fm = fm\<lparr>fm_Meta := kAddAnnotations K (fm_Meta fm) m\<rparr>"

definition openRetryWindow ::
  "'w Kube \<Rightarrow> KairosFleetMachine \<Rightarrow> time \<Rightarrow> duration \<Rightarrow> KairosFleetMachine" where
  "openRetryWindow K fm now after =
     add_annotations K [retryNotBeforeAnnotation \<mapsto> format_RFC3339 (time_Add now after)] fm"

definition retryWait :: "KairosFleetMachine \<Rightarrow> time \<Rightarrow> duration" where
  "retryWait fm now =
     (let v = ann fm retryNotBeforeAnnotation in
      if v = '''' then 0
      else case parse_RFC3339 v of
          None \<Rightarrow> 0
        | Some notBefore \<Rightarrow>
            let wait = time_Sub notBefore now in if 0 < wait then wait else 0)"

definition claimKeyFor :: "KairosFleetMachine \<Rightarrow> string" where
  "claimKeyFor fm =
     (let key = ann fm claimKeyAnnotation in if key \<noteq> '''' then key else om_UID (fm_Meta fm))"

subsection \<open>Readiness\<close>

definition set_ready :: "'w Kube \<Rightarrow> 'w \<Rightarrow> bool \<Rightarrow> ConditionStatus \<Rightarrow> string \<Rightarrow> string
    \<Rightarrow> KairosFleetMachine \<Rightarrow> KairosFleetMachine" where
  "set_ready K w prov st reason msg fm =
     fm\<lparr>fm_Status := (fm_Status fm)\<lparr>
       fmt_Initialization := (fmt_Initialization (fm_Status fm))\<lparr>fmi_Provisioned := Some prov\<rparr>,
       fmt_Conditions := kSetStatusCondition K w (fmt_Conditions (fm_Status fm))
         (new_condition ReadyCondition st (om_Generation (fm_Meta fm)) reason msg)\<rparr>\<rparr>"

definition notReady :: "'w Kube \<Rightarrow> 'w \<Rightarrow> string \<Rightarrow> string \<Rightarrow> KairosFleetMachine \<Rightarrow> KairosFleetMachine" where
  "notReady K w reason msg fm = set_ready K w False ConditionFalse reason msg fm"

definition set_failure :: "string option \<Rightarrow> string option \<Rightarrow> KairosFleetMachine \<Rightarrow> KairosFleetMachine" where
  "set_failure reason msg fm =
     fm\<lparr>fm_Status := (fm_Status fm)\<lparr>fmt_FailureReason := reason, fmt_FailureMessage := msg\<rparr>\<rparr>"

definition fail :: "'w Kube \<Rightarrow> 'w \<Rightarrow> string \<Rightarrow> string \<Rightarrow> KairosFleetMachine \<Rightarrow> KairosFleetMachine" where
  "fail K w reason msg fm = notReady K w reason msg (set_failure (Some reason) (Some msg) fm)"

definition addressesFromNode :: "Node \<Rightarrow> MachineAddress list" where
  "addressesFromNode node =
     (if node_Hostname node = '''' then []
      else [\<lparr>ma_Type = MachineHostName, ma_Address = node_Hostname node\<rparr>])"

subsection \<open>The outcome of a command\<close>

definition newerCommand :: "Command \<Rightarrow> Command \<Rightarrow> bool" where
  "newerCommand a b = (case cmd_CreatedAt a of None \<Rightarrow> True
     | Some ta \<Rightarrow> (case cmd_CreatedAt b of None \<Rightarrow> False | Some tb \<Rightarrow> time_After ta tb))"

text \<open>The loop of \<open>commandState\<close>, with its variable \<open>latest\<close>.\<close>

fun select_command :: "string \<Rightarrow> string \<Rightarrow> Command list \<Rightarrow> Command option \<Rightarrow> Command option" where
  "select_command cmdID name [] latest = latest"
| "select_command cmdID name (cmd # cmds) latest =
     (if cmdID \<noteq> '''' then
        (if cmd_ID cmd = cmdID then Some cmd else select_command cmdID name cmds latest)
      else if cmd_Command cmd \<noteq> name then select_command cmdID name cmds latest
      else case latest of
          None \<Rightarrow> select_command cmdID name cmds (Some cmd)
        | Some l \<Rightarrow>
            if newerCommand cmd l then select_command cmdID name cmds (Some cmd)
            else select_command cmdID name cmds latest)"

text \<open>\<open>(completed, failed, failMsg)\<close>.\<close>

definition command_outcome :: "Command option \<Rightarrow> bool \<times> bool \<times> string" where
  "command_outcome latest = (case latest of
     None \<Rightarrow> (False, False, '''')
   | Some cmd \<Rightarrow>
       if cmd_Phase cmd = CommandPhaseCompleted then (True, False, '''')
       else if cmd_Phase cmd = CommandPhaseFailed \<or> cmd_Phase cmd = CommandPhaseExpired
         then (False, True, cmd_Result cmd)
       else (False, False, ''''))"

definition commandState ::
  "'w Client \<Rightarrow> string \<Rightarrow> string \<Rightarrow> string \<Rightarrow> 'w \<Rightarrow> (bool \<times> bool \<times> string) \<times> 'w" where
  "commandState fc nodeID cmdID name w =
     (case GetCommands fc nodeID w of
        (Inl _, w) \<Rightarrow> ((False, False, ''''), w)
      | (Inr cmds, w) \<Rightarrow> (command_outcome (select_command cmdID name cmds None), w))"

definition rebootFailed ::
  "'w Client \<Rightarrow> KairosFleetMachine \<Rightarrow> Node \<Rightarrow> string \<Rightarrow> 'w \<Rightarrow> (bool \<times> string) \<times> 'w" where
  "rebootFailed fc fm node nodeID w =
     (if node_Phase node \<noteq> PhaseOnline then ((False, ''''), w)
      else case commandState fc nodeID (ann fm rebootCommandIDAnnotation) CommandReboot w of
             ((_, failed, failMsg), w) \<Rightarrow> ((failed, failMsg), w))"

definition rejoinedAfterReboot :: "KairosFleetMachine \<Rightarrow> Node \<Rightarrow> bool" where
  "rejoinedAfterReboot fm node =
     (if node_Phase node \<noteq> PhaseOnline then False
      else case node_LastHeartbeat node of
          None \<Rightarrow> False
        | Some hb \<Rightarrow>
            (case parse_RFC3339 (ann fm rebootRequestedAtAnnotation) of
               None \<Rightarrow> False
             | Some rebootedAt \<Rightarrow> time_After hb rebootedAt))"

subsection \<open>Clients and bootstrap data\<close>

definition infra_key :: "Cluster \<Rightarrow> NamespacedName" where
  "infra_key cluster =
     \<lparr>nn_Namespace = om_Namespace (cl_Meta cluster), nn_Name = cl_InfrastructureRef_Name cluster\<rparr>"

definition fleetClientFor ::
  "'w Reconciler \<Rightarrow> Cluster \<Rightarrow> 'w \<Rightarrow> 'w Client option \<times> Result \<times> goerror option" where
  "fleetClientFor r cluster w =
     (case kGetCluster (r_Client r) (infra_key cluster) w of
        Inl err \<Rightarrow> (None, requeue_after waitForRejoinRequeue, kIgnoreNotFound (r_Client r) err)
      | Inr fleetCluster \<Rightarrow>
          (case resolveFleetClient (r_Client r) (fleetFactory r) fleetCluster w of
             Inl err \<Rightarrow> (None, requeue_after waitForCapacityRequeue, None)
           | Inr fc \<Rightarrow> (Some fc, no_requeue, None)))"

definition fleetClientForDelete :: "'w Reconciler \<Rightarrow> Cluster \<Rightarrow> 'w \<Rightarrow> 'w Client res" where
  "fleetClientForDelete r cluster w =
     (case kGetCluster (r_Client r) (infra_key cluster) w of
        Inl err \<Rightarrow>
          Inl (WrapErr (''getting KairosFleetCluster '' @ key_string (infra_key cluster) @ '': '') err)
      | Inr fleetCluster \<Rightarrow> resolveFleetClient (r_Client r) (fleetFactory r) fleetCluster w)"

definition isPermanentlyUnresolvable :: "'w Kube \<Rightarrow> goerror \<Rightarrow> bool" where
  "isPermanentlyUnresolvable K err \<longleftrightarrow> kIsNotFound K err \<or> is_ConnectionIncomplete err"

text \<open>The caller has seen that \<open>DataSecretName\<close> is set; dereferencing it unset would panic.\<close>

definition bootstrapData :: "'w Kube \<Rightarrow> Machine \<Rightarrow> string \<Rightarrow> 'w \<Rightarrow> string res" where
  "bootstrapData K machine dataSecretName w =
     (let key = \<lparr>nn_Namespace = om_Namespace (m_Meta machine), nn_Name = dataSecretName\<rparr> in
      case kGetSecret K key w of
        Inl err \<Rightarrow> Inl (WrapErr (''getting bootstrap data secret '' @ key_string key @ '': '') err)
      | Inr secret \<Rightarrow>
          (case s_Data secret bootstrapDataSecretKey of
             None \<Rightarrow> Inl (PlainErr (''bootstrap data secret '' @ key_string key @ '' has no ''
               @ go_quote bootstrapDataSecretKey @ '' key''))
           | Some data \<Rightarrow> Inr data))"

subsection \<open>What the updates leave alone\<close>

definition failureReason :: "KairosFleetMachine \<Rightarrow> string option" where
  "failureReason fm = fmt_FailureReason (fm_Status fm)"

definition finalizers :: "KairosFleetMachine \<Rightarrow> string set" where
  "finalizers fm = set (om_Finalizers (fm_Meta fm))"

definition ready_reason :: "KairosFleetMachine \<Rightarrow> string option" where
  "ready_reason fm = map_option c_Reason (find_condition (fmt_Conditions (fm_Status fm)) ReadyCondition)"

definition ready_status :: "KairosFleetMachine \<Rightarrow> ConditionStatus option" where
  "ready_status fm = map_option c_Status (find_condition (fmt_Conditions (fm_Status fm)) ReadyCondition)"

lemmas view_defs = failureReason_def finalizers_def ready_reason_def ready_status_def

lemma del_ann_views [simp]:
  "failureReason (del_ann k fm) = failureReason fm" "finalizers (del_ann k fm) = finalizers fm"
  "ready_reason (del_ann k fm) = ready_reason fm" "ready_status (del_ann k fm) = ready_status fm"
  "provisioned (del_ann k fm) = provisioned fm"
  by (simp_all add: view_defs del_ann_def)

lemma set_ready_frame [simp]:
  "fm_Meta (set_ready K w p st reason msg fm) = fm_Meta fm"
  "fm_Spec (set_ready K w p st reason msg fm) = fm_Spec fm"
  "ann (set_ready K w p st reason msg fm) k = ann fm k"
  "finalizers (set_ready K w p st reason msg fm) = finalizers fm"
  "failureReason (set_ready K w p st reason msg fm) = failureReason fm"
  "provisioned (set_ready K w p st reason msg fm) = Some p"
  "fmt_Addresses (fm_Status (set_ready K w p st reason msg fm)) = fmt_Addresses (fm_Status fm)"
  by (simp_all add: set_ready_def ann_def view_defs)

lemma notReady_frame [simp]:
  "fm_Meta (notReady K w reason msg fm) = fm_Meta fm"
  "fm_Spec (notReady K w reason msg fm) = fm_Spec fm"
  "ann (notReady K w reason msg fm) k = ann fm k"
  "finalizers (notReady K w reason msg fm) = finalizers fm"
  "failureReason (notReady K w reason msg fm) = failureReason fm"
  "provisioned (notReady K w reason msg fm) = Some False"
  by (simp_all add: notReady_def)

lemma set_failure_frame [simp]:
  "fm_Meta (set_failure reason msg fm) = fm_Meta fm"
  "fm_Spec (set_failure reason msg fm) = fm_Spec fm"
  "ann (set_failure reason msg fm) k = ann fm k"
  "finalizers (set_failure reason msg fm) = finalizers fm"
  "failureReason (set_failure reason msg fm) = reason"
  "provisioned (set_failure reason msg fm) = provisioned fm"
  "ready_reason (set_failure reason msg fm) = ready_reason fm"
  by (simp_all add: set_failure_def ann_def view_defs)

lemma fail_frame [simp]:
  "fm_Meta (fail K w reason msg fm) = fm_Meta fm" "fm_Spec (fail K w reason msg fm) = fm_Spec fm"
  "ann (fail K w reason msg fm) k = ann fm k" "finalizers (fail K w reason msg fm) = finalizers fm"
  "failureReason (fail K w reason msg fm) = Some reason"
  "provisioned (fail K w reason msg fm) = Some False"
  by (simp_all add: fail_def)

context kube_lib
begin

lemma ready_reason_set [simp]:
  "ready_reason (set_ready K w p st reason msg fm) = Some reason"
  "ready_status (set_ready K w p st reason msg fm) = Some st"
  "ready_reason (notReady K w reason msg fm) = Some reason"
  "ready_status (notReady K w reason msg fm) = Some ConditionFalse"
  "ready_reason (fail K w reason msg fm) = Some reason"
  using set_condition_status [of w "fmt_Conditions (fm_Status fm)"
      "new_condition ReadyCondition st (om_Generation (fm_Meta fm)) reason msg"]
    set_condition_status [of w "fmt_Conditions (fm_Status fm)"
      "new_condition ReadyCondition ConditionFalse (om_Generation (fm_Meta fm)) reason msg"]
    set_condition_status [of w "fmt_Conditions (fm_Status (set_failure (Some reason) (Some msg) fm))"
      "new_condition ReadyCondition ConditionFalse (om_Generation (fm_Meta fm)) reason msg"]
  by (simp_all add: ready_reason_def ready_status_def fail_def notReady_def set_ready_def new_condition_def)

lemma add_annotations_frame [simp]:
  "ann (add_annotations K m fm) k = (if k \<in> dom m then map_read m k else ann fm k)"
  "fm_Spec (add_annotations K m fm) = fm_Spec fm"
  "fm_Status (add_annotations K m fm) = fm_Status fm"
  "finalizers (add_annotations K m fm) = finalizers fm"
  "failureReason (add_annotations K m fm) = failureReason fm"
  "ready_reason (add_annotations K m fm) = ready_reason fm"
  "ready_status (add_annotations K m fm) = ready_status fm"
  "om_UID (fm_Meta (add_annotations K m fm)) = om_UID (fm_Meta fm)"
  by (auto simp: add_annotations_def add_annotations ann_def view_defs)

lemma openRetryWindow_frame [simp]:
  "ann (openRetryWindow K fm now after) k
     = (if k = retryNotBeforeAnnotation then format_RFC3339 (time_Add now after) else ann fm k)"
  "fm_Spec (openRetryWindow K fm now after) = fm_Spec fm"
  "fm_Status (openRetryWindow K fm now after) = fm_Status fm"
  "finalizers (openRetryWindow K fm now after) = finalizers fm"
  "failureReason (openRetryWindow K fm now after) = failureReason fm"
  "ready_reason (openRetryWindow K fm now after) = ready_reason fm"
  "om_UID (fm_Meta (openRetryWindow K fm now after)) = om_UID (fm_Meta fm)"
  by (auto simp: openRetryWindow_def)

end

end
