(* ===== verification/MachineController.thy ===== *)
theory MachineController
  imports MachineHelpers
begin

text \<open>
  The reconciler of \<open>internal/controller/kairosfleetmachine_controller.go\<close>: \<open>reconcileNormal\<close>
  step by step, \<open>reconcileDelete\<close>, and \<open>Reconcile\<close> around them. A step gets the object as the
  pass has changed it so far and the world, and returns the object, how the pass ends and the
  world. Logging is left out.
\<close>

type_synonym 'w step_result = "KairosFleetMachine \<times> outcome \<times> 'w"

subsection \<open>Step 2: claim a node\<close>

definition claimStep ::
  "'w Reconciler \<Rightarrow> 'w Client \<Rightarrow> string \<Rightarrow> KairosFleetMachine \<Rightarrow> 'w \<Rightarrow> 'w step_result" where
  "claimStep r fc claimKey fm w =
     (let K = r_Client r; group = fms_Group (fm_Spec fm) in
      case ResolveGroupID fc group w of
        (Inl err, w) \<Rightarrow>
          if IsNotFound err then
            (notReady K w ''GroupNotFound''
               (''spec.group '' @ go_quote group @ '' does not match any AuroraBoot group'') fm,
             Return (requeue_after waitForCapacityRequeue) None, w)
          else (fm, Return no_requeue (Some (WrapErr (''resolving group '' @ go_quote group @ '': '') err)), w)
      | (Inr groupID, w) \<Rightarrow>
          (case Claim fc groupID claimKey w of
             (Inl err, w) \<Rightarrow>
               if IsNoCapacity err then
                 (notReady K w ''WaitingForCapacity''
                    (''Waiting for an available node in group '' @ go_quote group) fm,
                  Return (requeue_after waitForCapacityRequeue) None, w)
               else (fm, Return no_requeue
                 (Some (WrapErr (''claiming node from group '' @ go_quote group @ '': '') err)), w)
           | (Inr None, w) \<Rightarrow> (fm, Panic ''nil pointer dereference'', w)
           | (Inr (Some node), w) \<Rightarrow>
               (notReady K w ''NodeClaimed''
                  ''Claimed an AuroraBoot node; applying bootstrap configuration''
                  (add_annotations K
                     [NodeIDAnnotation \<mapsto> node_ID node, claimKeyAnnotation \<mapsto> claimKey] fm),
                Return no_requeue None, w)))"

subsection \<open>Step 3: apply the bootstrap cloud-config\<close>

text \<open>\<open>m[k] = cmd.ID\<close> when the command is there and has an ID.\<close>

definition record_id :: "string \<Rightarrow> Command option \<Rightarrow> strmap \<Rightarrow> strmap" where
  "record_id k cmd m = (case cmd of Some c \<Rightarrow> if cmd_ID c \<noteq> '''' then m(k \<mapsto> cmd_ID c) else m | None \<Rightarrow> m)"

definition applyStep ::
  "'w Reconciler \<Rightarrow> 'w Client \<Rightarrow> Machine \<Rightarrow> string \<Rightarrow> string \<Rightarrow> KairosFleetMachine \<Rightarrow> 'w \<Rightarrow> 'w step_result" where
  "applyStep r fc machine dataSecretName nodeID fm w =
     (let K = r_Client r; wait = retryWait fm (kNow K w) in
      if 0 < wait then (fm, Return (requeue_after wait) None, w)
      else
        let fm = del_ann retryNotBeforeAnnotation fm in
        (case bootstrapData K machine dataSecretName w of
           Inl err \<Rightarrow> (fm, Return no_requeue (Some err), w)
         | Inr data \<Rightarrow>
             (case ApplyCloudConfig fc nodeID data w of
                (Inl err, w) \<Rightarrow>
                  (fm, Return no_requeue
                     (Some (WrapErr (''applying cloud-config to node '' @ nodeID @ '': '') err)), w)
              | (Inr cmd, w) \<Rightarrow>
                  (notReady K w ''ApplyingCloudConfig''
                     ''Bootstrap cloud-config applied; waiting for the node to reboot and rejoin''
                     (add_annotations K (record_id cloudConfigCommandIDAnnotation cmd
                        [cloudConfigAppliedAnnotation \<mapsto> cloudConfigAppliedValue]) fm),
                   Return (requeue_after waitForRejoinRequeue) None, w))))"

subsection \<open>Step 4: reboot once the apply has completed\<close>

definition rebootStep ::
  "'w Reconciler \<Rightarrow> 'w Client \<Rightarrow> string \<Rightarrow> KairosFleetMachine \<Rightarrow> 'w \<Rightarrow> 'w step_result" where
  "rebootStep r fc nodeID fm w =
     (let K = r_Client r in
      case commandState fc nodeID (ann fm cloudConfigCommandIDAnnotation) CommandApplyCloudConfig w of
        ((applied, failed, failMsg), w) \<Rightarrow>
          if failed then
            let fm = notReady K w ''CloudConfigFailed''
                  (''apply-cloud-config failed on node '' @ nodeID @ '': '' @ failMsg) fm;
                fm = set_failure None None fm;
                fm = del_ann cloudConfigAppliedAnnotation fm;
                fm = del_ann cloudConfigCommandIDAnnotation fm
            in (openRetryWindow K fm (kNow K w) retryCloudConfigRequeue,
                Return (requeue_after retryCloudConfigRequeue) None, w)
          else if \<not> applied then
            (notReady K w ''ApplyingCloudConfig''
               ''Waiting for the node to write the bootstrap cloud-config'' fm,
             Return (requeue_after waitForRejoinRequeue) None, w)
          else
            let wait = retryWait fm (kNow K w) in
            if 0 < wait then (fm, Return (requeue_after wait) None, w)
            else
              let fm = del_ann retryNotBeforeAnnotation fm in
              (case Reboot fc nodeID w of
                 (Inl err, w) \<Rightarrow>
                   (fm, Return no_requeue (Some (WrapErr (''rebooting node '' @ nodeID @ '': '') err)), w)
               | (Inr cmd, w) \<Rightarrow>
                   (notReady K w ''Rebooting''
                      ''Rebooting the node to apply its bootstrap configuration''
                      (add_annotations K (record_id rebootCommandIDAnnotation cmd
                         [rebootRequestedAtAnnotation \<mapsto> format_RFC3339 (kNow K w)]) fm),
                    Return (requeue_after waitForRejoinRequeue) None, w)))"

subsection \<open>Steps 5 and 6: wait for the rejoin, then provisioned\<close>

definition provision :: "'w Kube \<Rightarrow> 'w \<Rightarrow> Node \<Rightarrow> KairosFleetMachine \<Rightarrow> KairosFleetMachine" where
  "provision K w node fm =
     (let fm = fm\<lparr>fm_Spec := (fm_Spec fm)\<lparr>fms_ProviderID := Some (providerIDPrefix @ node_ID node)\<rparr>\<rparr>;
          fm = fm\<lparr>fm_Status := (fm_Status fm)\<lparr>fmt_Addresses := addressesFromNode node\<rparr>\<rparr>
      in set_ready K w True ConditionTrue ''Provisioned'' ''Node is claimed, configured and Online'' fm)"

definition rejoinStep ::
  "'w Reconciler \<Rightarrow> 'w Client \<Rightarrow> string \<Rightarrow> KairosFleetMachine \<Rightarrow> 'w \<Rightarrow> 'w step_result" where
  "rejoinStep r fc nodeID fm w =
     (let K = r_Client r in
      case GetNode fc nodeID w of
        (Inl err, w) \<Rightarrow>
          if IsNotFound err then
            (fail K w ''NodeMissing'' (''Claimed AuroraBoot node '' @ nodeID @ '' no longer exists'') fm,
             Return no_requeue None, w)
          else (fm, Return no_requeue (Some (WrapErr (''getting node '' @ nodeID @ '': '') err)), w)
      | (Inr None, w) \<Rightarrow> (fm, Panic ''nil pointer dereference'', w)
      | (Inr (Some node), w) \<Rightarrow>
          if \<not> rejoinedAfterReboot fm node then
            (case rebootFailed fc fm node nodeID w of
               ((failed, failMsg), w) \<Rightarrow>
                 if failed then
                   let fm = notReady K w ''RebootFailed''
                         (''reboot failed on node '' @ nodeID @ '': '' @ failMsg) fm;
                       fm = del_ann rebootRequestedAtAnnotation fm;
                       fm = del_ann rebootCommandIDAnnotation fm
                   in (openRetryWindow K fm (kNow K w) retryRebootRequeue,
                       Return (requeue_after retryRebootRequeue) None, w)
                 else
                   (notReady K w ''WaitingForNodeRejoin''
                      ''Waiting for the node to reboot and report Online'' fm,
                    Return (requeue_after waitForRejoinRequeue) None, w))
          else (provision K w node fm, Return no_requeue None, w))"

subsection \<open>reconcileNormal\<close>

text \<open>The steps after the client is resolved, chosen by the annotations.\<close>

definition lifecycleStep ::
  "'w Reconciler \<Rightarrow> 'w Client \<Rightarrow> Machine \<Rightarrow> string \<Rightarrow> KairosFleetMachine \<Rightarrow> 'w \<Rightarrow> 'w step_result" where
  "lifecycleStep r fc machine dataSecretName fm w =
     (let claimKey = claimKeyFor fm; nodeID = ann fm NodeIDAnnotation in
      if nodeID = '''' then claimStep r fc claimKey fm w
      else if ann fm cloudConfigAppliedAnnotation \<noteq> cloudConfigAppliedValue then
        applyStep r fc machine dataSecretName nodeID fm w
      else if ann fm rebootRequestedAtAnnotation = '''' then rebootStep r fc nodeID fm w
      else rejoinStep r fc nodeID fm w)"

definition reconcileNormal ::
  "'w Reconciler \<Rightarrow> KairosFleetMachine \<Rightarrow> Machine \<Rightarrow> Cluster \<Rightarrow> 'w \<Rightarrow> 'w step_result" where
  "reconcileNormal r fm machine cluster w =
     (case m_DataSecretName machine of
        None \<Rightarrow>
          (notReady (r_Client r) w ''WaitingForBootstrapData''
             ''Waiting for the bootstrap data secret to be available'' fm,
           Return no_requeue None, w)
      | Some dataSecretName \<Rightarrow>
          (case fleetClientFor r cluster w of
             (Some fc, res, None) \<Rightarrow> lifecycleStep r fc machine dataSecretName fm w
           | (_, res, err) \<Rightarrow>
               (notReady (r_Client r) w ''WaitingForClusterInfrastructure''
                  ''Waiting for a valid AuroraBoot connection on the KairosFleetCluster'' fm,
                Return res err, w)))"

subsection \<open>reconcileDelete\<close>

definition remove_finalizer :: "'w Kube \<Rightarrow> KairosFleetMachine \<Rightarrow> KairosFleetMachine" where
  "remove_finalizer K fm = fm\<lparr>fm_Meta := kRemoveFinalizer K (fm_Meta fm) KairosFleetMachineFinalizer\<rparr>"

definition reconcileDelete ::
  "'w Reconciler \<Rightarrow> KairosFleetMachine \<Rightarrow> Cluster \<Rightarrow> 'w \<Rightarrow> KairosFleetMachine \<times> goerror option \<times> 'w" where
  "reconcileDelete r fm cluster w =
     (let K = r_Client r; nodeID = ann fm NodeIDAnnotation in
      if nodeID \<noteq> '''' then
        (case fleetClientForDelete r cluster w of
           Inl err \<Rightarrow>
             if \<not> isPermanentlyUnresolvable K err then
               (fm, Some (WrapErr (''resolving AuroraBoot connection to release node '' @ nodeID @ '': '') err), w)
             else (remove_finalizer K fm, None, w)
         | Inr fc \<Rightarrow>
             (case Release fc nodeID (claimKeyFor fm) w of
                (Inr _, w) \<Rightarrow> (remove_finalizer K fm, None, w)
              | (Inl err, w) \<Rightarrow>
                  if IsNotFound err then (remove_finalizer K fm, None, w)
                  else if IsClaimMismatch err then (remove_finalizer K fm, None, w)
                  else (fm, Some (WrapErr (''releasing node '' @ nodeID @ '': '') err), w)))
      else (remove_finalizer K fm, None, w))"

subsection \<open>Reconcile\<close>

text \<open>From the owner reference to the end of the pass, before the deferred patch.\<close>

definition add_finalizer :: "'w Kube \<Rightarrow> KairosFleetMachine \<Rightarrow> KairosFleetMachine" where
  "add_finalizer K fm =
     (if \<not> kContainsFinalizer K (fm_Meta fm) KairosFleetMachineFinalizer
      then fm\<lparr>fm_Meta := kAddFinalizer K (fm_Meta fm) KairosFleetMachineFinalizer\<rparr> else fm)"

definition reconcile_body ::
  "'w Reconciler \<Rightarrow> KairosFleetMachine \<Rightarrow> Machine \<Rightarrow> Cluster \<Rightarrow> 'w \<Rightarrow> 'w step_result" where
  "reconcile_body r fm machine cluster w =
     (let K = r_Client r in
      case kSetControllerReference K machine (fm_Meta fm) of
        Inl err \<Rightarrow> (fm, Return no_requeue (Some err), w)
      | Inr om \<Rightarrow>
          let fm = fm\<lparr>fm_Meta := om\<rparr> in
          if kIsPaused K cluster (fm_Meta fm) then (fm, Return no_requeue None, w)
          else
            let fm = add_finalizer K fm in
            if \<not> is_zero_time (om_DeletionTimestamp (fm_Meta fm)) then
              (case reconcileDelete r fm cluster w of (fm, err, w) \<Rightarrow> (fm, Return no_requeue err, w))
            else reconcileNormal r fm machine cluster w)"

text \<open>The deferred function: the patch runs however the pass ended, and its error is returned
  when there is no other.\<close>

definition deferred_patch :: "goerror option \<Rightarrow> outcome \<Rightarrow> outcome" where
  "deferred_patch patchErr out = (case out of
     Return res None \<Rightarrow> Return res patchErr
   | Return res (Some e) \<Rightarrow> Return res (Some e)
   | Panic s \<Rightarrow> Panic s)"

definition Reconcile :: "'w Reconciler \<Rightarrow> NamespacedName \<Rightarrow> 'w \<Rightarrow> outcome \<times> 'w" where
  "Reconcile r name w =
     (let K = r_Client r in
      case kGetMachine K name w of
        Inl err \<Rightarrow> (Return no_requeue (kIgnoreNotFound K err), w)
      | Inr fm \<Rightarrow>
          (case kGetOwnerMachine K (fm_Meta fm) w of
             Inl err \<Rightarrow> (Return no_requeue (Some err), w)
           | Inr None \<Rightarrow> (Return no_requeue None, w)
           | Inr (Some machine) \<Rightarrow>
               (case kGetClusterFromMetadata K (m_Meta machine) w of
                  Inl err \<Rightarrow> (Return no_requeue None, w)
                | Inr cluster \<Rightarrow>
                    (case kNewMachineHelper K fm w of
                       Some err \<Rightarrow> (Return no_requeue (Some err), w)
                     | None \<Rightarrow>
                         (case reconcile_body r fm machine cluster w of
                            (fm', out, w) \<Rightarrow>
                              (case kPatchMachine K fm fm' w of
                                 (patchErr, w) \<Rightarrow> (deferred_patch patchErr out, w)))))))"

end
