(* ===== verification/MachineSteps.thy ===== *)
theory MachineSteps
  imports MachineController
begin

text \<open>
  What one step of the machine reconciler can do, as case rules: each names the outcomes of
  a step with the AuroraBoot answer that leads there, so that the properties of a pass are
  case analyses and not unfoldings.
\<close>

lemma format_RFC3339_ne [simp]: "format_RFC3339 t \<noteq> ''''"
  by (simp add: format_RFC3339_def Let_def split: prod.splits)

lemma applied_value_ne [simp]: "cloudConfigAppliedValue \<noteq> ''''" "'''' \<noteq> cloudConfigAppliedValue"
  by (simp_all add: cloudConfigAppliedValue_def)

lemma record_id_read [simp]:
  "map_read (record_id k cmd m) k' = (if k' = k \<and> (\<exists>c. cmd = Some c \<and> cmd_ID c \<noteq> '''')
     then cmd_ID (the cmd) else map_read m k')"
  by (auto simp: record_id_def split: option.splits)

lemma record_id_dom [simp]:
  "dom (record_id k cmd m) = (if \<exists>c. cmd = Some c \<and> cmd_ID c \<noteq> '''' then insert k (dom m) else dom m)"
  by (auto simp: record_id_def split: option.splits)

lemma provision_views [simp]:
  "ann (provision K w node fm) k = ann fm k"
  "fms_ProviderID (fm_Spec (provision K w node fm)) = Some (providerIDPrefix @ node_ID node)"
  "provisioned (provision K w node fm) = Some True"
  "finalizers (provision K w node fm) = finalizers fm"
  "failureReason (provision K w node fm) = failureReason fm"
  "fmt_Addresses (fm_Status (provision K w node fm)) = addressesFromNode node"
  by (simp_all add: provision_def Let_def ann_def set_ready_def finalizers_def failureReason_def)

lemma fleetClientFor_Some:
  "fleetClientFor r cluster w = (Some fc, res, err) \<Longrightarrow> res = no_requeue \<and> err = None"
  by (auto simp: fleetClientFor_def split: sum.splits)

lemma retryWait_cases: "retryWait fm now = 0 \<or> 0 < retryWait fm now"
  by (auto simp: retryWait_def Let_def split: option.splits)

subsection \<open>The steps, case by case\<close>

lemma claimStep_cases:
  assumes "claimStep r fc key fm w = (fm', out, w')"
  obtains (group_missing) e where "fst (ResolveGroupID fc (fms_Group (fm_Spec fm)) w) = Inl e" "IsNotFound e"
      "fm' = notReady (r_Client r) w' ''GroupNotFound'' (''spec.group '' @ go_quote (fms_Group (fm_Spec fm))
         @ '' does not match any AuroraBoot group'') fm"
      "out = Return (requeue_after waitForCapacityRequeue) None"
  | (no_capacity) g w1 e where "ResolveGroupID fc (fms_Group (fm_Spec fm)) w = (Inr g, w1)"
      "Claim fc g key w1 = (Inl e, w')" "IsNoCapacity e"
      "fm' = notReady (r_Client r) w' ''WaitingForCapacity''
         (''Waiting for an available node in group '' @ go_quote (fms_Group (fm_Spec fm))) fm"
      "out = Return (requeue_after waitForCapacityRequeue) None"
  | (stopped) "fm' = fm" "(\<exists>e. out = Return no_requeue (Some e)) \<or> (\<exists>p. out = Panic p)"
  | (claimed) g w1 node where "ResolveGroupID fc (fms_Group (fm_Spec fm)) w = (Inr g, w1)"
      "Claim fc g key w1 = (Inr (Some node), w')"
      "fm' = notReady (r_Client r) w' ''NodeClaimed''
         ''Claimed an AuroraBoot node; applying bootstrap configuration''
         (add_annotations (r_Client r) [NodeIDAnnotation \<mapsto> node_ID node, claimKeyAnnotation \<mapsto> key] fm)"
      "out = Return no_requeue None"
proof (cases "ResolveGroupID fc (fms_Group (fm_Spec fm)) w")
  case (Pair g w1)
  show ?thesis
  proof (cases g)
    case (Inl e)
    then show ?thesis using assms Pair group_missing stopped
      by (auto simp: claimStep_def Let_def split: if_splits)
  next
    case (Inr gid)
    obtain c w2 where c: "Claim fc gid key w1 = (c, w2)" by (cases "Claim fc gid key w1")
    show ?thesis
    proof (cases c)
      case (Inl e)
      then show ?thesis using assms Pair Inr c no_capacity [of gid w1 e] stopped
        by (auto simp: claimStep_def Let_def split: if_splits)
    next
      case node: (Inr n)
      then show ?thesis using assms Pair Inr c stopped claimed [of gid w1]
        by (auto simp: claimStep_def Let_def split: option.splits)
    qed
  qed
qed

lemma applyStep_cases:
  assumes "applyStep r fc machine ds n fm w = (fm', out, w')"
  obtains (window) "0 < retryWait fm (kNow (r_Client r) w)" "fm' = fm" "w' = w"
      "out = Return (requeue_after (retryWait fm (kNow (r_Client r) w))) None"
  | (no_data) e where "retryWait fm (kNow (r_Client r) w) = 0" "bootstrapData (r_Client r) machine ds w = Inl e"
      "fm' = del_ann retryNotBeforeAnnotation fm" "w' = w" "out = Return no_requeue (Some e)"
  | (rejected) data e where "retryWait fm (kNow (r_Client r) w) = 0"
      "bootstrapData (r_Client r) machine ds w = Inr data" "ApplyCloudConfig fc n data w = (Inl e, w')"
      "fm' = del_ann retryNotBeforeAnnotation fm"
      "out = Return no_requeue (Some (WrapErr (''applying cloud-config to node '' @ n @ '': '') e))"
  | (applied) data cmd where "retryWait fm (kNow (r_Client r) w) = 0"
      "bootstrapData (r_Client r) machine ds w = Inr data" "ApplyCloudConfig fc n data w = (Inr cmd, w')"
      "fm' = notReady (r_Client r) w' ''ApplyingCloudConfig''
         ''Bootstrap cloud-config applied; waiting for the node to reboot and rejoin''
         (add_annotations (r_Client r) (record_id cloudConfigCommandIDAnnotation cmd
           [cloudConfigAppliedAnnotation \<mapsto> cloudConfigAppliedValue]) (del_ann retryNotBeforeAnnotation fm))"
      "out = Return (requeue_after waitForRejoinRequeue) None"
proof -
  note step = assms [symmetric, unfolded applyStep_def Let_def]
  show ?thesis
  proof (cases "0 < retryWait fm (kNow (r_Client r) w)")
    case True
    then show ?thesis using step by (intro window) simp_all
  next
    case False
    with retryWait_cases have 0: "retryWait fm (kNow (r_Client r) w) = 0" by blast
    show ?thesis
    proof (cases "bootstrapData (r_Client r) machine ds w")
      case (Inl e)
      with 0 show ?thesis using step by (intro no_data) simp_all
    next
      case data: (Inr data)
      obtain a w1 where a: "ApplyCloudConfig fc n data w = (a, w1)"
        by (cases "ApplyCloudConfig fc n data w")
      show ?thesis
      proof (cases a)
        case (Inl e)
        with 0 data a show ?thesis using step by (intro rejected) (simp_all del: append_Cons)
      next
        case (Inr cmd)
        with 0 data a show ?thesis using step by (intro applied) simp_all
      qed
    qed
  qed
qed

lemma rebootStep_cases:
  assumes "rebootStep r fc n fm w = (fm', out, w')"
    and "commandState fc n (ann fm cloudConfigCommandIDAnnotation) CommandApplyCloudConfig w
      = ((applied, failed, msg), w1)"
  obtains (failed) "failed"
      "fm' = openRetryWindow (r_Client r) (del_ann cloudConfigCommandIDAnnotation
         (del_ann cloudConfigAppliedAnnotation (set_failure None None
           (notReady (r_Client r) w1 ''CloudConfigFailed''
             (''apply-cloud-config failed on node '' @ n @ '': '' @ msg) fm))))
         (kNow (r_Client r) w1) retryCloudConfigRequeue"
      "out = Return (requeue_after retryCloudConfigRequeue) None" "w' = w1"
  | (pending) "\<not> failed" "\<not> applied"
      "fm' = notReady (r_Client r) w1 ''ApplyingCloudConfig''
         ''Waiting for the node to write the bootstrap cloud-config'' fm"
      "out = Return (requeue_after waitForRejoinRequeue) None" "w' = w1"
  | (window) "\<not> failed" "applied" "0 < retryWait fm (kNow (r_Client r) w1)" "fm' = fm" "w' = w1"
      "out = Return (requeue_after (retryWait fm (kNow (r_Client r) w1))) None"
  | (rejected) e where "\<not> failed" "applied" "retryWait fm (kNow (r_Client r) w1) = 0"
      "Reboot fc n w1 = (Inl e, w')" "fm' = del_ann retryNotBeforeAnnotation fm"
      "out = Return no_requeue (Some (WrapErr (''rebooting node '' @ n @ '': '') e))"
  | (rebooted) cmd where "\<not> failed" "applied" "retryWait fm (kNow (r_Client r) w1) = 0"
      "Reboot fc n w1 = (Inr cmd, w')"
      "fm' = notReady (r_Client r) w' ''Rebooting''
         ''Rebooting the node to apply its bootstrap configuration''
         (add_annotations (r_Client r) (record_id rebootCommandIDAnnotation cmd
            [rebootRequestedAtAnnotation \<mapsto> format_RFC3339 (kNow (r_Client r) w')])
            (del_ann retryNotBeforeAnnotation fm))"
      "out = Return (requeue_after waitForRejoinRequeue) None"
proof -
  note step = assms(1) [symmetric, unfolded rebootStep_def Let_def assms(2) prod.case]
  consider "failed" | "\<not> failed" "\<not> applied"
    | "\<not> failed" "applied" "0 < retryWait fm (kNow (r_Client r) w1)"
    | "\<not> failed" "applied" "retryWait fm (kNow (r_Client r) w1) = 0"
    using retryWait_cases by blast
  then show ?thesis
  proof cases
    case 1
    then show ?thesis using step by (intro failed) (simp_all del: append_Cons)
  next
    case 2
    then show ?thesis using step by (intro pending) simp_all
  next
    case 3
    then show ?thesis using step by (intro window) simp_all
  next
    case 4
    obtain a w2 where a: "Reboot fc n w1 = (a, w2)" by (cases "Reboot fc n w1")
    show ?thesis
    proof (cases a)
      case (Inl e)
      with 4 a show ?thesis using step by (intro rejected) (simp_all del: append_Cons)
    next
      case (Inr cmd)
      with 4 a show ?thesis using step by (intro rebooted) simp_all
    qed
  qed
qed

lemma rejoinStep_cases:
  assumes "rejoinStep r fc n fm w = (fm', out, w')"
  obtains (missing) e where "GetNode fc n w = (Inl e, w')" "IsNotFound e"
      "fm' = fail (r_Client r) w' ''NodeMissing''
         (''Claimed AuroraBoot node '' @ n @ '' no longer exists'') fm"
      "out = Return no_requeue None"
  | (stopped) "fm' = fm" "w' = snd (GetNode fc n w)"
      "(\<exists>e. out = Return no_requeue (Some e)) \<or> (\<exists>p. out = Panic p \<and> fst (GetNode fc n w) = Inr None)"
  | (reboot_failed) node w1 msg where "GetNode fc n w = (Inr (Some node), w1)"
      "\<not> rejoinedAfterReboot fm node" "rebootFailed fc fm node n w1 = ((True, msg), w')"
      "fm' = openRetryWindow (r_Client r) (del_ann rebootCommandIDAnnotation
         (del_ann rebootRequestedAtAnnotation (notReady (r_Client r) w' ''RebootFailed''
           (''reboot failed on node '' @ n @ '': '' @ msg) fm)))
         (kNow (r_Client r) w') retryRebootRequeue"
      "out = Return (requeue_after retryRebootRequeue) None"
  | (waiting) node w1 msg where "GetNode fc n w = (Inr (Some node), w1)"
      "\<not> rejoinedAfterReboot fm node" "rebootFailed fc fm node n w1 = ((False, msg), w')"
      "fm' = notReady (r_Client r) w' ''WaitingForNodeRejoin''
         ''Waiting for the node to reboot and report Online'' fm"
      "out = Return (requeue_after waitForRejoinRequeue) None"
  | (rejoined) node where "GetNode fc n w = (Inr (Some node), w')" "rejoinedAfterReboot fm node"
      "fm' = provision (r_Client r) w' node fm" "out = Return no_requeue None"
proof -
  obtain a w1 where a: "GetNode fc n w = (a, w1)" by (cases "GetNode fc n w")
  show ?thesis
  proof (cases a)
    case (Inl e)
    note step = assms [symmetric, unfolded rejoinStep_def Let_def a Inl prod.case sum.case]
    show ?thesis
    proof (cases "IsNotFound e")
      case True
      then show ?thesis using step a Inl by (intro missing) (simp_all del: append_Cons)
    next
      case False
      then show ?thesis using step a Inl by (intro stopped) (simp_all del: append_Cons)
    qed
  next
    case (Inr nd)
    note step = assms [symmetric, unfolded rejoinStep_def Let_def a Inr prod.case sum.case]
    show ?thesis
    proof (cases nd)
      case None
      then show ?thesis using step a Inr by (intro stopped) simp_all
    next
      case (Some node)
      obtain f msg w2 where f: "rebootFailed fc fm node n w1 = ((f, msg), w2)"
        by (cases "rebootFailed fc fm node n w1") auto
      consider "rejoinedAfterReboot fm node" | "\<not> rejoinedAfterReboot fm node" "f"
        | "\<not> rejoinedAfterReboot fm node" "\<not> f" by blast
      then show ?thesis
      proof cases
        case 1
        then show ?thesis using step a Inr Some by (intro rejoined) simp_all
      next
        case 2
        then show ?thesis using step a Inr Some f by (intro reboot_failed) (simp_all del: append_Cons)
      next
        case 3
        then show ?thesis using step a Inr Some f by (intro waiting) simp_all
      qed
    qed
  qed
qed

subsection \<open>A pass\<close>

text \<open>The annotations, spec and status, and the UID, are as they were: the owner reference, the
  finalizers and the other metadata may differ.\<close>

definition same_state :: "KairosFleetMachine \<Rightarrow> KairosFleetMachine \<Rightarrow> bool" where
  "same_state fm fm' \<longleftrightarrow> fm_Annotations fm' = fm_Annotations fm \<and> fm_Spec fm' = fm_Spec fm
     \<and> fm_Status fm' = fm_Status fm \<and> om_UID (fm_Meta fm') = om_UID (fm_Meta fm)"

lemma same_state_ann: "same_state fm fm' \<Longrightarrow> ann fm' k = ann fm k"
  by (simp add: same_state_def ann_def)

lemma same_state_views:
  assumes "same_state fm fm'"
  shows "fm_Spec fm' = fm_Spec fm" "fm_Status fm' = fm_Status fm" "provisioned fm' = provisioned fm"
    "failureReason fm' = failureReason fm" "om_UID (fm_Meta fm') = om_UID (fm_Meta fm)"
  using assms by (simp_all add: same_state_def failureReason_def)

lemma same_state_refl [simp]: "same_state fm fm" by (simp add: same_state_def)

lemma retryWait_same_state: "same_state fm fm' \<Longrightarrow> retryWait fm' = retryWait fm"
  by (auto simp: retryWait_def same_state_ann Let_def)

lemma claimKeyFor_same_state: "same_state fm fm' \<Longrightarrow> claimKeyFor fm' = claimKeyFor fm"
  by (simp add: claimKeyFor_def same_state_ann same_state_views Let_def)

lemma rejoinedAfterReboot_same_state:
  "same_state fm fm' \<Longrightarrow> rejoinedAfterReboot fm' = rejoinedAfterReboot fm"
  unfolding rejoinedAfterReboot_def [abs_def] by (simp only: same_state_ann)

lemma rebootFailed_same_state: "same_state fm fm' \<Longrightarrow> rebootFailed fc fm' = rebootFailed fc fm"
  unfolding rebootFailed_def [abs_def] by (simp only: same_state_ann)

lemmas same_state_reads = same_state_ann same_state_views retryWait_same_state
  claimKeyFor_same_state rejoinedAfterReboot_same_state rebootFailed_same_state

text \<open>The owner reference can be set, the cluster is not paused, the machine is not being
  deleted: the pass gets to \<open>reconcileNormal\<close>.\<close>

definition active :: "'w Reconciler \<Rightarrow> KairosFleetMachine \<Rightarrow> Machine \<Rightarrow> Cluster \<Rightarrow> bool" where
  "active r fm machine cluster = (case kSetControllerReference (r_Client r) machine (fm_Meta fm) of
     Inl _ \<Rightarrow> False
   | Inr om \<Rightarrow> \<not> kIsPaused (r_Client r) cluster om \<and> is_zero_time (om_DeletionTimestamp (fm_Meta fm)))"

text \<open>The client a pass would use, when the connection resolves.\<close>

definition connected :: "'w Reconciler \<Rightarrow> Cluster \<Rightarrow> 'w \<Rightarrow> 'w Client option" where
  "connected r cluster w = fst (fleetClientFor r cluster w)"

context kube_lib
begin

lemma prepared:
  assumes "kSetControllerReference K machine (fm_Meta fm) = Inr om"
  shows "same_state fm (fm\<lparr>fm_Meta := om\<rparr>)" "same_state fm (add_finalizer K (fm\<lparr>fm_Meta := om\<rparr>))"
    "finalizers (add_finalizer K (fm\<lparr>fm_Meta := om\<rparr>)) = insert KairosFleetMachineFinalizer (finalizers fm)"
    "finalizers (fm\<lparr>fm_Meta := om\<rparr>) = finalizers fm"
    "om_DeletionTimestamp (fm_Meta (add_finalizer K (fm\<lparr>fm_Meta := om\<rparr>)))
      = om_DeletionTimestamp (fm_Meta fm)"
  using set_controller_reference_fields [OF assms]
  by (auto simp: same_state_def add_finalizer_def finalizers_def add_finalizer contains_finalizer)

lemma reconcile_body_cases:
  assumes "reconcile_body r fm machine cluster w = (fm', out, w')" and "r_Client r = K"
  obtains (stopped) "\<not> active r fm machine cluster" "same_state fm fm'" "finalizers fm' = finalizers fm" "w' = w"
      "out = Return no_requeue None \<or> (\<exists>e. out = Return no_requeue (Some e))"
  | (deleting) fm0 err where "\<not> is_zero_time (om_DeletionTimestamp (fm_Meta fm))" "same_state fm fm0"
      "finalizers fm0 = insert KairosFleetMachineFinalizer (finalizers fm)"
      "reconcileDelete r fm0 cluster w = (fm', err, w')" "out = Return no_requeue err"
  | (normal) fm0 where "active r fm machine cluster" "same_state fm fm0"
      "finalizers fm0 = insert KairosFleetMachineFinalizer (finalizers fm)"
      "reconcileNormal r fm0 machine cluster w = (fm', out, w')"
proof (cases "kSetControllerReference K machine (fm_Meta fm)")
  case (Inl e)
  then show ?thesis using assms by (intro stopped) (auto simp: reconcile_body_def Let_def active_def)
next
  case (Inr om)
  note prep = prepared [OF Inr]
  let ?fm0 = "add_finalizer K (fm\<lparr>fm_Meta := om\<rparr>)"
  have step: "(fm', out, w') = (if kIsPaused K cluster om then (fm\<lparr>fm_Meta := om\<rparr>, Return no_requeue None, w)
      else if \<not> is_zero_time (om_DeletionTimestamp (fm_Meta ?fm0)) then
        (case reconcileDelete r ?fm0 cluster w of (fm, err, w) \<Rightarrow> (fm, Return no_requeue err, w))
      else reconcileNormal r ?fm0 machine cluster w)"
    unfolding assms(1) [symmetric] reconcile_body_def Let_def assms(2) Inr sum.case by simp
  show ?thesis
  proof (cases "kIsPaused K cluster om")
    case True
    then show ?thesis using step prep assms(2) Inr by (intro stopped) (simp_all add: active_def)
  next
    case unpaused: False
    show ?thesis
    proof (cases "is_zero_time (om_DeletionTimestamp (fm_Meta fm))")
      case True
      then show ?thesis using step prep unpaused assms(2) Inr
        by (intro normal [of ?fm0]) (simp_all add: active_def)
    next
      case False
      obtain fm1 err w1 where d: "reconcileDelete r ?fm0 cluster w = (fm1, err, w1)"
        by (cases "reconcileDelete r ?fm0 cluster w")
      with False show ?thesis using step prep unpaused by (intro deleting [of ?fm0 err]) simp_all
    qed
  qed
qed

end

lemma reconcileNormal_cases:
  assumes "reconcileNormal r fm machine cluster w = (fm', out, w')"
  obtains (no_data) "m_DataSecretName machine = None"
      "fm' = notReady (r_Client r) w ''WaitingForBootstrapData''
         ''Waiting for the bootstrap data secret to be available'' fm"
      "out = Return no_requeue None" "w' = w"
  | (no_client) res err where "fleetClientFor r cluster w = (None, res, err)"
      "fm' = notReady (r_Client r) w ''WaitingForClusterInfrastructure''
         ''Waiting for a valid AuroraBoot connection on the KairosFleetCluster'' fm"
      "out = Return res err" "w' = w"
  | (step) ds fc where "m_DataSecretName machine = Some ds" "fleetClientFor r cluster w = (Some fc, no_requeue, None)"
      "lifecycleStep r fc machine ds fm w = (fm', out, w')"
proof (cases "m_DataSecretName machine")
  case None
  then show ?thesis using assms [symmetric] by (intro no_data) (simp_all add: reconcileNormal_def)
next
  case (Some ds)
  obtain c res err where c: "fleetClientFor r cluster w = (c, res, err)"
    by (cases "fleetClientFor r cluster w")
  show ?thesis
  proof (cases c)
    case None
    then show ?thesis using assms [symmetric] Some c
      by (intro no_client [of res err]) (simp_all add: reconcileNormal_def)
  next
    case fc: (Some fc)
    then show ?thesis using assms [symmetric] Some c fleetClientFor_Some [of r cluster w fc res err]
      by (intro step [of ds fc]) (simp_all add: reconcileNormal_def)
  qed
qed

text \<open>The step a pass takes is chosen by the annotations.\<close>

lemma lifecycleStep_cases:
  assumes "lifecycleStep r fc machine ds fm w = res"
  obtains (at_claim) "ann fm NodeIDAnnotation = ''''" "claimStep r fc (claimKeyFor fm) fm w = res"
  | (at_apply) "ann fm NodeIDAnnotation \<noteq> ''''" "ann fm cloudConfigAppliedAnnotation \<noteq> cloudConfigAppliedValue"
      "applyStep r fc machine ds (ann fm NodeIDAnnotation) fm w = res"
  | (at_reboot) "ann fm NodeIDAnnotation \<noteq> ''''" "ann fm cloudConfigAppliedAnnotation = cloudConfigAppliedValue"
      "ann fm rebootRequestedAtAnnotation = ''''" "rebootStep r fc (ann fm NodeIDAnnotation) fm w = res"
  | (at_rejoin) "ann fm NodeIDAnnotation \<noteq> ''''" "ann fm cloudConfigAppliedAnnotation = cloudConfigAppliedValue"
      "ann fm rebootRequestedAtAnnotation \<noteq> ''''" "rejoinStep r fc (ann fm NodeIDAnnotation) fm w = res"
  using assms by (auto simp: lifecycleStep_def Let_def split: if_splits)

lemma select_command_sound:
  assumes "select_command i name cmds latest = Some cmd"
    and "\<And>l. latest = Some l \<Longrightarrow> P l" "\<And>c. c \<in> set cmds \<Longrightarrow> (if i \<noteq> '''' then cmd_ID c = i else cmd_Command c = name) \<Longrightarrow> P c"
  shows "P cmd"
  using assms
  by (induction i name cmds latest rule: select_command.induct) (auto split: if_splits option.splits)

lemma select_command_None:
  "select_command i name cmds None = Some cmd \<Longrightarrow>
     cmd \<in> set cmds \<and> (if i \<noteq> '''' then cmd_ID cmd = i else cmd_Command cmd = name)"
  by (erule select_command_sound) auto

end
