(* ===== verification/MachineLifecycle.thy ===== *)
theory MachineLifecycle
  imports MachineSteps
begin

text \<open>
  The abstract life of a machine, and the proof that the annotations implement it: whatever
  AuroraBoot and the API server answer, a pass leaves the machine where it was or moves it
  along one arrow of the abstract machine.
\<close>

subsection \<open>The abstract machine\<close>

text \<open>A machine has no node, holds one, has its cloud-config queued under a command, or has
  been rebooted at some instant.\<close>

datatype lifecycle =
    Unclaimed
  | Claimed string
  | Configured string string
  | Rebooting string string string string

inductive advance :: "lifecycle \<Rightarrow> lifecycle \<Rightarrow> bool" where
  stay: "advance s s"
| claim: "n \<noteq> '''' \<Longrightarrow> advance Unclaimed (Claimed n)"
| configure: "advance (Claimed n) (Configured n cmd)"
| configure_failed: "advance (Configured n cmd) (Claimed n)"
| reboot: "t \<noteq> '''' \<Longrightarrow> advance (Configured n cmd) (Rebooting n cmd t rcmd)"
| reboot_failed: "advance (Rebooting n cmd t rcmd) (Configured n cmd)"

inductive_cases advance_ClaimedE: "advance (Claimed n) s"
inductive_cases advance_ConfiguredE: "advance (Configured n cmd) s"
inductive_cases advance_RebootingE: "advance (Rebooting n cmd t rcmd) s"
inductive_simps advance_to_Rebooting: "advance s (Rebooting n cmd t rcmd)"

text \<open>The node a stage holds: it never changes once there is one.\<close>

fun stage_node :: "lifecycle \<Rightarrow> string option" where
  "stage_node Unclaimed = None"
| "stage_node (Claimed n) = Some n"
| "stage_node (Configured n cmd) = Some n"
| "stage_node (Rebooting n cmd t rcmd) = Some n"

lemma advance_keeps_node: "advance s s' \<Longrightarrow> stage_node s = Some n \<Longrightarrow> stage_node s' = Some n"
  by (induction rule: advance.induct) simp_all

lemma advances_keep_node: "advance\<^sup>*\<^sup>* s s' \<Longrightarrow> stage_node s = Some n \<Longrightarrow> stage_node s' = Some n"
  by (induction rule: rtranclp_induct) (auto intro: advance_keeps_node)

subsection \<open>Reading the stage off the annotations\<close>

definition lifecycle_of :: "KairosFleetMachine \<Rightarrow> lifecycle" where
  "lifecycle_of fm =
     (let n = ann fm NodeIDAnnotation; cmd = ann fm cloudConfigCommandIDAnnotation;
          t = ann fm rebootRequestedAtAnnotation
      in if n = '''' then Unclaimed
         else if ann fm cloudConfigAppliedAnnotation \<noteq> cloudConfigAppliedValue then Claimed n
         else if t = '''' then Configured n cmd
         else Rebooting n cmd t (ann fm rebootCommandIDAnnotation))"

text \<open>A later marker is never there without the earlier ones, and a machine is provisioned only
  after the reboot, with a provider ID.\<close>

definition well_marked :: "KairosFleetMachine \<Rightarrow> bool" where
  "well_marked fm \<longleftrightarrow>
     (ann fm cloudConfigAppliedAnnotation = cloudConfigAppliedValue \<longrightarrow> ann fm NodeIDAnnotation \<noteq> '''')
   \<and> (ann fm cloudConfigCommandIDAnnotation \<noteq> '''' \<longrightarrow>
        ann fm cloudConfigAppliedAnnotation = cloudConfigAppliedValue)
   \<and> (ann fm rebootRequestedAtAnnotation \<noteq> '''' \<longrightarrow>
        ann fm cloudConfigAppliedAnnotation = cloudConfigAppliedValue)
   \<and> (ann fm rebootCommandIDAnnotation \<noteq> '''' \<longrightarrow> ann fm rebootRequestedAtAnnotation \<noteq> '''')
   \<and> (provisioned fm = Some True \<longrightarrow> ann fm rebootRequestedAtAnnotation \<noteq> ''''
        \<and> (\<exists>id. fms_ProviderID (fm_Spec fm) = Some (providerIDPrefix @ id)))"

lemma same_state_marks: "same_state fm fm' \<Longrightarrow> well_marked fm' = well_marked fm"
    "same_state fm fm' \<Longrightarrow> lifecycle_of fm' = lifecycle_of fm"
  by (simp_all add: well_marked_def lifecycle_of_def Let_def same_state_reads)

lemma notReady_marks:
  "well_marked fm \<Longrightarrow> well_marked (notReady K w reason msg fm)"
  "lifecycle_of (notReady K w reason msg fm) = lifecycle_of fm"
  by (simp_all add: well_marked_def lifecycle_of_def Let_def)

context kube_lib
begin

lemma provision_ready [simp]:
  "ready_status (provision K w node fm) = Some ConditionTrue"
  "ready_reason (provision K w node fm) = Some ''Provisioned''"
  by (simp_all add: provision_def Let_def)

text \<open>Each step implements an arrow.\<close>

lemma claimStep_advances:
  assumes "claimStep r fc key fm w = (fm', out, w')" "r_Client r = K"
    and "well_marked fm" "ann fm NodeIDAnnotation = ''''"
  shows "advance (lifecycle_of fm) (lifecycle_of fm') \<and> well_marked fm'"
  using assms(1) assms(2-)
proof (cases rule: claimStep_cases)
  case (claimed g w1 node)
  then show ?thesis using assms
    by (cases "node_ID node = ''''")
      (auto simp: lifecycle_of_def well_marked_def Let_def intro: advance.intros)
qed (auto simp: lifecycle_of_def well_marked_def intro: advance.stay)

lemma applyStep_advances:
  assumes "applyStep r fc machine ds n fm w = (fm', out, w')" "r_Client r = K"
    and "well_marked fm" "ann fm NodeIDAnnotation \<noteq> ''''"
    and "ann fm cloudConfigAppliedAnnotation \<noteq> cloudConfigAppliedValue"
  shows "advance (lifecycle_of fm) (lifecycle_of fm') \<and> well_marked fm'"
  using assms(1) assms(2-)
proof (cases rule: applyStep_cases)
  case (applied data cmd)
  then show ?thesis using assms
    by (auto simp: lifecycle_of_def well_marked_def Let_def intro: advance.intros)
qed (auto simp: lifecycle_of_def well_marked_def intro: advance.stay)

lemma rebootStep_advances:
  assumes "rebootStep r fc n fm w = (fm', out, w')" "r_Client r = K"
    and "well_marked fm" "ann fm NodeIDAnnotation \<noteq> ''''"
    and "ann fm cloudConfigAppliedAnnotation = cloudConfigAppliedValue"
    and "ann fm rebootRequestedAtAnnotation = ''''"
  shows "advance (lifecycle_of fm) (lifecycle_of fm') \<and> well_marked fm'"
proof -
  obtain applied failed msg w1 where
    "commandState fc n (ann fm cloudConfigCommandIDAnnotation) CommandApplyCloudConfig w
      = ((applied, failed, msg), w1)" using prod_cases3 prod.exhaust by metis
  from assms(1) this show ?thesis
  proof (cases rule: rebootStep_cases)
    case failed
    then show ?thesis using assms
      by (auto simp: lifecycle_of_def well_marked_def Let_def intro: advance.intros)
  next
    case (rebooted cmd)
    then show ?thesis using assms
      by (auto simp: lifecycle_of_def well_marked_def Let_def intro: advance.intros)
  qed (use assms in \<open>auto simp: lifecycle_of_def well_marked_def intro: advance.stay\<close>)
qed

lemma rejoinStep_advances:
  assumes "rejoinStep r fc n fm w = (fm', out, w')" "r_Client r = K"
    and "well_marked fm" "ann fm NodeIDAnnotation \<noteq> ''''"
    and "ann fm cloudConfigAppliedAnnotation = cloudConfigAppliedValue"
    and "ann fm rebootRequestedAtAnnotation \<noteq> ''''"
  shows "advance (lifecycle_of fm) (lifecycle_of fm') \<and> well_marked fm'"
  using assms(1) assms(2-)
proof (cases rule: rejoinStep_cases)
  case (reboot_failed node w1 msg)
  then show ?thesis using assms
    by (auto simp: lifecycle_of_def well_marked_def Let_def intro: advance.intros)
next
  case (rejoined node)
  then show ?thesis using assms
    by (auto simp: lifecycle_of_def well_marked_def Let_def intro: advance.stay)
qed (auto simp: lifecycle_of_def well_marked_def intro: advance.stay)

lemma remove_finalizer_state: "same_state fm (remove_finalizer K fm)"
  by (simp add: same_state_def remove_finalizer_def)

lemma reconcileDelete_state:
  "reconcileDelete r fm cluster w = (fm', err, w') \<Longrightarrow> r_Client r = K \<Longrightarrow> same_state fm fm'"
  using remove_finalizer_state [of fm]
  by (auto simp: reconcileDelete_def Let_def split: if_splits sum.splits prod.splits)

lemma lifecycleStep_advances:
  assumes "lifecycleStep r fc machine ds fm w = (fm', out, w')" "r_Client r = K" "well_marked fm"
  shows "advance (lifecycle_of fm) (lifecycle_of fm') \<and> well_marked fm'"
  using assms(1)
proof (cases rule: lifecycleStep_cases)
  case at_claim
  then show ?thesis using claimStep_advances assms by blast
next
  case at_apply
  then show ?thesis using applyStep_advances assms by blast
next
  case at_reboot
  then show ?thesis using rebootStep_advances assms by blast
next
  case at_rejoin
  then show ?thesis using rejoinStep_advances assms by blast
qed

lemma reconcile_body_advances:
  assumes "reconcile_body r fm machine cluster w = (fm', out, w')" "r_Client r = K" "well_marked fm"
  shows "advance (lifecycle_of fm) (lifecycle_of fm') \<and> well_marked fm'"
  using assms(1,2)
proof (cases rule: reconcile_body_cases)
  case stopped
  then show ?thesis using assms(3) by (simp add: same_state_marks advance.stay)
next
  case (deleting fm0 err)
  then show ?thesis
    using assms(2,3) reconcileDelete_state [of r fm0 cluster w fm' err w']
    by (simp add: same_state_marks advance.stay)
next
  case (normal fm0)
  then have 0: "well_marked fm0" "lifecycle_of fm0 = lifecycle_of fm"
    using assms(3) by (simp_all add: same_state_marks)
  from \<open>reconcileNormal _ _ _ _ _ = _\<close> show ?thesis
  proof (cases rule: reconcileNormal_cases)
    case (step ds fc)
    then show ?thesis using lifecycleStep_advances 0 assms(2) by metis
  qed (use 0 in \<open>simp_all add: notReady_marks advance.stay\<close>)
qed

end

subsection \<open>Passes over the life of a machine\<close>

text \<open>A machine as its owner creates it: none of the controller's annotations, no status.\<close>

definition created :: "KairosFleetMachine \<Rightarrow> bool" where
  "created fm \<longleftrightarrow> (\<forall>k \<in> set [NodeIDAnnotation, cloudConfigAppliedAnnotation, cloudConfigCommandIDAnnotation,
       rebootRequestedAtAnnotation, rebootCommandIDAnnotation, retryNotBeforeAnnotation, claimKeyAnnotation].
       ann fm k = '''') \<and> provisioned fm \<noteq> Some True \<and> failureReason fm = None"

text \<open>What any number of passes can make of it, under any world, owner and cluster in each pass;
  between passes others may change everything but the annotations, the status and the spec's
  provider ID (a restore gives the object a new UID, a user edits the group, a delete sets the
  timestamp).\<close>

inductive reachable :: "'w Reconciler \<Rightarrow> KairosFleetMachine \<Rightarrow> KairosFleetMachine \<Rightarrow> bool"
  for r :: "'w Reconciler" and fm0 :: KairosFleetMachine where
  start: "reachable r fm0 fm0"
| pass: "reachable r fm0 fm \<Longrightarrow> reconcile_body r fm machine cluster w = (fm', out, w')
    \<Longrightarrow> reachable r fm0 fm'"
| others: "reachable r fm0 fm \<Longrightarrow> fm_Annotations fm' = fm_Annotations fm \<Longrightarrow> fm_Status fm' = fm_Status fm
    \<Longrightarrow> fms_ProviderID (fm_Spec fm') = fms_ProviderID (fm_Spec fm) \<Longrightarrow> reachable r fm0 fm'"

lemma created_well_marked: "created fm \<Longrightarrow> well_marked fm"
  by (simp add: created_def well_marked_def)

lemma created_Unclaimed: "created fm \<Longrightarrow> lifecycle_of fm = Unclaimed"
  by (simp add: created_def lifecycle_of_def)

lemma others_marks:
  assumes "fm_Annotations fm' = fm_Annotations fm" "fm_Status fm' = fm_Status fm"
    and "fms_ProviderID (fm_Spec fm') = fms_ProviderID (fm_Spec fm)"
  shows "well_marked fm' = well_marked fm" "lifecycle_of fm' = lifecycle_of fm"
  using assms by (simp_all add: well_marked_def lifecycle_of_def ann_def Let_def)

lemma reachable_advances:
  assumes "reachable r fm0 fm" "kube_lib (r_Client r)" "well_marked fm0"
  shows "advance\<^sup>*\<^sup>* (lifecycle_of fm0) (lifecycle_of fm) \<and> well_marked fm"
  using assms
proof (induction rule: reachable.induct)
  case start
  then show ?case by simp
next
  case (pass fm machine cluster w fm' out w')
  then show ?case
    using kube_lib.reconcile_body_advances [OF pass.prems(1) pass.hyps(2) refl]
    by (metis rtranclp.rtrancl_into_rtrancl)
next
  case (others fm fm')
  then show ?case using others_marks [OF others.hyps(2-4)] by simp
qed

end
