(* ===== verification/Fake.thy ===== *)
theory Fake
  imports Fleet
begin

text \<open>
  \<open>internal/fleet/fake.go\<close>: the in-memory client. Its \<open>*Func\<close> fields are the record
  \<open>FakeClient\<close>; the slices it records its calls in are the record \<open>FakeCalls\<close>, part of the
  world the client runs on. Since the functions are arbitrary, a statement about every
  \<open>FakeClient\<close> is a statement about every AuroraBoot, with the calls that change something
  there on record.
\<close>

record 'w FakeClient =
  ClaimFunc :: "(string \<Rightarrow> string \<Rightarrow> 'w \<Rightarrow> Node option res \<times> 'w) option"
  GetNodeFunc :: "(string \<Rightarrow> 'w \<Rightarrow> Node option res \<times> 'w) option"
  ApplyCloudConfigFunc :: "(string \<Rightarrow> string \<Rightarrow> 'w \<Rightarrow> Command option res \<times> 'w) option"
  RebootFunc :: "(string \<Rightarrow> 'w \<Rightarrow> Command option res \<times> 'w) option"
  GetCommandsFunc :: "(string \<Rightarrow> 'w \<Rightarrow> Command list res \<times> 'w) option"
  ReleaseFunc :: "(string \<Rightarrow> string \<Rightarrow> 'w \<Rightarrow> bool res \<times> 'w) option"
  ResolveGroupIDFunc :: "(string \<Rightarrow> 'w \<Rightarrow> string res \<times> 'w) option"

record ClaimCall =
  cc_GroupID :: string
  cc_ClaimKey :: string

record ApplyCall =
  ac_NodeID :: string
  ac_CloudConfig :: string

record ReleaseCall =
  rc_NodeID :: string
  rc_ClaimKey :: string

record FakeCalls =
  Claims :: "ClaimCall list"
  Applies :: "ApplyCall list"
  Reboots :: "string list"
  Releases :: "ReleaseCall list"

definition no_calls :: FakeCalls where
  "no_calls = \<lparr>Claims = [], Applies = [], Reboots = [], Releases = []\<rparr>"

type_synonym 'w fworld = "'w \<times> FakeCalls"

text \<open>Running a \<open>*Func\<close> field on the world behind the recorded calls.\<close>

definition run_func :: "('w \<Rightarrow> 'a \<times> 'w) \<Rightarrow> 'w fworld \<Rightarrow> 'a \<times> 'w fworld" where
  "run_func f wc = (let (r, w) = f (fst wc) in (r, (w, snd wc)))"

definition fake_Claim :: "'w FakeClient \<Rightarrow> string \<Rightarrow> string \<Rightarrow> 'w fworld \<Rightarrow> Node option res \<times> 'w fworld" where
  "fake_Claim f groupID claimKey wc =
     (let wc = (fst wc, (snd wc)\<lparr>Claims := Claims (snd wc) @ [\<lparr>cc_GroupID = groupID, cc_ClaimKey = claimKey\<rparr>]\<rparr>)
      in case ClaimFunc f of
           Some g \<Rightarrow> run_func (g groupID claimKey) wc
         | None \<Rightarrow> (Inr None, wc))"

definition fake_GetNode :: "'w FakeClient \<Rightarrow> string \<Rightarrow> 'w fworld \<Rightarrow> Node option res \<times> 'w fworld" where
  "fake_GetNode f nodeID wc =
     (case GetNodeFunc f of Some g \<Rightarrow> run_func (g nodeID) wc | None \<Rightarrow> (Inr None, wc))"

definition fake_ApplyCloudConfig ::
  "'w FakeClient \<Rightarrow> string \<Rightarrow> string \<Rightarrow> 'w fworld \<Rightarrow> Command option res \<times> 'w fworld" where
  "fake_ApplyCloudConfig f nodeID cloudConfig wc =
     (let wc = (fst wc, (snd wc)\<lparr>Applies := Applies (snd wc) @ [\<lparr>ac_NodeID = nodeID, ac_CloudConfig = cloudConfig\<rparr>]\<rparr>)
      in case ApplyCloudConfigFunc f of
           Some g \<Rightarrow> run_func (g nodeID cloudConfig) wc
         | None \<Rightarrow> (Inr (Some \<lparr>cmd_ID = ''fake-cmd'', cmd_Command = CommandApplyCloudConfig,
             cmd_Phase = CommandPhasePending, cmd_Result = '''', cmd_CreatedAt = None\<rparr>), wc))"

definition fake_Reboot :: "'w FakeClient \<Rightarrow> string \<Rightarrow> 'w fworld \<Rightarrow> Command option res \<times> 'w fworld" where
  "fake_Reboot f nodeID wc =
     (let wc = (fst wc, (snd wc)\<lparr>Reboots := Reboots (snd wc) @ [nodeID]\<rparr>)
      in case RebootFunc f of
           Some g \<Rightarrow> run_func (g nodeID) wc
         | None \<Rightarrow> (Inr (Some \<lparr>cmd_ID = ''fake-reboot'', cmd_Command = CommandReboot,
             cmd_Phase = CommandPhasePending, cmd_Result = '''', cmd_CreatedAt = None\<rparr>), wc))"

definition fake_GetCommands :: "'w FakeClient \<Rightarrow> string \<Rightarrow> 'w fworld \<Rightarrow> Command list res \<times> 'w fworld" where
  "fake_GetCommands f nodeID wc =
     (case GetCommandsFunc f of Some g \<Rightarrow> run_func (g nodeID) wc | None \<Rightarrow> (Inr [], wc))"

definition fake_Release :: "'w FakeClient \<Rightarrow> string \<Rightarrow> string \<Rightarrow> 'w fworld \<Rightarrow> bool res \<times> 'w fworld" where
  "fake_Release f nodeID claimKey wc =
     (let wc = (fst wc, (snd wc)\<lparr>Releases := Releases (snd wc) @ [\<lparr>rc_NodeID = nodeID, rc_ClaimKey = claimKey\<rparr>]\<rparr>)
      in case ReleaseFunc f of
           Some g \<Rightarrow> run_func (g nodeID claimKey) wc
         | None \<Rightarrow> (Inr True, wc))"

definition fake_ResolveGroupID :: "'w FakeClient \<Rightarrow> string \<Rightarrow> 'w fworld \<Rightarrow> string res \<times> 'w fworld" where
  "fake_ResolveGroupID f ref wc =
     (case ResolveGroupIDFunc f of Some g \<Rightarrow> run_func (g ref) wc | None \<Rightarrow> (Inr ref, wc))"

definition fake_client :: "'w FakeClient \<Rightarrow> 'w fworld Client" where
  "fake_client f = \<lparr>Claim = fake_Claim f, GetNode = fake_GetNode f,
     ApplyCloudConfig = fake_ApplyCloudConfig f, Reboot = fake_Reboot f,
     GetCommands = fake_GetCommands f, Release = fake_Release f, ResolveGroupID = fake_ResolveGroupID f\<rparr>"

text \<open>What each operation leaves on record.\<close>

lemma run_func_calls [frame_simps]: "snd (snd (run_func f wc)) = snd wc"
  by (simp add: run_func_def split: prod.splits)

lemma fake_client_calls [frame_simps]:
  "snd (snd (Claim (fake_client f) g k wc))
     = (snd wc)\<lparr>Claims := Claims (snd wc) @ [\<lparr>cc_GroupID = g, cc_ClaimKey = k\<rparr>]\<rparr>"
  "snd (snd (GetNode (fake_client f) n wc)) = snd wc"
  "snd (snd (ApplyCloudConfig (fake_client f) n d wc))
     = (snd wc)\<lparr>Applies := Applies (snd wc) @ [\<lparr>ac_NodeID = n, ac_CloudConfig = d\<rparr>]\<rparr>"
  "snd (snd (Reboot (fake_client f) n wc)) = (snd wc)\<lparr>Reboots := Reboots (snd wc) @ [n]\<rparr>"
  "snd (snd (GetCommands (fake_client f) n wc)) = snd wc"
  "snd (snd (Release (fake_client f) n k wc))
     = (snd wc)\<lparr>Releases := Releases (snd wc) @ [\<lparr>rc_NodeID = n, rc_ClaimKey = k\<rparr>]\<rparr>"
  "snd (snd (ResolveGroupID (fake_client f) g wc)) = snd wc"
  by (simp_all add: fake_client_def fake_Claim_def fake_GetNode_def fake_ApplyCloudConfig_def
      fake_Reboot_def fake_GetCommands_def fake_Release_def fake_ResolveGroupID_def Let_def
      run_func_calls split: option.splits)

end
