(* ===== verification/Scenario.thy ===== *)
theory Scenario
  imports Fake MachineSteps
begin

text \<open>
  A concrete environment, used where a property is shown to apply: the objects of the
  envtest suite (\<open>internal/controller/suite_test.go\<close> and the tests beside it) and a scripted
  AuroraBoot behind \<open>FakeClient\<close>. The world is the clock and the recorded calls.
\<close>

definition demo_meta :: "string \<Rightarrow> ObjectMeta" where
  "demo_meta name = \<lparr>om_Namespace = ''default'', om_Name = name, om_UID = ''uid-'' @ name,
     om_Generation = 1, om_Annotations = Map.empty, om_Labels = Map.empty, om_Finalizers = [],
     om_OwnerReferences = [], om_DeletionTimestamp = None\<rparr>"

definition demo_machine :: Machine where
  "demo_machine = \<lparr>m_Meta = demo_meta ''owner'', m_DataSecretName = Some ''bootstrap''\<rparr>"

definition demo_cluster :: Cluster where
  "demo_cluster = \<lparr>cl_Meta = demo_meta ''capi'', cl_InfrastructureRef_Name = ''kfc''\<rparr>"

definition demo_fc :: KairosFleetCluster where
  "demo_fc = \<lparr>fc_Meta = demo_meta ''kfc'',
     fc_Spec = \<lparr>fcs_ControlPlaneEndpoint = Some \<lparr>ep_Host = ''10.0.0.1'', ep_Port = 6443\<rparr>,
       fcs_AuroraBoot = \<lparr>ab_URL = ''http://auroraboot'', ab_AdminTokenSecretRef = \<lparr>sr_Name = ''token''\<rparr>\<rparr>\<rparr>,
     fc_Status = \<lparr>fct_Initialization = \<lparr>fci_Provisioned = None\<rparr>, fct_Conditions = [],
       fct_FailureReason = None, fct_FailureMessage = None\<rparr>\<rparr>"

text \<open>A machine with the given annotations; \<open>demo_fm Map.empty\<close> is one just created.\<close>

definition demo_fm :: "strmap \<Rightarrow> KairosFleetMachine" where
  "demo_fm m = \<lparr>fm_Meta = (demo_meta ''kfm'')\<lparr>om_Annotations := m\<rparr>,
     fm_Spec = \<lparr>fms_Group = ''workers'', fms_ProviderID = None\<rparr>,
     fm_Status = \<lparr>fmt_Initialization = \<lparr>fmi_Provisioned = None\<rparr>, fmt_Addresses = [],
       fmt_Conditions = [], fmt_FailureReason = None, fmt_FailureMessage = None\<rparr>\<rparr>"

definition demo_deleted :: "KairosFleetMachine \<Rightarrow> KairosFleetMachine" where
  "demo_deleted fm = fm\<lparr>fm_Meta := (fm_Meta fm)\<lparr>om_DeletionTimestamp := Some 0,
     om_Finalizers := [KairosFleetMachineFinalizer]\<rparr>\<rparr>"

text \<open>Every Secret holds both keys; reads never fail unless \<open>fails\<close> says which error.\<close>

definition demo_secret :: Secret where
  "demo_secret = \<lparr>s_Data = [''token'' \<mapsto> ''admin'', ''value'' \<mapsto> ''#cloud-config'']\<rparr>"

definition demo_base :: "KairosFleetMachine \<Rightarrow> KairosFleetCluster res \<Rightarrow> (time fworld) Kube" where
  "demo_base fm fc = \<lparr>
     kGetMachine = (\<lambda>_ _. Inr fm), kGetCluster = (\<lambda>_ _. fc), kGetSecret = (\<lambda>_ _. Inr demo_secret),
     kGetOwnerMachine = (\<lambda>_ _. Inr (Some demo_machine)),
     kGetOwnerCluster = (\<lambda>_ _. Inr (Some demo_cluster)),
     kGetClusterFromMetadata = (\<lambda>_ _. Inr demo_cluster),
     kNewMachineHelper = (\<lambda>_ _. None), kPatchMachine = (\<lambda>_ _ w. (None, w)),
     kNewClusterHelper = (\<lambda>_ _. None), kPatchCluster = (\<lambda>_ _ w. (None, w)),
     kSetControllerReference = ref_set_controller, kIsPaused = (\<lambda>_ _. False),
     kContainsFinalizer = (\<lambda>_ _. False), kAddFinalizer = (\<lambda>om _. om), kRemoveFinalizer = (\<lambda>om _. om),
     kAddAnnotations = (\<lambda>om _. om), kSetStatusCondition = (\<lambda>_ cs _. cs),
     kIsNotFound = ref_not_found, kIgnoreNotFound = Some, kNow = fst\<rparr>"

definition demo_kube :: "KairosFleetMachine \<Rightarrow> KairosFleetCluster res \<Rightarrow> (time fworld) Kube" where
  "demo_kube fm fc = ref_lib (demo_base fm fc)"

lemma kube_lib_demo: "kube_lib (demo_kube fm fc)"
  unfolding demo_kube_def by (rule ref.kube_lib_axioms)

text \<open>A node that is in the given phase and heartbeats at the given time; the commands of the
  given phases.\<close>

definition demo_node :: "string \<Rightarrow> time option \<Rightarrow> Node" where
  "demo_node ph hb = \<lparr>node_ID = ''node-1'', node_MachineID = ''m-1'', node_Hostname = ''worker-1'',
     node_GroupID = ''g-1'', node_Phase = ph, node_ClaimKey = None, node_LastHeartbeat = hb\<rparr>"

definition demo_command :: "string \<Rightarrow> string \<Rightarrow> string \<Rightarrow> Command" where
  "demo_command i name ph = \<lparr>cmd_ID = i, cmd_Command = name, cmd_Phase = ph, cmd_Result = ''boom'',
     cmd_CreatedAt = None\<rparr>"

definition demo_fake :: "Node \<Rightarrow> string \<Rightarrow> string \<Rightarrow> time FakeClient" where
  "demo_fake node applyPhase rebootPhase = \<lparr>
     ClaimFunc = Some (\<lambda>g k t. (Inr (Some node), t)),
     GetNodeFunc = Some (\<lambda>n t. (Inr (Some node), t)),
     ApplyCloudConfigFunc = Some (\<lambda>n d t.
       (Inr (Some (demo_command ''c-1'' CommandApplyCloudConfig CommandPhasePending)), t)),
     RebootFunc = Some (\<lambda>n t. (Inr (Some (demo_command ''r-1'' CommandReboot CommandPhasePending)), t)),
     GetCommandsFunc = Some (\<lambda>n t. (Inr [demo_command ''c-1'' CommandApplyCloudConfig applyPhase,
       demo_command ''r-1'' CommandReboot rebootPhase], t)),
     ReleaseFunc = None, ResolveGroupIDFunc = None\<rparr>"

definition no_net :: "'w net" where
  "no_net = \<lparr>NewRequest = (\<lambda>_ _. Some (PlainErr ''no network'')),
     HTTPClientWithTimeout = (\<lambda>_ _ w. (Inl (PlainErr ''no network''), w))\<rparr>"

definition demo_reconciler ::
  "KairosFleetMachine \<Rightarrow> KairosFleetCluster res \<Rightarrow> time FakeClient \<Rightarrow> (time fworld) Reconciler" where
  "demo_reconciler fm fc f = \<lparr>r_Client = demo_kube fm fc,
     r_FleetClientFactory = Some (\<lambda>_ _. fake_client f), r_net = no_net\<rparr>"

text \<open>2026-07-17 10:00:00 UTC.\<close>

definition demo_time :: time where "demo_time = 1784282400 * nanos"

definition demo_world :: "time fworld" where "demo_world = (demo_time, no_calls)"

lemma demo_reconciler_client [simp]: "r_Client (demo_reconciler fm fc f) = demo_kube fm fc"
  by (simp add: demo_reconciler_def)

text \<open>A pass over the demo objects at a given time.\<close>

definition demo_pass :: "(time fworld) Reconciler \<Rightarrow> time \<Rightarrow> KairosFleetMachine \<Rightarrow> KairosFleetMachine" where
  "demo_pass r t fm = fst (reconcile_body r fm demo_machine demo_cluster (t, no_calls))"

text \<open>An AuroraBoot where all goes well: the commands complete and the node heartbeats two and a
  half minutes after \<open>demo_time\<close>.\<close>

definition demo_good :: "(time fworld) Reconciler" where
  "demo_good = demo_reconciler (demo_fm Map.empty) (Inr demo_fc)
     (demo_fake (demo_node PhaseOnline (Some (demo_time + seconds 150)))
        CommandPhaseCompleted CommandPhasePending)"

lemma demo_good_client [simp]: "r_Client demo_good = demo_kube (demo_fm Map.empty) (Inr demo_fc)"
  by (simp add: demo_good_def)

text \<open>A machine whose node was rebooted two minutes after \<open>demo_time\<close>.\<close>

definition demo_rebooting :: KairosFleetMachine where
  "demo_rebooting = demo_fm [NodeIDAnnotation \<mapsto> ''node-1'', claimKeyAnnotation \<mapsto> ''uid-kfm'',
     cloudConfigAppliedAnnotation \<mapsto> cloudConfigAppliedValue,
     cloudConfigCommandIDAnnotation \<mapsto> ''c-1'',
     rebootRequestedAtAnnotation \<mapsto> ''2026-07-17T10:02:00Z'', rebootCommandIDAnnotation \<mapsto> ''r-1'']"

lemma demo_fake_ops [simp]:
  "ResolveGroupID (fake_client (demo_fake node a b)) g w = (Inr g, w)"
  "fst (Claim (fake_client (demo_fake node a b)) g k w) = Inr (Some node)"
  "fst (GetNode (fake_client (demo_fake node a b)) n w) = Inr (Some node)"
  "fst (ApplyCloudConfig (fake_client (demo_fake node a b)) n d w) = Inr (Some (demo_command ''c-1'' CommandApplyCloudConfig CommandPhasePending))"
  "Reboot (fake_client (demo_fake node a b)) n w = (Inr (Some (demo_command ''r-1'' CommandReboot CommandPhasePending)),
          (fst w, (snd w)\<lparr>Reboots := Reboots (snd w) @ [n]\<rparr>))"
  "GetCommands (fake_client (demo_fake node a b)) n w = (Inr [demo_command ''c-1'' CommandApplyCloudConfig a,
          demo_command ''r-1'' CommandReboot b], w)"
  by (simp_all add: fake_client_def demo_fake_def fake_ResolveGroupID_def fake_Claim_def fake_GetNode_def
      fake_ApplyCloudConfig_def fake_Reboot_def fake_GetCommands_def run_func_def Let_def)

lemma demo_lib [simp]:
  "kNow (demo_kube fm fc) w = fst w"
  "bootstrapData (demo_kube fm fc) demo_machine ds w = Inr ''#cloud-config''"
  by (simp_all add: demo_kube_def ref_lib_def demo_base_def bootstrapData_def demo_secret_def
      bootstrapDataSecretKey_def)

definition demo_client :: "(time fworld) Client" where
  "demo_client = fake_client (demo_fake (demo_node PhaseOnline (Some (demo_time + seconds 150)))
     CommandPhaseCompleted CommandPhasePending)"

lemma demo_connected: "connected demo_good demo_cluster w = Some demo_client"
  by (simp add: connected_def fleetClientFor_def demo_good_def demo_reconciler_def demo_kube_def ref_lib_def
      demo_base_def resolveFleetClient_def demo_fc_def demo_secret_def adminTokenSecretKey_def
      map_read_def Let_def fleetFactory_def demo_client_def)

lemma demo_connected_any: "connected (demo_reconciler fm (Inr demo_fc) f) demo_cluster w = Some (fake_client f)"
  by (simp add: connected_def fleetClientFor_def demo_reconciler_def demo_kube_def ref_lib_def
      demo_base_def resolveFleetClient_def demo_fc_def demo_secret_def adminTokenSecretKey_def
      map_read_def Let_def fleetFactory_def)

lemma demo_factory: "r_FleetClientFactory (demo_reconciler fm fc f) = Some (\<lambda>_ _. fake_client f)"
  by (simp add: demo_reconciler_def)

lemma demo_active_any:
  "m ''cluster.x-k8s.io/paused'' = None \<Longrightarrow> active (demo_reconciler fm fc f) (demo_fm m) demo_machine demo_cluster"
  by (simp add: active_def demo_reconciler_def demo_kube_def ref_lib_def ref_set_controller_def demo_fm_def
      demo_meta_def is_zero_time_def Let_def)

text \<open>The stages before the reboot, as annotations.\<close>

definition demo_claimed :: KairosFleetMachine where
  "demo_claimed = demo_fm [NodeIDAnnotation \<mapsto> ''node-1'', claimKeyAnnotation \<mapsto> ''uid-kfm'']"

definition demo_configured :: KairosFleetMachine where
  "demo_configured = demo_fm [NodeIDAnnotation \<mapsto> ''node-1'', claimKeyAnnotation \<mapsto> ''uid-kfm'',
     cloudConfigAppliedAnnotation \<mapsto> cloudConfigAppliedValue, cloudConfigCommandIDAnnotation \<mapsto> ''c-1'']"

lemma demo_stage_active:
  "active (demo_reconciler fm fc f) demo_claimed demo_machine demo_cluster"
  "active (demo_reconciler fm fc f) demo_configured demo_machine demo_cluster"
  "active (demo_reconciler fm fc f) demo_rebooting demo_machine demo_cluster"
  by (simp_all add: demo_claimed_def demo_configured_def demo_rebooting_def demo_active_any annotation_defs)

lemma demo_machine_data: "m_DataSecretName demo_machine = Some ''bootstrap''"
  by (simp add: demo_machine_def)

end
