(* ===== verification/MachineSafety.thy ===== *)
theory MachineSafety
  imports MachineLifecycle Scenario
begin

text \<open>
  What a pass asks of AuroraBoot. The client is seen through the calls it records: the locale
  states what recording means, the in-memory client provides it, and the lemmas hold for any
  client that records, whatever it answers.
\<close>

text \<open>The steps leave the finalizers alone.\<close>

context kube_lib
begin

lemma lifecycleStep_finalizers:
  assumes "lifecycleStep r fc machine ds fm w = (fm', out, w')" "r_Client r = K"
  shows "finalizers fm' = finalizers fm"
  using assms(1)
proof (cases rule: lifecycleStep_cases)
  case at_claim
  from at_claim(2) show ?thesis using assms(2) by (cases rule: claimStep_cases) auto
next
  case at_apply
  from at_apply(3) show ?thesis using assms(2) by (cases rule: applyStep_cases) auto
next
  case at_reboot
  obtain applied failed msg w1 where "commandState fc (ann fm NodeIDAnnotation)
      (ann fm cloudConfigCommandIDAnnotation) CommandApplyCloudConfig w = ((applied, failed, msg), w1)"
    using prod_cases3 prod.exhaust by metis
  from at_reboot(4) this show ?thesis using assms(2) by (cases rule: rebootStep_cases) auto
next
  case at_rejoin
  from at_rejoin(4) show ?thesis using assms(2) by (cases rule: rejoinStep_cases) auto
qed

end

subsection \<open>Clients that record the calls that change something\<close>

definition log_claim :: "string \<Rightarrow> string \<Rightarrow> FakeCalls \<Rightarrow> FakeCalls" where
  "log_claim g k l = l\<lparr>Claims := Claims l @ [\<lparr>cc_GroupID = g, cc_ClaimKey = k\<rparr>]\<rparr>"

definition log_apply :: "string \<Rightarrow> string \<Rightarrow> FakeCalls \<Rightarrow> FakeCalls" where
  "log_apply n d l = l\<lparr>Applies := Applies l @ [\<lparr>ac_NodeID = n, ac_CloudConfig = d\<rparr>]\<rparr>"

definition log_reboot :: "string \<Rightarrow> FakeCalls \<Rightarrow> FakeCalls" where
  "log_reboot n l = l\<lparr>Reboots := Reboots l @ [n]\<rparr>"

definition log_release :: "string \<Rightarrow> string \<Rightarrow> FakeCalls \<Rightarrow> FakeCalls" where
  "log_release n k l = l\<lparr>Releases := Releases l @ [\<lparr>rc_NodeID = n, rc_ClaimKey = k\<rparr>]\<rparr>"

lemmas log_defs = log_claim_def log_apply_def log_reboot_def log_release_def

locale recorded_client =
  fixes c :: "'w Client" and calls :: "'w \<Rightarrow> FakeCalls"
  assumes claim_calls: "calls (snd (Claim c g k w)) = log_claim g k (calls w)"
    and apply_calls: "calls (snd (ApplyCloudConfig c n d w)) = log_apply n d (calls w)"
    and reboot_calls: "calls (snd (Reboot c n w)) = log_reboot n (calls w)"
    and release_calls: "calls (snd (Release c n k w)) = log_release n k (calls w)"
    and read_calls: "calls (snd (GetNode c n w)) = calls w" "calls (snd (GetCommands c n w)) = calls w"
      "calls (snd (ResolveGroupID c g w)) = calls w"
begin

lemma commandState_calls: "commandState c n i name w = (res, w') \<Longrightarrow> calls w' = calls w"
  using read_calls(2) [of n w] by (auto simp: commandState_def split: prod.splits sum.splits)

lemma rebootFailed_calls: "rebootFailed c fm node n w = (res, w') \<Longrightarrow> calls w' = calls w"
  by (auto simp: rebootFailed_def commandState_calls split: if_splits prod.splits)

text \<open>What each step may have added to the record.\<close>

lemma claimStep_calls:
  assumes "claimStep r c key fm w = (fm', out, w')"
  shows "calls w' = calls w \<or> (\<exists>g. calls w' = log_claim g key (calls w))"
proof -
  obtain g w1 where g: "ResolveGroupID c (fms_Group (fm_Spec fm)) w = (g, w1)"
    by (cases "ResolveGroupID c (fms_Group (fm_Spec fm)) w")
  have 1: "calls w1 = calls w" using read_calls(3) [of "fms_Group (fm_Spec fm)" w] g by simp
  show ?thesis
  proof (cases g)
    case (Inl e)
    then show ?thesis using assms g 1 by (auto simp: claimStep_def Let_def split: if_splits)
  next
    case (Inr gid)
    obtain a w2 where a: "Claim c gid key w1 = (a, w2)" by (cases "Claim c gid key w1")
    have "w' = w2" using assms g Inr a
      by (auto simp: claimStep_def Let_def split: sum.splits option.splits if_splits)
    then show ?thesis using claim_calls [of gid key w1] a 1 by auto
  qed
qed

lemma applyStep_calls:
  assumes "applyStep r c machine ds n fm w = (fm', out, w')"
  shows "calls w' = calls w
    \<or> (retryWait fm (kNow (r_Client r) w) = 0
       \<and> (\<exists>d. bootstrapData (r_Client r) machine ds w = Inr d \<and> calls w' = log_apply n d (calls w)))"
  using assms
proof (cases rule: applyStep_cases)
  case (rejected data e)
  then show ?thesis using apply_calls [of n data w] by simp
next
  case (applied data cmd)
  then show ?thesis using apply_calls [of n data w] by simp
qed simp_all

lemma rebootStep_calls:
  assumes "rebootStep r c n fm w = (fm', out, w')"
    and "commandState c n (ann fm cloudConfigCommandIDAnnotation) CommandApplyCloudConfig w
      = ((applied, failed, msg), w1)"
  shows "calls w' = calls w
    \<or> (applied \<and> \<not> failed \<and> retryWait fm (kNow (r_Client r) w1) = 0 \<and> calls w' = log_reboot n (calls w))"
proof -
  have 1: "calls w1 = calls w" by (rule commandState_calls [OF assms(2)])
  from assms show ?thesis
  proof (cases rule: rebootStep_cases)
    case (rejected e)
    then show ?thesis using reboot_calls [of n w1] 1 by simp
  next
    case (rebooted cmd)
    then show ?thesis using reboot_calls [of n w1] 1 by simp
  qed (simp_all add: 1)
qed

lemma rejoinStep_calls:
  assumes "rejoinStep r c n fm w = (fm', out, w')"
  shows "calls w' = calls w"
  using assms
proof (cases rule: rejoinStep_cases)
  case (reboot_failed node w1 msg)
  then show ?thesis using read_calls(1) [of n w] rebootFailed_calls by simp
next
  case (waiting node w1 msg)
  then show ?thesis using read_calls(1) [of n w] rebootFailed_calls by simp
qed (use read_calls(1) [of n w] in simp_all)

lemma lifecycleStep_calls:
  assumes "lifecycleStep r c machine ds fm w = (fm', out, w')"
  obtains (quiet) "calls w' = calls w"
  | (claim) g where "ann fm NodeIDAnnotation = ''''" "calls w' = log_claim g (claimKeyFor fm) (calls w)"
  | (configure) d where "ann fm NodeIDAnnotation \<noteq> ''''"
      "ann fm cloudConfigAppliedAnnotation \<noteq> cloudConfigAppliedValue"
      "retryWait fm (kNow (r_Client r) w) = 0" "bootstrapData (r_Client r) machine ds w = Inr d"
      "calls w' = log_apply (ann fm NodeIDAnnotation) d (calls w)"
  | (reboot) msg w1 where "ann fm NodeIDAnnotation \<noteq> ''''"
      "ann fm cloudConfigAppliedAnnotation = cloudConfigAppliedValue"
      "ann fm rebootRequestedAtAnnotation = ''''"
      "commandState c (ann fm NodeIDAnnotation) (ann fm cloudConfigCommandIDAnnotation)
         CommandApplyCloudConfig w = ((True, False, msg), w1)"
      "retryWait fm (kNow (r_Client r) w1) = 0" "calls w' = log_reboot (ann fm NodeIDAnnotation) (calls w)"
  using assms
proof (cases rule: lifecycleStep_cases)
  case at_claim
  then show ?thesis using claimStep_calls quiet claim by blast
next
  case at_apply
  then show ?thesis using applyStep_calls quiet configure by blast
next
  case at_reboot
  obtain applied failed msg w1 where cs: "commandState c (ann fm NodeIDAnnotation)
      (ann fm cloudConfigCommandIDAnnotation) CommandApplyCloudConfig w = ((applied, failed, msg), w1)"
    using prod_cases3 prod.exhaust by metis
  from rebootStep_calls [OF at_reboot(4) cs] show ?thesis
    using quiet reboot [of msg w1] at_reboot cs by auto
next
  case at_rejoin
  then show ?thesis using rejoinStep_calls quiet by blast
qed

text \<open>And a pass: at most one call that changes something, and each kind only where it belongs.\<close>

lemma connected_is:
  "r_FleetClientFactory r = Some (\<lambda>_ _. c) \<Longrightarrow> connected r cluster w = Some fc \<Longrightarrow> fc = c"
  by (auto simp: connected_def fleetClientFor_def resolveFleetClient_def fleetFactory_def Let_def
      split: sum.splits if_splits)

lemma reconcileDelete_calls:
  assumes "reconcileDelete r fm cluster w = (fm', err, w')" "r_FleetClientFactory r = Some (\<lambda>_ _. c)"
  shows "calls w' = calls w
    \<or> (ann fm NodeIDAnnotation \<noteq> '''' \<and> calls w' = log_release (ann fm NodeIDAnnotation) (claimKeyFor fm) (calls w))"
proof (cases "ann fm NodeIDAnnotation = ''''")
  case True
  then show ?thesis using assms(1) by (simp add: reconcileDelete_def)
next
  case False
  have is_c: "fleetClientForDelete r cluster w = Inr fc \<Longrightarrow> fc = c" for fc
    using assms(2) by (auto simp: fleetClientForDelete_def resolveFleetClient_def fleetFactory_def Let_def
        split: sum.splits if_splits)
  obtain a w1 where a: "Release c (ann fm NodeIDAnnotation) (claimKeyFor fm) w = (a, w1)"
    by (cases "Release c (ann fm NodeIDAnnotation) (claimKeyFor fm) w")
  show ?thesis
  proof (cases "fleetClientForDelete r cluster w")
    case (Inl e)
    then show ?thesis using assms(1) False by (auto simp: reconcileDelete_def Let_def split: if_splits)
  next
    case (Inr fc)
    with assms(1) False a is_c [of fc] have "w' = w1"
      by (auto simp: reconcileDelete_def Let_def split: sum.splits if_splits)
    then show ?thesis
      using release_calls [of "ann fm NodeIDAnnotation" "claimKeyFor fm" w] a False by simp
  qed
qed

lemma reconcile_body_calls:
  assumes "reconcile_body r fm machine cluster w = (fm', out, w')" "kube_lib (r_Client r)"
    and "r_FleetClientFactory r = Some (\<lambda>_ _. c)"
  obtains (quiet) "calls w' = calls w"
  | (claim) g where "ann fm NodeIDAnnotation = ''''" "calls w' = log_claim g (claimKeyFor fm) (calls w)"
      "KairosFleetMachineFinalizer \<in> finalizers fm'"
  | (configure) ds d where "ann fm NodeIDAnnotation \<noteq> ''''" "m_DataSecretName machine = Some ds"
      "ann fm cloudConfigAppliedAnnotation \<noteq> cloudConfigAppliedValue"
      "retryWait fm (kNow (r_Client r) w) = 0" "bootstrapData (r_Client r) machine ds w = Inr d"
      "calls w' = log_apply (ann fm NodeIDAnnotation) d (calls w)"
  | (reboot) msg w1 where "ann fm NodeIDAnnotation \<noteq> ''''"
      "ann fm cloudConfigAppliedAnnotation = cloudConfigAppliedValue"
      "ann fm rebootRequestedAtAnnotation = ''''"
      "commandState c (ann fm NodeIDAnnotation) (ann fm cloudConfigCommandIDAnnotation)
         CommandApplyCloudConfig w = ((True, False, msg), w1)"
      "retryWait fm (kNow (r_Client r) w1) = 0" "calls w' = log_reboot (ann fm NodeIDAnnotation) (calls w)"
  | (release) "\<not> is_zero_time (om_DeletionTimestamp (fm_Meta fm))" "ann fm NodeIDAnnotation \<noteq> ''''"
      "calls w' = log_release (ann fm NodeIDAnnotation) (claimKeyFor fm) (calls w)"
proof -
  show ?thesis
  proof (rule kube_lib.reconcile_body_cases [OF assms(2,1) refl], goal_cases stopped deleting normal)
    case stopped
    then show ?case using quiet by simp
  next
    case (deleting fm0 err)
    then show ?case using reconcileDelete_calls [OF deleting(4) assms(3)] quiet release
      by (auto simp: same_state_reads)
  next
    case (normal fm0)
    note same = same_state_reads [OF normal(2)]
    from normal(4) show ?case
    proof (cases rule: reconcileNormal_cases)
      case (step ds fc)
      then have "fc = c" using connected_is [OF assms(3), of cluster w fc] by (simp add: connected_def)
      with step have life: "lifecycleStep r c machine ds fm0 w = (fm', out, w')" by simp
      then show ?thesis
      proof (cases rule: lifecycleStep_calls)
        case claim: (claim g)
        have "finalizers fm' = finalizers fm0"
          using kube_lib.lifecycleStep_finalizers [OF assms(2) life refl] .
        then show ?thesis using claim same normal(3) that(2) by simp
      next
        case (configure d)
        then show ?thesis using same step(1) that(3) by simp
      next
        case (reboot msg w1)
        then show ?thesis using same that(4) by simp
      qed (rule quiet)
    qed (simp_all add: quiet)
  qed
qed

end

text \<open>The in-memory client records.\<close>

interpretation fake: recorded_client "fake_client f" snd for f :: "'w FakeClient"
  by unfold_locales (simp_all add: fake_client_calls log_defs)

subsection \<open>The key a node was claimed with\<close>

context kube_lib
begin

lemma lifecycleStep_key:
  assumes "lifecycleStep r fc machine ds fm w = (fm', out, w')" "r_Client r = K"
    and "ann fm NodeIDAnnotation \<noteq> ''''"
  shows "ann fm' claimKeyAnnotation = ann fm claimKeyAnnotation \<and> ann fm' NodeIDAnnotation = ann fm NodeIDAnnotation"
  using assms(1)
proof (cases rule: lifecycleStep_cases)
  case at_claim
  then show ?thesis using assms(3) by simp
next
  case at_apply
  from at_apply(3) show ?thesis using assms(2) by (cases rule: applyStep_cases) auto
next
  case at_reboot
  obtain applied failed msg w1 where "commandState fc (ann fm NodeIDAnnotation)
      (ann fm cloudConfigCommandIDAnnotation) CommandApplyCloudConfig w = ((applied, failed, msg), w1)"
    using prod_cases3 prod.exhaust by metis
  from at_reboot(4) this show ?thesis using assms(2) by (cases rule: rebootStep_cases) auto
next
  case at_rejoin
  from at_rejoin(4) show ?thesis using assms(2) by (cases rule: rejoinStep_cases) auto
qed

lemma reconcile_body_key:
  assumes "reconcile_body r fm machine cluster w = (fm', out, w')" "r_Client r = K"
    and "ann fm NodeIDAnnotation \<noteq> ''''"
  shows "ann fm' claimKeyAnnotation = ann fm claimKeyAnnotation \<and> ann fm' NodeIDAnnotation = ann fm NodeIDAnnotation"
  using assms(1,2)
proof (cases rule: reconcile_body_cases)
  case stopped
  then show ?thesis by (simp add: same_state_ann)
next
  case (deleting fm0 err)
  then show ?thesis using reconcileDelete_state [OF deleting(4) assms(2)] by (simp add: same_state_ann)
next
  case (normal fm0)
  from normal(4) show ?thesis
  proof (cases rule: reconcileNormal_cases)
    case (step ds fc)
    then show ?thesis using lifecycleStep_key [OF step(3) assms(2)] assms(3) normal(2)
      by (simp add: same_state_ann)
  qed (use normal(2) in \<open>simp_all add: same_state_ann\<close>)
qed

end

text \<open>A pass after which a node is on record where none was has recorded the key as well.\<close>

lemma claim_recorded:
  assumes "reconcile_body r fm machine cluster w = (fm', out, w')" "kube_lib (r_Client r)"
    and "ann fm NodeIDAnnotation = ''''" "ann fm' NodeIDAnnotation \<noteq> ''''"
  shows "ann fm' claimKeyAnnotation = claimKeyFor fm"
proof (rule kube_lib.reconcile_body_cases [OF assms(2,1) refl], goal_cases stopped deleting normal)
  case stopped
  then show ?case using assms(3,4) by (simp add: same_state_ann)
next
  case (deleting fm0 err)
  then show ?case using kube_lib.reconcileDelete_state [OF assms(2) deleting(4) refl] assms(3,4)
    by (simp add: same_state_ann)
next
  case (normal fm0)
  note same = same_state_reads [OF normal(2)]
  from normal(4) show ?case
  proof (cases rule: reconcileNormal_cases)
    case (step ds fc)
    then have "claimStep r fc (claimKeyFor fm) fm0 w = (fm', out, w')"
      using assms(3) by (simp add: lifecycleStep_def same)
    then show ?thesis
    proof (cases rule: claimStep_cases)
      case (claimed g w1 node)
      then show ?thesis using kube_lib.add_annotations_frame [OF assms(2)] by simp
    qed (use assms(3,4) same in simp_all)
  qed (use assms(3,4) same in simp_all)
qed

lemma reachable_key:
  assumes "reachable r fm0 fm" "kube_lib (r_Client r)" "ann fm0 NodeIDAnnotation \<noteq> ''''"
  shows "ann fm claimKeyAnnotation = ann fm0 claimKeyAnnotation \<and> ann fm NodeIDAnnotation = ann fm0 NodeIDAnnotation"
  using assms
proof (induction rule: reachable.induct)
  case start
  then show ?case by simp
next
  case (pass fm machine cluster w fm' out w')
  then show ?case using kube_lib.reconcile_body_key [OF pass.prems(1) pass.hyps(2) refl] by simp
next
  case (others fm fm')
  then show ?case by (simp add: ann_def)
qed

subsection \<open>Properties\<close>

definition total_calls :: "FakeCalls \<Rightarrow> nat" where
  "total_calls l = length (Claims l) + length (Applies l) + length (Reboots l) + length (Releases l)"

lemma log_sizes:
  "total_calls (log_claim g k l) = Suc (total_calls l)" "total_calls (log_apply n d l) = Suc (total_calls l)"
  "total_calls (log_reboot n l) = Suc (total_calls l)" "total_calls (log_release n k l) = Suc (total_calls l)"
  by (simp_all add: total_calls_def log_defs)

lemma log_fields [simp]:
  "Claims (log_claim g k l) = Claims l @ [\<lparr>cc_GroupID = g, cc_ClaimKey = k\<rparr>]"
  "Claims (log_apply n d l) = Claims l" "Claims (log_reboot n l) = Claims l" "Claims (log_release n k l) = Claims l"
  "Applies (log_apply n d l) = Applies l @ [\<lparr>ac_NodeID = n, ac_CloudConfig = d\<rparr>]"
  "Applies (log_claim g k l) = Applies l" "Applies (log_reboot n l) = Applies l" "Applies (log_release n k l) = Applies l"
  "Reboots (log_reboot n l) = Reboots l @ [n]"
  "Reboots (log_claim g k l) = Reboots l" "Reboots (log_apply n d l) = Reboots l" "Reboots (log_release n k l) = Reboots l"
  "Releases (log_release n k l) = Releases l @ [\<lparr>rc_NodeID = n, rc_ClaimKey = k\<rparr>]"
  "Releases (log_claim g k l) = Releases l" "Releases (log_apply n d l) = Releases l" "Releases (log_reboot n l) = Releases l"
  by (simp_all add: log_defs)

text \<open>C11: whatever AuroraBoot answers, one pass sends it at most one request that changes
  something there: one claim, one apply, one reboot or one release.\<close>

theorem at_most_one_call:
  assumes "kube_lib (r_Client r)" "r_FleetClientFactory r = Some (\<lambda>_ _. fake_client f)"
    and "reconcile_body r fm machine cluster w = (fm', out, w')"
  shows "total_calls (snd w') \<le> Suc (total_calls (snd w))"
  by (rule fake.reconcile_body_calls [OF assms(3,1,2)]) (simp_all add: log_sizes)

text \<open>C12: a node is claimed only for a machine that holds none, under the machine's claim key,
  and the object that records it carries the finalizer that will release it.\<close>

theorem claim_only_without_node:
  assumes "kube_lib (r_Client r)" "r_FleetClientFactory r = Some (\<lambda>_ _. fake_client f)"
    and "reconcile_body r fm machine cluster w = (fm', out, w')" "Claims (snd w') \<noteq> Claims (snd w)"
  shows "ann fm NodeIDAnnotation = '''' \<and> KairosFleetMachineFinalizer \<in> finalizers fm'
    \<and> (\<exists>g. Claims (snd w') = Claims (snd w) @ [\<lparr>cc_GroupID = g, cc_ClaimKey = claimKeyFor fm\<rparr>])"
  by (rule fake.reconcile_body_calls [OF assms(3,1,2)]) (use assms(4) in simp_all)

text \<open>C14: a cloud-config goes only to the node the machine holds, only when it has not been
  applied yet and no retry window is open, and it is the bootstrap data as it was read.\<close>

theorem apply_only_when_due:
  assumes "kube_lib (r_Client r)" "r_FleetClientFactory r = Some (\<lambda>_ _. fake_client f)"
    and "reconcile_body r fm machine cluster w = (fm', out, w')" "Applies (snd w') \<noteq> Applies (snd w)"
  shows "ann fm NodeIDAnnotation \<noteq> '''' \<and> ann fm cloudConfigAppliedAnnotation \<noteq> cloudConfigAppliedValue
    \<and> retryWait fm (kNow (r_Client r) w) = 0
    \<and> (\<exists>ds d. m_DataSecretName machine = Some ds \<and> bootstrapData (r_Client r) machine ds w = Inr d
        \<and> Applies (snd w') = Applies (snd w) @ [\<lparr>ac_NodeID = ann fm NodeIDAnnotation, ac_CloudConfig = d\<rparr>])"
  by (rule fake.reconcile_body_calls [OF assms(3,1,2)]) (use assms(4) in simp_all)

lemma commandState_applied:
  assumes "commandState c n i name w = ((True, failed, msg), w1)"
  obtains cmds cmd where "fst (GetCommands c n w) = Inr cmds" "select_command i name cmds None = Some cmd"
    "cmd_Phase cmd = CommandPhaseCompleted"
  using assms by (auto simp: commandState_def command_outcome_def split: prod.splits sum.splits option.splits if_splits)

text \<open>C15: a node is rebooted only when the machine holds it, has had its cloud-config accepted and
  records no reboot yet, and the apply command AuroraBoot lists is Completed: the very command
  recorded, where one is. A reboot while the apply is pending would interrupt it.\<close>

theorem reboot_only_after_completed:
  assumes "kube_lib (r_Client r)" "r_FleetClientFactory r = Some (\<lambda>_ _. fake_client f)"
    and "reconcile_body r fm machine cluster w = (fm', out, w')" "Reboots (snd w') \<noteq> Reboots (snd w)"
  shows "Reboots (snd w') = Reboots (snd w) @ [ann fm NodeIDAnnotation] \<and> ann fm NodeIDAnnotation \<noteq> ''''
    \<and> ann fm cloudConfigAppliedAnnotation = cloudConfigAppliedValue \<and> ann fm rebootRequestedAtAnnotation = ''''
    \<and> (\<exists>cmds cmd. fst (GetCommands (fake_client f) (ann fm NodeIDAnnotation) w) = Inr cmds
        \<and> cmd \<in> set cmds \<and> cmd_Phase cmd = CommandPhaseCompleted
        \<and> (if ann fm cloudConfigCommandIDAnnotation \<noteq> '''' then cmd_ID cmd = ann fm cloudConfigCommandIDAnnotation
           else cmd_Command cmd = CommandApplyCloudConfig))"
proof (rule fake.reconcile_body_calls [OF assms(3,1,2)], goal_cases _ _ _ reboot)
  case (reboot msg w1)
  obtain cmds cmd where c: "fst (GetCommands (fake_client f) (ann fm NodeIDAnnotation) w) = Inr cmds"
    "select_command (ann fm cloudConfigCommandIDAnnotation) CommandApplyCloudConfig cmds None = Some cmd"
    "cmd_Phase cmd = CommandPhaseCompleted" by (rule commandState_applied [OF reboot(4)])
  show ?case using reboot c select_command_None [OF c(2)] by auto
qed (use assms(4) in simp_all)

text \<open>C16: a node is released only while its machine is being deleted, and with the key that
  \<open>claimKeyFor\<close> answers.\<close>

theorem release_only_on_delete:
  assumes "kube_lib (r_Client r)" "r_FleetClientFactory r = Some (\<lambda>_ _. fake_client f)"
    and "reconcile_body r fm machine cluster w = (fm', out, w')" "Releases (snd w') \<noteq> Releases (snd w)"
  shows "\<not> is_zero_time (om_DeletionTimestamp (fm_Meta fm)) \<and> ann fm NodeIDAnnotation \<noteq> ''''
    \<and> Releases (snd w') = Releases (snd w)
        @ [\<lparr>rc_NodeID = ann fm NodeIDAnnotation, rc_ClaimKey = claimKeyFor fm\<rparr>]"
  by (rule fake.reconcile_body_calls [OF assms(3,1,2)]) (use assms(4) in simp_all)

end
