(* ===== verification/MachinePass.thy ===== *)
theory MachinePass
  imports MachineLifecycle
begin

text \<open>
  A pass that gets to the steps, seen from outside: the step it takes, what it needs to have
  seen to set provisioned, and what each stage's pass leaves in the annotations.
\<close>

subsection \<open>A pass that reaches the steps\<close>

text \<open>A node that is Online and has been heard of since the reboot that the machine records.\<close>

definition heard_since_reboot :: "KairosFleetMachine \<Rightarrow> Node \<Rightarrow> bool" where
  "heard_since_reboot fm node \<longleftrightarrow> node_Phase node = PhaseOnline \<and>
     (\<exists>hb t. node_LastHeartbeat node = Some hb
        \<and> parse_RFC3339 (ann fm rebootRequestedAtAnnotation) = Some t \<and> t < hb)"

lemma rejoinedAfterReboot_iff: "rejoinedAfterReboot fm node \<longleftrightarrow> heard_since_reboot fm node"
  by (auto simp: rejoinedAfterReboot_def heard_since_reboot_def time_After_def split: option.splits)

lemma parse_RFC3339_empty [simp]: "parse_RFC3339 '''' = None"
  by code_simp

lemma heard_marked: "heard_since_reboot fm node \<Longrightarrow> ann fm rebootRequestedAtAnnotation \<noteq> ''''"
  by (auto simp: heard_since_reboot_def)

context kube_lib
begin

lemma active_body:
  assumes "r_Client r = K" "active r fm machine cluster" "m_DataSecretName machine = Some ds"
    and "connected r cluster w = Some fc"
  obtains fm0 where "same_state fm fm0" "finalizers fm0 = insert KairosFleetMachineFinalizer (finalizers fm)"
    "reconcile_body r fm machine cluster w = lifecycleStep r fc machine ds fm0 w"
proof -
  from assms(1,2) obtain om where om: "kSetControllerReference K machine (fm_Meta fm) = Inr om"
    and up: "\<not> kIsPaused K cluster om" "is_zero_time (om_DeletionTimestamp (fm_Meta fm))"
    by (auto simp: active_def split: sum.splits)
  note prep = prepared [OF om]
  obtain res err where c: "fleetClientFor r cluster w = (Some fc, res, err)"
    using assms(4) by (cases "fleetClientFor r cluster w") (simp add: connected_def)
  have "reconcile_body r fm machine cluster w
      = lifecycleStep r fc machine ds (add_finalizer K (fm\<lparr>fm_Meta := om\<rparr>)) w"
    using fleetClientFor_Some [OF c] c prep(5) om up assms
    by (simp add: reconcile_body_def Let_def reconcileNormal_def)
  then show ?thesis using prep that by blast
qed

lemma normal_step:
  assumes "reconcileNormal r fm machine cluster w = (fm', out, w')" "provisioned fm' = Some True"
  obtains ds fc where "m_DataSecretName machine = Some ds" "connected r cluster w = Some fc"
    "lifecycleStep r fc machine ds fm w = (fm', out, w')"
  using assms by (cases rule: reconcileNormal_cases) (auto simp: connected_def)

text \<open>A step that leaves the machine provisioned where it was not found its evidence.\<close>

lemma provisioned_by_rejoin:
  assumes "lifecycleStep r fc machine ds fm w = (fm', out, w')" "r_Client r = K"
    and "provisioned fm \<noteq> Some True" "provisioned fm' = Some True"
  obtains node where "ann fm NodeIDAnnotation \<noteq> ''''"
    "ann fm cloudConfigAppliedAnnotation = cloudConfigAppliedValue"
    "GetNode fc (ann fm NodeIDAnnotation) w = (Inr (Some node), w')" "heard_since_reboot fm node"
    "fm' = provision K w' node fm" "out = Return no_requeue None"
  using assms(1)
proof (cases rule: lifecycleStep_cases)
  case at_claim
  from at_claim(2) show ?thesis using assms by (cases rule: claimStep_cases) auto
next
  case at_apply
  from at_apply(3) show ?thesis using assms by (cases rule: applyStep_cases) auto
next
  case at_reboot
  obtain applied failed msg w1 where "commandState fc (ann fm NodeIDAnnotation)
      (ann fm cloudConfigCommandIDAnnotation) CommandApplyCloudConfig w = ((applied, failed, msg), w1)"
    using prod_cases3 prod.exhaust by metis
  from at_reboot(4) this show ?thesis using assms by (cases rule: rebootStep_cases) auto
next
  case at_rejoin
  from at_rejoin(4) show ?thesis
  proof (cases rule: rejoinStep_cases)
    case (rejoined node)
    then show ?thesis using at_rejoin assms(2) that by (simp add: rejoinedAfterReboot_iff)
  qed (use assms in auto)
qed

lemma rejoin_provisions:
  assumes "GetNode fc (ann fm NodeIDAnnotation) w = (Inr (Some node), w')" "heard_since_reboot fm node"
    and "ann fm NodeIDAnnotation \<noteq> ''''" "ann fm cloudConfigAppliedAnnotation = cloudConfigAppliedValue"
    and "r_Client r = K"
  shows "lifecycleStep r fc machine ds fm w = (provision K w' node fm, Return no_requeue None, w')"
  using assms heard_marked [OF assms(2)]
  by (simp add: lifecycleStep_def Let_def rejoinStep_def rejoinedAfterReboot_iff)

end

lemma heard_same_state: "same_state fm fm' \<Longrightarrow> heard_since_reboot fm' node = heard_since_reboot fm node"
  by (simp add: heard_since_reboot_def same_state_ann)

text \<open>What a pass that provisions has seen, and what it writes.\<close>

context kube_lib
begin

lemma newly_provisioned:
  assumes "reconcile_body r fm machine cluster w = (fm', out, w')" "r_Client r = K"
    and "provisioned fm \<noteq> Some True" "provisioned fm' = Some True"
  obtains ds fc node fm0 where "active r fm machine cluster" "m_DataSecretName machine = Some ds"
    "connected r cluster w = Some fc" "ann fm NodeIDAnnotation \<noteq> ''''"
    "ann fm cloudConfigAppliedAnnotation = cloudConfigAppliedValue"
    "fst (GetNode fc (ann fm NodeIDAnnotation) w) = Inr (Some node)" "heard_since_reboot fm node"
    "fm' = provision K w' node fm0" "same_state fm fm0"
  using assms(1,2)
proof (cases rule: reconcile_body_cases)
  case stopped
  then show ?thesis using assms by (simp add: same_state_views)
next
  case (deleting fm0 err)
  then have "provisioned fm' = provisioned fm"
    using reconcileDelete_state [OF deleting(4) assms(2)] by (simp add: same_state_views)
  then show ?thesis using assms by simp
next
  case (normal fm0)
  from normal(4) assms(4) obtain ds fc where s: "m_DataSecretName machine = Some ds"
    "connected r cluster w = Some fc" "lifecycleStep r fc machine ds fm0 w = (fm', out, w')"
    by (rule normal_step)
  from s(3) assms(2) _ assms(4) show ?thesis
  proof (rule provisioned_by_rejoin)
    show "provisioned fm0 \<noteq> Some True" using assms(3) normal(2) by (simp add: same_state_views)
  next
    fix node assume "ann fm0 NodeIDAnnotation \<noteq> ''''"
      "ann fm0 cloudConfigAppliedAnnotation = cloudConfigAppliedValue"
      "GetNode fc (ann fm0 NodeIDAnnotation) w = (Inr (Some node), w')" "heard_since_reboot fm0 node"
      "fm' = provision K w' node fm0"
    then show ?thesis using that [of ds fc node fm0] s normal
      by (simp add: same_state_ann heard_same_state)
  qed
qed

end

subsection \<open>Stage by stage\<close>

text \<open>The provisioning flow of the architecture document, one stage per pass. The worlds of the
  passes are unrelated: anything may happen between two of them.\<close>

fun run_passes :: "'w Reconciler \<Rightarrow> Machine \<Rightarrow> Cluster \<Rightarrow> (nat \<Rightarrow> 'w) \<Rightarrow> nat \<Rightarrow> KairosFleetMachine \<Rightarrow> KairosFleetMachine" where
  "run_passes r machine cluster ws 0 fm = fm"
| "run_passes r machine cluster ws (Suc n) fm
     = fst (reconcile_body r (run_passes r machine cluster ws n fm) machine cluster (ws n))"

text \<open>A command with an ID is found by it, whatever else is listed.\<close>

lemma select_by_id:
  "i \<noteq> '''' \<Longrightarrow> select_command i name cmds latest
     = (case List.find (\<lambda>c. cmd_ID c = i) cmds of Some c \<Rightarrow> Some c | None \<Rightarrow> latest)"
  by (induction cmds arbitrary: latest) simp_all

lemma commandState_completed:
  assumes "fst (GetCommands fc n w) = Inr cmds" "i \<noteq> ''''" "c \<in> set cmds" "cmd_ID c = i"
    and "\<forall>c \<in> set cmds. cmd_ID c = i \<longrightarrow> cmd_Phase c = CommandPhaseCompleted"
  shows "commandState fc n i name w = ((True, False, ''''), snd (GetCommands fc n w))"
proof -
  have "List.find (\<lambda>c. cmd_ID c = i) cmds \<noteq> None"
    using assms(3,4) by (auto simp: find_None_iff)
  then obtain d where d: "List.find (\<lambda>c. cmd_ID c = i) cmds = Some d" by blast
  then have "d \<in> set cmds" "cmd_ID d = i" by (auto simp: find_Some_iff)
  then have "cmd_Phase d = CommandPhaseCompleted" using assms(5) by blast
  then show ?thesis
    using assms(1,2) d by (cases "GetCommands fc n w") (simp add: commandState_def select_by_id command_outcome_def)
qed

context kube_lib
begin

lemma claim_pass:
  assumes "r_Client r = K" "active r fm machine cluster" "m_DataSecretName machine = Some ds"
    and "connected r cluster w = Some fc" "ann fm NodeIDAnnotation = ''''"
    and "ResolveGroupID fc (fms_Group (fm_Spec fm)) w = (Inr g, w1)"
    and "fst (Claim fc g (claimKeyFor fm) w1) = Inr (Some node)"
  defines "fm' \<equiv> fst (reconcile_body r fm machine cluster w)"
  shows "ann fm' = (ann fm)(NodeIDAnnotation := node_ID node, claimKeyAnnotation := claimKeyFor fm)"
proof -
  obtain fm0 where fm0: "same_state fm fm0"
    "reconcile_body r fm machine cluster w = lifecycleStep r fc machine ds fm0 w"
    using active_body [OF assms(1-4)] by metis
  obtain w2 where "Claim fc g (claimKeyFor fm) w1 = (Inr (Some node), w2)"
    using assms(7) by (metis prod.collapse)
  then show ?thesis
    using assms fm0 by (auto simp: lifecycleStep_def Let_def claimStep_def same_state_reads fun_eq_iff)
qed

lemma apply_pass:
  assumes "r_Client r = K" "active r fm machine cluster" "m_DataSecretName machine = Some ds"
    and "connected r cluster w = Some fc" "ann fm NodeIDAnnotation = n" "n \<noteq> ''''"
    and "ann fm cloudConfigAppliedAnnotation \<noteq> cloudConfigAppliedValue" "retryWait fm (kNow K w) = 0"
    and "bootstrapData K machine ds w = Inr data" "fst (ApplyCloudConfig fc n data w) = Inr (Some cmd)"
    and "cmd_ID cmd \<noteq> ''''"
  defines "fm' \<equiv> fst (reconcile_body r fm machine cluster w)"
  shows "ann fm' = (ann fm)(retryNotBeforeAnnotation := '''',
     cloudConfigAppliedAnnotation := cloudConfigAppliedValue, cloudConfigCommandIDAnnotation := cmd_ID cmd)"
proof -
  obtain fm0 where fm0: "same_state fm fm0"
    "reconcile_body r fm machine cluster w = lifecycleStep r fc machine ds fm0 w"
    using active_body [OF assms(1-4)] by metis
  obtain w2 where "ApplyCloudConfig fc n data w = (Inr (Some cmd), w2)"
    using assms(10) by (metis prod.collapse)
  then show ?thesis
    using assms fm0 by (auto simp: lifecycleStep_def Let_def applyStep_def same_state_reads fun_eq_iff)
qed

lemma reboot_pass:
  assumes "r_Client r = K" "active r fm machine cluster" "m_DataSecretName machine = Some ds"
    and "connected r cluster w = Some fc" "ann fm NodeIDAnnotation = n" "n \<noteq> ''''"
    and "ann fm cloudConfigAppliedAnnotation = cloudConfigAppliedValue"
    and "ann fm rebootRequestedAtAnnotation = ''''"
    and "commandState fc n (ann fm cloudConfigCommandIDAnnotation) CommandApplyCloudConfig w
      = ((True, False, ''''), w1)" "retryWait fm (kNow K w1) = 0"
    and "Reboot fc n w1 = (Inr cmd, w2)"
  defines "fm' \<equiv> fst (reconcile_body r fm machine cluster w)"
  shows "ann fm' NodeIDAnnotation = n" "ann fm' cloudConfigAppliedAnnotation = cloudConfigAppliedValue"
    "ann fm' rebootRequestedAtAnnotation = format_RFC3339 (kNow K w2)"
proof -
  obtain fm0 where fm0: "same_state fm fm0"
    "reconcile_body r fm machine cluster w = lifecycleStep r fc machine ds fm0 w"
    using active_body [OF assms(1-4)] by metis
  then have "fm' = fst (rebootStep r fc n fm0 w)"
    using assms by (simp add: lifecycleStep_def Let_def same_state_reads)
  then have "fm' = notReady (r_Client r) w2 ''Rebooting''
      ''Rebooting the node to apply its bootstrap configuration''
      (add_annotations (r_Client r) (record_id rebootCommandIDAnnotation cmd
        [rebootRequestedAtAnnotation \<mapsto> format_RFC3339 (kNow (r_Client r) w2)])
        (del_ann retryNotBeforeAnnotation fm0))"
    using assms fm0 by (simp add: rebootStep_def Let_def same_state_reads)
  then show "ann fm' NodeIDAnnotation = n" "ann fm' cloudConfigAppliedAnnotation = cloudConfigAppliedValue"
    "ann fm' rebootRequestedAtAnnotation = format_RFC3339 (kNow K w2)"
    using assms(1,5,7) fm0(1) by (simp_all add: same_state_ann)
qed

lemma rejoin_pass:
  assumes "r_Client r = K" "active r fm machine cluster" "m_DataSecretName machine = Some ds"
    and "connected r cluster w = Some fc" "ann fm NodeIDAnnotation = n" "n \<noteq> ''''"
    and "ann fm cloudConfigAppliedAnnotation = cloudConfigAppliedValue"
    and "ann fm rebootRequestedAtAnnotation = format_RFC3339 t" "four_digit_year t"
    and "fst (GetNode fc n w) = Inr (Some node)" "node_Phase node = PhaseOnline"
    and "node_LastHeartbeat node = Some hb" "t < hb"
  defines "fm' \<equiv> fst (reconcile_body r fm machine cluster w)"
  shows "provisioned fm' = Some True"
    "fms_ProviderID (fm_Spec fm') = Some (providerIDPrefix @ node_ID node)"
proof -
  have heard: "heard_since_reboot fm node"
    using assms(8,11-13) parse_format_RFC3339 [OF assms(9)] whole_second_le [of t]
    by (simp add: heard_since_reboot_def)
  obtain fm0 where fm0: "same_state fm fm0"
    "reconcile_body r fm machine cluster w = lifecycleStep r fc machine ds fm0 w"
    using active_body [OF assms(1-4)] by metis
  obtain w2 where "GetNode fc n w = (Inr (Some node), w2)"
    using assms(10) by (metis prod.collapse)
  then have "lifecycleStep r fc machine ds fm0 w = (provision K w2 node fm0, Return no_requeue None, w2)"
    using assms(1,5-7) heard fm0(1)
    by (intro rejoin_provisions) (simp_all add: same_state_ann heard_same_state)
  then show "provisioned fm' = Some True"
    "fms_ProviderID (fm_Spec fm') = Some (providerIDPrefix @ node_ID node)"
    using fm0(2) by (simp_all add: fm'_def)
qed

end

lemma retryWait_none [simp]: "ann fm retryNotBeforeAnnotation = '''' \<Longrightarrow> retryWait fm now = 0"
  by (simp add: retryWait_def)

lemma claimKeyFor_fresh: "ann fm claimKeyAnnotation = '''' \<Longrightarrow> claimKeyFor fm = om_UID (fm_Meta fm)"
  by (simp add: claimKeyFor_def)

end
