(* ===== verification/MachineOutcome.thy ===== *)
theory MachineOutcome
  imports MachineSafety MachinePass
begin

text \<open>
  How passes end: the length of the retry window, a node that stays away, the terminal failure,
  the deletion of a machine and the key its node is released with.
\<close>

subsection \<open>The retry window\<close>

lemma whole_second_bounds: "whole_second t \<le> t" "t < whole_second t + nanos"
  using whole_second_le [of t] whole_second_gt [of t] by simp_all

text \<open>C20: after \<open>openRetryWindow(now, after)\<close>, \<open>retryWait\<close> at a later time is exactly what is
  left of the window, whose end is \<open>now + after\<close> cut to the second; so a window never closes
  later than asked, and less than a second earlier.\<close>

theorem retry_window_exact:
  assumes "kube_lib K" "four_digit_year (now + after)" "now \<le> t" "0 \<le> after" "after \<le> max_duration"
  shows "retryWait (openRetryWindow K fm now after) t
      = (if t < whole_second (now + after) then whole_second (now + after) - t else 0)
    \<and> retryWait (openRetryWindow K fm now after) t \<le> max 0 (now + after - t)
    \<and> max 0 (now + after - t) < retryWait (openRetryWindow K fm now after) t + nanos"
proof -
  let ?T = "whole_second (now + after)"
  have T: "?T \<le> now + after" "now + after < ?T + nanos" by (rule whole_second_bounds)+
  have stored: "ann (openRetryWindow K fm now after) retryNotBeforeAnnotation = format_RFC3339 (now + after)"
    using assms(1) by (simp add: kube_lib.openRetryWindow_frame time_Add_def)
  have sub: "0 < time_Sub ?T t \<longleftrightarrow> t < ?T" by (rule time_Sub_pos_iff)
  have exact: "t < ?T \<Longrightarrow> time_Sub ?T t = ?T - t"
    using T(1) assms(3,5) by (intro time_Sub_exact) linarith
  have val: "retryWait (openRetryWindow K fm now after) t = (if t < ?T then ?T - t else 0)"
    using sub exact by (simp add: retryWait_def stored parse_format_RFC3339 [OF assms(2)] Let_def)
  have "0 < nanos" by (simp add: nanos_def)
  with T show ?thesis unfolding val by (auto simp: max_def)
qed

subsection \<open>Commands the node reports as failed\<close>

text \<open>A pass that gets to the steps, as the step its annotations choose.\<close>

context kube_lib
begin

lemma reboot_step_of_pass:
  assumes "reconcile_body r fm machine cluster w = (fm', out, w')" "r_Client r = K"
    and "active r fm machine cluster" "m_DataSecretName machine = Some ds" "connected r cluster w = Some fc"
    and "lifecycle_of fm = Configured n cmd"
  obtains fm0 where "same_state fm fm0" "rebootStep r fc n fm0 w = (fm', out, w')"
    "ann fm0 cloudConfigCommandIDAnnotation = cmd" "ann fm NodeIDAnnotation = n" "n \<noteq> ''''"
    "ann fm rebootRequestedAtAnnotation = ''''"
proof -
  obtain fm0 where fm0: "same_state fm fm0"
    "reconcile_body r fm machine cluster w = lifecycleStep r fc machine ds fm0 w"
    using active_body [OF assms(2-5)] by metis
  have m: "ann fm NodeIDAnnotation = n" "n \<noteq> ''''" "ann fm cloudConfigCommandIDAnnotation = cmd"
    "ann fm cloudConfigAppliedAnnotation = cloudConfigAppliedValue" "ann fm rebootRequestedAtAnnotation = ''''"
    using assms(6) by (auto simp: lifecycle_of_def Let_def split: if_splits)
  with fm0 assms(1) have "rebootStep r fc n fm0 w = (fm', out, w')"
    by (simp add: lifecycleStep_def Let_def same_state_ann)
  then show ?thesis using that fm0(1) m by (simp add: same_state_ann)
qed

lemma rejoin_step_of_pass:
  assumes "reconcile_body r fm machine cluster w = (fm', out, w')" "r_Client r = K"
    and "active r fm machine cluster" "m_DataSecretName machine = Some ds" "connected r cluster w = Some fc"
    and "lifecycle_of fm = Rebooting n cmd t rcmd"
  obtains fm0 where "same_state fm fm0" "rejoinStep r fc n fm0 w = (fm', out, w')"
    "ann fm NodeIDAnnotation = n" "n \<noteq> ''''" "ann fm cloudConfigCommandIDAnnotation = cmd"
    "ann fm rebootCommandIDAnnotation = rcmd" "ann fm rebootRequestedAtAnnotation = t" "t \<noteq> ''''"
    "ann fm cloudConfigAppliedAnnotation = cloudConfigAppliedValue"
proof -
  obtain fm0 where fm0: "same_state fm fm0"
    "reconcile_body r fm machine cluster w = lifecycleStep r fc machine ds fm0 w"
    using active_body [OF assms(2-5)] by metis
  have m: "ann fm NodeIDAnnotation = n" "n \<noteq> ''''" "ann fm cloudConfigCommandIDAnnotation = cmd"
    "ann fm cloudConfigAppliedAnnotation = cloudConfigAppliedValue" "ann fm rebootRequestedAtAnnotation = t"
    "ann fm rebootCommandIDAnnotation = rcmd" "t \<noteq> ''''"
    using assms(6) by (auto simp: lifecycle_of_def Let_def split: if_splits)
  with fm0 assms(1) have "rejoinStep r fc n fm0 w = (fm', out, w')"
    by (simp add: lifecycleStep_def Let_def same_state_ann)
  then show ?thesis using that fm0(1) m by (simp add: same_state_ann)
qed

end

text \<open>A node that is off stays the machine's node and is not rebooted again: while AuroraBoot
  reports a phase other than Online, the pass keeps every annotation, sends nothing, reports
  not provisioned and looks again after 15 seconds.\<close>

lemma offline_node_is_waited_for:
  assumes "kube_lib (r_Client r)" "r_FleetClientFactory r = Some (\<lambda>_ _. fake_client f)"
    and "reconcile_body r fm machine cluster w = (fm', out, w')" "active r fm machine cluster"
    and "m_DataSecretName machine = Some ds" "connected r cluster w = Some (fake_client f)"
    and "lifecycle_of fm = Rebooting n cmd t rcmd"
    and "fst (GetNode (fake_client f) n w) = Inr (Some node)" "node_Phase node \<noteq> PhaseOnline"
  shows "(\<forall>k. ann fm' k = ann fm k) \<and> snd w' = snd w \<and> provisioned fm' = Some False
    \<and> ready_reason fm' = Some ''WaitingForNodeRejoin'' \<and> out = Return (requeue_after (seconds 15)) None"
proof -
  obtain fm0 where fm0: "same_state fm fm0" "rejoinStep r (fake_client f) n fm0 w = (fm', out, w')"
    using kube_lib.rejoin_step_of_pass [OF assms(1,3) refl assms(4-7)] by metis
  obtain w1 where w1: "GetNode (fake_client f) n w = (Inr (Some node), w1)"
    using assms(8) by (metis prod.collapse)
  have "fm' = notReady (r_Client r) w1 ''WaitingForNodeRejoin''
         ''Waiting for the node to reboot and report Online'' fm0"
    "out = Return (requeue_after waitForRejoinRequeue) None" "w' = w1"
    using fm0(2) [symmetric] assms(9)
    by (simp_all add: rejoinStep_def Let_def w1 rejoinedAfterReboot_def rebootFailed_def)
  then show ?thesis
    using fm0(1) kube_lib.ready_reason_set [OF assms(1)] fake_client_calls(2) [of f n w] w1
    by (simp add: same_state_ann waitForRejoinRequeue_def)
qed

subsection \<open>Which command decides\<close>

text \<open>With a recorded command ID, \<open>commandState\<close> reads that command and no other, wherever
  it stands in the history; an unlisted command counts as still running.\<close>

lemma commandState_reads_recorded_command:
  assumes "fst (GetCommands fc n w) = Inr cmds" "i \<noteq> ''''" "distinct (map cmd_ID cmds)"
  shows "(\<forall>cmd \<in> set cmds. cmd_ID cmd = i \<longrightarrow>
        fst (commandState fc n i name w)
          = (cmd_Phase cmd = CommandPhaseCompleted,
             cmd_Phase cmd = CommandPhaseFailed \<or> cmd_Phase cmd = CommandPhaseExpired,
             if cmd_Phase cmd = CommandPhaseFailed \<or> cmd_Phase cmd = CommandPhaseExpired then cmd_Result cmd else ''''))
    \<and> (i \<notin> cmd_ID ` set cmds \<longrightarrow> fst (commandState fc n i name w) = (False, False, ''''))"
proof -
  obtain w1 where w1: "GetCommands fc n w = (Inr cmds, w1)" using assms(1) by (metis prod.collapse)
  have found: "List.find (\<lambda>c. cmd_ID c = i) cmds = Some cmd" if "cmd \<in> set cmds" "cmd_ID cmd = i" for cmd
    using that assms(3) by (induction cmds) auto
  have none: "List.find (\<lambda>c. cmd_ID c = i) cmds = None" if "i \<notin> cmd_ID ` set cmds"
    using that by (auto simp: find_None_iff)
  show ?thesis
    using assms(2) w1 found none
    by (auto simp: commandState_def select_by_id command_outcome_def command_phase_defs)
qed

text \<open>Without an ID the scan keeps the newest command of its kind.\<close>

definition dated_newest :: "string \<Rightarrow> Command list \<Rightarrow> Command \<Rightarrow> bool" where
  "dated_newest name cmds c \<longleftrightarrow> c \<in> set cmds \<and> cmd_Command c = name \<and>
     (\<exists>t. cmd_CreatedAt c = Some t \<and>
        (\<forall>d \<in> set cmds. cmd_Command d = name \<and> d \<noteq> c \<longrightarrow> (\<exists>s. cmd_CreatedAt d = Some s \<and> s < t)))"

lemma select_keeps_newest:
  assumes "cmd_Command c = name" "cmd_CreatedAt c = Some t"
    and "\<And>d. d \<in> set cmds \<Longrightarrow> cmd_Command d = name \<Longrightarrow> d \<noteq> c \<Longrightarrow> \<exists>s. cmd_CreatedAt d = Some s \<and> s < t"
    and "latest = Some c \<or> (c \<in> set cmds \<and> (\<forall>l. latest = Some l \<longrightarrow> (\<exists>s. cmd_CreatedAt l = Some s \<and> s < t)))"
  shows "select_command '''' name cmds latest = Some c"
  using assms(3,4)
proof (induction cmds arbitrary: latest)
  case Nil
  then show ?case by auto
next
  case (Cons d cmds)
  have IH: "latest = Some c \<or> (c \<in> set cmds \<and> (\<forall>l. latest = Some l \<longrightarrow> (\<exists>s. cmd_CreatedAt l = Some s \<and> s < t)))
      \<Longrightarrow> select_command '''' name cmds latest = Some c" for latest
    using Cons.IH Cons.prems(1) by (metis list.set_intros(2))
  show ?case
  proof (cases "cmd_Command d = name")
    case False
    then have "d \<noteq> c" using assms(1) by blast
    then show ?thesis using False Cons.prems(2) IH by auto
  next
    case named: True
    show ?thesis
    proof (cases "d = c")
      case True
      then have "select_command '''' name (d # cmds) latest = select_command '''' name cmds (Some c)"
        using named assms(2) Cons.prems(2)
        by (auto simp: newerCommand_def time_After_def split: option.splits)
      then show ?thesis using IH by simp
    next
      case False
      then obtain s where s: "cmd_CreatedAt d = Some s" "s < t" using Cons.prems(1) named by auto
      then show ?thesis using named False Cons.prems(2) assms(2) IH [of latest] IH [of "Some d"]
        by (auto simp: newerCommand_def time_After_def split: option.splits)
    qed
  qed
qed

text \<open>C27: without a recorded ID, \<open>commandState\<close> reads the newest command of its kind, whatever
  the order AuroraBoot lists them in, so that an old failure does not shadow a later success.\<close>

theorem commandState_reads_newest_command:
  assumes "fst (GetCommands fc n w) = Inr cmds" "dated_newest name cmds cmd"
  shows "fst (commandState fc n '''' name w)
    = (cmd_Phase cmd = CommandPhaseCompleted,
       cmd_Phase cmd = CommandPhaseFailed \<or> cmd_Phase cmd = CommandPhaseExpired,
       if cmd_Phase cmd = CommandPhaseFailed \<or> cmd_Phase cmd = CommandPhaseExpired then cmd_Result cmd else '''')"
proof -
  obtain w1 where w1: "GetCommands fc n w = (Inr cmds, w1)" using assms(1) by (metis prod.collapse)
  obtain t where "cmd \<in> set cmds" "cmd_Command cmd = name" "cmd_CreatedAt cmd = Some t"
    "\<And>d. d \<in> set cmds \<Longrightarrow> cmd_Command d = name \<Longrightarrow> d \<noteq> cmd \<Longrightarrow> \<exists>s. cmd_CreatedAt d = Some s \<and> s < t"
    using assms(2) by (auto simp: dated_newest_def)
  then have "select_command '''' name cmds None = Some cmd" by (intro select_keeps_newest) auto
  then show ?thesis using w1 by (auto simp: commandState_def command_outcome_def command_phase_defs)
qed

subsection \<open>Deletion\<close>

text \<open>The node needs no release, can never be released, or AuroraBoot answers that it is released,
  gone, or held under another key.\<close>

definition released :: "'w Reconciler \<Rightarrow> KairosFleetMachine \<Rightarrow> Cluster \<Rightarrow> 'w \<Rightarrow> bool" where
  "released r fm cluster w \<longleftrightarrow> ann fm NodeIDAnnotation = '''' \<or>
     (case fleetClientForDelete r cluster w of
        Inl err \<Rightarrow> isPermanentlyUnresolvable (r_Client r) err
      | Inr fc \<Rightarrow> (case fst (Release fc (ann fm NodeIDAnnotation) (claimKeyFor fm) w) of
          Inr _ \<Rightarrow> True | Inl err \<Rightarrow> IsNotFound err \<or> IsClaimMismatch err))"

lemma reconcileDelete_released:
  assumes "reconcileDelete r fm cluster w = (fm', err, w')"
  shows "if released r fm cluster w then err = None \<and> fm' = remove_finalizer (r_Client r) fm
    else err \<noteq> None \<and> fm' = fm"
  using assms by (auto simp: reconcileDelete_def released_def Let_def split: if_splits sum.splits prod.splits)

text \<open>C21: the delete of a machine removes the finalizer exactly when the node is released or
  there is nothing left to release it from; otherwise the object stays as it is and the error
  makes the pass run again.\<close>

theorem delete_removes_finalizer_iff:
  assumes "kube_lib (r_Client r)" "reconcileDelete r fm cluster w = (fm', err, w')"
    and "KairosFleetMachineFinalizer \<in> finalizers fm"
  shows "(KairosFleetMachineFinalizer \<notin> finalizers fm' \<longleftrightarrow> released r fm cluster w)
    \<and> (err = None \<longleftrightarrow> released r fm cluster w)
    \<and> finalizers fm - {KairosFleetMachineFinalizer} \<subseteq> finalizers fm' \<and> (\<not> released r fm cluster w \<longrightarrow> fm' = fm)"
proof -
  have "finalizers (remove_finalizer (r_Client r) fm) = finalizers fm - {KairosFleetMachineFinalizer}"
    using kube_lib.remove_finalizer [OF assms(1)] by (simp add: remove_finalizer_def finalizers_def)
  then show ?thesis
    using reconcileDelete_released [OF assms(2)] assms(3) by (cases "released r fm cluster w") auto
qed

text \<open>C22: a delete gives up on the release for good exactly when the connection can never be
  resolved: the KairosFleetCluster or the token Secret is not there, or one of them is there and
  says nothing. A failing read is never taken for that. The reads do not return the sentinel,
  which is private to the controller.\<close>

theorem unresolvable_iff:
  assumes "kube_lib (r_Client r)"
    and "\<And>k e. kGetCluster (r_Client r) k w = Inl e \<Longrightarrow> \<not> is_ConnectionIncomplete e"
    and "\<And>k e. kGetSecret (r_Client r) k w = Inl e \<Longrightarrow> \<not> is_ConnectionIncomplete e"
  shows "(\<exists>err. fleetClientForDelete r cluster w = Inl err \<and> isPermanentlyUnresolvable (r_Client r) err)
    \<longleftrightarrow> (case kGetCluster (r_Client r) (infra_key cluster) w of
         Inl e \<Rightarrow> kIsNotFound (r_Client r) e
       | Inr fcl \<Rightarrow> ab_URL (fcs_AuroraBoot (fc_Spec fcl)) = '''' \<or>
           (case kGetSecret (r_Client r) \<lparr>nn_Namespace = om_Namespace (fc_Meta fcl),
                nn_Name = sr_Name (ab_AdminTokenSecretRef (fcs_AuroraBoot (fc_Spec fcl)))\<rparr> w of
              Inl e \<Rightarrow> kIsNotFound (r_Client r) e
            | Inr secret \<Rightarrow> map_read (s_Data secret) adminTokenSecretKey = ''''))"
  using assms(2,3) kube_lib.not_found_wrap [OF assms(1)] kube_lib.not_found_incomplete [OF assms(1)]
  by (auto simp: fleetClientForDelete_def resolveFleetClient_def isPermanentlyUnresolvable_def Let_def
      split: sum.splits if_splits)

text \<open>C17: the key a node was claimed with is the key it is released with, however many passes,
  edits and restores under a new UID lie between.\<close>

theorem released_with_the_key_it_was_claimed_with:
  assumes "kube_lib (r_Client r)" "r_FleetClientFactory r = Some (\<lambda>_ _. fake_client f)"
    and "reconcile_body r fm machine cluster w = (fm1, out, w')"
    and "Claims (snd w') = Claims (snd w) @ [call]" "cc_ClaimKey call \<noteq> ''''" "ann fm1 NodeIDAnnotation \<noteq> ''''"
    and "reachable r fm1 fm2"
    and "reconcile_body r fm2 machine2 cluster2 v = (fm3, out2, v')"
    and "Releases (snd v') = Releases (snd v) @ [rel]"
  shows "rc_ClaimKey rel = cc_ClaimKey call \<and> rc_NodeID rel = ann fm1 NodeIDAnnotation"
proof -
  have "cc_ClaimKey call = claimKeyFor fm \<and> ann fm NodeIDAnnotation = []"
    by (rule fake.reconcile_body_calls [OF assms(3,1,2)]) (use assms(4) in \<open>auto simp: log_defs\<close>)
  then have key: "cc_ClaimKey call = claimKeyFor fm" and fresh: "ann fm NodeIDAnnotation = []" by simp_all
  have recorded: "ann fm1 claimKeyAnnotation = claimKeyFor fm"
    using claim_recorded [OF assms(3,1) fresh assms(6)] .
  have later: "ann fm2 claimKeyAnnotation = claimKeyFor fm" "ann fm2 NodeIDAnnotation = ann fm1 NodeIDAnnotation"
    using reachable_key [OF assms(7,1,6)] recorded by simp_all
  have "rel = \<lparr>rc_NodeID = ann fm2 NodeIDAnnotation, rc_ClaimKey = claimKeyFor fm2\<rparr>"
    by (rule fake.reconcile_body_calls [OF assms(8,1,2)]) (use assms(9) in \<open>simp_all add: log_defs\<close>)
  then show ?thesis using later key assms(5) by (simp add: claimKeyFor_def)
qed

subsection \<open>Failures and waits\<close>

context kube_lib
begin

lemma lifecycleStep_failure:
  assumes "lifecycleStep r fc machine ds fm w = (fm', out, w')" "r_Client r = K"
  obtains (same) "failureReason fm' = failureReason fm"
  | (cleared) "failureReason fm' = None" "ready_reason fm' = Some ''CloudConfigFailed''"
  | (missing) e where "failureReason fm' = Some ''NodeMissing''" "ann fm NodeIDAnnotation \<noteq> ''''"
      "fst (GetNode fc (ann fm NodeIDAnnotation) w) = Inl e" "IsNotFound e" "out = Return no_requeue None"
      "provisioned fm' = Some False"
  using assms(1)
proof (cases rule: lifecycleStep_cases)
  case at_claim
  from at_claim(2) show ?thesis using assms(2) same by (cases rule: claimStep_cases) auto
next
  case at_apply
  from at_apply(3) show ?thesis using assms(2) same by (cases rule: applyStep_cases) auto
next
  case at_reboot
  obtain applied failed msg w1 where "commandState fc (ann fm NodeIDAnnotation)
      (ann fm cloudConfigCommandIDAnnotation) CommandApplyCloudConfig w = ((applied, failed, msg), w1)"
    using prod_cases3 prod.exhaust by metis
  from at_reboot(4) this show ?thesis
  proof (cases rule: rebootStep_cases)
    case failed
    then show ?thesis using assms(2) cleared by (simp del: append_Cons)
  qed (use assms(2) same in auto)
next
  case at_rejoin
  from at_rejoin(4) show ?thesis
  proof (cases rule: rejoinStep_cases)
    case (missing e)
    then show ?thesis using assms(2) at_rejoin(1) that(3) [of e]
      by (simp del: append_Cons)
  qed (use assms(2) same in \<open>auto simp del: append_Cons\<close>)
qed

end

lemma body_failure:
  assumes "reconcile_body r fm machine cluster w = (fm', out, w')" "kube_lib (r_Client r)"
  obtains (same) "failureReason fm' = failureReason fm"
  | (cleared) "failureReason fm' = None" "ready_reason fm' = Some ''CloudConfigFailed''"
  | (missing) fc e where "failureReason fm' = Some ''NodeMissing''" "ann fm NodeIDAnnotation \<noteq> ''''"
      "connected r cluster w = Some fc" "fst (GetNode fc (ann fm NodeIDAnnotation) w) = Inl e" "IsNotFound e"
      "out = Return no_requeue None" "provisioned fm' = Some False"
proof -
  show ?thesis
  proof (rule kube_lib.reconcile_body_cases [OF assms(2,1) refl], goal_cases stopped deleting normal)
    case stopped
    then show ?case using same by (simp add: same_state_views)
  next
    case (deleting fm0 err)
    then show ?case using kube_lib.reconcileDelete_state [OF assms(2) deleting(4) refl] same
      by (simp add: same_state_views)
  next
    case (normal fm0)
    note views = same_state_reads [OF normal(2)]
    from normal(4) show ?case
    proof (cases rule: reconcileNormal_cases)
      case (step ds fc)
      show ?thesis
        by (rule kube_lib.lifecycleStep_failure [OF assms(2) step(3) refl])
          (use same cleared missing [of fc] views step in \<open>simp_all add: connected_def\<close>)
    qed (use same views in simp_all)
  qed
qed

text \<open>C24: the only terminal failure is NodeMissing, it is set by the pass that finds AuroraBoot
  answering 404 for the node the machine holds, that pass does not requeue, and a failed apply
  clears it; nothing else touches the failure reason.\<close>

theorem failure_reason_changes:
  assumes "kube_lib (r_Client r)" "reconcile_body r fm machine cluster w = (fm', out, w')"
    and "failureReason fm' \<noteq> failureReason fm"
  shows "(failureReason fm' = None \<and> ready_reason fm' = Some ''CloudConfigFailed'')
    \<or> (failureReason fm' = Some ''NodeMissing'' \<and> provisioned fm' = Some False \<and> out = Return no_requeue None
       \<and> (\<exists>fc e. connected r cluster w = Some fc
            \<and> fst (GetNode fc (ann fm NodeIDAnnotation) w) = Inl e \<and> IsNotFound e))"
  by (rule body_failure [OF assms(2,1)]) (use assms(3) in auto)

text \<open>C25: waiting is not an error. A pass over a machine with no node requeues after 30 seconds and
  says why when the group does not exist (yet) or has no free node, records node and key when the
  claim succeeds, and otherwise changes nothing and returns the error, wrapped with what was being
  done, for a retry with backoff. An answer without a node and without an error is a panic.\<close>

theorem claim_pass_outcomes:
  assumes "kube_lib (r_Client r)" "reconcile_body r fm machine cluster w = (fm', out, w')"
    and "active r fm machine cluster" "m_DataSecretName machine = Some ds" "connected r cluster w = Some fc"
    and "ann fm NodeIDAnnotation = ''''"
  defines "grp \<equiv> fms_Group (fm_Spec fm)"
  shows "case ResolveGroupID fc grp w of
      (Inl e, w1) \<Rightarrow>
        if IsNotFound e
        then out = Return (requeue_after (seconds 30)) None \<and> ready_reason fm' = Some ''GroupNotFound''
             \<and> ann fm' NodeIDAnnotation = ''''
        else out = Return no_requeue (Some (WrapErr (''resolving group '' @ go_quote grp @ '': '') e))
             \<and> same_state fm fm'
    | (Inr g, w1) \<Rightarrow>
        (case fst (Claim fc g (claimKeyFor fm) w1) of
           Inl e \<Rightarrow>
             if IsNoCapacity e
             then out = Return (requeue_after (seconds 30)) None \<and> ready_reason fm' = Some ''WaitingForCapacity''
                  \<and> ann fm' NodeIDAnnotation = ''''
             else out = Return no_requeue (Some (WrapErr (''claiming node from group '' @ go_quote grp @ '': '') e))
                  \<and> same_state fm fm'
         | Inr None \<Rightarrow> out = Panic ''nil pointer dereference'' \<and> same_state fm fm'
         | Inr (Some node) \<Rightarrow>
             out = Return no_requeue None \<and> ready_reason fm' = Some ''NodeClaimed''
             \<and> ann fm' NodeIDAnnotation = node_ID node \<and> ann fm' claimKeyAnnotation = claimKeyFor fm)"
proof -
  obtain fm0 where fm0: "same_state fm fm0"
    "reconcile_body r fm machine cluster w = lifecycleStep r fc machine ds fm0 w"
    using kube_lib.active_body [OF assms(1) refl assms(3-5)] by metis
  then have step: "claimStep r fc (claimKeyFor fm) fm0 w = (fm', out, w')"
    using assms(2,6) by (simp add: lifecycleStep_def Let_def same_state_reads)
  have gr: "fms_Group (fm_Spec fm0) = grp" using fm0(1) by (simp add: grp_def same_state_reads)
  have ann0: "ann fm0 NodeIDAnnotation = ''''" using fm0(1) assms(6) by (simp add: same_state_ann)
  note frame = kube_lib.ready_reason_set [OF assms(1)] kube_lib.add_annotations_frame [OF assms(1)]
  note step' = step [symmetric, unfolded claimStep_def Let_def gr]
  obtain a w1 where a: "ResolveGroupID fc grp w = (a, w1)" by (cases "ResolveGroupID fc grp w")
  show ?thesis
  proof (cases a)
    case (Inl e)
    then show ?thesis using step' a ann0 fm0(1)
      by (cases "IsNotFound e") (simp_all add: frame waitForCapacityRequeue_def del: append_Cons)
  next
    case (Inr g)
    obtain b w2 where b: "Claim fc g (claimKeyFor fm) w1 = (b, w2)" by (cases "Claim fc g (claimKeyFor fm) w1")
    show ?thesis
    proof (cases b)
      case (Inl e)
      then show ?thesis using step' a b Inr ann0 fm0(1)
        by (cases "IsNoCapacity e") (simp_all add: frame waitForCapacityRequeue_def del: append_Cons)
    next
      case node: (Inr nd)
      then show ?thesis using step' a b Inr fm0(1)
        by (cases nd) (simp_all add: frame del: append_Cons)
    qed
  qed
qed

subsection \<open>The rejoin test\<close>

text \<open>C23: the heartbeat is compared with the reboot's time as it was written down, cut to the
  second: a heartbeat after the reboot always counts, one from an earlier second never does, and
  one from the second of the reboot counts even when it came before the reboot.\<close>

theorem rejoin_test_exact:
  assumes "ann fm rebootRequestedAtAnnotation = format_RFC3339 t" "four_digit_year t"
    and "node_LastHeartbeat node = Some hb"
  shows "(rejoinedAfterReboot fm node \<longleftrightarrow> node_Phase node = PhaseOnline \<and> whole_second t < hb)
    \<and> (node_Phase node = PhaseOnline \<and> t < hb \<longrightarrow> rejoinedAfterReboot fm node)
    \<and> (rejoinedAfterReboot fm node \<longrightarrow> t - nanos < hb)"
  using whole_second_bounds [of t] parse_format_RFC3339 [OF assms(2)] assms(1,3)
  by (auto simp: rejoinedAfterReboot_def time_After_def)

text \<open>So a node that has not rebooted yet can pass for one that has: a heartbeat that came
  before the reboot was asked for, in the same second, is taken for a rejoin.\<close>

lemma early_heartbeat_counts:
  "rejoinedAfterReboot (demo_fm [rebootRequestedAtAnnotation \<mapsto> format_RFC3339 (demo_time + 900000000)])
     (demo_node PhaseOnline (Some (demo_time + 100000000)))"
proof -
  have "parse_RFC3339 (format_RFC3339 (demo_time + 900000000)) = Some (whole_second (demo_time + 900000000))"
    by (rule parse_format_RFC3339) (simp add: four_digit_year_def demo_time_def nanos_def)
  then show ?thesis
    by (simp add: rejoinedAfterReboot_def demo_fm_def demo_node_def ann_def time_After_def whole_second_def
        unix_secs_def demo_time_def nanos_def)
qed

subsection \<open>Clients that answer\<close>

text \<open>The steps dereference the node that comes back without an error. A client whose
  successful answers carry a node never makes a pass panic; the HTTP client is one.\<close>

locale answering_client =
  fixes c :: "'w Client"
  assumes claim_answers: "fst (Claim c g k w) \<noteq> Inr None"
    and node_answers: "fst (GetNode c n w) \<noteq> Inr None"
begin

lemma step_returns:
  assumes "lifecycleStep r c machine ds fm w = (fm', out, w')"
  shows "out \<noteq> Panic s"
  using assms
proof (cases rule: lifecycleStep_cases)
  case at_claim
  then show ?thesis using claim_answers
    by (auto simp: claimStep_def Let_def split: prod.splits sum.splits option.splits if_splits) (metis fst_conv)+
next
  case at_apply
  from at_apply(3) show ?thesis by (cases rule: applyStep_cases) auto
next
  case at_reboot
  obtain applied failed msg w1 where "commandState c (ann fm NodeIDAnnotation)
      (ann fm cloudConfigCommandIDAnnotation) CommandApplyCloudConfig w = ((applied, failed, msg), w1)"
    using prod_cases3 prod.exhaust by metis
  from at_reboot(4) this show ?thesis by (cases rule: rebootStep_cases) auto
next
  case at_rejoin
  from at_rejoin(4) show ?thesis using node_answers by (cases rule: rejoinStep_cases) auto
qed

end

interpretation http: answering_client "http_client net c" for net :: "'w net" and c :: "'w httpClient"
  by unfold_locales
    (auto simp: http_client_def http_Claim_def http_GetNode_def map_res_def split: prod.splits sum.splits)

lemma default_client_is_http:
  assumes "r_FleetClientFactory r = None" "connected r cluster w = Some fc"
  shows "\<exists>c. fc = http_client (r_net r) c"
  using assms by (auto simp: connected_def fleetClientFor_def resolveFleetClient_def fleetFactory_def Let_def
      DefaultFleetClientFactory_def New_def split: sum.splits if_splits)

text \<open>C28: with the default factory no pass panics, whatever the network and AuroraBoot answer.\<close>

theorem default_client_never_panics:
  assumes "kube_lib (r_Client r)" "r_FleetClientFactory r = None"
    and "reconcile_body r fm machine cluster w = (fm', out, w')"
  shows "\<exists>res err. out = Return res err"
proof (rule kube_lib.reconcile_body_cases [OF assms(1,3) refl], goal_cases stopped deleting normal)
  case (normal fm0)
  from normal(4) show ?case
  proof (cases rule: reconcileNormal_cases)
    case (step ds fc)
    obtain c where "fc = http_client (r_net r) c"
      using default_client_is_http [OF assms(2), of cluster w fc] step(2) by (auto simp: connected_def)
    with step(3) have "lifecycleStep r (http_client (r_net r) c) machine ds fm0 w = (fm', out, w')" by simp
    from http.step_returns [OF this] show ?thesis by (cases out) auto
  qed simp_all
qed auto

subsection \<open>The whole reconcile\<close>

text \<open>A reconcile either changes nothing and ends without a requeue (the object is gone, has no
  owner yet, or could not be read), or makes one pass and patches the object from what was read
  to what the pass left, however the pass ended; the pass's error wins over the patch's, and a
  patch that fails after a pass without error is reported.\<close>

lemma reconcile_patches_the_pass:
  "case Reconcile r name w of (out, w') \<Rightarrow>
     (w' = w \<and> (\<exists>err. out = Return no_requeue err))
   \<or> (\<exists>fm machine cluster fm' ended w1 perr.
        kGetMachine (r_Client r) name w = Inr fm
        \<and> kGetOwnerMachine (r_Client r) (fm_Meta fm) w = Inr (Some machine)
        \<and> kGetClusterFromMetadata (r_Client r) (m_Meta machine) w = Inr cluster
        \<and> reconcile_body r fm machine cluster w = (fm', ended, w1)
        \<and> kPatchMachine (r_Client r) fm fm' w1 = (perr, w')
        \<and> out = (case ended of Return res None \<Rightarrow> Return res perr | _ \<Rightarrow> ended))"
  by (auto simp: Reconcile_def Let_def deferred_patch_def split: sum.splits option.splits prod.splits outcome.splits)

text \<open>A failure to find the owner's Cluster is taken for a missing label whatever its kind: the
  reconcile reports success, asks for no requeue and leaves the object, so that a machine being
  deleted keeps its finalizer and its node until something else triggers a reconcile.\<close>

lemma cluster_lookup_error_is_swallowed:
  assumes "kGetMachine (r_Client r) name w = Inr fm"
    and "kGetOwnerMachine (r_Client r) (fm_Meta fm) w = Inr (Some machine)"
    and "kGetClusterFromMetadata (r_Client r) (m_Meta machine) w = Inl e"
  shows "Reconcile r name w = (Return no_requeue None, w)"
  using assms by (simp add: Reconcile_def)

end
