(* ===== verification/MachineProgress.thy ===== *)
theory MachineProgress
  imports MachinePass Scenario
begin

text \<open>
  What the passes achieve: when a machine becomes provisioned, that the annotations implement
  the abstract lifecycle, and that an AuroraBoot which cooperates brings a new machine to
  provisioned in four passes.
\<close>

subsection \<open>The demo machine's four passes\<close>

definition demo_worlds :: "nat \<Rightarrow> time fworld" where
  "demo_worlds i = (demo_time + seconds (60 * int i), no_calls)"

definition demo_run :: "nat \<Rightarrow> KairosFleetMachine" where
  "demo_run i = run_passes demo_good demo_machine demo_cluster demo_worlds i (demo_fm Map.empty)"

lemma demo_at: "m_DataSecretName demo_machine = Some ''bootstrap''" "fms_Group (fm_Spec (demo_fm m)) = ''workers''"
  "node_ID (demo_node ph hb) = ''node-1''" "node_Phase (demo_node ph hb) = ph"
  "node_LastHeartbeat (demo_node ph hb) = hb" "cmd_ID (demo_command i name ph) = i"
  "cmd_Phase (demo_command i name ph) = ph" "fst (demo_worlds j) = demo_time + seconds (60 * int j)"
  "four_digit_year (demo_time + seconds 120)" "seconds 120 < seconds 150"
  by (simp_all add: demo_machine_def demo_fm_def demo_node_def demo_command_def demo_worlds_def demo_time_def
      four_digit_year_def nanos_def seconds_def)

lemma demo_created: "created (demo_fm Map.empty)"
  by (simp add: created_def demo_fm_def ann_def failureReason_def)

lemma demo_run_active:
  "\<forall>i \<in> set [0, 1, 2, 3]. active demo_good (demo_run i) demo_machine demo_cluster"
  unfolding demo_run_def by code_simp

lemma demo_run_0: "demo_run 0 = demo_fm Map.empty"
  by (simp add: demo_run_def)

lemma demo_reachable: "reachable demo_good (demo_run m) (demo_run (m + n))"
  unfolding demo_run_def
proof (induction n)
  case 0
  then show ?case by (simp add: reachable.start)
next
  case (Suc n)
  obtain fm' out w' where "reconcile_body demo_good (run_passes demo_good demo_machine demo_cluster demo_worlds (m + n)
      (demo_fm Map.empty)) demo_machine demo_cluster (demo_worlds (m + n)) = (fm', out, w')"
    by (metis prod_cases3)
  then show ?case using reachable.pass [OF Suc] by simp
qed

subsection \<open>Properties\<close>

text \<open>C1: in one pass a machine becomes provisioned exactly when the pass gets to the steps with a
  bootstrap secret and a client, the machine holds a node and has applied its cloud-config, and
  AuroraBoot answers that the node is Online and has been heard of after the recorded reboot.
  The pass then records the node's provider ID and addresses and reports Ready.\<close>

theorem provisioned_iff:
  assumes "kube_lib (r_Client r)" "provisioned fm \<noteq> Some True"
    and "reconcile_body r fm machine cluster w = (fm', out, w')"
  shows "(provisioned fm' = Some True \<longleftrightarrow>
      active r fm machine cluster \<and> m_DataSecretName machine \<noteq> None
      \<and> ann fm NodeIDAnnotation \<noteq> '''' \<and> ann fm cloudConfigAppliedAnnotation = cloudConfigAppliedValue
      \<and> (\<exists>fc node. connected r cluster w = Some fc
           \<and> fst (GetNode fc (ann fm NodeIDAnnotation) w) = Inr (Some node) \<and> heard_since_reboot fm node))
    \<and> (provisioned fm' = Some True \<longrightarrow>
        (\<exists>fc node. connected r cluster w = Some fc
           \<and> fst (GetNode fc (ann fm NodeIDAnnotation) w) = Inr (Some node)
           \<and> fms_ProviderID (fm_Spec fm') = Some (providerIDPrefix @ node_ID node)
           \<and> fmt_Addresses (fm_Status fm') = addressesFromNode node
           \<and> ready_status fm' = Some ConditionTrue))"
    (is "(_ \<longleftrightarrow> ?evidence) \<and> (_ \<longrightarrow> ?effect)")
proof -
  have 1: "?evidence \<and> ?effect" if p: "provisioned fm' = Some True"
    using kube_lib.newly_provisioned [OF assms(1,3) refl assms(2) p]
    by (smt (verit) kube_lib.provision_ready(1) [OF assms(1)] provision_views option.distinct(1))
  have 2: "provisioned fm' = Some True" if e: "?evidence"
  proof -
    from e obtain ds fc node where e': "m_DataSecretName machine = Some ds" "connected r cluster w = Some fc"
      "fst (GetNode fc (ann fm NodeIDAnnotation) w) = Inr (Some node)" "heard_since_reboot fm node" by auto
    from e have act: "active r fm machine cluster" by blast
    from kube_lib.active_body [OF assms(1) refl act e'(1,2)] obtain fm0 where
      fm0: "same_state fm fm0" "reconcile_body r fm machine cluster w = lifecycleStep r fc machine ds fm0 w"
      by metis
    have "GetNode fc (ann fm0 NodeIDAnnotation) w = (Inr (Some node), snd (GetNode fc (ann fm NodeIDAnnotation) w))"
      using e'(3) fm0(1) by (metis prod.collapse same_state_ann)
    from kube_lib.rejoin_provisions [OF assms(1) this] show ?thesis
      using e e' fm0 assms(3) by (simp add: same_state_ann heard_same_state)
  qed
  show ?thesis using 1 2 by blast
qed

text \<open>C2: one pass of the reconciler is one arrow of the abstract machine, or leaves the stage
  as it is, whatever AuroraBoot, the API server and the clock do; and the markers stay in order.\<close>

theorem reconcile_refines_lifecycle:
  assumes "kube_lib (r_Client r)" "well_marked fm"
    and "reconcile_body r fm machine cluster w = (fm', out, w')"
  shows "advance (lifecycle_of fm) (lifecycle_of fm') \<and> well_marked fm'"
  using kube_lib.reconcile_body_advances [OF assms(1,3) refl assms(2)] .

text \<open>C3: at any point of a machine's life, a machine reported as provisioned holds a node,
  has had its cloud-config applied and its node rebooted, and has its provider ID.\<close>

theorem provisioned_only_after_reboot:
  assumes "kube_lib (r_Client r)" "created fm0" "reachable r fm0 fm" "provisioned fm = Some True"
  shows "\<exists>n cmd t rcmd id. n \<noteq> '''' \<and> t \<noteq> '''' \<and> lifecycle_of fm = Rebooting n cmd t rcmd
    \<and> fms_ProviderID (fm_Spec fm) = Some (providerIDPrefix @ id)"
proof -
  have "well_marked fm"
    using reachable_advances [OF assms(3,1)] assms(2) created_well_marked by blast
  then show ?thesis using assms(4) by (auto simp: well_marked_def lifecycle_of_def Let_def)
qed

text \<open>C7: once a machine holds a node it holds that node in every later state, through failed
  applies and reboots, edits and restores: no second node is ever claimed for it.\<close>

theorem node_never_changes:
  assumes "kube_lib (r_Client r)" "created fm0" "reachable r fm0 fm" "reachable r fm fm'"
    and "ann fm NodeIDAnnotation \<noteq> ''''"
  shows "ann fm' NodeIDAnnotation = ann fm NodeIDAnnotation"
proof -
  have wm: "well_marked fm" using reachable_advances [OF assms(3,1)] assms(2) created_well_marked by blast
  have "stage_node (lifecycle_of fm) = Some (ann fm NodeIDAnnotation)"
    using assms(5) by (simp add: lifecycle_of_def Let_def)
  then have "stage_node (lifecycle_of fm') = Some (ann fm NodeIDAnnotation)"
    using reachable_advances [OF assms(4,1) wm] advances_keep_node by blast
  then show ?thesis by (auto simp: lifecycle_of_def Let_def split: if_splits)
qed

text \<open>C8: four passes bring a new machine to provisioned when AuroraBoot cooperates: the first
  claims a node, the second finds the bootstrap data and has its apply accepted, the third finds
  the apply completed and has its reboot accepted, the fourth finds the node Online with a
  heartbeat later than the reboot. Nothing is asked of the worlds in between.\<close>

theorem provisioned_in_four_passes:
  fixes ws :: "nat \<Rightarrow> 'w"
  assumes lib: "kube_lib (r_Client r)" and new: "created fm"
    and pass: "\<And>i. i < 4 \<Longrightarrow> active r (run_passes r machine cluster ws i fm) machine cluster"
      "\<And>i. i < 4 \<Longrightarrow> connected r cluster (ws i) = Some fc" "m_DataSecretName machine = Some ds"
    and claim: "ResolveGroupID fc (fms_Group (fm_Spec fm)) (ws 0) = (Inr g, w1)"
      "fst (Claim fc g (om_UID (fm_Meta fm)) w1) = Inr (Some node)" "node_ID node = n" "n \<noteq> ''''"
    and configure: "bootstrapData (r_Client r) machine ds (ws 1) = Inr data"
      "fst (ApplyCloudConfig fc n data (ws 1)) = Inr (Some cmd)" "cmd_ID cmd \<noteq> ''''"
    and completed: "GetCommands fc n (ws 2) = (Inr cmds, w2)" "cmd_ID cmd \<in> cmd_ID ` set cmds"
      "\<And>c. c \<in> set cmds \<Longrightarrow> cmd_ID c = cmd_ID cmd \<Longrightarrow> cmd_Phase c = CommandPhaseCompleted"
    and rebooted: "Reboot fc n w2 = (Inr rcmd, w3)" "four_digit_year (kNow (r_Client r) w3)"
    and rejoined: "fst (GetNode fc n (ws 3)) = Inr (Some node')" "node_Phase node' = PhaseOnline"
      "node_LastHeartbeat node' = Some hb" "kNow (r_Client r) w3 < hb"
  shows "provisioned (run_passes r machine cluster ws 4 fm) = Some True
    \<and> fms_ProviderID (fm_Spec (run_passes r machine cluster ws 4 fm))
      = Some (providerIDPrefix @ node_ID node')"
proof -
  let ?fm = "\<lambda>i. run_passes r machine cluster ws i fm"
  have next_pass: "?fm (Suc i) = fst (reconcile_body r (?fm i) machine cluster (ws i))" for i by simp
  note lemmas1 = kube_lib.claim_pass [OF lib refl _ pass(3)] and lemmas2 = kube_lib.apply_pass [OF lib refl _ pass(3)]
    and lemmas3 = kube_lib.reboot_pass [OF lib refl _ pass(3)] and lemmas4 = kube_lib.rejoin_pass [OF lib refl _ pass(3)]
  have key: "claimKeyFor fm = om_UID (fm_Meta fm)" "ann fm NodeIDAnnotation = ''''"
    "ann fm retryNotBeforeAnnotation = ''''" "ann fm cloudConfigAppliedAnnotation = ''''"
    "ann fm rebootRequestedAtAnnotation = ''''"
    using new by (simp_all add: created_def claimKeyFor_fresh)
  have 1: "ann (?fm 1) = (ann fm)(NodeIDAnnotation := n, claimKeyAnnotation := om_UID (fm_Meta fm))"
    using lemmas1 [of fm cluster "ws 0" fc g w1 node] pass(1,2) [of 0] claim key by simp
  have 2: "ann (?fm 2) = (ann (?fm 1))(retryNotBeforeAnnotation := '''',
      cloudConfigAppliedAnnotation := cloudConfigAppliedValue, cloudConfigCommandIDAnnotation := cmd_ID cmd)"
    using lemmas2 [of "?fm 1" cluster "ws 1" fc n data cmd] pass(1,2) [of 1] configure 1 key claim(4)
    by (simp add: numeral_2_eq_2)
  have compl: "commandState fc n (cmd_ID cmd) CommandApplyCloudConfig (ws 2) = ((True, False, ''''), w2)"
    using commandState_completed [of fc n "ws 2" cmds "cmd_ID cmd"] completed configure(3) by auto
  have 3: "ann (?fm 3) NodeIDAnnotation = n" "ann (?fm 3) cloudConfigAppliedAnnotation = cloudConfigAppliedValue"
    "ann (?fm 3) rebootRequestedAtAnnotation = format_RFC3339 (kNow (r_Client r) w3)"
    using lemmas3 [of "?fm 2" cluster "ws 2" fc n w2 rcmd w3] pass(1,2) [of 2] 1 2 key claim(4) compl rebooted(1)
    by (simp_all add: numeral_3_eq_3 numeral_2_eq_2)
  have 4: "provisioned (?fm (Suc 3)) = Some True"
    "fms_ProviderID (fm_Spec (?fm (Suc 3))) = Some (providerIDPrefix @ node_ID node')"
    unfolding next_pass
    by (rule lemmas4 [OF pass(1) pass(2) 3(1) claim(4) 3(2,3) rebooted(2) rejoined]; simp)+
  have "(4::nat) = Suc 3" by simp
  with 4 show ?thesis by metis
qed

text \<open>The demo machine is provisioned after its four passes.\<close>

theorem provisioned_in_four_passes_witness:
  "provisioned (demo_run 4) = Some True
    \<and> fms_ProviderID (fm_Spec (demo_run 4)) = Some ''kairos-fleet://node-1''"
proof -
  let ?n = "demo_node PhaseOnline (Some (demo_time + seconds 150))"
  let ?c = "demo_command ''c-1'' CommandApplyCloudConfig CommandPhasePending"
  have 4: "i \<in> set [0, 1, 2, 3]" if "i < 4" for i :: nat using that by auto
  have "provisioned (run_passes demo_good demo_machine demo_cluster demo_worlds 4 (demo_fm Map.empty)) = Some True
    \<and> fms_ProviderID (fm_Spec (run_passes demo_good demo_machine demo_cluster demo_worlds 4 (demo_fm Map.empty)))
      = Some (providerIDPrefix @ node_ID ?n)"
  proof (rule provisioned_in_four_passes [where fc = demo_client and ds = "''bootstrap''" and g = "''workers''"
        and node = ?n and n = "''node-1''" and data = "''#cloud-config''" and cmd = ?c
        and hb = "demo_time + seconds 150"])
    fix i :: nat assume "i < 4"
    then show "active demo_good (run_passes demo_good demo_machine demo_cluster demo_worlds i (demo_fm Map.empty))
        demo_machine demo_cluster"
      using demo_run_active 4 demo_run_def by metis
  qed (auto simp: demo_at demo_created demo_connected kube_lib_demo demo_client_def)
  then show ?thesis by (simp add: demo_run_def providerIDPrefix_def demo_node_def)
qed

subsection \<open>The properties at the demo machine\<close>

theorem provisioned_iff_witness:
  "provisioned demo_rebooting \<noteq> Some True \<and> provisioned (demo_pass demo_good demo_time demo_rebooting) = Some True
   \<and> ready_status (demo_pass demo_good demo_time demo_rebooting) = Some ConditionTrue"
proof -
  have 0: "provisioned demo_rebooting \<noteq> Some True" by (simp add: demo_rebooting_def demo_fm_def)
  obtain fm' out w' where body: "reconcile_body demo_good demo_rebooting demo_machine demo_cluster (demo_time, no_calls)
      = (fm', out, w')" by (metis prod_cases3)
  have 1: "provisioned (demo_pass demo_good demo_time demo_rebooting) = Some True" by code_simp
  then have "provisioned fm' = Some True" by (simp add: demo_pass_def body)
  with provisioned_iff [OF _ 0 body] have "ready_status fm' = Some ConditionTrue"
    by (auto simp: kube_lib_demo)
  with 0 1 show ?thesis by (simp add: demo_pass_def body)
qed

lemma demo_run_1: "lifecycle_of (demo_run 1) = Claimed ''node-1'' \<and> ann (demo_run 1) NodeIDAnnotation = ''node-1''"
  unfolding demo_run_def by code_simp

theorem reconcile_refines_lifecycle_witness:
  "lifecycle_of (demo_fm Map.empty) = Unclaimed \<and> lifecycle_of (demo_run 1) = Claimed ''node-1''
   \<and> advance Unclaimed (Claimed ''node-1'')"
proof -
  obtain fm' out w' where body: "reconcile_body demo_good (demo_fm Map.empty) demo_machine demo_cluster (demo_worlds 0)
      = (fm', out, w')" by (metis prod_cases3)
  then have "fm' = demo_run 1" by (simp add: demo_run_def)
  with reconcile_refines_lifecycle [OF _ created_well_marked [OF demo_created] body]
  show ?thesis by (auto simp: kube_lib_demo demo_run_1 [unfolded One_nat_def] created_Unclaimed [OF demo_created])
qed

lemma demo_provisioned: "provisioned (demo_run 4) = Some True"
  unfolding demo_run_def by code_simp

theorem provisioned_only_after_reboot_witness:
  "provisioned (demo_run 4) = Some True \<and> (\<exists>n cmd t rcmd. lifecycle_of (demo_run 4) = Rebooting n cmd t rcmd)"
  using provisioned_only_after_reboot [OF _ demo_created demo_reachable [of 0 4, simplified, unfolded demo_run_0]]
    demo_provisioned by (auto simp: kube_lib_demo)

theorem node_never_changes_witness:
  "ann (demo_run 1) NodeIDAnnotation = ''node-1'' \<and> ann (demo_run 4) NodeIDAnnotation = ''node-1''"
  using node_never_changes [OF _ demo_created demo_reachable [of 0 1, simplified, unfolded demo_run_0]
      demo_reachable [of 1 3, simplified]] demo_run_1
  by (auto simp: kube_lib_demo)

end
