(* ===== verification/ClusterController.thy ===== *)
theory ClusterController
  imports Connection
begin

text \<open>
  The reconciler of \<open>internal/controller/kairosfleetcluster_controller.go\<close>: it checks the
  AuroraBoot connection and the control-plane endpoint and sets
  \<open>status.initialization.provisioned\<close> and the Ready condition; it owns nothing outside, so a
  delete only removes the finalizer.
\<close>

definition cluster_set_ready ::
  "'w Kube \<Rightarrow> 'w \<Rightarrow> bool \<Rightarrow> ConditionStatus \<Rightarrow> string \<Rightarrow> string \<Rightarrow> KairosFleetCluster \<Rightarrow> KairosFleetCluster" where
  "cluster_set_ready K w prov st reason msg fc =
     fc\<lparr>fc_Status := (fc_Status fc)\<lparr>
       fct_Initialization := (fct_Initialization (fc_Status fc))\<lparr>fci_Provisioned := Some prov\<rparr>,
       fct_Conditions := kSetStatusCondition K w (fct_Conditions (fc_Status fc))
         (new_condition ReadyCondition st (om_Generation (fc_Meta fc)) reason msg)\<rparr>\<rparr>"

definition cluster_add_finalizer :: "'w Kube \<Rightarrow> KairosFleetCluster \<Rightarrow> KairosFleetCluster" where
  "cluster_add_finalizer K fc =
     (if \<not> kContainsFinalizer K (fc_Meta fc) KairosFleetClusterFinalizer
      then fc\<lparr>fc_Meta := kAddFinalizer K (fc_Meta fc) KairosFleetClusterFinalizer\<rparr> else fc)"

definition cluster_remove_finalizer :: "'w Kube \<Rightarrow> KairosFleetCluster \<Rightarrow> KairosFleetCluster" where
  "cluster_remove_finalizer K fc =
     fc\<lparr>fc_Meta := kRemoveFinalizer K (fc_Meta fc) KairosFleetClusterFinalizer\<rparr>"

text \<open>\<open>Spec.ControlPlaneEndpoint == nil || Spec.ControlPlaneEndpoint.Host == ""\<close>, negated.\<close>

definition has_endpoint :: "KairosFleetCluster \<Rightarrow> bool" where
  "has_endpoint fc = (case fcs_ControlPlaneEndpoint (fc_Spec fc) of
     None \<Rightarrow> False | Some ep \<Rightarrow> ep_Host ep \<noteq> '''')"

definition cluster_body ::
  "'w Reconciler \<Rightarrow> KairosFleetCluster \<Rightarrow> Cluster \<Rightarrow> 'w \<Rightarrow> KairosFleetCluster \<times> Result" where
  "cluster_body r fc cluster w =
     (let K = r_Client r in
      if kIsPaused K cluster (fc_Meta fc) then (fc, no_requeue)
      else
        let fc = cluster_add_finalizer K fc in
        if \<not> is_zero_time (om_DeletionTimestamp (fc_Meta fc)) then (cluster_remove_finalizer K fc, no_requeue)
        else
          (case resolveFleetClient K (fleetFactory r) fc w of
             Inl err \<Rightarrow>
               (cluster_set_ready K w False ConditionFalse ''AuroraBootConnectionNotReady''
                  ''Waiting for a valid AuroraBoot connection'' fc,
                requeue_after (seconds 30))
           | Inr _ \<Rightarrow>
               if \<not> has_endpoint fc then
                 (cluster_set_ready K w False ConditionFalse ''WaitingForControlPlaneEndpoint''
                    ''Waiting for spec.controlPlaneEndpoint to be set'' fc,
                  no_requeue)
               else
                 (cluster_set_ready K w True ConditionTrue ''Provisioned''
                    ''Infrastructure cluster is provisioned'' fc,
                  no_requeue)))"

definition cluster_Reconcile :: "'w Reconciler \<Rightarrow> NamespacedName \<Rightarrow> 'w \<Rightarrow> (Result \<times> goerror option) \<times> 'w" where
  "cluster_Reconcile r name w =
     (let K = r_Client r in
      case kGetCluster K name w of
        Inl err \<Rightarrow> ((no_requeue, kIgnoreNotFound K err), w)
      | Inr fc \<Rightarrow>
          (case kGetOwnerCluster K (fc_Meta fc) w of
             Inl err \<Rightarrow> ((no_requeue, Some err), w)
           | Inr None \<Rightarrow> ((no_requeue, None), w)
           | Inr (Some cluster) \<Rightarrow>
               (case kNewClusterHelper K fc w of
                  Some err \<Rightarrow> ((no_requeue, Some err), w)
                | None \<Rightarrow>
                    (case cluster_body r fc cluster w of
                       (fc', res) \<Rightarrow>
                         (case kPatchCluster K fc fc' w of (patchErr, w) \<Rightarrow> ((res, patchErr), w))))))"

lemmas cluster_step_defs = cluster_body_def cluster_add_finalizer_def cluster_remove_finalizer_def
  cluster_set_ready_def Let_def

text \<open>What a pass does to the annotations and finalizers does not touch what it reads.\<close>

context kube_lib
begin

lemma cluster_add_finalizer_simps [simp]:
  "fc_Spec (cluster_add_finalizer K fc) = fc_Spec fc"
  "fc_Status (cluster_add_finalizer K fc) = fc_Status fc"
  "om_DeletionTimestamp (fc_Meta (cluster_add_finalizer K fc)) = om_DeletionTimestamp (fc_Meta fc)"
  "om_Namespace (fc_Meta (cluster_add_finalizer K fc)) = om_Namespace (fc_Meta fc)"
  "set (om_Finalizers (fc_Meta (cluster_add_finalizer K fc)))
     = insert KairosFleetClusterFinalizer (set (om_Finalizers (fc_Meta fc)))"
  by (auto simp: cluster_add_finalizer_def add_finalizer contains_finalizer)

lemma connection_token_add_finalizer [simp]:
  "connection_token K (cluster_add_finalizer K fc) w = connection_token K fc w"
  by (simp add: connection_token_def Let_def)

lemma cluster_set_ready_simps [simp]:
  "fc_Meta (cluster_set_ready K w prov st reason msg fc) = fc_Meta fc"
  "fc_Spec (cluster_set_ready K w prov st reason msg fc) = fc_Spec fc"
  "fci_Provisioned (fct_Initialization (fc_Status (cluster_set_ready K w prov st reason msg fc))) = Some prov"
  "map_option c_Status (find_condition (fct_Conditions (fc_Status
     (cluster_set_ready K w prov st reason msg fc))) ReadyCondition) = Some st"
  "map_option c_Reason (find_condition (fct_Conditions (fc_Status
     (cluster_set_ready K w prov st reason msg fc))) ReadyCondition) = Some reason"
  using set_condition_status [of w "fct_Conditions (fc_Status fc)"
      "new_condition ReadyCondition st (om_Generation (fc_Meta fc)) reason msg"]
  by (simp_all add: cluster_set_ready_def new_condition_def)

text \<open>A pass over an unpaused cluster that is not being deleted, by cases: the connection, then
  the endpoint.\<close>

lemma has_endpoint_add_finalizer [simp]:
  "has_endpoint (cluster_add_finalizer K fc) = has_endpoint fc"
  by (simp add: has_endpoint_def)

lemma cluster_body_active:
  assumes "r_Client r = K" "\<not> kIsPaused K cluster (fc_Meta fc)"
    and "is_zero_time (om_DeletionTimestamp (fc_Meta fc))"
  shows "cluster_body r fc cluster w =
     (if connection_token K fc w = None then
        (cluster_set_ready K w False ConditionFalse ''AuroraBootConnectionNotReady''
           ''Waiting for a valid AuroraBoot connection'' (cluster_add_finalizer K fc),
         requeue_after (seconds 30))
      else if \<not> has_endpoint fc then
        (cluster_set_ready K w False ConditionFalse ''WaitingForControlPlaneEndpoint''
           ''Waiting for spec.controlPlaneEndpoint to be set'' (cluster_add_finalizer K fc), no_requeue)
      else
        (cluster_set_ready K w True ConditionTrue ''Provisioned''
           ''Infrastructure cluster is provisioned'' (cluster_add_finalizer K fc), no_requeue))"
proof (cases "resolveFleetClient K (fleetFactory r) (cluster_add_finalizer K fc) w")
  case (Inl e)
  then have "connection_token K fc w = None"
    using resolveFleetClient_Inl_iff [of K "fleetFactory r" "cluster_add_finalizer K fc" w]
    by auto
  then show ?thesis using assms Inl by (simp add: cluster_body_def Let_def)
next
  case (Inr c)
  then obtain t where "connection_token K fc w = Some t"
    using resolveFleetClient_Inr_iff [of K "fleetFactory r" "cluster_add_finalizer K fc" w c]
    by auto
  then show ?thesis using assms Inr by (simp add: cluster_body_def Let_def)
qed

lemma cluster_body_deleted:
  assumes "r_Client r = K" "\<not> kIsPaused K cluster (fc_Meta fc)"
    and "\<not> is_zero_time (om_DeletionTimestamp (fc_Meta fc))"
  shows "cluster_body r fc cluster w
    = (cluster_remove_finalizer K (cluster_add_finalizer K fc), no_requeue)"
  using assms by (simp add: cluster_body_def Let_def)

end

subsection \<open>Properties\<close>

text \<open>C29: a pass over an unpaused cluster that is not being deleted reports it provisioned, and
  Ready, exactly when its url and token Secret are there and filled and the control-plane
  endpoint has a host; it asks to be run again, after 30 seconds, exactly when the connection is
  what is missing; and the cluster then has its finalizer.\<close>

theorem cluster_provisioned_iff:
  assumes "kube_lib (r_Client r)" "\<not> kIsPaused (r_Client r) cluster (fc_Meta fc)"
    and "is_zero_time (om_DeletionTimestamp (fc_Meta fc))"
    and "cluster_body r fc cluster w = (fc', res)"
  shows "fci_Provisioned (fct_Initialization (fc_Status fc'))
        = Some (connection_token (r_Client r) fc w \<noteq> None \<and> has_endpoint fc)
    \<and> map_option c_Status (find_condition (fct_Conditions (fc_Status fc')) ReadyCondition)
        = Some (if connection_token (r_Client r) fc w \<noteq> None \<and> has_endpoint fc then ConditionTrue else ConditionFalse)
    \<and> res = (if connection_token (r_Client r) fc w = None then requeue_after (seconds 30) else no_requeue)
    \<and> KairosFleetClusterFinalizer \<in> set (om_Finalizers (fc_Meta fc'))"
proof -
  note body = kube_lib.cluster_body_active [OF assms(1) refl assms(2,3), of w, unfolded assms(4)]
  note views = kube_lib.cluster_set_ready_simps [OF assms(1)] kube_lib.cluster_add_finalizer_simps [OF assms(1)]
  consider "connection_token (r_Client r) fc w = None"
    | t where "connection_token (r_Client r) fc w = Some t" "\<not> has_endpoint fc"
    | t where "connection_token (r_Client r) fc w = Some t" "has_endpoint fc" by auto
  then show ?thesis
  proof cases
    case 1
    with body have "fc' = cluster_set_ready (r_Client r) w False ConditionFalse ''AuroraBootConnectionNotReady''
        ''Waiting for a valid AuroraBoot connection'' (cluster_add_finalizer (r_Client r) fc)"
      "res = requeue_after (seconds 30)" by simp_all
    with 1 show ?thesis by (simp add: views)
  next
    case 2
    with body have "fc' = cluster_set_ready (r_Client r) w False ConditionFalse ''WaitingForControlPlaneEndpoint''
        ''Waiting for spec.controlPlaneEndpoint to be set'' (cluster_add_finalizer (r_Client r) fc)"
      "res = no_requeue" by simp_all
    with 2 show ?thesis by (simp add: views)
  next
    case 3
    with body have "fc' = cluster_set_ready (r_Client r) w True ConditionTrue ''Provisioned''
        ''Infrastructure cluster is provisioned'' (cluster_add_finalizer (r_Client r) fc)"
      "res = no_requeue" by simp_all
    with 3 show ?thesis by (simp add: views)
  qed
qed

text \<open>A cluster being deleted loses the finalizer, and nothing else of it changes, whatever
  the state of its connection: the cluster owns nothing outside.\<close>

lemma cluster_delete_removes_finalizer:
  assumes "kube_lib (r_Client r)" "\<not> kIsPaused (r_Client r) cluster (fc_Meta fc)"
    and "\<not> is_zero_time (om_DeletionTimestamp (fc_Meta fc))"
    and "cluster_body r fc cluster w = (fc', res)"
  shows "set (om_Finalizers (fc_Meta fc')) = set (om_Finalizers (fc_Meta fc)) - {KairosFleetClusterFinalizer}
    \<and> fc_Spec fc' = fc_Spec fc \<and> fc_Status fc' = fc_Status fc
    \<and> om_Annotations (fc_Meta fc') = om_Annotations (fc_Meta fc) \<and> res = no_requeue"
proof -
  have "fc' = cluster_remove_finalizer (r_Client r) (cluster_add_finalizer (r_Client r) fc)" "res = no_requeue"
    using kube_lib.cluster_body_deleted [OF assms(1) refl assms(2,3), of w] assms(4) by simp_all
  then show ?thesis
    using kube_lib.add_finalizer [OF assms(1)] kube_lib.contains_finalizer [OF assms(1)]
      kube_lib.remove_finalizer [OF assms(1)] kube_lib.remove_finalizer_fields [OF assms(1)]
      kube_lib.add_finalizer_fields [OF assms(1)]
    by (auto simp: cluster_remove_finalizer_def cluster_add_finalizer_def)
qed

text \<open>A cluster's reconcile either changes nothing (the object is gone, has no owner yet, or a
  read failed) or makes one pass and patches what it made; a failed patch is reported.\<close>

lemma cluster_reconcile_patches_the_pass:
  "case cluster_Reconcile r name w of ((res, err), w') \<Rightarrow>
     (w' = w \<and> res = no_requeue)
   \<or> (\<exists>fc cluster fc'.
        kGetCluster (r_Client r) name w = Inr fc
        \<and> kGetOwnerCluster (r_Client r) (fc_Meta fc) w = Inr (Some cluster)
        \<and> cluster_body r fc cluster w = (fc', res)
        \<and> kPatchCluster (r_Client r) fc fc' w = (err, w'))"
  by (auto simp: cluster_Reconcile_def Let_def split: sum.splits option.splits prod.splits)

end
