(* ===== verification/Examples.thy ===== *)
theory Examples
  imports MachineOutcome MachineProgress ClusterController
begin

text \<open>
  The properties of the controllers at concrete objects, clients and times: each theorem takes a
  property to the scenario and discharges its hypotheses there, so none holds for want of a case.
\<close>

subsection \<open>Environments\<close>

text \<open>AuroraBoot where the node's commands fail; where the node is off; where it is gone.\<close>

definition demo_ab :: "time FakeClient" where
  "demo_ab = demo_fake (demo_node PhaseOnline (Some (demo_time + seconds 150))) CommandPhaseCompleted CommandPhasePending"

definition demo_failing :: "time FakeClient" where
  "demo_failing = demo_fake (demo_node PhaseOnline None) CommandPhaseFailed CommandPhaseExpired"

definition demo_offline :: "time FakeClient" where
  "demo_offline = demo_fake (demo_node PhaseOffline (Some (demo_time + seconds 150))) CommandPhaseCompleted CommandPhasePending"

definition demo_gone :: "time FakeClient" where
  "demo_gone = demo_ab\<lparr>GetNodeFunc := Some (\<lambda>n t. (Inl NotFoundError, t))\<rparr>"

definition demo_r :: "time FakeClient \<Rightarrow> (time fworld) Reconciler" where
  "demo_r f = demo_reconciler (demo_fm Map.empty) (Inr demo_fc) f"

lemma demo_r [simp]:
  "kube_lib (r_Client (demo_r f))" "r_FleetClientFactory (demo_r f) = Some (\<lambda>_ _. fake_client f)"
  "connected (demo_r f) demo_cluster w = Some (fake_client f)"
  "active (demo_r f) demo_claimed demo_machine demo_cluster"
  "active (demo_r f) demo_configured demo_machine demo_cluster"
  "active (demo_r f) demo_rebooting demo_machine demo_cluster"
  "active (demo_r f) (demo_fm Map.empty) demo_machine demo_cluster"
  "m_DataSecretName demo_machine = Some ''bootstrap''" "kNow (r_Client (demo_r f)) w = fst w"
  "bootstrapData (r_Client (demo_r f)) demo_machine ds w = Inr ''#cloud-config''"
  by (simp_all add: demo_r_def kube_lib_demo demo_factory demo_connected_any demo_stage_active demo_active_any
      demo_machine_data)

definition demo_do :: "time FakeClient \<Rightarrow> KairosFleetMachine \<Rightarrow> KairosFleetMachine \<times> outcome \<times> time fworld" where
  "demo_do f fm = reconcile_body (demo_r f) fm demo_machine demo_cluster demo_world"

lemma demo_do_parts:
  "reconcile_body (demo_r f) fm demo_machine demo_cluster demo_world
    = (fst (demo_do f fm), fst (snd (demo_do f fm)), snd (snd (demo_do f fm)))"
  by (simp add: demo_do_def)

lemma demo_world_calls [simp]: "snd demo_world = no_calls" "fst demo_world = demo_time"
  by (simp_all add: demo_world_def)

lemma no_calls_fields [simp]:
  "Claims no_calls = []" "Applies no_calls = []" "Reboots no_calls = []" "Releases no_calls = []"
  "total_calls no_calls = 0"
  by (simp_all add: no_calls_def total_calls_def)

subsection \<open>Calls\<close>

theorem at_most_one_call_witness:
  "total_calls (snd (snd (snd (demo_do demo_ab (demo_fm Map.empty))))) \<le> 1"
  using at_most_one_call [OF _ _ demo_do_parts, of demo_ab demo_ab "demo_fm Map.empty"] by simp

theorem claim_only_without_node_witness:
  "\<exists>g. Claims (snd (snd (snd (demo_do demo_ab (demo_fm Map.empty))))) = [\<lparr>cc_GroupID = g, cc_ClaimKey = ''uid-kfm''\<rparr>]"
proof -
  have "Claims (snd (snd (snd (demo_do demo_ab (demo_fm Map.empty))))) \<noteq> []" by code_simp
  moreover have "claimKeyFor (demo_fm Map.empty) = ''uid-kfm''" by code_simp
  ultimately show ?thesis
    using claim_only_without_node [OF _ _ demo_do_parts, of demo_ab demo_ab "demo_fm Map.empty"] by auto
qed

theorem apply_only_when_due_witness:
  "Applies (snd (snd (snd (demo_do demo_ab demo_claimed)))) = [\<lparr>ac_NodeID = ''node-1'', ac_CloudConfig = ''#cloud-config''\<rparr>]"
proof -
  have "Applies (snd (snd (snd (demo_do demo_ab demo_claimed)))) \<noteq> []" by code_simp
  moreover have "ann demo_claimed NodeIDAnnotation = ''node-1''"
    by (simp add: demo_claimed_def demo_fm_def ann_def map_read_def)
  ultimately show ?thesis
    using apply_only_when_due [OF _ _ demo_do_parts, of demo_ab demo_ab demo_claimed]
    by auto
qed

theorem reboot_only_after_completed_witness:
  "Reboots (snd (snd (snd (demo_do demo_ab demo_configured)))) = [''node-1'']"
proof -
  have "Reboots (snd (snd (snd (demo_do demo_ab demo_configured)))) \<noteq> []" by code_simp
  moreover have "ann demo_configured NodeIDAnnotation = ''node-1''"
    by (simp add: demo_configured_def demo_fm_def ann_def map_read_def)
  ultimately show ?thesis
    using reboot_only_after_completed [OF _ _ demo_do_parts, of demo_ab demo_ab demo_configured] by auto
qed

theorem release_only_on_delete_witness:
  "Releases (snd (snd (snd (demo_do demo_ab (demo_deleted demo_claimed)))))
    = [\<lparr>rc_NodeID = ''node-1'', rc_ClaimKey = ''uid-kfm''\<rparr>]"
proof -
  have "Releases (snd (snd (snd (demo_do demo_ab (demo_deleted demo_claimed))))) \<noteq> []" by code_simp
  moreover have "ann (demo_deleted demo_claimed) NodeIDAnnotation = ''node-1''" "claimKeyFor (demo_deleted demo_claimed) = ''uid-kfm''"
    by code_simp+
  ultimately show ?thesis
    using release_only_on_delete [OF _ _ demo_do_parts, of demo_ab demo_ab "demo_deleted demo_claimed"] by auto
qed

end
