(* ===== verification/RetryWindow.thy ===== *)
theory RetryWindow
  imports MachineOutcome
begin

text \<open>
  The retry window over any number of passes. A pass that finds the apply or the reboot failed puts
  the machine back and opens a window of 60 seconds; no pass closes it early, and until its end
  nothing is sent but the release of a machine that is being deleted.
\<close>

subsection \<open>Passes within a window\<close>

text \<open>What passes make of a machine as long as each of them starts in a world where \<open>I\<close> holds, with the
  edits of others between them that \<open>reachable\<close> has.\<close>

inductive passes_while :: "'w Reconciler \<Rightarrow> ('w \<Rightarrow> bool) \<Rightarrow> KairosFleetMachine \<Rightarrow> KairosFleetMachine \<Rightarrow> bool"
  for r :: "'w Reconciler" and I :: "'w \<Rightarrow> bool" and fm0 :: KairosFleetMachine where
  start: "passes_while r I fm0 fm0"
| pass: "passes_while r I fm0 fm \<Longrightarrow> I w \<Longrightarrow> reconcile_body r fm machine cluster w = (fm', out, w')
    \<Longrightarrow> passes_while r I fm0 fm'"
| others: "passes_while r I fm0 fm \<Longrightarrow> fm_Annotations fm' = fm_Annotations fm \<Longrightarrow> fm_Status fm' = fm_Status fm
    \<Longrightarrow> fms_ProviderID (fm_Spec fm') = fms_ProviderID (fm_Spec fm) \<Longrightarrow> passes_while r I fm0 fm'"

text \<open>With no condition on the passes these are the states of \<open>reachable\<close>.\<close>

lemma passes_while_reachable: "passes_while r (\<lambda>_. True) fm0 fm \<longleftrightarrow> reachable r fm0 fm"
proof
  show "passes_while r (\<lambda>_. True) fm0 fm \<Longrightarrow> reachable r fm0 fm"
    by (induction rule: passes_while.induct) (auto intro: reachable.intros)
  show "reachable r fm0 fm \<Longrightarrow> passes_while r (\<lambda>_. True) fm0 fm"
    by (induction rule: reachable.induct) (auto intro: passes_while.intros)
qed

text \<open>A machine that holds a node, has no reboot on record, and is told to wait until \<open>T\<close> at least.\<close>

definition held_back :: "string \<Rightarrow> time \<Rightarrow> KairosFleetMachine \<Rightarrow> bool" where
  "held_back n T fm \<longleftrightarrow> ann fm NodeIDAnnotation = n \<and> n \<noteq> '''' \<and> ann fm rebootRequestedAtAnnotation = ''''
     \<and> (\<exists>t. ann fm retryNotBeforeAnnotation = format_RFC3339 t \<and> four_digit_year t \<and> T \<le> whole_second t)"

text \<open>The two places where a pass reads the clock to see whether it has to wait: at its start, and, when the
  cloud-config is taken for applied, after reading the commands. A failed apply that it finds there
  opens a window of its own, which ends no earlier when the clock has not gone back.\<close>

definition clock_within :: "'w Kube \<Rightarrow> 'w Client \<Rightarrow> string \<Rightarrow> time \<Rightarrow> time \<Rightarrow> 'w \<Rightarrow> bool" where
  "clock_within K c n t0 T w \<longleftrightarrow> kNow K w < T
     \<and> t0 \<le> kNow K (snd (GetCommands c n w)) \<and> kNow K (snd (GetCommands c n w)) < T"

lemma whole_second_mono: "s \<le> t \<Longrightarrow> whole_second s \<le> whole_second t"
  by (simp add: whole_second_def unix_secs_def nanos_def zdiv_mono1)

lemma held_back_waits:
  assumes "held_back n T fm" "now < T"
  shows "0 < retryWait fm now"
proof -
  obtain t where t: "ann fm retryNotBeforeAnnotation = format_RFC3339 t" "four_digit_year t" "T \<le> whole_second t"
    using assms(1) by (auto simp: held_back_def)
  have "0 < time_Sub (whole_second t) now" using t(3) assms(2) by (simp add: time_Sub_pos_iff)
  then show ?thesis using t(1) parse_format_RFC3339 [OF t(2)] by (simp add: retryWait_def Let_def)
qed

lemma held_back_annotations:
  assumes "\<And>k. ann fm' k = ann fm k"
  shows "held_back n T fm' = held_back n T fm" "lifecycle_of fm' = lifecycle_of fm"
  by (simp_all add: held_back_def lifecycle_of_def Let_def assms)

lemma commandState_world: "commandState c n i name w = (res, w1) \<Longrightarrow> w1 = snd (GetCommands c n w)"
  by (auto simp: commandState_def split: prod.splits sum.splits)

text \<open>A step of a machine that is held back keeps it so.\<close>

context kube_lib
begin

lemma lifecycleStep_held_back:
  assumes "lifecycleStep r c machine ds fm w = (fm', out, w')" "r_Client r = K" "held_back n T fm" "kNow K w < T"
    and again: "ann fm cloudConfigAppliedAnnotation = cloudConfigAppliedValue \<Longrightarrow> clock_within K c n t0 T w
      \<and> T \<le> whole_second (t0 + seconds 60) \<and> (\<forall>t. t0 \<le> t \<and> t < T \<longrightarrow> four_digit_year (t + seconds 60))"
  shows "held_back n T fm' \<and> (lifecycle_of fm' = lifecycle_of fm \<or> lifecycle_of fm' = Claimed n)"
proof -
  have n: "ann fm NodeIDAnnotation = n" "n \<noteq> ''''" "ann fm rebootRequestedAtAnnotation = ''''"
    using assms(3) by (simp_all add: held_back_def)
  have kept: ?thesis if "\<And>k. ann fm' k = ann fm k"
    using held_back_annotations [OF that] assms(3) by simp
  from assms(1) show ?thesis
  proof (cases rule: lifecycleStep_cases)
    case at_apply
    from at_apply(3) show ?thesis
      by (cases rule: applyStep_cases) (use kept held_back_waits [OF assms(3,4)] assms(2) in simp_all)
  next
    case at_reboot
    obtain applied failed msg w1 where cs: "commandState c (ann fm NodeIDAnnotation)
        (ann fm cloudConfigCommandIDAnnotation) CommandApplyCloudConfig w = ((applied, failed, msg), w1)"
      using prod_cases3 prod.exhaust by metis
    have clock: "t0 \<le> kNow K w1" "kNow K w1 < T"
      using again [OF at_reboot(2)] commandState_world [OF cs] n(1) by (simp_all add: clock_within_def)
    from at_reboot(4) cs show ?thesis
    proof (cases rule: rebootStep_cases)
      case failed
      have ann': "ann fm' k = (if k = retryNotBeforeAnnotation then format_RFC3339 (kNow K w1 + seconds 60)
          else if k = cloudConfigCommandIDAnnotation \<or> k = cloudConfigAppliedAnnotation then '''' else ann fm k)" for k
        by (simp add: failed(2) assms(2) time_Add_def retryCloudConfigRequeue_def del: append_Cons)
      have "T \<le> whole_second (kNow K w1 + seconds 60)" "four_digit_year (kNow K w1 + seconds 60)"
        using again [OF at_reboot(2)] whole_second_mono [of "t0 + seconds 60" "kNow K w1 + seconds 60"] clock by auto
      with n show ?thesis by (auto simp: held_back_def ann' lifecycle_of_def Let_def)
    qed (use kept held_back_waits [OF assms(3) clock(2)] assms(2) in simp_all)
  qed (use n in simp_all)
qed

end

text \<open>A pass over a machine that is held back: it stays so, and AuroraBoot gets nothing but the
  release, when the machine is being deleted.\<close>

lemma pass_held_back:
  assumes "reconcile_body r fm machine cluster w = (fm', out, w')" "kube_lib (r_Client r)"
    and "r_FleetClientFactory r = Some (\<lambda>_ _. fake_client f)" "held_back n T fm" "kNow (r_Client r) w < T"
    and again: "ann fm cloudConfigAppliedAnnotation = cloudConfigAppliedValue \<Longrightarrow> clock_within (r_Client r) (fake_client f) n t0 T w
      \<and> T \<le> whole_second (t0 + seconds 60) \<and> (\<forall>t. t0 \<le> t \<and> t < T \<longrightarrow> four_digit_year (t + seconds 60))"
  shows "held_back n T fm'" "lifecycle_of fm' = lifecycle_of fm \<or> lifecycle_of fm' = Claimed n"
    "snd w' = snd w \<or> \<not> is_zero_time (om_DeletionTimestamp (fm_Meta fm)) \<and> snd w' = log_release n (claimKeyFor fm) (snd w)"
proof -
  have "held_back n T fm' \<and> (lifecycle_of fm' = lifecycle_of fm \<or> lifecycle_of fm' = Claimed n)"
  proof (rule kube_lib.reconcile_body_cases [OF assms(2,1) refl], goal_cases stopped deleting normal)
    case stopped
    then show ?case using held_back_annotations [of fm' fm] assms(4) by (simp add: same_state_ann)
  next
    case (deleting fm0 err)
    have "ann fm' k = ann fm k" for k
      using kube_lib.reconcileDelete_state [OF assms(2) deleting(4) refl] deleting(2) by (simp add: same_state_ann)
    then show ?case using held_back_annotations [of fm' fm] assms(4) by simp
  next
    case (normal fm0)
    have same: "ann fm0 k = ann fm k" for k using normal(2) by (simp add: same_state_ann)
    note held = held_back_annotations [OF same]
    from normal(4) show ?case
    proof (cases rule: reconcileNormal_cases)
      case (step ds fc)
      then have fc: "fc = fake_client f" using fake.connected_is [OF assms(3), of cluster w fc] by (simp add: connected_def)
      have "held_back n T fm' \<and> (lifecycle_of fm' = lifecycle_of fm0 \<or> lifecycle_of fm' = Claimed n)"
        by (rule kube_lib.lifecycleStep_held_back [OF assms(2) step(3) refl _ assms(5), where ?t0.0 = t0])
          (use assms(4) again held(1) same fc in simp_all)
      then show ?thesis using held(2) by simp
    qed (use held_back_annotations [of fm' fm] assms(4) same in simp_all)
  qed
  then show "held_back n T fm'" "lifecycle_of fm' = lifecycle_of fm \<or> lifecycle_of fm' = Claimed n" by blast+
  have n: "ann fm NodeIDAnnotation = n" "n \<noteq> ''''" using assms(4) by (simp_all add: held_back_def)
  show "snd w' = snd w \<or> \<not> is_zero_time (om_DeletionTimestamp (fm_Meta fm)) \<and> snd w' = log_release n (claimKeyFor fm) (snd w)"
  proof (rule fake.reconcile_body_calls [OF assms(1-3)], goal_cases quiet claim configure reboot release)
    case (configure ds d)
    then show ?case using held_back_waits [OF assms(4,5)] by simp
  next
    case (reboot msg w1)
    have "kNow (r_Client r) w1 < T"
      using again [OF reboot(2)] commandState_world [OF reboot(4)] n by (simp add: clock_within_def)
    from held_back_waits [OF assms(4) this] reboot(5) show ?case by simp
  qed (use n in simp_all)
qed

lemma Claimed_not_applied: "lifecycle_of fm = Claimed n \<Longrightarrow> ann fm cloudConfigAppliedAnnotation \<noteq> cloudConfigAppliedValue"
  by (auto simp: lifecycle_of_def Let_def split: if_splits)

text \<open>Any number of passes: what each of them finds, and what it sends.\<close>

lemma passes_held_back:
  assumes "passes_while r I fm0 fm" "kube_lib (r_Client r)" "r_FleetClientFactory r = Some (\<lambda>_ _. fake_client f)"
    and "held_back n T fm0" and early: "\<And>w. I w \<Longrightarrow> kNow (r_Client r) w < T"
    and again: "\<And>w. I w \<Longrightarrow> lifecycle_of fm0 \<noteq> Claimed n \<Longrightarrow> clock_within (r_Client r) (fake_client f) n t0 T w
      \<and> T \<le> whole_second (t0 + seconds 60) \<and> (\<forall>t. t0 \<le> t \<and> t < T \<longrightarrow> four_digit_year (t + seconds 60))"
  shows "held_back n T fm \<and> (lifecycle_of fm = lifecycle_of fm0 \<or> lifecycle_of fm = Claimed n)"
  using assms(1)
proof (induction rule: passes_while.induct)
  case start
  then show ?case using assms(4) by simp
next
  case (pass fm w machine cluster fm' out w')
  have "lifecycle_of fm0 \<noteq> Claimed n" if "ann fm cloudConfigAppliedAnnotation = cloudConfigAppliedValue"
    using pass.IH Claimed_not_applied [of fm n] that by auto
  note step = pass_held_back [OF pass.hyps(3) assms(2,3) conjunct1 [OF pass.IH] early [OF pass.hyps(2)]
      again [OF pass.hyps(2) this]]
  show ?case using step(1,2) pass.IH by auto
next
  case (others fm fm')
  then have "ann fm' k = ann fm k" for k by (simp add: ann_def)
  from held_back_annotations [OF this] show ?case using others.IH by simp
qed

lemma quiet_while_held_back:
  assumes "passes_while r I fm0 fm" "I w" "reconcile_body r fm machine cluster w = (fm', out, w')"
    and "kube_lib (r_Client r)" "r_FleetClientFactory r = Some (\<lambda>_ _. fake_client f)"
    and "held_back n T fm0" and early: "\<And>w. I w \<Longrightarrow> kNow (r_Client r) w < T"
    and again: "\<And>w. I w \<Longrightarrow> lifecycle_of fm0 \<noteq> Claimed n \<Longrightarrow> clock_within (r_Client r) (fake_client f) n t0 T w
      \<and> T \<le> whole_second (t0 + seconds 60) \<and> (\<forall>t. t0 \<le> t \<and> t < T \<longrightarrow> four_digit_year (t + seconds 60))"
  shows "snd w' = snd w \<or> \<not> is_zero_time (om_DeletionTimestamp (fm_Meta fm)) \<and> snd w' = log_release n (claimKeyFor fm) (snd w)"
proof -
  have fm: "held_back n T fm" "lifecycle_of fm = lifecycle_of fm0 \<or> lifecycle_of fm = Claimed n"
    using passes_held_back [OF assms(1,4-6) early again] by blast+
  have "lifecycle_of fm0 \<noteq> Claimed n" if "ann fm cloudConfigAppliedAnnotation = cloudConfigAppliedValue"
    using fm(2) Claimed_not_applied [of fm n] that by auto
  from pass_held_back(3) [OF assms(3-5) fm(1) early [OF assms(2)] again [OF assms(2) this]] show ?thesis .
qed

subsection \<open>Commands the node reports as failed\<close>

text \<open>C18: when the node reports the apply failed or expired, the pass puts the machine back to
  Claimed so that the cloud-config is sent again, clears a stale failure, reports
  CloudConfigFailed, and opens the 60-second window. However many passes start before the window's
  end, in whatever worlds and with edits of others in between, the machine stays Claimed, and
  AuroraBoot gets nothing but the node's release when the machine is being deleted.\<close>

theorem failed_apply_backs_off:
  assumes "kube_lib (r_Client r)" "r_FleetClientFactory r = Some (\<lambda>_ _. fake_client f)"
    and "reconcile_body r fm machine cluster w = (fm', out, w')" "active r fm machine cluster"
    and "m_DataSecretName machine = Some ds" "connected r cluster w = Some (fake_client f)"
    and "lifecycle_of fm = Configured n cmd"
    and "commandState (fake_client f) n cmd CommandApplyCloudConfig w = ((a, True, msg), w1)"
    and "four_digit_year (kNow (r_Client r) w1 + seconds 60)"
  defines "early \<equiv> \<lambda>v. kNow (r_Client r) v < whole_second (kNow (r_Client r) w1 + seconds 60)"
  shows "lifecycle_of fm' = Claimed n \<and> failureReason fm' = None \<and> provisioned fm' = Some False
    \<and> ready_reason fm' = Some ''CloudConfigFailed'' \<and> out = Return (requeue_after (seconds 60)) None
    \<and> (\<forall>fm2. passes_while r early fm' fm2 \<longrightarrow> lifecycle_of fm2 = Claimed n
        \<and> (\<forall>machine2 cluster2 v fm3 out2 v'. early v \<and> reconcile_body r fm2 machine2 cluster2 v = (fm3, out2, v') \<longrightarrow>
            snd v' = snd v \<or> \<not> is_zero_time (om_DeletionTimestamp (fm_Meta fm2))
              \<and> snd v' = log_release n (claimKeyFor fm2) (snd v)))"
proof -
  obtain fm0 where fm0: "same_state fm fm0" "rebootStep r (fake_client f) n fm0 w = (fm', out, w')"
    "ann fm0 cloudConfigCommandIDAnnotation = cmd" "ann fm NodeIDAnnotation = n" "n \<noteq> ''''"
    "ann fm rebootRequestedAtAnnotation = ''''"
    using kube_lib.reboot_step_of_pass [OF assms(1,3) refl assms(4-7)] by metis
  have fm': "fm' = openRetryWindow (r_Client r) (del_ann cloudConfigCommandIDAnnotation
         (del_ann cloudConfigAppliedAnnotation (set_failure None None
           (notReady (r_Client r) w1 ''CloudConfigFailed''
             (''apply-cloud-config failed on node '' @ n @ '': '' @ msg) fm0))))
         (kNow (r_Client r) w1) retryCloudConfigRequeue"
    and out: "out = Return (requeue_after retryCloudConfigRequeue) None"
    using fm0(2) assms(8) [folded fm0(3)]
    by (cases rule: rebootStep_cases; simp del: append_Cons)+
  note frame = kube_lib.openRetryWindow_frame [OF assms(1)] kube_lib.ready_reason_set [OF assms(1)]
  have ann': "ann fm' k = (if k = retryNotBeforeAnnotation
        then format_RFC3339 (kNow (r_Client r) w1 + seconds 60)
      else if k = cloudConfigCommandIDAnnotation \<or> k = cloudConfigAppliedAnnotation then '''' else ann fm k)" for k
    using fm0(1) by (simp add: fm' frame same_state_ann time_Add_def retryCloudConfigRequeue_def del: append_Cons)
  have state: "lifecycle_of fm' = Claimed n" "failureReason fm' = None" "provisioned fm' = Some False"
    "ready_reason fm' = Some ''CloudConfigFailed''" "out = Return (requeue_after (seconds 60)) None"
    using fm0(4,5) out by (simp_all add: lifecycle_of_def ann' Let_def)
      (simp_all add: fm' frame retryCloudConfigRequeue_def del: append_Cons)
  have held: "held_back n (whole_second (kNow (r_Client r) w1 + seconds 60)) fm'"
    using fm0(4-6) assms(9) by (auto simp: held_back_def ann')
  note window = assms(1,2) held early_def [THEN meta_eq_to_obj_eq, THEN fun_cong, THEN iffD1]
  have "lifecycle_of fm2 = Claimed n" if "passes_while r early fm' fm2" for fm2
    using passes_held_back [OF that window] state(1) by simp
  moreover have "snd v' = snd v \<or> \<not> is_zero_time (om_DeletionTimestamp (fm_Meta fm2)) \<and> snd v' = log_release n (claimKeyFor fm2) (snd v)"
    if "passes_while r early fm' fm2" "early v" "reconcile_body r fm2 machine2 cluster2 v = (fm3, out2, v')" for fm2 machine2 cluster2 v fm3 out2 v'
    using quiet_while_held_back [OF that window] state(1) by simp
  ultimately show ?thesis using state by blast
qed

text \<open>C19: when a node that is Online but has not rejoined reports the reboot failed or expired, the pass
  puts the machine back to Configured so that the reboot is sent again, and opens the 60-second
  window. However many passes read the clock before the window's end, and not before it was
  opened, no cloud-config, no reboot and no claim is sent, and the release only when the machine is
  being deleted; the machine stays Configured, or goes back to Claimed when the apply turns out
  to have failed.\<close>

theorem failed_reboot_backs_off:
  assumes "kube_lib (r_Client r)" "r_FleetClientFactory r = Some (\<lambda>_ _. fake_client f)"
    and "reconcile_body r fm machine cluster w = (fm', out, w')" "active r fm machine cluster"
    and "m_DataSecretName machine = Some ds" "connected r cluster w = Some (fake_client f)"
    and "lifecycle_of fm = Rebooting n cmd t rcmd"
    and "GetNode (fake_client f) n w = (Inr (Some node), w1)" "node_Phase node = PhaseOnline"
    and "\<not> heard_since_reboot fm node"
    and "commandState (fake_client f) n rcmd CommandReboot w1 = ((a, True, msg), w2)"
    and "four_digit_year (kNow (r_Client r) w2)" "four_digit_year (kNow (r_Client r) w2 + seconds 120)"
  defines "early \<equiv> clock_within (r_Client r) (fake_client f) n (kNow (r_Client r) w2)
      (whole_second (kNow (r_Client r) w2 + seconds 60))"
  shows "lifecycle_of fm' = Configured n cmd \<and> provisioned fm' = Some False
    \<and> ready_reason fm' = Some ''RebootFailed'' \<and> out = Return (requeue_after (seconds 60)) None
    \<and> (\<forall>fm2. passes_while r early fm' fm2 \<longrightarrow> lifecycle_of fm2 \<in> {Configured n cmd, Claimed n}
        \<and> (\<forall>machine2 cluster2 v fm3 out2 v'. early v \<and> reconcile_body r fm2 machine2 cluster2 v = (fm3, out2, v') \<longrightarrow>
            snd v' = snd v \<or> \<not> is_zero_time (om_DeletionTimestamp (fm_Meta fm2))
              \<and> snd v' = log_release n (claimKeyFor fm2) (snd v)))"
proof -
  let ?t0 = "kNow (r_Client r) w2" and ?T = "whole_second (kNow (r_Client r) w2 + seconds 60)"
  obtain fm0 where fm0: "same_state fm fm0" "rejoinStep r (fake_client f) n fm0 w = (fm', out, w')"
    "ann fm NodeIDAnnotation = n" "n \<noteq> ''''" "ann fm cloudConfigCommandIDAnnotation = cmd"
    "ann fm rebootCommandIDAnnotation = rcmd" "ann fm rebootRequestedAtAnnotation = t" "t \<noteq> ''''"
    "ann fm cloudConfigAppliedAnnotation = cloudConfigAppliedValue"
    using kube_lib.rejoin_step_of_pass [OF assms(1,3) refl assms(4-7)] by metis
  have failed: "rebootFailed (fake_client f) fm0 node n w1 = ((True, msg), w2)"
    using assms(9,11) fm0(1,6) by (simp add: rebootFailed_def same_state_ann)
  have away: "\<not> rejoinedAfterReboot fm0 node"
    using assms(10) fm0(1) by (simp add: rejoinedAfterReboot_iff heard_same_state)
  have fm': "fm' = openRetryWindow (r_Client r) (del_ann rebootCommandIDAnnotation
         (del_ann rebootRequestedAtAnnotation (notReady (r_Client r) w2 ''RebootFailed''
           (''reboot failed on node '' @ n @ '': '' @ msg) fm0)))
         (kNow (r_Client r) w2) retryRebootRequeue"
    and out: "out = Return (requeue_after retryRebootRequeue) None"
    using fm0(2) [symmetric] by (simp_all add: rejoinStep_def Let_def assms(8) away failed del: append_Cons)
  note frame = kube_lib.openRetryWindow_frame [OF assms(1)] kube_lib.ready_reason_set [OF assms(1)]
  have ann': "ann fm' k = (if k = retryNotBeforeAnnotation
        then format_RFC3339 (kNow (r_Client r) w2 + seconds 60)
      else if k = rebootCommandIDAnnotation \<or> k = rebootRequestedAtAnnotation then '''' else ann fm k)" for k
    using fm0(1) by (simp add: fm' frame same_state_ann time_Add_def retryRebootRequeue_def del: append_Cons)
  have state: "lifecycle_of fm' = Configured n cmd" "provisioned fm' = Some False"
    "ready_reason fm' = Some ''RebootFailed''" "out = Return (requeue_after (seconds 60)) None"
    using fm0(3-9) out by (simp_all add: lifecycle_of_def ann' Let_def)
      (simp_all add: fm' frame retryRebootRequeue_def del: append_Cons)
  have year: "four_digit_year (s + seconds 60)" if "?t0 \<le> s" "s \<le> ?t0 + seconds 60" for s
    using assms(12,13) that by (auto simp: four_digit_year_def seconds_def nanos_def)
  have "four_digit_year (?t0 + seconds 60)" by (rule year) (simp_all add: seconds_def nanos_def)
  then have held: "held_back n ?T fm'" using fm0(3,4) by (auto simp: held_back_def ann')
  have clock: "kNow (r_Client r) v < ?T" if "early v" for v
    using that by (simp add: early_def clock_within_def)
  have again: "clock_within (r_Client r) (fake_client f) n ?t0 ?T v
      \<and> ?T \<le> whole_second (?t0 + seconds 60) \<and> (\<forall>s. ?t0 \<le> s \<and> s < ?T \<longrightarrow> four_digit_year (s + seconds 60))" if "early v" for v
    using that year whole_second_bounds(1) [of "?t0 + seconds 60"] by (auto simp: early_def)
  note window = assms(1,2) held clock again
  have "lifecycle_of fm2 \<in> {Configured n cmd, Claimed n}" if "passes_while r early fm' fm2" for fm2
    using passes_held_back [OF that window] state(1) by simp
  moreover have "snd v' = snd v \<or> \<not> is_zero_time (om_DeletionTimestamp (fm_Meta fm2)) \<and> snd v' = log_release n (claimKeyFor fm2) (snd v)"
    if "passes_while r early fm' fm2" "early v" "reconcile_body r fm2 machine2 cluster2 v = (fm3, out2, v')" for fm2 machine2 cluster2 v fm3 out2 v'
    using quiet_while_held_back [OF that window] by simp
  ultimately show ?thesis using state by blast
qed

end
