(* ===== verification/ExampleOutcomes.thy ===== *)
theory ExampleOutcomes
  imports Examples RetryWindow
begin

text \<open>
  The properties of how passes end at concrete objects, clients and times: failed commands, a node
  that stays away or is gone, the deletion, the claim, and the cluster controller.
\<close>

subsection \<open>Outcomes\<close>

lemma demo_years [simp]: "four_digit_year (demo_time + seconds 60)" "four_digit_year demo_time"
  by (simp_all add: four_digit_year_def demo_time_def seconds_def nanos_def)

lemma demo_whole [simp]: "whole_second (demo_time + seconds n) = demo_time + seconds n"
  by (simp add: whole_second_def unix_secs_def demo_time_def seconds_def nanos_def distrib_right [symmetric])

theorem retry_window_exact_witness:
  "retryWait (openRetryWindow (r_Client (demo_r demo_ab)) demo_claimed demo_time (seconds 60)) (demo_time + seconds 15)
    = seconds 45"
proof -
  have "demo_time + seconds 15 < demo_time + seconds 60" "demo_time \<le> demo_time + seconds 15"
    "0 \<le> seconds 60" "seconds 60 \<le> max_duration" "seconds 60 - seconds 15 = seconds 45"
    by (simp_all add: seconds_def nanos_def max_duration_def)
  then show ?thesis
    using retry_window_exact [of "r_Client (demo_r demo_ab)" demo_time "seconds 60" "demo_time + seconds 15" demo_claimed]
    by simp
qed

lemma demo_stages:
  "lifecycle_of demo_configured = Configured ''node-1'' ''c-1''"
  "lifecycle_of demo_rebooting = Rebooting ''node-1'' ''c-1'' ''2026-07-17T10:02:00Z'' ''r-1''"
  by code_simp+

lemma demo_failing_commands:
  "commandState (fake_client demo_failing) ''node-1'' ''c-1'' CommandApplyCloudConfig w = ((False, True, ''boom''), w)"
  "commandState (fake_client demo_failing) ''node-1'' ''r-1'' CommandReboot w = ((False, True, ''boom''), w)"
  by (simp_all add: commandState_def demo_failing_def command_outcome_def demo_command_def command_phase_defs)

text \<open>Passes 15 and 30 seconds later, both before the window ends.\<close>

definition demo_later :: "time FakeClient \<Rightarrow> duration \<Rightarrow> KairosFleetMachine \<Rightarrow> KairosFleetMachine \<times> outcome \<times> time fworld" where
  "demo_later f d fm = reconcile_body (demo_r f) fm demo_machine demo_cluster (demo_time + d, no_calls)"

lemma demo_later_parts:
  "reconcile_body (demo_r f) fm demo_machine demo_cluster (demo_time + d, no_calls)
    = (fst (demo_later f d fm), fst (snd (demo_later f d fm)), snd (snd (demo_later f d fm)))"
  by (simp add: demo_later_def)

lemma demo_failing_clock: "fst (snd (GetCommands (fake_client demo_failing) n w)) = fst w"
  by (simp add: demo_failing_def)

lemma demo_early: "d \<in> {seconds 15, seconds 30} \<Longrightarrow> 0 \<le> d \<and> d < seconds 60"
  by (auto simp: seconds_def nanos_def)

theorem failed_apply_backs_off_witness:
  "lifecycle_of (fst (demo_do demo_failing demo_configured)) = Claimed ''node-1''
   \<and> fst (snd (demo_do demo_failing demo_configured)) = Return (requeue_after (seconds 60)) None
   \<and> lifecycle_of (fst (demo_later demo_failing (seconds 15) (fst (demo_do demo_failing demo_configured)))) = Claimed ''node-1''
   \<and> Applies (snd (snd (snd (demo_later demo_failing (seconds 30)
        (fst (demo_later demo_failing (seconds 15) (fst (demo_do demo_failing demo_configured)))))))) = []"
proof -
  let ?r = "demo_r demo_failing" and ?fm1 = "fst (demo_do demo_failing demo_configured)"
  let ?fm2 = "fst (demo_later demo_failing (seconds 15) ?fm1)"
  let ?early = "\<lambda>v. kNow (r_Client ?r) v < whole_second (kNow (r_Client ?r) demo_world + seconds 60)"
  note result = failed_apply_backs_off [OF demo_r(1,2) demo_do_parts [of demo_failing demo_configured] demo_r(5,8,3) demo_stages(1)
      demo_failing_commands(1)]
  have early: "?early (demo_time + d, no_calls)" if "d \<in> {seconds 15, seconds 30}" for d
    using demo_early [OF that] by simp
  have "passes_while ?r ?early ?fm1 ?fm2"
    by (rule passes_while.pass [OF passes_while.start _ demo_later_parts]) (rule early, simp)
  moreover have "?early (demo_time + seconds 30, no_calls)" by (rule early) simp
  ultimately have "lifecycle_of ?fm2 = Claimed ''node-1''"
    "Applies (snd (snd (snd (demo_later demo_failing (seconds 30) ?fm2)))) = []"
    using result demo_later_parts [of demo_failing ?fm2 "seconds 30"] by fastforce+
  then show ?thesis using result by simp
qed

theorem failed_reboot_backs_off_witness:
  "lifecycle_of (fst (demo_do demo_failing demo_rebooting)) = Configured ''node-1'' ''c-1''
   \<and> ready_reason (fst (demo_do demo_failing demo_rebooting)) = Some ''RebootFailed''
   \<and> Reboots (snd (snd (snd (demo_later demo_failing (seconds 30)
        (fst (demo_later demo_failing (seconds 15) (fst (demo_do demo_failing demo_rebooting)))))))) = []"
proof -
  let ?r = "demo_r demo_failing" and ?fm1 = "fst (demo_do demo_failing demo_rebooting)"
  let ?fm2 = "fst (demo_later demo_failing (seconds 15) ?fm1)"
  obtain w1 where w1: "GetNode (fake_client demo_failing) ''node-1'' demo_world = (Inr (Some (demo_node PhaseOnline None)), w1)"
    and c: "fst w1 = demo_time"
    by (simp add: demo_failing_def demo_fake_def fake_client_def fake_GetNode_def run_func_def)
  have away: "\<not> heard_since_reboot demo_rebooting (demo_node PhaseOnline None)" "node_Phase (demo_node PhaseOnline None) = PhaseOnline"
    by (simp_all add: heard_since_reboot_def demo_node_def)
  let ?early = "clock_within (r_Client ?r) (fake_client demo_failing) ''node-1'' (kNow (r_Client ?r) w1)
      (whole_second (kNow (r_Client ?r) w1 + seconds 60))"
  have years: "four_digit_year (kNow (r_Client ?r) w1)" "four_digit_year (kNow (r_Client ?r) w1 + seconds 120)"
    by (simp_all add: c four_digit_year_def demo_time_def seconds_def nanos_def)
  note result = failed_reboot_backs_off [OF demo_r(1,2) demo_do_parts [of demo_failing demo_rebooting] demo_r(6,8,3) demo_stages(2)
      w1 away(2,1) demo_failing_commands(2) years]
  have early: "?early (demo_time + d, no_calls)" if "d \<in> {seconds 15, seconds 30}" for d
    using demo_early [OF that] by (simp add: clock_within_def demo_failing_clock c)
  have "passes_while ?r ?early ?fm1 ?fm2"
    by (rule passes_while.pass [OF passes_while.start _ demo_later_parts]) (rule early, simp)
  moreover have "?early (demo_time + seconds 30, no_calls)" by (rule early) simp
  ultimately have "Reboots (snd (snd (snd (demo_later demo_failing (seconds 30) ?fm2)))) = []"
    using result demo_later_parts [of demo_failing ?fm2 "seconds 30"] by fastforce
  then show ?thesis using result by simp
qed

lemma offline_node_is_waited_for_witness:
  "fst (snd (demo_do demo_offline demo_rebooting)) = Return (requeue_after (seconds 15)) None
   \<and> snd (snd (snd (demo_do demo_offline demo_rebooting))) = no_calls"
proof -
  have "fst (GetNode (fake_client demo_offline) ''node-1'' demo_world)
      = Inr (Some (demo_node PhaseOffline (Some (demo_time + seconds 150))))"
    by (simp add: demo_offline_def)
  moreover have "node_Phase (demo_node PhaseOffline (Some (demo_time + seconds 150))) \<noteq> PhaseOnline"
    by (simp add: demo_node_def phase_defs)
  ultimately show ?thesis
    using offline_node_is_waited_for [OF _ _ demo_do_parts [of demo_offline demo_rebooting] _ _ _ demo_stages(2)] by simp
qed

text \<open>A node with a history: an old failed apply listed after a newer completed one.\<close>

definition demo_history :: "Command list" where
  "demo_history =
     [\<lparr>cmd_ID = ''c-2'', cmd_Command = CommandApplyCloudConfig, cmd_Phase = CommandPhaseCompleted, cmd_Result = '''',
        cmd_CreatedAt = Some (demo_time + seconds 60)\<rparr>,
      \<lparr>cmd_ID = ''r-1'', cmd_Command = CommandReboot, cmd_Phase = CommandPhaseExpired, cmd_Result = '''',
        cmd_CreatedAt = Some (demo_time + seconds 90)\<rparr>,
      \<lparr>cmd_ID = ''c-1'', cmd_Command = CommandApplyCloudConfig, cmd_Phase = CommandPhaseFailed, cmd_Result = ''boom'',
        cmd_CreatedAt = Some demo_time\<rparr>]"

definition demo_veteran :: "time FakeClient" where
  "demo_veteran = demo_ab\<lparr>GetCommandsFunc := Some (\<lambda>n t. (Inr demo_history, t))\<rparr>"

lemma demo_veteran_commands: "fst (GetCommands (fake_client demo_veteran) n w) = Inr demo_history"
  by (simp add: demo_veteran_def fake_client_def fake_GetCommands_def run_func_def)

lemma commandState_reads_recorded_command_witness:
  "fst (commandState (fake_client demo_veteran) ''node-1'' ''c-1'' CommandApplyCloudConfig demo_world) = (False, True, ''boom'')"
proof -
  have "distinct (map cmd_ID demo_history)" by (simp add: demo_history_def)
  from commandState_reads_recorded_command [OF demo_veteran_commands _ this, where i = "''c-1''" and n = "''node-1''" and w = demo_world and name = CommandApplyCloudConfig]
  show ?thesis by (simp add: demo_history_def command_phase_defs)
qed

theorem commandState_reads_newest_command_witness:
  "fst (commandState (fake_client demo_veteran) ''node-1'' '''' CommandApplyCloudConfig demo_world) = (True, False, '''')"
proof -
  have "dated_newest CommandApplyCloudConfig demo_history (hd demo_history)"
    by (simp add: dated_newest_def demo_history_def CommandApplyCloudConfig_def CommandReboot_def seconds_def nanos_def)
  from commandState_reads_newest_command [OF demo_veteran_commands this, where n = "''node-1''" and w = demo_world]
  show ?thesis by (simp add: demo_history_def command_phase_defs)
qed

theorem delete_removes_finalizer_iff_witness:
  "released (demo_r demo_ab) (demo_deleted demo_claimed) demo_cluster demo_world
   \<and> KairosFleetMachineFinalizer
       \<notin> finalizers (fst (reconcileDelete (demo_r demo_ab) (demo_deleted demo_claimed) demo_cluster demo_world))"
proof -
  obtain fm' err w' where d: "reconcileDelete (demo_r demo_ab) (demo_deleted demo_claimed) demo_cluster demo_world = (fm', err, w')"
    by (metis prod_cases3)
  have "KairosFleetMachineFinalizer \<in> finalizers (demo_deleted demo_claimed)"
    by (simp add: demo_deleted_def finalizers_def)
  moreover have "released (demo_r demo_ab) (demo_deleted demo_claimed) demo_cluster demo_world" by code_simp
  ultimately show ?thesis using delete_removes_finalizer_iff [OF _ d] by (simp add: d)
qed

theorem unresolvable_iff_witness:
  "\<exists>err. fleetClientForDelete (demo_reconciler demo_claimed (Inl (ForeignErr ''NotFound'')) demo_ab) demo_cluster demo_world = Inl err
     \<and> isPermanentlyUnresolvable (demo_kube demo_claimed (Inl (ForeignErr ''NotFound''))) err"
proof -
  let ?r = "demo_reconciler demo_claimed (Inl (ForeignErr ''NotFound'')) demo_ab"
  have "kube_lib (r_Client ?r)" by (simp add: kube_lib_demo)
  moreover have "kGetCluster (r_Client ?r) k w = Inl e \<Longrightarrow> \<not> is_ConnectionIncomplete e"
    "kGetSecret (r_Client ?r) k w = Inl e \<Longrightarrow> \<not> is_ConnectionIncomplete e" for k w e
    by (auto simp: demo_kube_def ref_lib_def demo_base_def)
  moreover have "kGetCluster (r_Client ?r) k w = Inl (ForeignErr ''NotFound'')"
    "kIsNotFound (r_Client ?r) (ForeignErr ''NotFound'')" for k w
    by (simp_all add: demo_kube_def ref_lib_def demo_base_def)
  ultimately show ?thesis using unresolvable_iff [of ?r demo_world demo_cluster] by simp
qed

subsection \<open>Key, failure and claim\<close>

text \<open>The machine of the first pass, restored from a backup under another UID while being deleted.\<close>

definition demo_restored :: KairosFleetMachine where
  "demo_restored = (fst (demo_do demo_ab (demo_fm Map.empty)))\<lparr>fm_Meta :=
     (fm_Meta (fst (demo_do demo_ab (demo_fm Map.empty))))\<lparr>om_UID := ''uid-restored'',
        om_DeletionTimestamp := Some 0, om_Finalizers := [KairosFleetMachineFinalizer]\<rparr>\<rparr>"

lemma demo_first_claim:
  "Claims (snd (snd (snd (demo_do demo_ab (demo_fm Map.empty))))) = [\<lparr>cc_GroupID = ''workers'', cc_ClaimKey = ''uid-kfm''\<rparr>]"
  "ann (fst (demo_do demo_ab (demo_fm Map.empty))) NodeIDAnnotation = ''node-1''"
  "Releases (snd (snd (snd (demo_do demo_ab demo_restored)))) = [\<lparr>rc_NodeID = ''node-1'', rc_ClaimKey = ''uid-kfm''\<rparr>]"
  by code_simp+

theorem released_with_the_key_it_was_claimed_with_witness:
  "om_UID (fm_Meta demo_restored) = ''uid-restored''
   \<and> rc_ClaimKey (hd (Releases (snd (snd (snd (demo_do demo_ab demo_restored)))))) = ''uid-kfm''"
proof -
  have "reachable (demo_r demo_ab) (fst (demo_do demo_ab (demo_fm Map.empty))) demo_restored"
    by (rule reachable.others [OF reachable.start]) (simp_all add: demo_restored_def ann_def)
  from released_with_the_key_it_was_claimed_with [OF _ _ demo_do_parts [of demo_ab "demo_fm Map.empty"] _ _ _ this
      demo_do_parts [of demo_ab demo_restored],
      where call = "\<lparr>cc_GroupID = ''workers'', cc_ClaimKey = ''uid-kfm''\<rparr>"
        and rel = "\<lparr>rc_NodeID = ''node-1'', rc_ClaimKey = ''uid-kfm''\<rparr>"] demo_first_claim
  show ?thesis by (simp add: demo_restored_def)
qed

theorem failure_reason_changes_witness:
  "failureReason (fst (demo_do demo_gone demo_rebooting)) = Some ''NodeMissing''
   \<and> fst (snd (demo_do demo_gone demo_rebooting)) = Return no_requeue None"
proof -
  have "failureReason (fst (demo_do demo_gone demo_rebooting)) = Some ''NodeMissing''" by code_simp
  moreover have "failureReason demo_rebooting = None"
    by (simp add: demo_rebooting_def demo_fm_def failureReason_def)
  ultimately show ?thesis
    using failure_reason_changes [OF _ demo_do_parts [of demo_gone demo_rebooting]] by auto
qed

theorem claim_pass_outcomes_witness:
  "ready_reason (fst (demo_do demo_ab (demo_fm Map.empty))) = Some ''NodeClaimed''
   \<and> ann (fst (demo_do demo_ab (demo_fm Map.empty))) claimKeyAnnotation = ''uid-kfm''"
proof -
  have "ann (demo_fm Map.empty) NodeIDAnnotation = ''''" "claimKeyFor (demo_fm Map.empty) = ''uid-kfm''"
    by (simp_all add: claimKeyFor_def ann_def map_read_def demo_fm_def demo_meta_def)
  with claim_pass_outcomes [OF _ demo_do_parts [of demo_ab "demo_fm Map.empty"], of "''bootstrap''" "fake_client demo_ab"]
  show ?thesis by (simp add: demo_ab_def split: prod.splits)
qed

theorem rejoin_test_exact_witness:
  "rejoinedAfterReboot demo_rebooting (demo_node PhaseOnline (Some (demo_time + seconds 150)))
   \<and> \<not> rejoinedAfterReboot demo_rebooting (demo_node PhaseOnline (Some (demo_time + seconds 119)))"
proof -
  have at: "ann demo_rebooting rebootRequestedAtAnnotation = format_RFC3339 (demo_time + seconds 120)"
    "four_digit_year (demo_time + seconds 120)"
    by code_simp (simp add: four_digit_year_def demo_time_def seconds_def nanos_def)
  have lt: "demo_time + seconds 120 < demo_time + seconds 150" "\<not> demo_time + seconds 120 < demo_time + seconds 119"
    by (simp_all add: seconds_def nanos_def)
  show ?thesis
    using rejoin_test_exact [OF at, of "demo_node PhaseOnline (Some (demo_time + seconds 150))" "demo_time + seconds 150"]
      rejoin_test_exact [OF at, of "demo_node PhaseOnline (Some (demo_time + seconds 119))" "demo_time + seconds 119"] lt
    by (simp add: demo_at)
qed

text \<open>A reconciler with the default factory and no network.\<close>

definition demo_default :: "(time fworld) Reconciler" where
  "demo_default = (demo_r demo_ab)\<lparr>r_FleetClientFactory := None\<rparr>"

theorem default_client_never_panics_witness:
  "\<exists>res err. fst (snd (reconcile_body demo_default demo_rebooting demo_machine demo_cluster demo_world)) = Return res err"
proof -
  obtain fm' out w' where body: "reconcile_body demo_default demo_rebooting demo_machine demo_cluster demo_world = (fm', out, w')"
    by (metis prod_cases3)
  have "kube_lib (r_Client demo_default)" "r_FleetClientFactory demo_default = None"
    by (simp_all add: demo_default_def)
  from default_client_never_panics [OF this body] show ?thesis by (simp add: body)
qed

text \<open>The demo objects where the owner's Cluster cannot be read.\<close>

definition demo_outage :: "(time fworld) Reconciler" where
  "demo_outage = (demo_r demo_ab)\<lparr>r_Client :=
     (r_Client (demo_r demo_ab))\<lparr>kGetClusterFromMetadata := (\<lambda>_ _. Inl (PlainErr ''server timeout''))\<rparr>\<rparr>"

theorem cluster_lookup_error_is_swallowed_witness:
  "Reconcile demo_outage \<lparr>nn_Namespace = ''default'', nn_Name = ''kfm''\<rparr> demo_world = (Return no_requeue None, demo_world)"
  by (rule cluster_lookup_error_is_swallowed [where fm = "demo_fm Map.empty" and machine = demo_machine and e = "PlainErr ''server timeout''"])
    (simp_all add: demo_outage_def demo_r_def demo_reconciler_def demo_kube_def ref_lib_def demo_base_def)

subsection \<open>The cluster controller\<close>

lemma demo_cluster_unpaused: "\<not> kIsPaused (r_Client (demo_r f)) demo_cluster (fc_Meta demo_fc)"
  by (simp add: demo_r_def demo_reconciler_def demo_kube_def ref_lib_def demo_base_def demo_fc_def demo_meta_def)

theorem cluster_provisioned_iff_witness:
  "fci_Provisioned (fct_Initialization (fc_Status (fst (cluster_body (demo_r demo_ab) demo_fc demo_cluster demo_world)))) = Some True"
proof -
  obtain fc' res where body: "cluster_body (demo_r demo_ab) demo_fc demo_cluster demo_world = (fc', res)"
    by (metis prod.collapse)
  have "connection_token (r_Client (demo_r demo_ab)) demo_fc demo_world \<noteq> None" "has_endpoint demo_fc"
    by (simp_all add: demo_r_def demo_reconciler_def demo_kube_def ref_lib_def demo_base_def connection_token_def
        demo_fc_def demo_secret_def adminTokenSecretKey_def map_read_def has_endpoint_def Let_def)
  moreover have "is_zero_time (om_DeletionTimestamp (fc_Meta demo_fc))"
    by (simp add: demo_fc_def demo_meta_def is_zero_time_def)
  ultimately show ?thesis
    using cluster_provisioned_iff [OF _ demo_cluster_unpaused _ body]
    by (simp add: body)
qed

text \<open>The demo cluster while being deleted.\<close>

definition demo_leaving :: KairosFleetCluster where
  "demo_leaving = demo_fc\<lparr>fc_Meta := (fc_Meta demo_fc)\<lparr>om_DeletionTimestamp := Some 0,
     om_Finalizers := [KairosFleetClusterFinalizer]\<rparr>\<rparr>"

lemma cluster_delete_removes_finalizer_witness:
  "om_Finalizers (fc_Meta (fst (cluster_body (demo_r demo_ab) demo_leaving demo_cluster demo_world))) = []"
proof -
  obtain fc' res where body: "cluster_body (demo_r demo_ab) demo_leaving demo_cluster demo_world = (fc', res)"
    by (metis prod.collapse)
  have "\<not> kIsPaused (r_Client (demo_r demo_ab)) demo_cluster (fc_Meta demo_leaving)" 
    "\<not> is_zero_time (om_DeletionTimestamp (fc_Meta demo_leaving))"
    by code_simp+
  moreover have "om_Finalizers (fc_Meta demo_leaving) = [KairosFleetClusterFinalizer]" by (simp add: demo_leaving_def)
  ultimately show ?thesis using cluster_delete_removes_finalizer [OF _ _ _ body] by (simp add: body)
qed

end
