(* ===== verification/JsonProofs.thy ===== *)
theory JsonProofs
  imports Json
begin

text \<open>
  The JSON layer is right: UTF-8 decoding is inverted by encoding, an escaped string unescapes to
  the valid UTF-8 nearest to it, the scanner reads back what the encoder wrote, and the fuel of
  the decoder is always enough.
\<close>

subsection \<open>UTF-8\<close>

lemma byte_of_val [simp]: "byte_of (byte_val c) = c"
  by (simp add: byte_of_def byte_val_def)

lemma div_mod_64:
  assumes "z < (64::nat)"
  shows "(q * 64 + z) div 64 = q" "(q * 64 + z) mod 64 = z"
  using assms by simp_all

lemma lo6_lt: "byte_val c \<le> 191 \<Longrightarrow> lo6 c < 64"
  by (simp add: lo6_def)

lemma lo6_byte: "128 \<le> byte_val c \<Longrightarrow> byte_of (128 + lo6 c) = c"
  by (simp add: lo6_def)

lemma encode_2:
  assumes "194 \<le> n" "n \<le> 223" "z < 64"
  shows "encode_rune ((n - 192) * 64 + z) = [byte_of n, byte_of (128 + z)]"
proof -
  define r where "r = (n - 192) * 64 + z"
  have "r div 64 = n - 192" "r mod 64 = z" using div_mod_64 [OF assms(3)] by (simp_all add: r_def)
  moreover have "128 \<le> r" "r < 2048" using assms by (simp_all add: r_def)
  ultimately show ?thesis using assms(1) by (simp add: encode_rune_def Let_def flip: r_def)
qed

lemma encode_3:
  assumes "224 \<le> n" "n \<le> 239" "y < 64" "z < 64" "n = 224 \<Longrightarrow> 32 \<le> y" "n = 237 \<Longrightarrow> y < 32"
  shows "encode_rune ((n - 224) * 4096 + y * 64 + z) = [byte_of n, byte_of (128 + y), byte_of (128 + z)]"
proof -
  define r where "r = (n - 224) * 4096 + y * 64 + z"
  have r: "r = ((n - 224) * 64 + y) * 64 + z" by (simp add: r_def)
  have 1: "r div 64 = (n - 224) * 64 + y" "r mod 64 = z"
    unfolding r by (rule div_mod_64 [OF assms(4)])+
  have "r div 4096 = r div 64 div 64" by (simp add: div_mult2_eq [symmetric])
  then have 2: "r div 4096 = n - 224" "r div 64 mod 64 = y"
    using div_mod_64 [OF assms(3)] by (simp_all add: 1)
  have "2048 \<le> r" "r < 65536" "\<not> (55296 \<le> r \<and> r \<le> 57343)"
  proof -
    show "2048 \<le> r" using assms(1,5) by (cases "n = 224") (simp_all add: r_def)
    show "r < 65536" using assms(2-4) by (simp add: r_def)
    show "\<not> (55296 \<le> r \<and> r \<le> 57343)"
    proof (cases "n \<le> 236")
      case True
      then show ?thesis using assms(3,4) by (simp add: r_def)
    next
      case False
      show ?thesis
      proof (cases "n = 237")
        case True
        then show ?thesis using assms(3,4,6) by (simp add: r_def)
      next
        case n: False
        with False have "238 \<le> n" by simp
        then obtain m where "n = 238 + m" using le_Suc_ex by blast
        then show ?thesis by (simp add: r_def)
      qed
    qed
  qed
  then show ?thesis using assms(1,3) 1 2 by (auto simp: encode_rune_def Let_def simp flip: r_def)
qed

lemma encode_4:
  assumes "240 \<le> n" "n \<le> 244" "x < 64" "y < 64" "z < 64" "n = 240 \<Longrightarrow> 16 \<le> x" "n = 244 \<Longrightarrow> x < 16"
  shows "encode_rune ((n - 240) * 262144 + x * 4096 + y * 64 + z)
    = [byte_of n, byte_of (128 + x), byte_of (128 + y), byte_of (128 + z)]"
proof -
  define r where "r = (n - 240) * 262144 + x * 4096 + y * 64 + z"
  have r: "r = (((n - 240) * 64 + x) * 64 + y) * 64 + z" by (simp add: r_def)
  have 1: "r div 64 = ((n - 240) * 64 + x) * 64 + y" "r mod 64 = z"
    unfolding r by (rule div_mod_64 [OF assms(5)])+
  have d: "r div 4096 = r div 64 div 64" "r div 262144 = r div 4096 div 64"
    by (simp_all add: div_mult2_eq [symmetric])
  have 2: "r div 4096 = (n - 240) * 64 + x" "r div 64 mod 64 = y"
    unfolding d 1 by (rule div_mod_64 [OF assms(4)])+
  have 3: "r div 262144 = n - 240" "r div 4096 mod 64 = x"
    unfolding d(2) 2 by (rule div_mod_64 [OF assms(3)])+
  have "65536 \<le> r" using assms(1,6) by (cases "n = 240") (simp_all add: r_def)
  moreover have "r \<le> 1114111" using assms(2-5,7) by (cases "n = 244") (simp_all add: r_def)
  ultimately show ?thesis using assms(1) 1 2 3 by (simp add: encode_rune_def Let_def flip: r_def)
qed

text \<open>What a valid encoding is, by its length.\<close>

lemma decode_rune_cases:
  assumes "decode_rune (c # s) = (r, n)" "\<not> (r = RuneError \<and> n = 1)"
  obtains (1) "n = 1" "r = byte_val c" "byte_val c < 128"
  | (2) b t where "s = b # t" "n = 2" "r = (byte_val c - 192) * 64 + lo6 b" "194 \<le> byte_val c"
      "byte_val c \<le> 223" "cont b"
  | (3) b d t where "s = b # d # t" "n = 3" "r = (byte_val c - 224) * 4096 + lo6 b * 64 + lo6 d"
      "224 \<le> byte_val c" "byte_val c \<le> 239" "cont d"
      "in_range (if byte_val c = 224 then 160 else 128) (if byte_val c = 237 then 159 else 191) b"
  | (4) b d e t where "s = b # d # e # t" "n = 4"
      "r = (byte_val c - 240) * 262144 + lo6 b * 4096 + lo6 d * 64 + lo6 e"
      "240 \<le> byte_val c" "byte_val c \<le> 244" "cont d" "cont e"
      "in_range (if byte_val c = 240 then 144 else 128) (if byte_val c = 244 then 143 else 191) b"
  using assms by (auto simp: Let_def split: if_splits list.splits)

lemma cont_lo6: "cont b \<Longrightarrow> lo6 b < 64 \<and> byte_of (128 + lo6 b) = b"
  by (simp add: cont_def lo6_lt lo6_byte)

lemma encode_decode:
  assumes "decode_rune (c # s) = (r, n)" "\<not> (r = RuneError \<and> n = 1)"
  shows "encode_rune r = take n (c # s)"
  using assms
proof (cases rule: decode_rune_cases)
  case 1
  then show ?thesis by (simp add: encode_rune_def)
next
  case (2 b t)
  then show ?thesis using encode_2 [of "byte_val c" "lo6 b"] cont_lo6 [of b] by simp
next
  case (3 b d t)
  then have b: "lo6 b < 64" "byte_of (128 + lo6 b) = b" "byte_val c = 224 \<Longrightarrow> 32 \<le> lo6 b"
    "byte_val c = 237 \<Longrightarrow> lo6 b < 32"
    by (auto simp: in_range_def lo6_lt lo6_byte split: if_splits) (auto simp: lo6_def)
  then show ?thesis using 3 encode_3 [of "byte_val c" "lo6 b" "lo6 d"] cont_lo6 [of d] by simp
next
  case (4 b d e t)
  then have b: "lo6 b < 64" "byte_of (128 + lo6 b) = b" "byte_val c = 240 \<Longrightarrow> 16 \<le> lo6 b"
    "byte_val c = 244 \<Longrightarrow> lo6 b < 16"
    by (auto simp: in_range_def lo6_lt lo6_byte split: if_splits) (auto simp: lo6_def)
  then show ?thesis using 4 encode_4 [of "byte_val c" "lo6 b" "lo6 d" "lo6 e"] cont_lo6 [of d] cont_lo6 [of e]
    by simp
qed

lemma decode_rune_prefix:
  assumes "decode_rune (c # s) = (r, n)" "\<not> (r = RuneError \<and> n = 1)"
  shows "decode_rune (take n (c # s) @ t) = (r, n)"
  using assms by (cases rule: decode_rune_cases) (simp_all add: Let_def)

lemma decode_rune_high:
  assumes "decode_rune (c # s) = (r, n)" "\<not> (r = RuneError \<and> n = 1)" "128 \<le> byte_val c"
  shows "\<forall>b \<in> set (take n (c # s)). 128 \<le> byte_val b"
  using assms(1,2)
  by (cases rule: decode_rune_cases) (use assms(3) in \<open>auto simp: cont_def in_range_def split: if_splits\<close>)

subsection \<open>Escaping and unescaping\<close>

lemma char_of_byte: "byte_val c = n \<Longrightarrow> c = char_of n"
  by (auto simp: byte_val_def)

lemma decode_rune_ascii: "byte_val c < 128 \<Longrightarrow> decode_rune (c # s) = (byte_val c, 1)"
  by simp

declare decode_rune.simps(2) [simp del]

lemma hex_val_digit [simp]: "k < 16 \<Longrightarrow> hex_val (hex_digit k) = Some k"
  by (auto simp: hex_digit_def hex_val_def Let_def byte_val_char_of)

lemma hex_val_0 [simp]: "hex_val (CHR ''0'') = Some 0"
  by (simp add: hex_val_def byte_val_def)

lemma hex4_ascii:
  "byte_val c < 128 \<Longrightarrow>
   hex4 (CHR ''0'' # CHR ''0'' # hex_digit (byte_val c div 16) # hex_digit (byte_val c mod 16) # t)
     = Some (byte_val c)"
  by simp

lemma encode_ascii: "byte_val c < 128 \<Longrightarrow> encode_rune (byte_val c) = [c]"
  by (simp add: encode_rune_def)

lemma special_chars:
  "byte_val bs = 92" "byte_val dq = 34" "bs \<noteq> dq" "bs \<noteq> CHR ''u''" "dq \<noteq> CHR ''u''"
  "byte_val (CHR ''u'') = 117"
  by (simp_all add: bs_def dq_def byte_val_def) (simp_all add: char_of_def)

lemma simple_escapes:
  "simple_escape (CHR ''b'') = Some (char_of (8::nat))" "simple_escape (CHR ''f'') = Some (char_of (12::nat))"
  "simple_escape (CHR ''n'') = Some (char_of (10::nat))" "simple_escape (CHR ''r'') = Some (char_of (13::nat))"
  "simple_escape (CHR ''t'') = Some (char_of (9::nat))" "simple_escape dq = Some dq" "simple_escape bs = Some bs"
  by code_simp+

lemma unquote_simple:
  "e \<noteq> CHR ''u'' \<Longrightarrow> simple_escape e = Some x \<Longrightarrow> json_unquote (bs # e # t) = x # json_unquote t"
  by (simp add: json_unquote.simps(2))

lemma unquote_u:
  assumes "hex4 t = Some r" "\<not> (55296 \<le> r \<and> r \<le> 57343)"
  shows "json_unquote (bs # CHR ''u'' # t) = encode_rune r @ json_unquote (drop 4 t)"
  using assms by (subst json_unquote.simps(2)) auto

lemma unquote_plain: "c \<noteq> bs \<Longrightarrow> byte_val c < 128 \<Longrightarrow> json_unquote (c # t) = c # json_unquote t"
  by (simp add: json_unquote.simps(2))

lemma unquote_ascii:
  assumes "byte_val c < 128"
  shows "json_unquote (escape_ascii c @ t) = c # json_unquote t"
proof -
  consider (quoted) "byte_val c \<in> {34, 92}" | (short) "byte_val c \<in> {8, 12, 10, 13, 9}"
    | (hex) "byte_val c \<notin> {34, 92, 8, 12, 10, 13, 9}" "byte_val c < 32 \<or> byte_val c \<in> {60, 62, 38}"
    | (plain) "\<not> (byte_val c < 32 \<or> byte_val c \<in> {34, 92, 60, 62, 38})" by auto
  then show ?thesis
  proof cases
    case quoted
    then have "c = dq \<or> c = bs" using char_of_byte [of c] by (auto simp: dq_def bs_def)
    then show ?thesis
      by (auto simp: escape_ascii_def special_chars simple_escape_def intro!: unquote_simple)
  next
    case short
    then show ?thesis using char_of_byte [of c]
      by (auto simp: escape_ascii_def simple_escapes intro!: unquote_simple)
  next
    case hex
    then have "escape_ascii c = [bs, CHR ''u'', CHR ''0'', CHR ''0'', hex_digit (byte_val c div 16), hex_digit (byte_val c mod 16)]"
      by (auto simp: escape_ascii_def Let_def)
    then show ?thesis using unquote_u [OF hex4_ascii [OF assms]] assms by (simp add: encode_ascii)
  next
    case plain
    then have "escape_ascii c = [c]" "c \<noteq> bs" by (auto simp: escape_ascii_def Let_def special_chars)
    then show ?thesis using assms by (simp add: unquote_plain)
  qed
qed

lemma unquote_high:
  assumes "decode_rune (c # s) = (r, n)" "\<not> (r = RuneError \<and> n = 1)" "128 \<le> byte_val c"
  shows "json_unquote (take n (c # s) @ t) = take n (c # s) @ json_unquote t"
proof -
  have "c \<noteq> bs" using assms(3) by (auto simp: special_chars)
  have "1 \<le> n" using decode_rune_width [of "c # s"] assms(1) by simp
  have len: "n \<le> length (c # s)" using decode_rune_width [of "c # s"] assms(1) by simp
  obtain n' where n': "n = Suc n'" using \<open>1 \<le> n\<close> by (cases n) auto
  have dec: "decode_rune (take n (c # s) @ t) = (r, n)" by (rule decode_rune_prefix [OF assms(1,2)])
  have "drop n (take n (c # s) @ t) = t" using len by simp
  then show ?thesis
    using dec \<open>c \<noteq> bs\<close> assms(3) encode_decode [OF assms(1,2)]
    by (simp add: n' json_unquote.simps(2))
qed

text \<open>What the encoding of a string carries.\<close>

lemma unquote_escape: "json_unquote (json_escape s) = to_valid s"
proof (induction s rule: json_escape.induct)
  case 1
  then show ?case by simp
next
  case (2 c s)
  show ?case
  proof (cases "byte_val c < 128")
    case True
    then have "decode_rune (c # s) = (byte_val c, 1)" by (rule decode_rune_ascii)
    moreover have "byte_val c \<noteq> RuneError" using True by (simp add: RuneError_def)
    ultimately have "to_valid (c # s) = c # to_valid s" by (simp add: to_valid.simps(2))
    then show ?thesis using 2(1) [OF True] True by (simp add: json_escape.simps(2) unquote_ascii)
  next
    case False
    obtain r n where d: "decode_rune (c # s) = (r, n)" by (cases "decode_rune (c # s)")
    have IH: "json_unquote (json_escape (drop n (c # s))) = to_valid (drop n (c # s))"
      using 2(2) [OF False d [symmetric]] by simp
    consider (bad) "r = RuneError" "n = 1" | (sep) "\<not> (r = RuneError \<and> n = 1)" "r = 8232 \<or> r = 8233"
      | (good) "\<not> (r = RuneError \<and> n = 1)" "\<not> (r = 8232 \<or> r = 8233)" by blast
    then show ?thesis
    proof cases
      case bad
      have "hex4 (CHR ''f'' # CHR ''f'' # CHR ''f'' # CHR ''d'' # t) = Some RuneError" for t
        by (simp add: hex_val_def byte_val_def RuneError_def)
      from unquote_u [OF this] show ?thesis
        using False d bad IH by (simp add: json_escape.simps(2) to_valid.simps(2) RuneError_def)
    next
      case sep
      have "hex4 (CHR ''2'' # CHR ''0'' # CHR ''2'' # hex_digit (r mod 16) # t) = Some r" for t
        using sep(2) by (auto simp: hex_val_def byte_val_def hex_digit_def)
      from unquote_u [OF this] show ?thesis
        using False d sep IH encode_decode [OF d sep(1)]
        by (auto simp: json_escape.simps(2) to_valid.simps(2))
    next
      case good
      then show ?thesis using False d IH unquote_high [OF d good(1)]
        by (auto simp: json_escape.simps(2) to_valid.simps(2))
    qed
  qed
qed

text \<open>Strings that are UTF-8 already are the ones that come through as they are.\<close>

lemma to_valid_bad_differs:
  assumes "decode_rune (c # s) = (RuneError, 1)"
  shows "encode_rune RuneError @ t \<noteq> c # s"
proof
  assume "encode_rune RuneError @ t = c # s"
  then have "c # s = [byte_of 239, byte_of 191, byte_of 189] @ t"
    by (simp add: encode_rune_def RuneError_def)
  then have "decode_rune (c # s) = (RuneError, 3)"
    by (simp add: decode_rune.simps(2) byte_of_def byte_val_char_of in_range_def cont_def lo6_def RuneError_def Let_def)
  then show False using assms by simp
qed

lemma to_valid_iff: "to_valid s = s \<longleftrightarrow> utf8_valid s"
proof (induction s rule: utf8_valid.induct)
  case 1
  then show ?case by simp
next
  case (2 c s)
  obtain r n where d: "decode_rune (c # s) = (r, n)" by (cases "decode_rune (c # s)")
  have IH: "to_valid (drop n (c # s)) = drop n (c # s) \<longleftrightarrow> utf8_valid (drop n (c # s))"
    using 2 [OF d [symmetric] refl] .
  show ?case
  proof (cases "r = RuneError \<and> n = 1")
    case True
    then show ?thesis using to_valid_bad_differs [of c s] d by (simp add: to_valid.simps(2) utf8_valid.simps(2))
  next
    case False
    have "take n (c # s) @ to_valid (drop n (c # s)) = c # s \<longleftrightarrow> to_valid (drop n (c # s)) = drop n (c # s)"
      by (metis append_take_drop_id same_append_eq)
    then show ?thesis using False d IH by (auto simp: to_valid.simps(2) utf8_valid.simps(2))
  qed
qed

subsection \<open>Scanning what was encoded\<close>

lemma scan_plain:
  "c \<noteq> dq \<Longrightarrow> c \<noteq> bs \<Longrightarrow> 32 \<le> byte_val c \<Longrightarrow>
   scan_string (c # t) = map_option (\<lambda>(r, u). (c # r, u)) (scan_string t)"
  by (simp add: scan_string.simps(2))

lemma scan_high:
  "\<forall>b \<in> set xs. 128 \<le> byte_val b \<Longrightarrow>
   scan_string (xs @ t) = map_option (\<lambda>(r, u). (xs @ r, u)) (scan_string t)"
proof (induction xs)
  case Nil
  then show ?case by (simp add: option.map_ident)
next
  case (Cons x xs)
  then have "x \<noteq> dq" "x \<noteq> bs" "32 \<le> byte_val x" by (auto simp: special_chars)
  then show ?case using Cons by (simp add: scan_plain option.map_comp comp_def case_prod_unfold)
qed

lemma scan_escape_u:
  "hex4 t \<noteq> None \<Longrightarrow> scan_string (bs # CHR ''u'' # t)
     = map_option (\<lambda>(r, u). (bs # CHR ''u'' # take 4 t @ r, u)) (scan_string (drop 4 t))"
  by (subst scan_string.simps(2)) (auto simp: special_chars)

lemma scan_escape_simple:
  "e \<noteq> CHR ''u'' \<Longrightarrow> simple_escape e \<noteq> None \<Longrightarrow>
   scan_string (bs # e # t) = map_option (\<lambda>(r, u). (bs # e # r, u)) (scan_string t)"
  by (subst scan_string.simps(2)) (auto simp: special_chars)

lemma scan_ascii:
  assumes "byte_val c < 128"
  shows "scan_string (escape_ascii c @ t) = map_option (\<lambda>(r, u). (escape_ascii c @ r, u)) (scan_string t)"
proof -
  consider (quoted) "byte_val c \<in> {34, 92}" | (short) "byte_val c \<in> {8, 12, 10, 13, 9}"
    | (hex) "byte_val c \<notin> {34, 92, 8, 12, 10, 13, 9}" "byte_val c < 32 \<or> byte_val c \<in> {60, 62, 38}"
    | (plain) "\<not> (byte_val c < 32 \<or> byte_val c \<in> {34, 92, 60, 62, 38})" by auto
  then show ?thesis
  proof cases
    case quoted
    then have "c = dq \<or> c = bs" using char_of_byte [of c] by (auto simp: dq_def bs_def)
    then show ?thesis
      by (auto simp: escape_ascii_def special_chars simple_escapes scan_escape_simple)
  next
    case short
    then show ?thesis by (auto simp: escape_ascii_def simple_escapes scan_escape_simple)
  next
    case hex
    then have "escape_ascii c = [bs, CHR ''u'', CHR ''0'', CHR ''0'', hex_digit (byte_val c div 16), hex_digit (byte_val c mod 16)]"
      by (auto simp: escape_ascii_def Let_def)
    then show ?thesis using scan_escape_u [of "CHR ''0'' # CHR ''0'' # hex_digit (byte_val c div 16) # hex_digit (byte_val c mod 16) # t"]
      hex4_ascii [OF assms] by (simp del: hex4.simps)
  next
    case plain
    then have "escape_ascii c = [c]" "c \<noteq> bs" "c \<noteq> dq" "32 \<le> byte_val c"
      by (auto simp: escape_ascii_def Let_def special_chars)
    then show ?thesis by (simp add: scan_plain)
  qed
qed

lemma scan_escaped:
  "scan_string (json_escape s @ t) = map_option (\<lambda>(r, u). (json_escape s @ r, u)) (scan_string t)"
proof (induction s rule: json_escape.induct)
  case 1
  then show ?case by (simp add: option.map_ident)
next
  case (2 c s)
  show ?case
  proof (cases "byte_val c < 128")
    case True
    then show ?thesis using 2(1) [OF True]
      by (simp add: json_escape.simps(2) scan_ascii option.map_comp comp_def case_prod_unfold)
  next
    case False
    obtain r n where d: "decode_rune (c # s) = (r, n)" by (cases "decode_rune (c # s)")
    have IH: "scan_string (json_escape (drop n (c # s)) @ t)
        = map_option (\<lambda>(r, u). (json_escape (drop n (c # s)) @ r, u)) (scan_string t)"
      using 2(2) [OF False d [symmetric]] by simp
    consider (bad) "r = RuneError" "n = 1" | (sep) "\<not> (r = RuneError \<and> n = 1)" "r = 8232 \<or> r = 8233"
      | (good) "\<not> (r = RuneError \<and> n = 1)" "\<not> (r = 8232 \<or> r = 8233)" by blast
    then show ?thesis
    proof cases
      case bad
      have "hex4 (CHR ''f'' # CHR ''f'' # CHR ''f'' # CHR ''d'' # t) \<noteq> None" for t
        by (simp add: hex_val_def byte_val_def)
      from scan_escape_u [OF this] show ?thesis
        using False d bad IH
        by (simp add: json_escape.simps(2) option.map_comp comp_def case_prod_unfold)
    next
      case sep
      have "hex4 (CHR ''2'' # CHR ''0'' # CHR ''2'' # hex_digit (r mod 16) # t) \<noteq> None" for t
        using sep(2) by (auto simp: hex_val_def byte_val_def hex_digit_def)
      from scan_escape_u [OF this] show ?thesis
        using False d sep IH
        by (auto simp: json_escape.simps(2) option.map_comp comp_def case_prod_unfold)
    next
      case good
      then show ?thesis using False d IH scan_high [OF decode_rune_high [OF d good(1)]]
        by (auto simp: json_escape.simps(2) option.map_comp comp_def case_prod_unfold)
    qed
  qed
qed

lemma scan_quoted [simp]: "scan_string (json_escape s @ dq # t) = Some (json_escape s, t)"
  by (simp add: scan_escaped scan_string.simps(2))

text \<open>A literal the scanner has read is read again in front of any other input.\<close>

lemma hex4_length: "hex4 t \<noteq> None \<Longrightarrow> \<exists>a b c d s. t = a # b # c # d # s \<and> (\<forall>s'. hex4 (a # b # c # d # s') = hex4 t)"
  by (cases t rule: hex4.cases) auto

lemma scan_string_again:
  assumes "scan_string s = Some (r, u)"
  shows "s = r @ dq # u \<and> (\<forall>t. scan_string (r @ dq # t) = Some (r, t))"
  using assms
proof (induction s arbitrary: r u rule: scan_string.induct)
  case 1
  then show ?case by simp
next
  case (2 c s)
  consider (close) "c = dq" | (esc) "c = bs" "c \<noteq> dq" | (plain) "c \<noteq> dq" "c \<noteq> bs" by blast
  then show ?case
  proof cases
    case close
    then show ?thesis using 2(4) by (auto simp: scan_string.simps(2))
  next
    case esc
    obtain e t where s: "s = e # t" using 2(4) esc by (cases s) (simp_all add: scan_string.simps(2))
    show ?thesis
    proof (cases "e = CHR ''u''")
      case True
      then have h: "hex4 t \<noteq> None" using 2(4) esc s by (auto simp: scan_string.simps(2) split: option.splits)
      then obtain x where x: "hex4 t = Some x" by blast
      obtain r' where r': "scan_string (drop 4 t) = Some (r', u)" "r = bs # CHR ''u'' # take 4 t @ r'"
        using 2(4) esc s True scan_escape_u [OF h] by auto
      have IH: "drop 4 t = r' @ dq # u \<and> (\<forall>t. scan_string (r' @ dq # t) = Some (r', t))"
        using 2(1) [OF esc(2,1) s True x r'(1)] .
      obtain a b c' d t' where t: "t = a # b # c' # d # t'" "\<forall>s'. hex4 (a # b # c' # d # s') = hex4 t"
        using hex4_length [OF h] by blast
      have "hex4 (take 4 t @ r' @ dq # v) \<noteq> None" for v using t h by simp
      then show ?thesis using IH r'(2) t(1) esc s True by (auto simp: scan_escape_u)
    next
      case False
      then have "simple_escape e \<noteq> None" using 2(4) esc s by (auto simp: scan_string.simps(2) split: if_splits)
      moreover obtain r' where r': "scan_string t = Some (r', u)" "r = bs # e # r'"
        using 2(4) esc s False calculation scan_escape_simple [OF False] by auto
      ultimately show ?thesis using 2(2) [OF esc(2,1) s False _ r'(1)] esc s False
        by (auto simp: scan_escape_simple)
    qed
  next
    case plain
    then have "32 \<le> byte_val c" using 2(4) by (auto simp: scan_string.simps(2) split: if_splits)
    moreover obtain r' where r': "scan_string s = Some (r', u)" "r = c # r'"
      using 2(4) plain calculation by (auto simp: scan_plain)
    ultimately show ?thesis using 2(3) [OF plain _ r'(1)] plain by (auto simp: scan_plain)
  qed
qed

subsection \<open>Encoding and decoding values\<close>

text \<open>The values the client encodes: no numbers, and literals that are well formed.\<close>

definition well_formed_literal :: "string \<Rightarrow> bool" where
  "well_formed_literal raw \<longleftrightarrow> scan_string (raw @ [dq]) = Some (raw, [])"

fun encodable :: "json \<Rightarrow> bool" where
  "encodable (JNum n) = False"
| "encodable (JStr raw) = well_formed_literal raw"
| "encodable (JArr js) = list_all encodable js"
| "encodable (JObj ms) = list_all (\<lambda>m. well_formed_literal (fst m) \<and> encodable (snd m)) ms"
| "encodable _ = True"

lemma well_formed_escape [simp]: "well_formed_literal (json_escape s)"
  by (simp add: well_formed_literal_def)

lemma scan_literal: "well_formed_literal raw \<Longrightarrow> scan_string (raw @ dq # t) = Some (raw, t)"
  using scan_string_again unfolding well_formed_literal_def by blast

lemma json_chars:
  "dq \<noteq> CHR ''{''" "dq \<noteq> CHR ''[''" "dq \<noteq> CHR '']''" "dq \<noteq> CHR ''}''" "\<not> is_jspace dq"
  "\<not> is_jspace (CHR ''{'')" "\<not> is_jspace (CHR ''['')" "\<not> is_jspace (CHR '']'')" "\<not> is_jspace (CHR ''}'')"
  "\<not> is_jspace (CHR '','')" "\<not> is_jspace (CHR '':'')" "\<not> is_jspace (CHR ''t'')" "\<not> is_jspace (CHR ''f'')"
  "\<not> is_jspace (CHR ''n'')"
  by (simp_all add: is_jspace_def special_chars dq_def byte_val_def) (simp_all add: char_of_def)

lemma skip_ws_Cons [simp]: "\<not> is_jspace c \<Longrightarrow> skip_ws (c # s) = c # s"
  by (simp add: skip_ws_def)

lemma json_first:
  assumes "encodable j"
  obtains c r where "json_encode j = c # r" "\<not> is_jspace c" "c \<noteq> CHR '']''"
proof (cases j)
  case (JBool b)
  then show ?thesis using that by (cases b) (auto simp: json_chars)
qed (use assms that in \<open>auto simp: json_chars\<close>)

lemma json_first_elem:
  assumes "encodable j"
  obtains c r where "json_encode_elems (j # js) @ s = c # r" "\<not> is_jspace c" "c \<noteq> CHR '']''"
proof -
  obtain c r where "json_encode j = c # r" "\<not> is_jspace c" "c \<noteq> CHR '']''" using json_first [OF assms] .
  then show ?thesis using that by (cases js) auto
qed
lemma value_string:
  "well_formed_literal raw \<Longrightarrow> json_value (Suc n) (dq # raw @ dq # t) = Some (JStr raw, t)"
  by (simp add: json_chars scan_literal)

lemma value_word:
  "json_value (Suc n) (CHR ''n'' # CHR ''u'' # CHR ''l'' # CHR ''l'' # t) = Some (JNull, t)"
  "json_value (Suc n) (CHR ''t'' # CHR ''r'' # CHR ''u'' # CHR ''e'' # t) = Some (JBool True, t)"
  "json_value (Suc n) (CHR ''f'' # CHR ''a'' # CHR ''l'' # CHR ''s'' # CHR ''e'' # t) = Some (JBool False, t)"
proof -
  have "CHR ''n'' \<noteq> dq" "CHR ''t'' \<noteq> dq" "CHR ''f'' \<noteq> dq" by (simp_all add: dq_def) (simp_all add: char_of_def)
  then show "json_value (Suc n) (CHR ''n'' # CHR ''u'' # CHR ''l'' # CHR ''l'' # t) = Some (JNull, t)"
    "json_value (Suc n) (CHR ''t'' # CHR ''r'' # CHR ''u'' # CHR ''e'' # t) = Some (JBool True, t)"
    "json_value (Suc n) (CHR ''f'' # CHR ''a'' # CHR ''l'' # CHR ''s'' # CHR ''e'' # t) = Some (JBool False, t)"
    by (simp_all add: json_chars scan_word_def)
qed

lemma json_value_encode:
  "encodable j \<Longrightarrow> length (json_encode j) \<le> n \<Longrightarrow> json_value n (json_encode j @ t) = Some (j, t)"
  "list_all encodable js \<Longrightarrow> js \<noteq> [] \<Longrightarrow> Suc (length (json_encode_elems js)) \<le> n \<Longrightarrow>
     json_elems n (json_encode_elems js @ CHR '']'' # t) = Some (js, t)"
  "list_all (\<lambda>m. well_formed_literal (fst m) \<and> encodable (snd m)) ms \<Longrightarrow> ms \<noteq> [] \<Longrightarrow>
     Suc (length (json_encode_members ms)) \<le> n \<Longrightarrow>
     json_members n (json_encode_members ms @ CHR ''}'' # t) = Some (ms, t)"
proof (induction j and js and ms arbitrary: n t and n t and n t
    rule: json_encode_json_encode_elems_json_encode_members.induct)
  case 1
  then show ?case by (cases n) (simp_all add: value_word del: json_value.simps)
next
  case (2 b)
  then show ?case by (cases n; cases b) (simp_all add: value_word del: json_value.simps)
next
  case (3 k)
  then show ?case by simp
next
  case (4 s)
  then show ?case by (cases n) (simp_all add: value_string del: json_value.simps(2))
next
  case (5 js)
  then obtain m where n: "n = Suc m" by (cases n) auto
  show ?case
  proof (cases js)
    case Nil
    then show ?thesis by (simp add: n json_chars)
  next
    case (Cons j js')
    have "json_elems m (json_encode_elems js @ CHR '']'' # t) = Some (js, t)"
      using 5 Cons by (auto simp: n)
    moreover obtain c r where "json_encode_elems js @ CHR '']'' # t = c # r" "\<not> is_jspace c" "c \<noteq> CHR '']''"
      using json_first_elem [of j js' "CHR '']'' # t"] 5(2) Cons by auto
    ultimately show ?thesis by (simp add: n json_chars)
  qed
next
  case (6 ms)
  then obtain m where n: "n = Suc m" by (cases n) auto
  show ?case
  proof (cases ms)
    case Nil
    then show ?thesis by (simp add: n json_chars)
  next
    case (Cons x ms')
    have "json_members m (json_encode_members ms @ CHR ''}'' # t) = Some (ms, t)"
      using 6 Cons by (auto simp: n)
    moreover obtain r where "json_encode_members ms @ CHR ''}'' # t = dq # r"
      using Cons by (cases x; cases ms') auto
    ultimately show ?thesis by (simp add: n json_chars)
  qed
next
  case 7
  then show ?case by simp
next
  case (8 j)
  then obtain m where n: "n = Suc m" by (cases n) auto
  have "json_value m (json_encode j @ CHR '']'' # t) = Some (j, CHR '']'' # t)" using 8 by (simp add: n)
  then show ?case by (simp add: n json_chars)
next
  case (9 j j' js)
  then obtain m where n: "n = Suc m" by (cases n) auto
  have "json_value m (json_encode j @ CHR '','' # u) = Some (j, CHR '','' # u)" for u
    using 9 by (simp add: n)
  moreover have "0 < length (json_encode j)" using 9(3) by (cases "json_encode j") (auto elim: json_first)
  then have "json_elems m (json_encode_elems (j' # js) @ CHR '']'' # t) = Some (j' # js, t)"
    using 9 by (simp add: n)
  ultimately show ?case by (simp add: n json_chars)
next
  case 10
  then show ?case by simp
next
  case (11 k j)
  then obtain m where n: "n = Suc m" by (cases n) auto
  have "json_value m (json_encode j @ CHR ''}'' # t) = Some (j, CHR ''}'' # t)" using 11 by (simp add: n)
  then show ?case using 11(2) by (simp add: n json_chars scan_literal)
next
  case (12 k j x ms)
  then obtain m where n: "n = Suc m" by (cases n) auto
  have "json_value m (json_encode j @ CHR '','' # u) = Some (j, CHR '','' # u)" for u
    using 12 by (simp add: n)
  moreover have "json_members m (json_encode_members (x # ms) @ CHR ''}'' # t) = Some (x # ms, t)"
    using 12 by (simp add: n)
  ultimately show ?case using 12(3) by (simp add: n json_chars scan_literal)
qed

lemma decode_encode:
  assumes "encodable j" "json_depth j \<le> 10000"
  shows "decode_stream (json_encode j @ t) = Some j" "decode_whole (json_encode j) = Some j"
proof -
  have "json_value (2 * length (json_encode j @ t) + 2) (json_encode j @ t) = Some (j, t)"
    by (rule json_value_encode(1) [OF assms(1)]) simp
  then show "decode_stream (json_encode j @ t) = Some j" using assms(2) by (simp add: decode_stream_def)
  have "json_value (2 * length (json_encode j) + 2) (json_encode j @ []) = Some (j, [])"
    by (rule json_value_encode(1) [OF assms(1)]) simp
  then show "decode_whole (json_encode j) = Some j"
    using assms(2) by (simp add: decode_whole_def skip_ws_def)
qed

subsection \<open>The decoder's fuel\<close>

text \<open>Every reader consumes input.\<close>

lemma skip_ws_length: "length (skip_ws s) \<le> length s"
  by (simp add: skip_ws_def length_dropWhile_le)

lemma skip_ws_ConsD: "skip_ws s = c # r \<Longrightarrow> length r < length s"
  using skip_ws_length [of s] by simp

lemma scan_string_length: "scan_string s = Some (r, u) \<Longrightarrow> length u < length s"
  using scan_string_again [of s r u] by auto

lemma dropWhile_length: "length (dropWhile P s) \<le> length s"
  by (rule length_dropWhile_le)

lemma scan_digits_length: "scan_digits s = Some (d, u) \<Longrightarrow> length u \<le> length s"
  using dropWhile_length [of is_digit s] by (auto simp: scan_digits_def split: list.splits if_splits)

lemma scan_int_length: "scan_int s = Some (d, u) \<Longrightarrow> length u < length s"
  using dropWhile_length [of is_digit "tl s"] by (auto simp: scan_int_def split: list.splits if_splits)

lemma scan_frac_length: "scan_frac s = Some (d, u) \<Longrightarrow> length u \<le> length s"
  using scan_digits_length [of "tl s"] by (fastforce simp: scan_frac_def split: list.splits if_splits)

lemma scan_exp_length: "scan_exp s = Some (d, u) \<Longrightarrow> length u \<le> length s"
  using scan_digits_length [of "tl s"] scan_digits_length [of "tl (tl s)"]
  by (fastforce simp: scan_exp_def split: list.splits if_splits)

lemma scan_number_length: "scan_number s = Some (d, u) \<Longrightarrow> length u < length s"
proof -
  assume s: "scan_number s = Some (d, u)"
  define s1 where "s1 = snd (case s of c # r \<Rightarrow> if c = CHR ''-'' then ([c], r) else ([], s) | [] \<Rightarrow> ([], s))"
  have 1: "length s1 \<le> length s" by (auto simp: s1_def split: list.splits)
  obtain i s2 f s3 e where "scan_int s1 = Some (i, s2)" "scan_frac s2 = Some (f, s3)" "scan_exp s3 = Some (e, u)"
    using s by (auto simp: scan_number_def s1_def Let_def split: option.splits prod.splits list.splits if_splits
        Option.bind_splits)
  then show ?thesis using 1 scan_int_length scan_frac_length scan_exp_length by fastforce
qed

lemma scan_word_length: "scan_word w j s = Some (x, u) \<Longrightarrow> w \<noteq> [] \<Longrightarrow> length u < length s"
  by (cases s) (auto simp: scan_word_def split: if_splits)

lemma skip_char_length: "skip_char c s = Some u \<Longrightarrow> length u < length s"
  by (cases s) (auto split: if_splits)

lemma json_consumes:
  "json_value n s = Some (j, u) \<Longrightarrow> length u < length s"
  "json_elems n s = Some (js, u) \<Longrightarrow> length u < length s"
  "json_members n s = Some (ms, u) \<Longrightarrow> length u < length s"
proof (induction n s and n s and n s arbitrary: j u and js u and ms u
    rule: json_value_json_elems_json_members.induct)
  case (2 n s)
  then obtain c r where c: "skip_ws s = c # r" by (cases "skip_ws s") auto
  have len: "length r < length s" by (rule skip_ws_ConsD [OF c])
  show ?case
  proof (cases "c = CHR ''{'' \<or> c = CHR ''[''")
    case True
    then show ?thesis using 2 c len skip_ws_length [of r]
      by (fastforce split: list.splits if_splits)
  next
    case False
    then show ?thesis using 2(3) c len scan_string_length [of r] scan_number_length [of "c # r"]
        scan_word_length [of _ _ "c # r"]
      by (fastforce split: if_splits)
  qed
next
  case (4 n s)
  then obtain j s1 where v: "json_value n s = Some (j, s1)" by (cases "json_value n s") auto
  then have "length s1 < length s" by (rule 4(1))
  moreover obtain c r where c: "skip_ws s1 = c # r" using 4(3) v by (cases "skip_ws s1") auto
  moreover have "length r < length s1" by (rule skip_ws_ConsD [OF c])
  ultimately show ?case using 4(2) [OF v refl c] 4(3) v
    by (fastforce split: if_splits)
next
  case (6 n s)
  obtain s1 k s2 s3 j s4 c r where v: "skip_char dq (skip_ws s) = Some s1" "scan_string s1 = Some (k, s2)"
    "skip_char CHR '':'' (skip_ws s2) = Some s3" "json_value n s3 = Some (j, s4)" "skip_ws s4 = c # r"
    using 6(3) by (auto split: Option.bind_splits list.splits)
  have "length s1 < length s" using skip_char_length [OF v(1)] skip_ws_length [of s] by simp
  moreover have "length s2 < length s1" by (rule scan_string_length [OF v(2)])
  moreover have "length s3 < length s2" using skip_char_length [OF v(3)] skip_ws_length [of s2] by simp
  moreover have "length s4 < length s3" using 6(1) v by blast
  moreover have "length r < length s4" by (rule skip_ws_ConsD [OF v(5)])
  ultimately show ?case using 6(2) 6(3) v by (fastforce split: if_splits)
qed simp_all

text \<open>With fuel that covers the input, more fuel changes nothing.\<close>

lemma json_fuel:
  "2 * length s + 1 \<le> n \<Longrightarrow> n \<le> m \<Longrightarrow> json_value m s = json_value n s"
  "2 * length s + 2 \<le> n \<Longrightarrow> n \<le> m \<Longrightarrow> json_elems m s = json_elems n s"
  "2 * length s + 2 \<le> n \<Longrightarrow> n \<le> m \<Longrightarrow> json_members m s = json_members n s"
proof (induction n s and n s and n s arbitrary: m and m and m
    rule: json_value_json_elems_json_members.induct)
  case (2 n s)
  from 2(4) obtain m' where m: "m = Suc m'" by (cases m) auto
  show ?case
  proof (cases "skip_ws s")
    case Nil
    then show ?thesis by (simp add: m)
  next
    case (Cons c r)
    then have len: "2 * length r + 2 \<le> n" using skip_ws_ConsD [OF Cons] 2(3) by simp
    have members: "json_members m' r = json_members n r"
        if "c = CHR ''{''" "skip_ws r = d # u" "d \<noteq> CHR ''}''" for d u
      by (rule 2(1) [OF Cons that]) (use 2(4) len in \<open>simp_all add: m\<close>)
    have elems: "json_elems m' r = json_elems n r"
        if "c \<noteq> CHR ''{''" "c = CHR ''[''" "skip_ws r = d # u" "d \<noteq> CHR '']''" for d u
      by (rule 2(2) [OF Cons that]) (use 2(4) len in \<open>simp_all add: m\<close>)
    show ?thesis
    proof (cases "skip_ws r")
      case Nil
      then show ?thesis by (simp add: m Cons)
    next
      case r: (Cons d u)
      then show ?thesis
        by (cases "c = CHR ''{''"; cases "c = CHR ''[''"; cases "d = CHR ''}''"; cases "d = CHR '']''")
          (simp_all add: m Cons members [OF _ r] elems [OF _ _ r])
    qed
  qed
next
  case (4 n s)
  from 4(4) obtain m' where m: "m = Suc m'" "n \<le> m'" by (cases m) auto
  have v: "json_value m' s = json_value n s"
    by (rule 4(1)) (use 4(3) m in simp_all)
  show ?case
  proof (cases "json_value n s")
    case None
    then show ?thesis by (simp add: m v)
  next
    case (Some x)
    obtain j s1 where x: "x = (j, s1)" by (cases x)
    have "json_elems m' r = json_elems n r" if "skip_ws s1 = CHR '','' # r" for r
      by (rule 4(2) [OF Some x [symmetric] that refl])
        (use 4(3) m(2) json_consumes(1) [of n s j s1] Some x skip_ws_ConsD [OF that] in simp_all)
    then show ?thesis using Some x by (auto simp: m v split: list.splits)
  qed
next
  case (6 n s)
  from 6(4) obtain m' where m: "m = Suc m'" "n \<le> m'" by (cases m) auto
  show ?case
  proof (cases "skip_char dq (skip_ws s)")
    case None
    then show ?thesis by (simp add: m)
  next
    case s1: (Some s1)
    show ?thesis
    proof (cases "scan_string s1")
      case None
      then show ?thesis by (simp add: m s1)
    next
      case k: (Some x)
      obtain key s2 where x: "x = (key, s2)" by (cases x)
      show ?thesis
      proof (cases "skip_char CHR '':'' (skip_ws s2)")
        case None
        then show ?thesis by (simp add: m s1 k x)
      next
        case s3: (Some s3)
        have len: "length s3 < length s"
          using skip_char_length [OF s1] skip_ws_length [of s] scan_string_length [of s1 key s2] k x
            skip_char_length [OF s3] skip_ws_length [of s2] by simp
        have v: "json_value m' s3 = json_value n s3" 
          by (rule 6(1) [OF s1 k x [symmetric] s3]) (use 6(3) m len in simp_all)
        show ?thesis
        proof (cases "json_value n s3")
          case None
          then show ?thesis by (simp add: m s1 k x s3 v)
        next
          case (Some y)
          obtain j s4 where y: "y = (j, s4)" by (cases y)
          have "json_members m' r = json_members n r" if "skip_ws s4 = CHR '','' # r" for r
            by (rule 6(2) [OF s1 k x [symmetric] s3 Some y [symmetric] that refl])
              (use 6(3) m(2) len json_consumes(1) [of n s3 j s4] Some y skip_ws_ConsD [OF that] in simp_all)
          then show ?thesis using Some y by (auto simp: m s1 k x s3 v split: list.splits)
        qed
      qed
    qed
  qed
qed simp_all

subsection \<open>Properties\<close>

text \<open>What the JSON encoding of a string carries is the string itself, each byte that belongs
  to no UTF-8 encoding replaced by the replacement character; so a string comes through as it is
  exactly when it is UTF-8.\<close>

lemma json_string_roundtrip:
  "json_unquote (json_escape s) = to_valid s \<and> (json_unquote (json_escape s) = s \<longleftrightarrow> utf8_valid s)"
  by (simp add: unquote_escape to_valid_iff)

text \<open>What the client writes is read back: decoding the encoding of a value gives the value,
  whether the input is a stream that goes on or the whole body.\<close>

lemma json_decode_encode:
  assumes "encodable j" "json_depth j \<le> 10000"
  shows "decode_stream (json_encode j @ t) = Some j \<and> decode_whole (json_encode j) = Some j"
  using decode_encode [OF assms] by simp

text \<open>The decoder never fails for want of fuel: any larger amount gives the same answer on
  every input, well formed or not.\<close>

lemma json_decoder_fuel_suffices:
  assumes "2 * length s + 2 \<le> n"
  shows "decode_stream s = (case json_value n s of
      Some (j, _) \<Rightarrow> if json_depth j \<le> 10000 then Some j else None | None \<Rightarrow> None)"
  using json_fuel(1) [of s "2 * length s + 2" n] assms by (simp add: decode_stream_def)

lemma json_decode_encode_witness:
  "decode_whole ''{\"a\":[true,null]}'' = Some (JObj [(''a'', JArr [JBool True, JNull])])"
proof -
  have e: "encodable (JObj [(''a'', JArr [JBool True, JNull])])" by code_simp
  have d: "json_depth (JObj [(''a'', JArr [JBool True, JNull])]) \<le> 10000" by simp
  have "json_encode (JObj [(''a'', JArr [JBool True, JNull])]) = ''{\"a\":[true,null]}''" by code_simp
  then show ?thesis using json_decode_encode [OF e d, of "[]"] by simp
qed

lemma json_decoder_fuel_suffices_witness:
  "json_value 100 ''{}'' = Some (JObj [], []) \<and> decode_stream ''{}'' = Some (JObj [])"
proof -
  have "json_value 100 ''{}'' = Some (JObj [], [])" by code_simp
  then show ?thesis using json_decoder_fuel_suffices [of "''{}''" 100] by simp
qed

end
