(* ===== verification/HttpProofs.thy ===== *)
theory HttpProofs
  imports Http JsonProofs
begin

text \<open>
  What the HTTP client sends and how it reads the answers: the requests as a transport records
  them, the payloads as the other side decodes them, and the classification of errors.
\<close>

subsection \<open>A transport that records\<close>

text \<open>The world is the list of the requests sent; the answer is fixed.\<close>

definition recorder :: "Response res \<Rightarrow> Request list HTTPClient" where
  "recorder a req sent = (a, sent @ [req])"

lemma http_do_sends:
  assumes "http c = recorder a" "NewRequest net method (baseURL c @ path) = None"
  shows "snd (http_do net c method path input dec sent) = sent @ [\<lparr>req_Method = method,
     req_URL = baseURL c @ path, req_Header = request_headers c (input \<noteq> None),
     req_Body = map_option json_encode input\<rparr>]"
  using assms by (auto simp: http_do_def recorder_def split: sum.splits option.splits)

lemma map_res_snd [simp]: "snd (map_res f r) = snd r"
  by (auto simp: map_res_def split: prod.splits sum.splits)

lemma request_headers_read:
  "map_read (request_headers c b) ''Authorization'' = (if token c \<noteq> '''' then ''Bearer '' @ token c else '''')"
  "map_read (request_headers c b) ''Accept'' = ''application/json''"
  "map_read (request_headers c b) ''User-Agent'' = userAgent c"
  "map_read (request_headers c b) ''Content-Type'' = (if b then ''application/json'' else '''')"
  by (simp_all add: request_headers_def Let_def)

subsection \<open>Decoding structs\<close>

lemma set_fields_StatusCode:
  assumes "\<And>dec j x. dec \<in> snd ` set fs \<Longrightarrow> StatusCode (fst (dec j x)) = StatusCode x"
  shows "StatusCode (fst (set_fields fs ms x)) = StatusCode x"
proof (induction ms arbitrary: x)
  case Nil
  then show ?case by simp
next
  case (Cons m ms)
  obtain raw j where m: "m = (raw, j)" by (cases m)
  show ?case
  proof (cases "find_field fs (json_unquote raw)")
    case None
    then show ?thesis using Cons [of x] by (auto simp: m split: prod.splits)
  next
    case (Some dec)
    then have "dec \<in> snd ` set fs" by (auto simp: find_field_def find_Some_iff) (metis (no_types) image_eqI nth_mem snd_conv)
    from assms [OF this, of j x] show ?thesis using Cons Some
      by (auto simp: m split: prod.splits) (metis fst_conv)
  qed
qed

lemma APIError_fields_keep_status:
  "dec \<in> snd ` set APIError_fields \<Longrightarrow> StatusCode (fst (dec j x)) = StatusCode x"
  by (auto simp: APIError_fields_def string_field_def split: json.splits)

lemma decodeError_APIError:
  "\<exists>ae. decodeError resp = APIErr ae \<and> StatusCode ae = resp_StatusCode resp"
proof -
  have "StatusCode (fst (set_fields APIError_fields ms x)) = StatusCode x" for ms x
    by (rule set_fields_StatusCode) (rule APIError_fields_keep_status)
  then show ?thesis
    by (auto simp: decodeError_def Let_def dec_struct_def split: option.splits json.splits)
qed

subsection \<open>Properties\<close>

text \<open>One call of the client is one HTTP request, to the base URL followed by the path, with
  the bearer token exactly when there is one, and a JSON content type exactly when there is a
  body.\<close>

lemma one_request_per_call:
  assumes "http c = recorder a" "NewRequest net method (baseURL c @ path) = None"
  shows "\<exists>req. snd (http_do net c method path input dec sent) = sent @ [req]
    \<and> req_Method req = method \<and> req_URL req = baseURL c @ path \<and> (req_Body req \<noteq> None \<longleftrightarrow> input \<noteq> None)
    \<and> map_read (req_Header req) ''Authorization'' = (if token c = '''' then '''' else ''Bearer '' @ token c)
    \<and> map_read (req_Header req) ''Content-Type'' = (if input = None then '''' else ''application/json'')
    \<and> map_read (req_Header req) ''Accept'' = ''application/json''"
  using http_do_sends [OF assms, of input dec sent] by (auto simp: request_headers_read)





text \<open>C32: the cloud-config reaches AuroraBoot as it is when it is UTF-8; otherwise each stray byte
  arrives as the replacement character. The rest of the request body is the command's name.\<close>

theorem cloud_config_delivered:
  assumes "http c = recorder a" "NewRequest net ''POST'' (baseURL c @ ''/api/v1/nodes/'' @ n @ ''/commands'') = None"
  shows "\<exists>body raw. snd (http_ApplyCloudConfig net c n cfg sent) = sent @ [\<lparr>req_Method = ''POST'',
        req_URL = baseURL c @ ''/api/v1/nodes/'' @ n @ ''/commands'', req_Header = request_headers c True,
        req_Body = Some body\<rparr>]
    \<and> decode_whole body = Some (JObj [(''command'', json_string CommandApplyCloudConfig),
        (''args'', JObj [(''config'', JStr raw)])])
    \<and> json_unquote raw = to_valid cfg \<and> (json_unquote raw = cfg \<longleftrightarrow> utf8_valid cfg)"
proof -
  let ?j = "enc_createCommandDTO \<lparr>ccd_Command = CommandApplyCloudConfig, ccd_Args = [(ApplyCloudConfigArg, cfg)]\<rparr>"
  have key: "json_escape ApplyCloudConfigArg = ''config''" by code_simp
  have j: "?j = JObj [(''command'', json_string CommandApplyCloudConfig),
      (''args'', JObj [(''config'', JStr (json_escape cfg))])]"
    by (simp add: enc_createCommandDTO_def json_strmap_def json_string_def key)
  have wf: "well_formed_literal ''command''" "well_formed_literal ''args''" "well_formed_literal ''config''"
    by code_simp+
  have enc: "encodable ?j" unfolding j using wf by (simp add: json_string_def)
  have "json_depth ?j \<le> 10000" unfolding j by (simp add: json_string_def)
  from decode_encode(2) [OF enc this]
  have "decode_whole (json_encode ?j) = Some ?j" .
  moreover have "snd (http_ApplyCloudConfig net c n cfg sent) = sent @ [\<lparr>req_Method = ''POST'',
      req_URL = baseURL c @ ''/api/v1/nodes/'' @ n @ ''/commands'', req_Header = request_headers c True,
      req_Body = Some (json_encode ?j)\<rparr>]"
    using http_do_sends [OF assms(1,2), of "Some ?j"]
    by (simp add: http_ApplyCloudConfig_def sendCommand_def del: append_Cons)
  ultimately show ?thesis unfolding j using unquote_escape [of cfg] to_valid_iff [of cfg] by metis
qed

text \<open>C30: an answer outside 200 to 299 is an API error with that very status, whatever its body
  says, so that not found is exactly 404 and conflict exactly 409. A failure of the transport is
  returned under the method and path of the request, and is an API error only when the transport's
  own error is one; an answer inside 200 to 299 is its decoded body, and a body that cannot be
  decoded an error that no test takes for an answer of AuroraBoot.\<close>

theorem status_decides_classification:
  assumes "http c = recorder a" "NewRequest net method (baseURL c @ path) = None"
  shows "case a of
      Inl err \<Rightarrow> fst (http_do net c method path input dec sent) = Inl (WrapErr (''fleet: '' @ method @ '' '' @ path @ '': '') err)
    | Inr resp \<Rightarrow>
        if resp_StatusCode resp < 200 \<or> 300 \<le> resp_StatusCode resp
        then \<exists>ae. fst (http_do net c method path input dec sent) = Inl (APIErr ae) \<and> StatusCode ae = resp_StatusCode resp
          \<and> (IsNotFound (APIErr ae) \<longleftrightarrow> resp_StatusCode resp = 404) \<and> (IsConflict (APIErr ae) \<longleftrightarrow> resp_StatusCode resp = 409)
        else case decode_with dec (resp_Body resp) of
            None \<Rightarrow> \<exists>e. fst (http_do net c method path input dec sent) = Inl e \<and> as_APIError e = None
          | Some out \<Rightarrow> fst (http_do net c method path input dec sent) = Inr out"
proof (cases a)
  case (Inl err)
  then show ?thesis using assms by (simp add: http_do_def recorder_def del: append_Cons)
next
  case (Inr resp)
  obtain ae where "decodeError resp = APIErr ae" "StatusCode ae = resp_StatusCode resp"
    using decodeError_APIError [of resp] by blast
  then show ?thesis using assms Inr
    by (auto simp: http_do_def recorder_def IsNotFound_def IsConflict_def split: option.splits)
qed

text \<open>The error body AuroraBoot sends.\<close>

definition error_body :: "string \<Rightarrow> string \<Rightarrow> string" where
  "error_body msg code = json_encode (JObj [(''error'', json_string msg), (''code'', json_string code)])"

lemma find_APIError_fields:
  "find_field APIError_fields (json_unquote ''error'') = Some (string_field (\<lambda>v x. x\<lparr>ErrorMsg := v\<rparr>))"
  "find_field APIError_fields (json_unquote ''code'') = Some (string_field (\<lambda>v x. x\<lparr>Code := v\<rparr>))"
proof -
  have "json_unquote ''error'' = ''error''" "json_unquote ''code'' = ''code''" by code_simp+
  moreover have "fold_name ''error'' = ''ERROR''" "fold_name ''detail'' = ''DETAIL''" "fold_name ''code'' = ''CODE''"
    by code_simp+
  ultimately show
    "find_field APIError_fields (json_unquote ''error'') = Some (string_field (\<lambda>v x. x\<lparr>ErrorMsg := v\<rparr>))"
    "find_field APIError_fields (json_unquote ''code'') = Some (string_field (\<lambda>v x. x\<lparr>Code := v\<rparr>))"
    by (simp_all add: find_field_def APIError_fields_def)
qed

text \<open>The machine-readable code of an error body decides whether the answer means no capacity
  or a mismatched claim, and the status stays that of the answer; the body that AuroraBoot sends
  for an empty group is recognised, and so is the one for a foreign key.\<close>

lemma error_code_is_read:
  "decodeError \<lparr>resp_StatusCode = s, resp_Body = error_body msg code\<rparr>
     = APIErr \<lparr>StatusCode = s, ErrorMsg = (if to_valid msg = '''' then trim_space (error_body msg code) else to_valid msg),
         Detail = '''', Code = to_valid code\<rparr>
   \<and> (IsNoCapacity (decodeError \<lparr>resp_StatusCode = s, resp_Body = error_body msg code\<rparr>) \<longleftrightarrow> to_valid code = ''NoCapacity'')
   \<and> (IsClaimMismatch (decodeError \<lparr>resp_StatusCode = s, resp_Body = error_body msg code\<rparr>) \<longleftrightarrow> to_valid code = ''ClaimMismatch'')"
proof -
  let ?j = "JObj [(''error'', json_string msg), (''code'', json_string code)]"
  have "well_formed_literal ''error''" "well_formed_literal ''code''" by code_simp+
  then have "encodable ?j" by (simp add: json_string_def)
  moreover have "json_depth ?j \<le> 10000" by (simp add: json_string_def)
  ultimately have d: "decode_whole (error_body msg code) = Some ?j"
    unfolding error_body_def by (rule decode_encode(2))
  have ne: "error_body msg code \<noteq> []" by (simp add: error_body_def)
  have "decodeError \<lparr>resp_StatusCode = s, resp_Body = error_body msg code\<rparr>
     = APIErr \<lparr>StatusCode = s, ErrorMsg = (if to_valid msg = '''' then trim_space (error_body msg code) else to_valid msg),
         Detail = '''', Code = to_valid code\<rparr>"
    using ne by (simp add: decodeError_def d dec_struct_def find_APIError_fields string_field_def json_string_def
        unquote_escape Let_def)
  then show ?thesis by (simp add: IsNoCapacity_def IsClaimMismatch_def)
qed

lemma find_unique:
  "\<exists>y \<in> set xs. P y \<Longrightarrow> \<forall>y \<in> set xs. P y \<longrightarrow> f y = v \<Longrightarrow> map_option f (List.find P xs) = Some v"
  by (induction xs) auto

text \<open>C33: a group reference is an ID before it is a name: a group whose ID it is wins over one of
  that name, whatever their order; a name gives the ID of its group; and a reference to neither
  is a 404, which the controller waits on.\<close>

theorem group_reference_resolution:
  assumes "fst (http_do net c ''GET'' ''/api/v1/groups'' None (dec_slice groupDTO_fields zero_groupDTO) w) = Inr gs"
  shows "(ref \<in> gd_ID ` set gs \<longrightarrow> fst (http_ResolveGroupID net c ref w) = Inr ref)
    \<and> (\<forall>g \<in> set gs. ref \<notin> gd_ID ` set gs \<and> gd_Name g = ref
         \<and> (\<forall>h \<in> set gs. gd_Name h = ref \<longrightarrow> gd_ID h = gd_ID g)
         \<longrightarrow> fst (http_ResolveGroupID net c ref w) = Inr (gd_ID g))
    \<and> (ref \<notin> gd_ID ` set gs \<and> ref \<notin> gd_Name ` set gs \<longrightarrow>
         (\<exists>e. fst (http_ResolveGroupID net c ref w) = Inl e \<and> IsNotFound e))"
proof -
  obtain w1 where w1: "http_do net c ''GET'' ''/api/v1/groups'' None (dec_slice groupDTO_fields zero_groupDTO) w
      = (Inr gs, w1)" using assms by (metis prod.collapse)
  have by_id: "pick_group ref gs = Some ref" if "ref \<in> gd_ID ` set gs"
  proof -
    have "map_option gd_ID (List.find (\<lambda>g. gd_ID g = ref) gs) = Some ref"
      by (rule find_unique) (use that in auto)
    then show ?thesis by (auto simp: pick_group_def)
  qed
  have no_id: "List.find (\<lambda>g. gd_ID g = ref) gs = None" if "ref \<notin> gd_ID ` set gs"
    using that by (auto simp: find_None_iff)
  have by_name: "pick_group ref gs = Some (gd_ID g)"
    if "ref \<notin> gd_ID ` set gs" "g \<in> set gs" "gd_Name g = ref" "\<forall>h \<in> set gs. gd_Name h = ref \<longrightarrow> gd_ID h = gd_ID g" for g
  proof -
    have "map_option gd_ID (List.find (\<lambda>g. gd_Name g = ref) gs) = Some (gd_ID g)"
      by (rule find_unique) (use that(2-4) in blast)+
    then show ?thesis by (simp add: pick_group_def no_id [OF that(1)])
  qed
  have absent: "pick_group ref gs = None" if "ref \<notin> gd_ID ` set gs" "ref \<notin> gd_Name ` set gs"
  proof -
    have "List.find (\<lambda>g. gd_Name g = ref) gs = None" using that(2) by (auto simp: find_None_iff)
    then show ?thesis by (simp add: pick_group_def no_id [OF that(1)])
  qed
  have res: "fst (http_ResolveGroupID net c ref w) = (case pick_group ref gs of Some gid \<Rightarrow> Inr gid
      | None \<Rightarrow> Inl (APIErr \<lparr>StatusCode = 404, ErrorMsg = ''group '' @ go_quote ref @ '' not found'', Detail = '''', Code = ''''\<rparr>))"
    by (simp add: http_ResolveGroupID_def w1 split: option.splits)
  show ?thesis unfolding res
  proof (intro conjI ballI impI, goal_cases id name none)
    case id
    then show ?case by (simp add: by_id)
  next
    case (name g)
    have "pick_group ref gs = Some (gd_ID g)" by (rule by_name) (use name in blast)+
    then show ?case by simp
  next
    case none
    then have "pick_group ref gs = None" using absent by blast
    then show ?case by (simp add: IsNotFound_def)
  qed
qed

text \<open>Slashes at the end of the configured url change nothing, and empty options are ignored.\<close>

lemma new_client_normalises:
  assumes "u \<noteq> []" "last u \<noteq> CHR ''/''"
  shows "New net (u @ replicate k (CHR ''/'')) tok opts = New net u tok opts
    \<and> New net u tok (WithUserAgent '''' # WithHTTPClient None # opts) = New net u tok opts
    \<and> baseURL (new_httpClient net u tok []) = u"
proof -
  have "trim_right (u @ replicate k (CHR ''/'')) (CHR ''/'') = u"
    using assms by (cases u rule: rev_cases) (simp_all add: trim_right_def dropWhile_append)
  then show ?thesis using assms
    by (simp add: New_def new_httpClient_def trim_right_id WithUserAgent_def WithHTTPClient_def)
qed

subsection \<open>The properties at concrete clients\<close>

definition open_net :: "'w net" where
  "open_net = \<lparr>NewRequest = (\<lambda>_ _. None), HTTPClientWithTimeout = (\<lambda>_ _ w. (Inl (ForeignErr ''timeout''), w))\<rparr>"

definition test_client :: "Response res \<Rightarrow> (Request list) httpClient" where
  "test_client a = \<lparr>baseURL = ''http://auroraboot'', token = ''admin'', userAgent = ''test'', http = recorder a\<rparr>"

definition answer :: "int \<Rightarrow> string \<Rightarrow> Response res" where
  "answer s body = Inr \<lparr>resp_StatusCode = s, resp_Body = body\<rparr>"

lemma test_client_fields [simp]:
  "http (test_client a) = recorder a" "NewRequest open_net m u = None" "token (test_client a) = ''admin''"
  "baseURL (test_client a) = ''http://auroraboot''"
  by (simp_all add: test_client_def open_net_def)

lemma one_request_per_call_witness:
  "\<exists>req. snd (http_do open_net (test_client (answer 200 ''{}'')) ''GET'' ''/api/v1/groups'' None
        (dec_slice groupDTO_fields zero_groupDTO) []) = [] @ [req]
    \<and> map_read (req_Header req) ''Authorization'' = ''Bearer admin''"
  using one_request_per_call [of "test_client (answer 200 ''{}'')" "answer 200 ''{}''" open_net "''GET''"
      "''/api/v1/groups''" None "dec_slice groupDTO_fields zero_groupDTO" "[]"] by auto


theorem cloud_config_delivered_witness:
  "\<exists>body raw. map req_Body (snd (http_ApplyCloudConfig open_net (test_client (answer 200 ''{}'')) ''n1'' ''#cloud-config'' []))
      = [Some body]
    \<and> decode_whole body = Some (JObj [(''command'', json_string CommandApplyCloudConfig),
        (''args'', JObj [(''config'', JStr raw)])])
    \<and> json_unquote raw = ''#cloud-config''"
proof -
  have valid: "utf8_valid ''#cloud-config''"
    by (simp add: utf8_valid.simps(2) decode_rune_ascii byte_val_def RuneError_def)
  obtain body raw where b: "snd (http_ApplyCloudConfig open_net (test_client (answer 200 ''{}'')) ''n1'' ''#cloud-config'' [])
      = [] @ [\<lparr>req_Method = ''POST'',
        req_URL = baseURL (test_client (answer 200 ''{}'')) @ ''/api/v1/nodes/'' @ ''n1'' @ ''/commands'',
        req_Header = request_headers (test_client (answer 200 ''{}'')) True, req_Body = Some body\<rparr>]"
    and d: "decode_whole body = Some (JObj [(''command'', json_string CommandApplyCloudConfig),
        (''args'', JObj [(''config'', JStr raw)])])"
    and r: "json_unquote raw = ''#cloud-config'' \<longleftrightarrow> utf8_valid ''#cloud-config''"
    using cloud_config_delivered [OF test_client_fields(1,2)] by blast
  show ?thesis
    by (rule exI [of _ body], rule exI [of _ raw]) (simp only: b d r valid append_Nil list.map Request.simps simp_thms)
qed

theorem status_decides_classification_witness:
  "\<exists>e. fst (http_do open_net (test_client (answer 404 ''gone'')) ''GET'' ''/api/v1/nodes/n1'' None
        (dec_struct nodeDTO_fields zero_nodeDTO) []) = Inl e \<and> IsNotFound e \<and> \<not> IsConflict e"
  using status_decides_classification [of "test_client (answer 404 ''gone'')" "answer 404 ''gone''" open_net
      "''GET''" "''/api/v1/nodes/n1''" None "dec_struct nodeDTO_fields zero_nodeDTO" "[]"]
  by (simp add: answer_def) blast

theorem group_reference_resolution_witness:
  "fst (http_ResolveGroupID open_net (test_client (answer 200
     (json_encode (JArr [JObj [(''id'', JStr ''g1''), (''name'', JStr ''g2'')], JObj [(''id'', JStr ''g2''), (''name'', JStr ''workers'')]]))))
     ''workers'' []) = Inr ''g2''"
proof -
  let ?c = "test_client (answer 200
     (json_encode (JArr [JObj [(''id'', JStr ''g1''), (''name'', JStr ''g2'')], JObj [(''id'', JStr ''g2''), (''name'', JStr ''workers'')]])))"
  let ?gs = "[\<lparr>gd_ID = ''g1'', gd_Name = ''g2''\<rparr>, \<lparr>gd_ID = ''g2'', gd_Name = ''workers''\<rparr>]"
  have "fst (http_do open_net ?c ''GET'' ''/api/v1/groups'' None (dec_slice groupDTO_fields zero_groupDTO) []) = Inr ?gs"
    by code_simp
  from group_reference_resolution [OF this, of "''workers''"] show ?thesis by simp
qed

lemma new_client_normalises_witness:
  "New (open_net :: unit net) ''http://auroraboot//'' ''admin'' [] = New open_net ''http://auroraboot'' ''admin'' []"
  using new_client_normalises [of "''http://auroraboot''" "open_net :: unit net" 2 "''admin''" "[]"]
  by (simp add: numeral_2_eq_2)

end
