(* ===== verification/GoHeap.thy ===== *)
theory GoHeap
  imports Main
begin

text \<open>
  Go's memory, as far as pointers and slices can share it. A heap is a list of cells, an address
  is a position in it and allocation appends a cell. A cell holds an array; a variable is an
  array of one element, so that a pointer is an address and an index and \<open>&xs[i]\<close> is a pointer
  like any other. A command that reads through a pointer which points nowhere faults: it has
  no result. The locales state what it is to read from a part of the heap only, and to copy deeply.
\<close>

subsection \<open>Heaps and commands\<close>

type_synonym addr = nat
type_synonym 'c heap = "'c list"
type_synonym ('c, 'a) cmd = "'c heap \<Rightarrow> ('a \<times> 'c heap) option"
type_synonym ptr = "addr \<times> nat"

definition ret :: "'a \<Rightarrow> ('c, 'a) cmd" where
  "ret x h = Some (x, h)"

definition bnd :: "('c, 'a) cmd \<Rightarrow> ('a \<Rightarrow> ('c, 'b) cmd) \<Rightarrow> ('c, 'b) cmd" where
  "bnd m f h = (case m h of None \<Rightarrow> None | Some (x, h) \<Rightarrow> f x h)"

lemma bnd_laws [simp]:
  "bnd (ret x) f = f x" "bnd m ret = m" "bnd (bnd m f) g = bnd m (\<lambda>x. bnd (f x) g)"
  by (auto simp: bnd_def ret_def fun_eq_iff split: option.splits)

text \<open>How arrays of one element type sit in a cell.\<close>

record ('c, 'x) embedding =
  e_put :: "'x list \<Rightarrow> 'c"
  e_get :: "'c \<Rightarrow> 'x list option"

definition new :: "'c \<Rightarrow> ('c, addr) cmd" where
  "new c h = Some (length h, h @ [c])"

definition array_at :: "('c, 'x) embedding \<Rightarrow> 'c heap \<Rightarrow> addr \<Rightarrow> 'x list option" where
  "array_at E h a = (if a < length h then e_get E (h ! a) else None)"

definition load :: "('c, 'x) embedding \<Rightarrow> ptr \<Rightarrow> 'c heap \<Rightarrow> 'x option" where
  "load E p h = (case array_at E h (fst p) of None \<Rightarrow> None
     | Some xs \<Rightarrow> if snd p < length xs then Some (xs ! snd p) else None)"

definition fetch :: "('c, 'x) embedding \<Rightarrow> ptr \<Rightarrow> ('c, 'x) cmd" where
  "fetch E p h = map_option (\<lambda>x. (x, h)) (load E p h)"

definition store :: "('c, 'x) embedding \<Rightarrow> ptr \<Rightarrow> 'x \<Rightarrow> ('c, unit) cmd" where
  "store E p x h = (case array_at E h (fst p) of None \<Rightarrow> None
     | Some xs \<Rightarrow> if snd p < length xs then Some ((), h[fst p := e_put E (xs[snd p := x])]) else None)"

text \<open>A slice: a window of an array.\<close>

record slice =
  sl_addr :: addr
  sl_off :: nat
  sl_len :: nat
  sl_cap :: nat

definition elems :: "('c, 'x) embedding \<Rightarrow> 'c heap \<Rightarrow> slice \<Rightarrow> 'x list option" where
  "elems E h s = (case array_at E h (sl_addr s) of None \<Rightarrow> None
     | Some xs \<Rightarrow> if sl_off s + sl_len s \<le> length xs then Some (take (sl_len s) (drop (sl_off s) xs)) else None)"

text \<open>\<open>append(s, x)\<close>: into the array where there is room, into a new one otherwise. How much room
  a new array has is up to the runtime: \<open>grow\<close> gives its capacity from the old one and the length
  that is needed.\<close>

definition append_elem ::
  "('c, 'x) embedding \<Rightarrow> 'x \<Rightarrow> (nat \<Rightarrow> nat \<Rightarrow> nat) \<Rightarrow> slice option \<Rightarrow> 'x \<Rightarrow> ('c, slice option) cmd" where
  "append_elem E zero grow s x = (case s of
     None \<Rightarrow> bnd (new (e_put E (x # replicate (grow 0 1 - 1) zero)))
       (\<lambda>a. ret (Some \<lparr>sl_addr = a, sl_off = 0, sl_len = 1, sl_cap = grow 0 1\<rparr>))
   | Some s \<Rightarrow>
       if sl_len s < sl_cap s
       then bnd (store E (sl_addr s, sl_off s + sl_len s) x) (\<lambda>_. ret (Some (s\<lparr>sl_len := Suc (sl_len s)\<rparr>)))
       else (\<lambda>h. case elems E h s of None \<Rightarrow> None
         | Some xs \<Rightarrow> let cap = grow (sl_cap s) (Suc (sl_len s)) in
             bnd (new (e_put E (xs @ x # replicate (cap - Suc (sl_len s)) zero)))
               (\<lambda>a. ret (Some \<lparr>sl_addr = a, sl_off = 0, sl_len = Suc (sl_len s), sl_cap = cap\<rparr>)) h))"

subsection \<open>The patterns of a deep copy\<close>

text \<open>\<open>if in.F != nil { *out = new(T); **out = **in }\<close>, for a type without references.\<close>

definition copy_ptr :: "('c, 'x) embedding \<Rightarrow> 'x \<Rightarrow> ptr option \<Rightarrow> ('c, ptr option) cmd" where
  "copy_ptr E zero inp = (case inp of None \<Rightarrow> ret None
     | Some p \<Rightarrow> bnd (new (e_put E [zero])) (\<lambda>a. bnd (fetch E p) (\<lambda>x. bnd (store E (a, 0) x) (\<lambda>_. ret (Some (a, 0))))))"

text \<open>\<open>for i := range *in { (*in)[i].DeepCopyInto(&(*out)[i]) }\<close>, from \<open>i\<close> on.\<close>

fun copy_elems ::
  "('c, 'x) embedding \<Rightarrow> ('x \<Rightarrow> ('c, 'x) cmd) \<Rightarrow> slice \<Rightarrow> addr \<Rightarrow> nat \<Rightarrow> nat \<Rightarrow> ('c, unit) cmd" where
  "copy_elems E into s a i 0 = ret ()"
| "copy_elems E into s a i (Suc k) =
     bnd (fetch E (sl_addr s, sl_off s + i)) (\<lambda>x. bnd (into x) (\<lambda>y. bnd (store E (a, i) y)
       (\<lambda>_. copy_elems E into s a (Suc i) k)))"

text \<open>\<open>if in.F != nil { *out = make([]T, len(*in)); \<dots> }\<close> around that loop; \<open>copy(*out, *in)\<close> is
  the loop with plain assignment.\<close>

definition copy_slice ::
  "('c, 'x) embedding \<Rightarrow> 'x \<Rightarrow> ('x \<Rightarrow> ('c, 'x) cmd) \<Rightarrow> slice option \<Rightarrow> ('c, slice option) cmd" where
  "copy_slice E zero into ins = (case ins of None \<Rightarrow> ret None
     | Some s \<Rightarrow> bnd (new (e_put E (replicate (sl_len s) zero))) (\<lambda>a.
         bnd (copy_elems E into s a 0 (sl_len s)) (\<lambda>_.
           ret (Some \<lparr>sl_addr = a, sl_off = 0, sl_len = sl_len s, sl_cap = sl_len s\<rparr>))))"

text \<open>\<open>DeepCopy\<close>: \<open>if in == nil { return nil }; out := new(T); in.DeepCopyInto(out); return out\<close>.\<close>

definition new_copy ::
  "('c, 'x) embedding \<Rightarrow> 'x \<Rightarrow> ('x \<Rightarrow> ('c, 'x) cmd) \<Rightarrow> ptr option \<Rightarrow> ('c, ptr option) cmd" where
  "new_copy E zero into inp = (case inp of None \<Rightarrow> ret None
     | Some p \<Rightarrow> bnd (new (e_put E [zero])) (\<lambda>a. bnd (fetch E p) (\<lambda>x. bnd (into x) (\<lambda>y.
         bnd (store E (a, 0) y) (\<lambda>_. ret (Some (a, 0)))))))"

subsection \<open>Footprints\<close>

text \<open>The variables of the first heap at some addresses are the same in the second.\<close>

definition agree :: "'c heap \<Rightarrow> 'c heap \<Rightarrow> addr set \<Rightarrow> bool" where
  "agree h h' A \<longleftrightarrow> (\<forall>a \<in> A. a < length h \<longrightarrow> a < length h' \<and> h' ! a = h ! a)"

lemma agree_subset: "agree h h' A \<Longrightarrow> B \<subseteq> A \<Longrightarrow> agree h h' B"
  by (auto simp: agree_def)

lemma agree_Un [simp]: "agree h h' (A \<union> B) \<longleftrightarrow> agree h h' A \<and> agree h h' B"
  by (auto simp: agree_def)

lemma agree_empty [simp]: "agree h h' {}"
  by (simp add: agree_def)

lemma agree_append: "A \<subseteq> {..<length h} \<Longrightarrow> agree h (h @ t) A"
  by (auto simp: agree_def nth_append)

text \<open>\<open>view h x\<close> is the value that \<open>x\<close> stands for in \<open>h\<close>, if all its pointers are good; \<open>refs h x\<close>
  are the addresses it is read from. What lies elsewhere does not matter.\<close>

locale footprint =
  fixes view :: "'c heap \<Rightarrow> 'x \<Rightarrow> 'v option" and refs :: "'c heap \<Rightarrow> 'x \<Rightarrow> addr set"
  assumes local: "view h x = Some v \<Longrightarrow> agree h h' (refs h x) \<Longrightarrow> view h' x = Some v \<and> refs h' x = refs h x"
    and within: "view h x = Some v \<Longrightarrow> refs h x \<subseteq> {..<length h}"
begin

lemma extends: "view h x = Some v \<Longrightarrow> view (h @ t) x = Some v \<and> refs (h @ t) x = refs h x"
  by (rule local [OF _ agree_append [OF within]])

end

text \<open>A deep copy: it returns, changes no cell there was, and what it returns stands for the
  same value and is read from new cells only.\<close>

locale deep_copier = footprint view refs
  for view :: "'c heap \<Rightarrow> 'x \<Rightarrow> 'v option" and refs :: "'c heap \<Rightarrow> 'x \<Rightarrow> addr set" +
  fixes dcopy :: "'x \<Rightarrow> ('c, 'x) cmd"
  assumes copies: "view h x = Some v \<Longrightarrow>
    \<exists>y t. dcopy x h = Some (y, h @ t) \<and> view (h @ t) y = Some v
      \<and> refs (h @ t) y \<subseteq> {length h..<length h + length t}"
begin

text \<open>So the copy and the original have no cell in common, each survives any change to the
  other, and the original is as it was.\<close>

lemma copy_is_separate:
  assumes "view h x = Some v"
  obtains y t where "dcopy x h = Some (y, h @ t)" "view (h @ t) y = Some v" "view (h @ t) x = Some v"
    "refs (h @ t) x \<inter> refs (h @ t) y = {}"
    "\<And>h'. agree (h @ t) h' (- refs (h @ t) y) \<Longrightarrow> view h' x = Some v"
    "\<And>h'. agree (h @ t) h' (- refs (h @ t) x) \<Longrightarrow> view h' y = Some v"
proof -
  obtain y t where y: "dcopy x h = Some (y, h @ t)" "view (h @ t) y = Some v"
    "refs (h @ t) y \<subseteq> {length h..<length h + length t}"
    using copies [OF assms] by blast
  have x: "view (h @ t) x = Some v" "refs (h @ t) x \<subseteq> {..<length h}"
    using extends [OF assms] within [OF assms] by auto
  have d: "refs (h @ t) x \<inter> refs (h @ t) y = {}" using y(3) x(2) by fastforce
  show ?thesis
    using that [OF y(1,2) x(1) d] local [OF x(1)] local [OF y(2)] d agree_subset
    by (metis Int_commute disjoint_eq_subset_Compl)
qed

end

subsection \<open>Copiers of parts\<close>

definition good_embedding :: "('c, 'x) embedding \<Rightarrow> bool" where
  "good_embedding E \<longleftrightarrow> (\<forall>xs. e_get E (e_put E xs) = Some xs)"

text \<open>A type without references, copied by assignment.\<close>

abbreviation value_view :: "'c heap \<Rightarrow> 'x \<Rightarrow> 'x option" where "value_view h x \<equiv> Some x"
abbreviation value_refs :: "'c heap \<Rightarrow> 'x \<Rightarrow> addr set" where "value_refs h x \<equiv> {}"

lemma value_copier: "deep_copier value_view value_refs ret"
  by unfold_locales (auto simp: ret_def)

text \<open>Two fields, copied one after the other.\<close>

definition pair_view ::
  "('c heap \<Rightarrow> 'x \<Rightarrow> 'v option) \<Rightarrow> ('c heap \<Rightarrow> 'y \<Rightarrow> 'w option) \<Rightarrow> 'c heap \<Rightarrow> 'x \<times> 'y \<Rightarrow> ('v \<times> 'w) option" where
  "pair_view v w h xy = (case (v h (fst xy), w h (snd xy)) of (Some a, Some b) \<Rightarrow> Some (a, b) | _ \<Rightarrow> None)"

definition pair_refs ::
  "('c heap \<Rightarrow> 'x \<Rightarrow> addr set) \<Rightarrow> ('c heap \<Rightarrow> 'y \<Rightarrow> addr set) \<Rightarrow> 'c heap \<Rightarrow> 'x \<times> 'y \<Rightarrow> addr set" where
  "pair_refs r q h xy = r h (fst xy) \<union> q h (snd xy)"

definition pair_copy :: "('x \<Rightarrow> ('c, 'x) cmd) \<Rightarrow> ('y \<Rightarrow> ('c, 'y) cmd) \<Rightarrow> 'x \<times> 'y \<Rightarrow> ('c, 'x \<times> 'y) cmd" where
  "pair_copy c d xy = bnd (c (fst xy)) (\<lambda>x. bnd (d (snd xy)) (\<lambda>y. ret (x, y)))"

lemma pair_view_Some:
  "pair_view v w h xy = Some ab \<longleftrightarrow> v h (fst xy) = Some (fst ab) \<and> w h (snd xy) = Some (snd ab)"
  by (cases ab) (auto simp: pair_view_def split: option.splits)

lemma pair_copier:
  assumes "deep_copier v r c" "deep_copier w q d"
  shows "deep_copier (pair_view v w) (pair_refs r q) (pair_copy c d)"
proof -
  have f: "footprint v r" and g: "footprint w q" using assms by (simp_all add: deep_copier_def)
  show ?thesis
  proof (unfold_locales, goal_cases)
    case (1 h x a h')
    then have "v h (fst x) = Some (fst a)" "w h (snd x) = Some (snd a)"
      "agree h h' (r h (fst x))" "agree h h' (q h (snd x))"
      by (simp_all add: pair_view_Some pair_refs_def)
    with footprint.local [OF f this(1,3)] footprint.local [OF g this(2,4)] show ?case
      by (simp add: pair_view_Some pair_refs_def)
  next
    case (2 h x a)
    then have "v h (fst x) = Some (fst a)" "w h (snd x) = Some (snd a)" by (simp_all add: pair_view_Some)
    with footprint.within [OF f this(1)] footprint.within [OF g this(2)] show ?case
      by (simp add: pair_refs_def)
  next
    case (3 h xy ab)
    then have a: "v h (fst xy) = Some (fst ab)" and b: "w h (snd xy) = Some (snd ab)"
      by (simp_all add: pair_view_Some)
    obtain x t where x: "c (fst xy) h = Some (x, h @ t)" "v (h @ t) x = Some (fst ab)"
      "r (h @ t) x \<subseteq> {length h..<length h + length t}"
      using deep_copier.copies [OF assms(1) a] by blast
    have "w (h @ t) (snd xy) = Some (snd ab)" using footprint.extends [OF g b] by simp
    then obtain y u where y: "d (snd xy) (h @ t) = Some (y, (h @ t) @ u)" "w ((h @ t) @ u) y = Some (snd ab)"
      "q ((h @ t) @ u) y \<subseteq> {length (h @ t)..<length (h @ t) + length u}"
      using deep_copier.copies [OF assms(2)] by blast
    have x': "v ((h @ t) @ u) x = Some (fst ab)" "r ((h @ t) @ u) x \<subseteq> {length h..<length h + length t}"
      using footprint.extends [OF f x(2), of u] x(3) by auto
    have "pair_copy c d xy h = Some ((x, y), h @ (t @ u))"
      using x(1) y(1) by (simp add: pair_copy_def bnd_def ret_def)
    moreover have "pair_view v w (h @ (t @ u)) (x, y) = Some ab"
      using x'(1) y(2) by (simp add: pair_view_Some)
    moreover have "pair_refs r q (h @ (t @ u)) (x, y) \<subseteq> {length h..<length h + length (t @ u)}"
      using x'(2) y(3) by (fastforce simp: pair_refs_def)
    ultimately show ?case by blast
  qed
qed

text \<open>A struct: \<open>get\<close> reads the fields that are copied, \<open>put\<close> writes them into the copy that
  \<open>*out = *in\<close> has made, and the value is made of the fields' values and the rest.\<close>

lemma struct_copier:
  assumes "deep_copier v r c"
    and view: "\<And>h x. sview h x = map_option (build x) (v h (get x))"
    and refs: "\<And>h x. srefs h x = r h (get x)"
    and copy: "\<And>x. into x = bnd (c (get x)) (\<lambda>y. ret (put y x))"
    and laws: "\<And>x y. get (put y x) = y" "\<And>x y a. build (put y x) a = build x a"
  shows "deep_copier sview srefs into"
proof -
  have f: "footprint v r" using assms(1) by (simp add: deep_copier_def)
  show ?thesis
  proof (unfold_locales, goal_cases)
    case (1 h x a h')
    then obtain b where b: "v h (get x) = Some b" "a = build x b" "agree h h' (r h (get x))"
      by (auto simp: view refs)
    from footprint.local [OF f b(1,3)] b(2) show ?case by (simp add: view refs)
  next
    case (2 h x a)
    then obtain b where b: "v h (get x) = Some b" by (auto simp: view)
    from footprint.within [OF f b] show ?case by (simp add: refs)
  next
    case (3 h x a)
    then obtain b where b: "v h (get x) = Some b" "a = build x b" by (auto simp: view)
    then show ?case using deep_copier.copies [OF assms(1) b(1)] laws
      by (auto simp: copy bnd_def ret_def view refs)
  qed
qed

subsection \<open>Pointers\<close>

definition ptr_view :: "('c, 'x) embedding \<Rightarrow> 'c heap \<Rightarrow> ptr option \<Rightarrow> 'x option option" where
  "ptr_view E h inp = (case inp of None \<Rightarrow> Some None | Some p \<Rightarrow> map_option Some (load E p h))"

definition ptr_refs :: "'c heap \<Rightarrow> ptr option \<Rightarrow> addr set" where
  "ptr_refs h inp = (case inp of None \<Rightarrow> {} | Some p \<Rightarrow> {fst p})"

lemma array_at_agree: "a < length h' \<Longrightarrow> h' ! a = h ! a \<Longrightarrow> a < length h \<Longrightarrow> array_at E h' a = array_at E h a"
  by (simp add: array_at_def)

lemma array_at_within: "array_at E h a = Some xs \<Longrightarrow> a < length h"
  by (simp add: array_at_def split: if_splits)

lemma array_at_append [simp]: "a < length h \<Longrightarrow> array_at E (h @ t) a = array_at E h a"
  by (simp add: array_at_def nth_append)

lemma array_at_new: "good_embedding E \<Longrightarrow> array_at E (h @ e_put E xs # t) (length h) = Some xs"
  by (simp add: array_at_def good_embedding_def)

lemma load_within: "load E p h = Some x \<Longrightarrow> fst p < length h"
  by (auto simp: load_def dest: array_at_within split: option.splits)

lemma load_agree: "load E p h = Some x \<Longrightarrow> agree h h' {fst p} \<Longrightarrow> load E p h' = Some x"
  using load_within [of E p h x] array_at_agree [of "fst p" h' h E] by (simp add: agree_def load_def)

lemma load_new: "good_embedding E \<Longrightarrow> load E (length h, 0) (h @ e_put E [x] # t) = Some x"
  by (simp add: load_def array_at_new)

lemma store_new: "good_embedding E \<Longrightarrow> i < length xs \<Longrightarrow>
  store E (length h, i) x (h @ e_put E xs # t) = Some ((), h @ e_put E (xs[i := x]) # t)"
  by (simp add: store_def array_at_new)

lemma ptr_copier:
  assumes "good_embedding E"
  shows "deep_copier (ptr_view E) ptr_refs (copy_ptr E zero)"
proof (unfold_locales, goal_cases)
  case (1 h x v h')
  then show ?case using load_agree [of E _ h _ h'] by (auto simp: ptr_view_def ptr_refs_def split: option.splits)
next
  case (2 h x v)
  then show ?case using load_within by (fastforce simp: ptr_view_def ptr_refs_def split: option.splits)
next
  case (3 h x v)
  show ?case
  proof (cases x)
    case None
    then show ?thesis using 3 by (simp add: copy_ptr_def ret_def ptr_view_def ptr_refs_def)
  next
    case (Some p)
    then obtain y where y: "load E p h = Some y" "v = Some y" using 3 by (auto simp: ptr_view_def)
    have "load E p (h @ [e_put E [zero]]) = Some y"
      using load_agree [OF y(1)] load_within [OF y(1)] agree_append [of "{fst p}" h] by simp
    then have "copy_ptr E zero x h = Some (Some (length h, 0), h @ [e_put E [y]])"
      using assms Some by (simp add: copy_ptr_def bnd_def new_def fetch_def ret_def store_new)
    moreover have "ptr_view E (h @ [e_put E [y]]) (Some (length h, 0)) = Some v"
      using y(2) load_new [OF assms, of h y "[]"] by (simp add: ptr_view_def)
    moreover have "ptr_refs (h @ [e_put E [y]]) (Some (length h, 0)) \<subseteq> {length h..<length h + length [e_put E [y]]}"
      by (simp add: ptr_refs_def)
    ultimately show ?thesis by blast
  qed
qed

subsection \<open>Slices\<close>

text \<open>A nil slice stands for \<open>None\<close>, an empty one for the empty list.\<close>

definition slice_view ::
  "('c, 'x) embedding \<Rightarrow> ('c heap \<Rightarrow> 'x \<Rightarrow> 'v option) \<Rightarrow> 'c heap \<Rightarrow> slice option \<Rightarrow> 'v list option option" where
  "slice_view E view h ins = (case ins of None \<Rightarrow> Some None
     | Some s \<Rightarrow> (case elems E h s of None \<Rightarrow> None | Some xs \<Rightarrow> map_option Some (those (map (view h) xs))))"

definition slice_refs ::
  "('c, 'x) embedding \<Rightarrow> ('c heap \<Rightarrow> 'x \<Rightarrow> addr set) \<Rightarrow> 'c heap \<Rightarrow> slice option \<Rightarrow> addr set" where
  "slice_refs E refs h ins = (case ins of None \<Rightarrow> {}
     | Some s \<Rightarrow> insert (sl_addr s) (case elems E h s of None \<Rightarrow> {} | Some xs \<Rightarrow> \<Union> (refs h ` set xs)))"

lemma those_Some_iff:
  "those (map f xs) = Some vs \<longleftrightarrow> length vs = length xs \<and> (\<forall>i < length xs. f (xs ! i) = Some (vs ! i))"
proof (induction xs arbitrary: vs)
  case (Cons x xs)
  show ?case
  proof (cases vs)
    case Nil
    then show ?thesis by (auto split: option.splits)
  next
    case (Cons v vs')
    then show ?thesis using Cons.IH [of vs'] by (auto simp: All_less_Suc2 split: option.splits)
  qed
qed auto

lemma elems_agree:
  "elems E h s = Some xs \<Longrightarrow> agree h h' {sl_addr s} \<Longrightarrow> elems E h' s = Some xs"
  using array_at_within [of E h "sl_addr s"] array_at_agree [of "sl_addr s" h' h E]
  by (auto simp: elems_def agree_def split: option.splits)

lemma elems_within: "elems E h s = Some xs \<Longrightarrow> sl_addr s < length h \<and> length xs = sl_len s"
  by (auto simp: elems_def dest: array_at_within split: option.splits if_splits)

lemma elems_load:
  assumes "elems E h s = Some xs" "i < sl_len s"
  shows "load E (sl_addr s, sl_off s + i) h = Some (xs ! i)"
proof -
  obtain zs where "array_at E h (sl_addr s) = Some zs" "sl_off s + sl_len s \<le> length zs"
    "xs = take (sl_len s) (drop (sl_off s) zs)"
    using assms(1) by (auto simp: elems_def split: option.splits if_splits)
  then show ?thesis using assms(2) by (simp add: load_def)
qed

lemma slice_footprint:
  assumes "footprint view refs"
  shows "footprint (slice_view E view) (slice_refs E refs)"
proof (unfold_locales, goal_cases)
  case (1 h x v h')
  show ?case
  proof (cases x)
    case None
    then show ?thesis using 1 by (simp add: slice_view_def slice_refs_def)
  next
    case (Some s)
    then obtain xs vs where xs: "elems E h s = Some xs" "v = Some vs" "those (map (view h) xs) = Some vs"
      using 1(1) by (auto simp: slice_view_def split: option.splits)
    have ag: "agree h h' {sl_addr s}" "y \<in> set xs \<Longrightarrow> agree h h' (refs h y)" for y
      using 1(2) Some xs(1) by (auto simp: slice_refs_def agree_def)
    have y: "view h' (xs ! i) = Some (vs ! i) \<and> refs h' (xs ! i) = refs h (xs ! i)" if "i < length xs" for i
      using footprint.local [OF assms _ ag(2) [OF nth_mem [OF that]]] xs(3) that by (simp add: those_Some_iff)
    then have "\<Union> (refs h' ` set xs) = \<Union> (refs h ` set xs)" by (metis (no_types, lifting) SUP_cong in_set_conv_nth)
    then show ?thesis using Some xs y elems_agree [OF xs(1) ag(1)]
      by (simp add: slice_view_def slice_refs_def those_Some_iff)
  qed
next
  case (2 h x v)
  show ?case
  proof (cases x)
    case None
    then show ?thesis by (simp add: slice_refs_def)
  next
    case (Some s)
    then obtain xs vs where xs: "elems E h s = Some xs" "those (map (view h) xs) = Some vs"
      using 2 by (auto simp: slice_view_def split: option.splits)
    have "refs h y \<subseteq> {..<length h}" if "y \<in> set xs" for y
      using footprint.within [OF assms] xs(2) that by (metis in_set_conv_nth those_Some_iff)
    then show ?thesis using Some xs(1) elems_within [OF xs(1)] by (auto simp: slice_refs_def)
  qed
qed

text \<open>The loop, \<open>k\<close> elements before its end: the array that is being filled holds the copies
  \<open>ys\<close> and then zero values.\<close>

lemma copy_elems_run:
  assumes dc: "deep_copier view refs into" and E: "good_embedding E"
    and src: "elems E h s = Some xs" "those (map (view h) xs) = Some vs"
  shows "i + k = length xs \<Longrightarrow> length ys = i \<Longrightarrow>
    \<exists>ys' t'. copy_elems E into s (length h) i k (h @ e_put E (ys @ replicate k z) # t)
        = Some ((), h @ e_put E (ys @ ys') # t @ t') \<and> length ys' = k
      \<and> (\<forall>j < k. view (h @ e_put E (ys @ ys') # t @ t') (ys' ! j) = Some (vs ! (i + j))
           \<and> refs (h @ e_put E (ys @ ys') # t @ t') (ys' ! j) \<subseteq> {Suc (length h)..<Suc (length h + length t + length t')})"
proof (induction k arbitrary: i ys t)
  case 0
  then show ?case by (auto simp: ret_def)
next
  case (Suc k)
  note f = dc [unfolded deep_copier_def, THEN conjunct1]
  have i: "i < length xs" "i < sl_len s" using Suc.prems(1) elems_within [OF src(1)] by auto
  let ?c = "e_put E (ys @ replicate (Suc k) z)"
  have v: "view h (xs ! i) = Some (vs ! i)" using src(2) i(1) by (simp add: those_Some_iff)
  then have v': "view (h @ ?c # t) (xs ! i) = Some (vs ! i)" using footprint.extends [OF f] by blast
  obtain y u where y: "into (xs ! i) (h @ ?c # t) = Some (y, (h @ ?c # t) @ u)"
    "view ((h @ ?c # t) @ u) y = Some (vs ! i)"
    "refs ((h @ ?c # t) @ u) y \<subseteq> {length (h @ ?c # t)..<length (h @ ?c # t) + length u}"
    using deep_copier.copies [OF dc v'] by blast
  have ld: "load E (sl_addr s, sl_off s + i) (h @ ?c # t) = Some (xs ! i)"
    using load_agree [OF elems_load [OF src(1) i(2)], of "h @ ?c # t"] elems_within [OF src(1)]
      agree_append [of "{sl_addr s}" h "?c # t"] by simp
  have upd: "(ys @ replicate (Suc k) z)[i := y] = (ys @ [y]) @ replicate k z"
    using Suc.prems(2) by (simp add: list_update_append)
  have st: "store E (length h, i) y (h @ ?c # t @ u)
      = Some ((), h @ e_put E ((ys @ [y]) @ replicate k z) # t @ u)"
    using store_new [OF E, of i "ys @ replicate (Suc k) z" h y "t @ u"] Suc.prems(2) upd by simp
  obtain ys' t' where r: "copy_elems E into s (length h) (Suc i) k (h @ e_put E ((ys @ [y]) @ replicate k z) # t @ u)
        = Some ((), h @ e_put E ((ys @ [y]) @ ys') # (t @ u) @ t')" "length ys' = k"
      "\<forall>j < k. view (h @ e_put E ((ys @ [y]) @ ys') # (t @ u) @ t') (ys' ! j) = Some (vs ! (Suc i + j))
           \<and> refs (h @ e_put E ((ys @ [y]) @ ys') # (t @ u) @ t') (ys' ! j)
             \<subseteq> {Suc (length h)..<Suc (length h + length (t @ u) + length t')}"
    using Suc.IH [of "Suc i" "ys @ [y]" "t @ u"] Suc.prems by auto
  let ?H = "h @ e_put E (ys @ (y # ys')) # t @ (u @ t')"
  have H: "h @ e_put E ((ys @ [y]) @ ys') # (t @ u) @ t' = ?H" by simp
  have "agree ((h @ ?c # t) @ u) ?H (refs ((h @ ?c # t) @ u) y)"
    unfolding agree_def
  proof (intro ballI impI)
    fix a assume "a \<in> refs ((h @ ?c # t) @ u) y"
    then have "Suc (length h + length t) \<le> a" "a < Suc (length h + length t + length u)" using y(3) by auto
    then show "a < length ?H \<and> ?H ! a = ((h @ ?c # t) @ u) ! a"
      by (auto simp: nth_append nth_Cons split: nat.splits)
  qed
  from footprint.local [OF f y(2) this] have y': "view ?H y = Some (vs ! i)"
    "refs ?H y \<subseteq> {Suc (length h)..<Suc (length h + length t + length (u @ t'))}"
    using y(3) by auto
  have "copy_elems E into s (length h) i (Suc k) (h @ ?c # t) = Some ((), ?H)"
    using y(1) ld st r(1) by (simp add: bnd_def fetch_def)
  moreover have "view ?H ((y # ys') ! j) = Some (vs ! (i + j))
      \<and> refs ?H ((y # ys') ! j) \<subseteq> {Suc (length h)..<Suc (length h + length t + length (u @ t'))}"
    if "j < Suc k" for j
    using that y' r(3) [unfolded H] by (cases j) (auto simp: add.assoc)
  ultimately show ?case using r(2) by (metis length_Cons)
qed

lemma slice_copier:
  assumes "deep_copier view refs into" "good_embedding E"
  shows "deep_copier (slice_view E view) (slice_refs E refs) (copy_slice E zero into)"
proof -
  note f = slice_footprint [OF assms(1) [unfolded deep_copier_def, THEN conjunct1], of E]
  have "\<exists>y t. copy_slice E zero into x h = Some (y, h @ t) \<and> slice_view E view (h @ t) y = Some v
      \<and> slice_refs E refs (h @ t) y \<subseteq> {length h..<length h + length t}"
    if sv: "slice_view E view h x = Some v" for h x v
  proof (cases x)
    case None
    then show ?thesis using sv by (simp add: copy_slice_def slice_view_def slice_refs_def ret_def)
  next
    case (Some s)
    then obtain xs vs where xs: "elems E h s = Some xs" "v = Some vs" "those (map (view h) xs) = Some vs"
      using sv by (auto simp: slice_view_def split: option.splits)
    have n: "length xs = sl_len s" using elems_within [OF xs(1)] by simp
    obtain ys t where r: "copy_elems E into s (length h) 0 (sl_len s) (h @ [e_put E (replicate (sl_len s) zero)])
          = Some ((), h @ e_put E ys # t)" "length ys = sl_len s"
        "\<forall>j < sl_len s. view (h @ e_put E ys # t) (ys ! j) = Some (vs ! j)
           \<and> refs (h @ e_put E ys # t) (ys ! j) \<subseteq> {Suc (length h)..<Suc (length h + length t)}"
      using copy_elems_run [OF assms xs(1,3), of 0 "sl_len s" "[]" zero "[]"] n by auto
    let ?s = "\<lparr>sl_addr = length h, sl_off = 0, sl_len = sl_len s, sl_cap = sl_len s\<rparr>"
    let ?t = "e_put E ys # t"
    have el: "elems E (h @ ?t) ?s = Some ys"
      using r(2) by (simp add: elems_def array_at_new [OF assms(2)])
    have "copy_slice E zero into x h = Some (Some ?s, h @ ?t)"
      using Some r(1) by (simp add: copy_slice_def bnd_def new_def ret_def)
    moreover have "slice_view E view (h @ ?t) (Some ?s) = Some v"
      using r(2,3) xs(2,3) n el by (simp add: slice_view_def those_Some_iff)
    moreover have "slice_refs E refs (h @ ?t) (Some ?s) \<subseteq> {length h..<length h + length ?t}"
      using r(2,3) el by (fastforce simp: slice_refs_def in_set_conv_nth)
    ultimately show ?thesis by blast
  qed
  then show ?thesis using f by (auto simp: deep_copier_def deep_copier_axioms_def)
qed

subsection \<open>New copies\<close>

text \<open>What a pointer leads to.\<close>

definition at_view ::
  "('c, 'x) embedding \<Rightarrow> ('c heap \<Rightarrow> 'x \<Rightarrow> 'v option) \<Rightarrow> 'c heap \<Rightarrow> ptr \<Rightarrow> 'v option" where
  "at_view E view h p = Option.bind (load E p h) (view h)"

definition at_refs ::
  "('c, 'x) embedding \<Rightarrow> ('c heap \<Rightarrow> 'x \<Rightarrow> addr set) \<Rightarrow> 'c heap \<Rightarrow> ptr \<Rightarrow> addr set" where
  "at_refs E refs h p = insert (fst p) (case load E p h of None \<Rightarrow> {} | Some x \<Rightarrow> refs h x)"

text \<open>\<open>DeepCopy\<close> is itself a deep copier, of pointers; a nil receiver gives nil.\<close>

definition deref_copy ::
  "('c, 'x) embedding \<Rightarrow> 'x \<Rightarrow> ('x \<Rightarrow> ('c, 'x) cmd) \<Rightarrow> ptr \<Rightarrow> ('c, ptr) cmd" where
  "deref_copy E zero into p = bnd (new_copy E zero into (Some p))
     (\<lambda>q h. case q of None \<Rightarrow> None | Some q \<Rightarrow> Some (q, h))"

lemma new_copier:
  assumes "deep_copier view refs into" "good_embedding E"
  shows "deep_copier (at_view E view) (at_refs E refs) (deref_copy E zero into)"
proof -
  note f = assms(1) [unfolded deep_copier_def, THEN conjunct1]
  show ?thesis
  proof (unfold_locales, goal_cases)
    case (1 h p v h')
    then obtain x where x: "load E p h = Some x" "view h x = Some v" by (auto simp: at_view_def bind_eq_Some_conv)
    then have ag: "agree h h' {fst p}" "agree h h' (refs h x)" using 1(2) by (auto simp: at_refs_def agree_def)
    show ?case using load_agree [OF x(1) ag(1)] footprint.local [OF f x(2) ag(2)] x(1)
      by (simp add: at_view_def at_refs_def)
  next
    case (2 h p v)
    then obtain x where x: "load E p h = Some x" "view h x = Some v" by (auto simp: at_view_def bind_eq_Some_conv)
    then show ?case using load_within [OF x(1)] footprint.within [OF f x(2)] by (simp add: at_refs_def)
  next
    case (3 h p v)
    then obtain x where x: "load E p h = Some x" "view h x = Some v" by (auto simp: at_view_def bind_eq_Some_conv)
    let ?h = "h @ [e_put E [zero]]"
    have x': "load E p ?h = Some x" "view ?h x = Some v"
      using load_agree [OF x(1), of ?h] load_within [OF x(1)] agree_append [of "{fst p}" h]
        footprint.extends [OF f x(2)] by simp_all
    obtain y t where y: "into x ?h = Some (y, ?h @ t)" "view (?h @ t) y = Some v"
      "refs (?h @ t) y \<subseteq> {length ?h..<length ?h + length t}"
      using deep_copier.copies [OF assms(1) x'(2)] by blast
    let ?t = "e_put E [y] # t"
    have "agree (?h @ t) (h @ ?t) (refs (?h @ t) y)"
      using y(3) by (auto simp: agree_def nth_append nth_Cons split: nat.splits)
    from footprint.local [OF f y(2) this] have y': "view (h @ ?t) y = Some v"
      "refs (h @ ?t) y \<subseteq> {Suc (length h)..<Suc (length h + length t)}" using y(3) by auto
    have ld: "load E (length h, 0) (h @ ?t) = Some y" by (rule load_new [OF assms(2)])
    have "deref_copy E zero into p h = Some ((length h, 0), h @ ?t)"
      using x'(1) y(1) store_new [OF assms(2), of 0 "[zero]" h y t]
      by (simp add: deref_copy_def new_copy_def bnd_def new_def fetch_def ret_def)
    moreover have "at_view E view (h @ ?t) (length h, 0) = Some v" using ld y'(1) by (simp add: at_view_def)
    moreover have "at_refs E refs (h @ ?t) (length h, 0) \<subseteq> {length h..<length h + length ?t}"
      using ld y'(2) by (fastforce simp: at_refs_def)
    ultimately show ?case by blast
  qed
qed

end
