(* ===== verification/DeepCopy.thy ===== *)
theory DeepCopy
  imports Api GoHeap
begin

text \<open>
  The generated deep copies of \<open>api/v1alpha1/zz_generated.deepcopy.go\<close>, over the API types as they
  lie in memory: a pointer field is an address, a slice a window of an array that may be shared.
  \<open>DeepCopyInto\<close> takes the struct that \<open>in\<close> points to and leaves in the result what it writes to
  \<open>*out\<close>; \<open>DeepCopy\<close> and \<open>DeepCopyObject\<close> take and return pointers. The \<open>view\<close> of a struct in a
  heap is its value in the sense of theory Api, the types the controllers are modelled with.
\<close>

subsection \<open>The types in memory\<close>

text \<open>Types of Kubernetes and Cluster API, with the fields theory Api keeps; a map is a reference to
  its contents.\<close>

record TypeMeta =
  ty_Kind :: string
  ty_APIVersion :: string

record ListMeta =
  lm_ResourceVersion :: string
  lm_Continue :: string
  lm_RemainingItemCount :: "64 word option"

record gListMeta =
  glm_ResourceVersion :: string
  glm_Continue :: string
  glm_RemainingItemCount :: "ptr option"

record gOwnerReference =
  gor_APIVersion :: string
  gor_Kind :: string
  gor_Name :: string
  gor_UID :: string
  gor_Controller :: "ptr option"

record gObjectMeta =
  gom_Namespace :: string
  gom_Name :: string
  gom_UID :: string
  gom_Generation :: "64 word"
  gom_Annotations :: "ptr option"
  gom_Labels :: "ptr option"
  gom_Finalizers :: "slice option"
  gom_OwnerReferences :: "slice option"
  gom_DeletionTimestamp :: "ptr option"

record gTemplateMeta =
  gtm_Labels :: "ptr option"
  gtm_Annotations :: "ptr option"

text \<open>The types of the repository. \<open>LocalSecretReference\<close> and \<open>AuroraBootConnection\<close> hold no
  references and are those of theory Api.\<close>

record gKairosFleetClusterSpec =
  gcs_ControlPlaneEndpoint :: "ptr option"
  gcs_AuroraBoot :: AuroraBootConnection

record gKairosFleetClusterInitializationStatus =
  gci_Provisioned :: "ptr option"

record gKairosFleetClusterStatus =
  gct_Initialization :: gKairosFleetClusterInitializationStatus
  gct_Conditions :: "slice option"
  gct_FailureReason :: "ptr option"
  gct_FailureMessage :: "ptr option"

record gKairosFleetCluster =
  gfc_TypeMeta :: TypeMeta
  gfc_ObjectMeta :: gObjectMeta
  gfc_Spec :: gKairosFleetClusterSpec
  gfc_Status :: gKairosFleetClusterStatus

record gKairosFleetMachineSpec =
  gms_Group :: string
  gms_ProviderID :: "ptr option"

record gKairosFleetMachineInitializationStatus =
  gmi_Provisioned :: "ptr option"

record gKairosFleetMachineStatus =
  gmt_Initialization :: gKairosFleetMachineInitializationStatus
  gmt_Addresses :: "slice option"
  gmt_Conditions :: "slice option"
  gmt_FailureReason :: "ptr option"
  gmt_FailureMessage :: "ptr option"

record gKairosFleetMachine =
  gfm_TypeMeta :: TypeMeta
  gfm_ObjectMeta :: gObjectMeta
  gfm_Spec :: gKairosFleetMachineSpec
  gfm_Status :: gKairosFleetMachineStatus

record gKairosFleetClusterTemplateResource =
  gctr_ObjectMeta :: gTemplateMeta
  gctr_Spec :: gKairosFleetClusterSpec

record gKairosFleetClusterTemplateSpec =
  gcts_Template :: gKairosFleetClusterTemplateResource

record gKairosFleetClusterTemplate =
  gctp_TypeMeta :: TypeMeta
  gctp_ObjectMeta :: gObjectMeta
  gctp_Spec :: gKairosFleetClusterTemplateSpec

record gKairosFleetMachineTemplateResource =
  gmtr_ObjectMeta :: gTemplateMeta
  gmtr_Spec :: gKairosFleetMachineSpec

record gKairosFleetMachineTemplateSpec =
  gmts_Template :: gKairosFleetMachineTemplateResource

record gKairosFleetMachineTemplate =
  gmtp_TypeMeta :: TypeMeta
  gmtp_ObjectMeta :: gObjectMeta
  gmtp_Spec :: gKairosFleetMachineTemplateSpec

text \<open>The four list types of the API group's four kinds differ in their items only.\<close>

record gList =
  gl_TypeMeta :: TypeMeta
  gl_ListMeta :: gListMeta
  gl_Items :: "slice option"

subsection \<open>Cells\<close>

text \<open>One kind of cell for each type of variable.\<close>

datatype cell =
    Bools "bool list"
  | Int64s "64 word list"
  | Strings "string list"
  | Times "time list"
  | Maps "strmap list"
  | Endpoints "APIEndpoint list"
  | AddressArrays "MachineAddress list"
  | ConditionArrays "Condition list"
  | Owners "gOwnerReference list"
  | LocalSecretReferenceVars "LocalSecretReference list"
  | AuroraBootConnectionVars "AuroraBootConnection list"
  | KairosFleetClusterSpecVars "gKairosFleetClusterSpec list"
  | KairosFleetClusterInitializationStatusVars "gKairosFleetClusterInitializationStatus list"
  | KairosFleetClusterStatusVars "gKairosFleetClusterStatus list"
  | KairosFleetClusterVars "gKairosFleetCluster list"
  | KairosFleetMachineSpecVars "gKairosFleetMachineSpec list"
  | KairosFleetMachineInitializationStatusVars "gKairosFleetMachineInitializationStatus list"
  | KairosFleetMachineStatusVars "gKairosFleetMachineStatus list"
  | KairosFleetMachineVars "gKairosFleetMachine list"
  | KairosFleetClusterTemplateResourceVars "gKairosFleetClusterTemplateResource list"
  | KairosFleetClusterTemplateSpecVars "gKairosFleetClusterTemplateSpec list"
  | KairosFleetClusterTemplateVars "gKairosFleetClusterTemplate list"
  | KairosFleetMachineTemplateResourceVars "gKairosFleetMachineTemplateResource list"
  | KairosFleetMachineTemplateSpecVars "gKairosFleetMachineTemplateSpec list"
  | KairosFleetMachineTemplateVars "gKairosFleetMachineTemplate list"
  | KairosFleetClusterListVars "gList list"
  | KairosFleetMachineListVars "gList list"
  | KairosFleetClusterTemplateListVars "gList list"
  | KairosFleetMachineTemplateListVars "gList list"

definition boolE :: "(cell, bool) embedding" where
  "boolE = \<lparr>e_put = Bools, e_get = (\<lambda>c. case c of Bools xs \<Rightarrow> Some xs | _ \<Rightarrow> None)\<rparr>"

definition int64E :: "(cell, 64 word) embedding" where
  "int64E = \<lparr>e_put = Int64s, e_get = (\<lambda>c. case c of Int64s xs \<Rightarrow> Some xs | _ \<Rightarrow> None)\<rparr>"

definition stringE :: "(cell, string) embedding" where
  "stringE = \<lparr>e_put = Strings, e_get = (\<lambda>c. case c of Strings xs \<Rightarrow> Some xs | _ \<Rightarrow> None)\<rparr>"

definition timeE :: "(cell, time) embedding" where
  "timeE = \<lparr>e_put = Times, e_get = (\<lambda>c. case c of Times xs \<Rightarrow> Some xs | _ \<Rightarrow> None)\<rparr>"

definition mapE :: "(cell, strmap) embedding" where
  "mapE = \<lparr>e_put = Maps, e_get = (\<lambda>c. case c of Maps xs \<Rightarrow> Some xs | _ \<Rightarrow> None)\<rparr>"

definition endpointE :: "(cell, APIEndpoint) embedding" where
  "endpointE = \<lparr>e_put = Endpoints, e_get = (\<lambda>c. case c of Endpoints xs \<Rightarrow> Some xs | _ \<Rightarrow> None)\<rparr>"

definition addressE :: "(cell, MachineAddress) embedding" where
  "addressE = \<lparr>e_put = AddressArrays, e_get = (\<lambda>c. case c of AddressArrays xs \<Rightarrow> Some xs | _ \<Rightarrow> None)\<rparr>"

definition conditionE :: "(cell, Condition) embedding" where
  "conditionE = \<lparr>e_put = ConditionArrays, e_get = (\<lambda>c. case c of ConditionArrays xs \<Rightarrow> Some xs | _ \<Rightarrow> None)\<rparr>"

definition ownerE :: "(cell, gOwnerReference) embedding" where
  "ownerE = \<lparr>e_put = Owners, e_get = (\<lambda>c. case c of Owners xs \<Rightarrow> Some xs | _ \<Rightarrow> None)\<rparr>"

definition LocalSecretReference_E :: "(cell, LocalSecretReference) embedding" where
  "LocalSecretReference_E = \<lparr>e_put = LocalSecretReferenceVars, e_get = (\<lambda>c. case c of LocalSecretReferenceVars xs \<Rightarrow> Some xs | _ \<Rightarrow> None)\<rparr>"

definition AuroraBootConnection_E :: "(cell, AuroraBootConnection) embedding" where
  "AuroraBootConnection_E = \<lparr>e_put = AuroraBootConnectionVars, e_get = (\<lambda>c. case c of AuroraBootConnectionVars xs \<Rightarrow> Some xs | _ \<Rightarrow> None)\<rparr>"

definition KairosFleetClusterSpec_E :: "(cell, gKairosFleetClusterSpec) embedding" where
  "KairosFleetClusterSpec_E = \<lparr>e_put = KairosFleetClusterSpecVars, e_get = (\<lambda>c. case c of KairosFleetClusterSpecVars xs \<Rightarrow> Some xs | _ \<Rightarrow> None)\<rparr>"

definition KairosFleetClusterInitializationStatus_E :: "(cell, gKairosFleetClusterInitializationStatus) embedding" where
  "KairosFleetClusterInitializationStatus_E = \<lparr>e_put = KairosFleetClusterInitializationStatusVars, e_get = (\<lambda>c. case c of KairosFleetClusterInitializationStatusVars xs \<Rightarrow> Some xs | _ \<Rightarrow> None)\<rparr>"

definition KairosFleetClusterStatus_E :: "(cell, gKairosFleetClusterStatus) embedding" where
  "KairosFleetClusterStatus_E = \<lparr>e_put = KairosFleetClusterStatusVars, e_get = (\<lambda>c. case c of KairosFleetClusterStatusVars xs \<Rightarrow> Some xs | _ \<Rightarrow> None)\<rparr>"

definition KairosFleetCluster_E :: "(cell, gKairosFleetCluster) embedding" where
  "KairosFleetCluster_E = \<lparr>e_put = KairosFleetClusterVars, e_get = (\<lambda>c. case c of KairosFleetClusterVars xs \<Rightarrow> Some xs | _ \<Rightarrow> None)\<rparr>"

definition KairosFleetMachineSpec_E :: "(cell, gKairosFleetMachineSpec) embedding" where
  "KairosFleetMachineSpec_E = \<lparr>e_put = KairosFleetMachineSpecVars, e_get = (\<lambda>c. case c of KairosFleetMachineSpecVars xs \<Rightarrow> Some xs | _ \<Rightarrow> None)\<rparr>"

definition KairosFleetMachineInitializationStatus_E :: "(cell, gKairosFleetMachineInitializationStatus) embedding" where
  "KairosFleetMachineInitializationStatus_E = \<lparr>e_put = KairosFleetMachineInitializationStatusVars, e_get = (\<lambda>c. case c of KairosFleetMachineInitializationStatusVars xs \<Rightarrow> Some xs | _ \<Rightarrow> None)\<rparr>"

definition KairosFleetMachineStatus_E :: "(cell, gKairosFleetMachineStatus) embedding" where
  "KairosFleetMachineStatus_E = \<lparr>e_put = KairosFleetMachineStatusVars, e_get = (\<lambda>c. case c of KairosFleetMachineStatusVars xs \<Rightarrow> Some xs | _ \<Rightarrow> None)\<rparr>"

definition KairosFleetMachine_E :: "(cell, gKairosFleetMachine) embedding" where
  "KairosFleetMachine_E = \<lparr>e_put = KairosFleetMachineVars, e_get = (\<lambda>c. case c of KairosFleetMachineVars xs \<Rightarrow> Some xs | _ \<Rightarrow> None)\<rparr>"

definition KairosFleetClusterTemplateResource_E :: "(cell, gKairosFleetClusterTemplateResource) embedding" where
  "KairosFleetClusterTemplateResource_E = \<lparr>e_put = KairosFleetClusterTemplateResourceVars, e_get = (\<lambda>c. case c of KairosFleetClusterTemplateResourceVars xs \<Rightarrow> Some xs | _ \<Rightarrow> None)\<rparr>"

definition KairosFleetClusterTemplateSpec_E :: "(cell, gKairosFleetClusterTemplateSpec) embedding" where
  "KairosFleetClusterTemplateSpec_E = \<lparr>e_put = KairosFleetClusterTemplateSpecVars, e_get = (\<lambda>c. case c of KairosFleetClusterTemplateSpecVars xs \<Rightarrow> Some xs | _ \<Rightarrow> None)\<rparr>"

definition KairosFleetClusterTemplate_E :: "(cell, gKairosFleetClusterTemplate) embedding" where
  "KairosFleetClusterTemplate_E = \<lparr>e_put = KairosFleetClusterTemplateVars, e_get = (\<lambda>c. case c of KairosFleetClusterTemplateVars xs \<Rightarrow> Some xs | _ \<Rightarrow> None)\<rparr>"

definition KairosFleetMachineTemplateResource_E :: "(cell, gKairosFleetMachineTemplateResource) embedding" where
  "KairosFleetMachineTemplateResource_E = \<lparr>e_put = KairosFleetMachineTemplateResourceVars, e_get = (\<lambda>c. case c of KairosFleetMachineTemplateResourceVars xs \<Rightarrow> Some xs | _ \<Rightarrow> None)\<rparr>"

definition KairosFleetMachineTemplateSpec_E :: "(cell, gKairosFleetMachineTemplateSpec) embedding" where
  "KairosFleetMachineTemplateSpec_E = \<lparr>e_put = KairosFleetMachineTemplateSpecVars, e_get = (\<lambda>c. case c of KairosFleetMachineTemplateSpecVars xs \<Rightarrow> Some xs | _ \<Rightarrow> None)\<rparr>"

definition KairosFleetMachineTemplate_E :: "(cell, gKairosFleetMachineTemplate) embedding" where
  "KairosFleetMachineTemplate_E = \<lparr>e_put = KairosFleetMachineTemplateVars, e_get = (\<lambda>c. case c of KairosFleetMachineTemplateVars xs \<Rightarrow> Some xs | _ \<Rightarrow> None)\<rparr>"

definition KairosFleetClusterList_E :: "(cell, gList) embedding" where
  "KairosFleetClusterList_E = \<lparr>e_put = KairosFleetClusterListVars, e_get = (\<lambda>c. case c of KairosFleetClusterListVars xs \<Rightarrow> Some xs | _ \<Rightarrow> None)\<rparr>"

definition KairosFleetMachineList_E :: "(cell, gList) embedding" where
  "KairosFleetMachineList_E = \<lparr>e_put = KairosFleetMachineListVars, e_get = (\<lambda>c. case c of KairosFleetMachineListVars xs \<Rightarrow> Some xs | _ \<Rightarrow> None)\<rparr>"

definition KairosFleetClusterTemplateList_E :: "(cell, gList) embedding" where
  "KairosFleetClusterTemplateList_E = \<lparr>e_put = KairosFleetClusterTemplateListVars, e_get = (\<lambda>c. case c of KairosFleetClusterTemplateListVars xs \<Rightarrow> Some xs | _ \<Rightarrow> None)\<rparr>"

definition KairosFleetMachineTemplateList_E :: "(cell, gList) embedding" where
  "KairosFleetMachineTemplateList_E = \<lparr>e_put = KairosFleetMachineTemplateListVars, e_get = (\<lambda>c. case c of KairosFleetMachineTemplateListVars xs \<Rightarrow> Some xs | _ \<Rightarrow> None)\<rparr>"

lemmas embedding_defs = boolE_def int64E_def stringE_def timeE_def mapE_def endpointE_def addressE_def conditionE_def ownerE_def LocalSecretReference_E_def AuroraBootConnection_E_def KairosFleetClusterSpec_E_def KairosFleetClusterInitializationStatus_E_def KairosFleetClusterStatus_E_def KairosFleetCluster_E_def KairosFleetMachineSpec_E_def KairosFleetMachineInitializationStatus_E_def KairosFleetMachineStatus_E_def KairosFleetMachine_E_def KairosFleetClusterTemplateResource_E_def KairosFleetClusterTemplateSpec_E_def KairosFleetClusterTemplate_E_def KairosFleetMachineTemplateResource_E_def KairosFleetMachineTemplateSpec_E_def KairosFleetMachineTemplate_E_def KairosFleetClusterList_E_def KairosFleetMachineList_E_def KairosFleetClusterTemplateList_E_def KairosFleetMachineTemplateList_E_def

lemma embeddings [simp]:
  "good_embedding boolE"
  "good_embedding int64E"
  "good_embedding stringE"
  "good_embedding timeE"
  "good_embedding mapE"
  "good_embedding endpointE"
  "good_embedding addressE"
  "good_embedding conditionE"
  "good_embedding ownerE"
  "good_embedding LocalSecretReference_E"
  "good_embedding AuroraBootConnection_E"
  "good_embedding KairosFleetClusterSpec_E"
  "good_embedding KairosFleetClusterInitializationStatus_E"
  "good_embedding KairosFleetClusterStatus_E"
  "good_embedding KairosFleetCluster_E"
  "good_embedding KairosFleetMachineSpec_E"
  "good_embedding KairosFleetMachineInitializationStatus_E"
  "good_embedding KairosFleetMachineStatus_E"
  "good_embedding KairosFleetMachine_E"
  "good_embedding KairosFleetClusterTemplateResource_E"
  "good_embedding KairosFleetClusterTemplateSpec_E"
  "good_embedding KairosFleetClusterTemplate_E"
  "good_embedding KairosFleetMachineTemplateResource_E"
  "good_embedding KairosFleetMachineTemplateSpec_E"
  "good_embedding KairosFleetMachineTemplate_E"
  "good_embedding KairosFleetClusterList_E"
  "good_embedding KairosFleetMachineList_E"
  "good_embedding KairosFleetClusterTemplateList_E"
  "good_embedding KairosFleetMachineTemplateList_E"
  by (simp_all add: good_embedding_def embedding_defs)

text \<open>What a reference to a map, and a slice, stand for: a nil map and an empty one read alike, and so
  do a nil slice and an empty one.\<close>

definition map_of_ref :: "strmap option \<Rightarrow> strmap" where
  "map_of_ref m = (case m of None \<Rightarrow> Map.empty | Some m \<Rightarrow> m)"

definition go_list :: "'a list option \<Rightarrow> 'a list" where
  "go_list xs = (case xs of None \<Rightarrow> [] | Some xs \<Rightarrow> xs)"

subsection \<open>Metadata\<close>

definition owner_view :: "cell heap \<Rightarrow> gOwnerReference \<Rightarrow> OwnerReference option" where
  "owner_view h r = map_option
     (\<lambda>c. \<lparr>or_APIVersion = gor_APIVersion r, or_Kind = gor_Kind r, or_Name = gor_Name r, or_UID = gor_UID r,
        or_Controller = c\<rparr>) (ptr_view boolE h (gor_Controller r))"

definition owner_refs :: "cell heap \<Rightarrow> gOwnerReference \<Rightarrow> addr set" where
  "owner_refs h r = ptr_refs h (gor_Controller r)"

definition meta_parts ::
  "gObjectMeta \<Rightarrow> ptr option \<times> ptr option \<times> slice option \<times> slice option \<times> ptr option" where
  "meta_parts m = (gom_Annotations m, gom_Labels m, gom_Finalizers m, gom_OwnerReferences m, gom_DeletionTimestamp m)"

definition object_meta_view :: "cell heap \<Rightarrow> gObjectMeta \<Rightarrow> ObjectMeta option" where
  "object_meta_view h m = map_option
     (\<lambda>(as, ls, fs, os, d). \<lparr>om_Namespace = gom_Namespace m, om_Name = gom_Name m, om_UID = gom_UID m,
        om_Generation = gom_Generation m, om_Annotations = map_of_ref as, om_Labels = map_of_ref ls,
        om_Finalizers = go_list fs, om_OwnerReferences = go_list os, om_DeletionTimestamp = d\<rparr>)
     (pair_view (ptr_view mapE) (pair_view (ptr_view mapE) (pair_view (slice_view stringE value_view)
        (pair_view (slice_view ownerE owner_view) (ptr_view timeE)))) h (meta_parts m))"

definition object_meta_refs :: "cell heap \<Rightarrow> gObjectMeta \<Rightarrow> addr set" where
  "object_meta_refs h m =
     pair_refs ptr_refs (pair_refs ptr_refs (pair_refs (slice_refs stringE value_refs)
        (pair_refs (slice_refs ownerE owner_refs) ptr_refs))) h (meta_parts m)"

definition list_meta_view :: "cell heap \<Rightarrow> gListMeta \<Rightarrow> ListMeta option" where
  "list_meta_view h m = map_option
     (\<lambda>n. \<lparr>lm_ResourceVersion = glm_ResourceVersion m, lm_Continue = glm_Continue m, lm_RemainingItemCount = n\<rparr>)
     (ptr_view int64E h (glm_RemainingItemCount m))"

definition list_meta_refs :: "cell heap \<Rightarrow> gListMeta \<Rightarrow> addr set" where
  "list_meta_refs h m = ptr_refs h (glm_RemainingItemCount m)"

definition template_meta_view :: "cell heap \<Rightarrow> gTemplateMeta \<Rightarrow> TemplateMeta option" where
  "template_meta_view h m = map_option (\<lambda>(ls, as). \<lparr>tm_Labels = map_of_ref ls, tm_Annotations = map_of_ref as\<rparr>)
     (pair_view (ptr_view mapE) (ptr_view mapE) h (gtm_Labels m, gtm_Annotations m))"

definition template_meta_refs :: "cell heap \<Rightarrow> gTemplateMeta \<Rightarrow> addr set" where
  "template_meta_refs h m = pair_refs ptr_refs ptr_refs h (gtm_Labels m, gtm_Annotations m)"

text \<open>The deep copies of the types outside the repository, and their contract.\<close>

record copy_lib =
  ObjectMeta_DeepCopyInto :: "gObjectMeta \<Rightarrow> (cell, gObjectMeta) cmd"
  ListMeta_DeepCopyInto :: "gListMeta \<Rightarrow> (cell, gListMeta) cmd"
  TemplateMeta_DeepCopyInto :: "gTemplateMeta \<Rightarrow> (cell, gTemplateMeta) cmd"
  Condition_DeepCopyInto :: "Condition \<Rightarrow> (cell, Condition) cmd"

locale copying =
  fixes L :: copy_lib
  assumes object_meta: "deep_copier object_meta_view object_meta_refs (ObjectMeta_DeepCopyInto L)"
    and list_meta: "deep_copier list_meta_view list_meta_refs (ListMeta_DeepCopyInto L)"
    and template_meta: "deep_copier template_meta_view template_meta_refs (TemplateMeta_DeepCopyInto L)"
    and condition: "deep_copier value_view value_refs (Condition_DeepCopyInto L)"

text \<open>Copies as the documentation has them.\<close>

definition ref_owner_copy :: "gOwnerReference \<Rightarrow> (cell, gOwnerReference) cmd" where
  "ref_owner_copy r = bnd (copy_ptr boolE False (gor_Controller r)) (\<lambda>c. ret (r\<lparr>gor_Controller := c\<rparr>))"

definition zero_owner :: gOwnerReference where
  "zero_owner = \<lparr>gor_APIVersion = '''', gor_Kind = '''', gor_Name = '''', gor_UID = '''', gor_Controller = None\<rparr>"

definition ref_object_meta_copy :: "gObjectMeta \<Rightarrow> (cell, gObjectMeta) cmd" where
  "ref_object_meta_copy m =
     bnd (copy_ptr mapE Map.empty (gom_Annotations m)) (\<lambda>as.
     bnd (copy_ptr mapE Map.empty (gom_Labels m)) (\<lambda>ls.
     bnd (copy_slice stringE [] ret (gom_Finalizers m)) (\<lambda>fs.
     bnd (copy_slice ownerE zero_owner ref_owner_copy (gom_OwnerReferences m)) (\<lambda>os.
     bnd (copy_ptr timeE zero_time (gom_DeletionTimestamp m)) (\<lambda>d.
       ret (m\<lparr>gom_Annotations := as, gom_Labels := ls, gom_Finalizers := fs, gom_OwnerReferences := os,
         gom_DeletionTimestamp := d\<rparr>))))))"

definition ref_copy_lib :: copy_lib where
  "ref_copy_lib = \<lparr>ObjectMeta_DeepCopyInto = ref_object_meta_copy,
     ListMeta_DeepCopyInto = (\<lambda>m. bnd (copy_ptr int64E 0 (glm_RemainingItemCount m))
       (\<lambda>n. ret (m\<lparr>glm_RemainingItemCount := n\<rparr>))),
     TemplateMeta_DeepCopyInto = (\<lambda>m. bnd (copy_ptr mapE Map.empty (gtm_Labels m)) (\<lambda>ls.
       bnd (copy_ptr mapE Map.empty (gtm_Annotations m)) (\<lambda>as. ret (m\<lparr>gtm_Labels := ls, gtm_Annotations := as\<rparr>)))),
     Condition_DeepCopyInto = ret\<rparr>"

lemma ref_owner_copier: "deep_copier owner_view owner_refs ref_owner_copy"
  by (rule struct_copier [where put = "\<lambda>c r. r\<lparr>gor_Controller := c\<rparr>",
      OF ptr_copier [where E = boolE and zero = False] owner_view_def owner_refs_def])
    (simp_all add: ref_owner_copy_def)

lemma ref_object_meta_copier: "deep_copier object_meta_view object_meta_refs ref_object_meta_copy"
  by (rule struct_copier [where put = "\<lambda>(as, ls, fs, os, d) m. m\<lparr>gom_Annotations := as, gom_Labels := ls,
          gom_Finalizers := fs, gom_OwnerReferences := os, gom_DeletionTimestamp := d\<rparr>",
      OF pair_copier [OF ptr_copier [where E = mapE and zero = Map.empty]
        pair_copier [OF ptr_copier [where E = mapE and zero = Map.empty]
          pair_copier [OF slice_copier [OF value_copier, where E = stringE and zero = "[]"]
            pair_copier [OF slice_copier [OF ref_owner_copier, where E = ownerE and zero = zero_owner]
              ptr_copier [where E = timeE and zero = zero_time]]]]]
      object_meta_view_def object_meta_refs_def])
    (auto simp: ref_object_meta_copy_def pair_copy_def meta_parts_def)

interpretation ref_copies: copying ref_copy_lib
proof (rule copying.intro)
  show "deep_copier object_meta_view object_meta_refs (ObjectMeta_DeepCopyInto ref_copy_lib)"
    using ref_object_meta_copier by (simp add: ref_copy_lib_def)
  show "deep_copier list_meta_view list_meta_refs (ListMeta_DeepCopyInto ref_copy_lib)"
    by (rule struct_copier [where put = "\<lambda>n m. m\<lparr>glm_RemainingItemCount := n\<rparr>",
        OF ptr_copier [where E = int64E and zero = 0] list_meta_view_def list_meta_refs_def])
      (simp_all add: ref_copy_lib_def)
  show "deep_copier template_meta_view template_meta_refs (TemplateMeta_DeepCopyInto ref_copy_lib)"
    by (rule struct_copier [where put = "\<lambda>(ls, as) m. m\<lparr>gtm_Labels := ls, gtm_Annotations := as\<rparr>",
        OF pair_copier [OF ptr_copier [where E = mapE and zero = Map.empty] ptr_copier [where E = mapE and zero = Map.empty]]
          template_meta_view_def template_meta_refs_def])
      (auto simp: ref_copy_lib_def pair_copy_def)
  show "deep_copier value_view value_refs (Condition_DeepCopyInto ref_copy_lib)"
    using value_copier by (simp add: ref_copy_lib_def)
qed

subsection \<open>Values and footprints\<close>

definition fc_spec_view :: "cell heap \<Rightarrow> gKairosFleetClusterSpec \<Rightarrow> KairosFleetClusterSpec option" where
  "fc_spec_view h x = map_option
     (\<lambda>e. \<lparr>fcs_ControlPlaneEndpoint = e, fcs_AuroraBoot = gcs_AuroraBoot x\<rparr>)
     (ptr_view endpointE h (gcs_ControlPlaneEndpoint x))"

definition fc_spec_refs :: "cell heap \<Rightarrow> gKairosFleetClusterSpec \<Rightarrow> addr set" where
  "fc_spec_refs h x = ptr_refs h (gcs_ControlPlaneEndpoint x)"

definition fc_init_view :: "cell heap \<Rightarrow> gKairosFleetClusterInitializationStatus \<Rightarrow> KairosFleetClusterInitializationStatus option" where
  "fc_init_view h x = map_option
     (\<lambda>p. \<lparr>fci_Provisioned = p\<rparr>)
     (ptr_view boolE h (gci_Provisioned x))"

definition fc_init_refs :: "cell heap \<Rightarrow> gKairosFleetClusterInitializationStatus \<Rightarrow> addr set" where
  "fc_init_refs h x = ptr_refs h (gci_Provisioned x)"

definition fc_status_view :: "cell heap \<Rightarrow> gKairosFleetClusterStatus \<Rightarrow> KairosFleetClusterStatus option" where
  "fc_status_view h x = map_option
     (\<lambda>(i, cs, r, m). \<lparr>fct_Initialization = i, fct_Conditions = go_list cs, fct_FailureReason = r, fct_FailureMessage = m\<rparr>)
     (pair_view fc_init_view (pair_view (slice_view conditionE value_view) (pair_view (ptr_view stringE) (ptr_view stringE))) h (gct_Initialization x, gct_Conditions x, gct_FailureReason x, gct_FailureMessage x))"

definition fc_status_refs :: "cell heap \<Rightarrow> gKairosFleetClusterStatus \<Rightarrow> addr set" where
  "fc_status_refs h x = pair_refs fc_init_refs (pair_refs (slice_refs conditionE value_refs) (pair_refs ptr_refs ptr_refs)) h (gct_Initialization x, gct_Conditions x, gct_FailureReason x, gct_FailureMessage x)"

definition fm_spec_view :: "cell heap \<Rightarrow> gKairosFleetMachineSpec \<Rightarrow> KairosFleetMachineSpec option" where
  "fm_spec_view h x = map_option
     (\<lambda>p. \<lparr>fms_Group = gms_Group x, fms_ProviderID = p\<rparr>)
     (ptr_view stringE h (gms_ProviderID x))"

definition fm_spec_refs :: "cell heap \<Rightarrow> gKairosFleetMachineSpec \<Rightarrow> addr set" where
  "fm_spec_refs h x = ptr_refs h (gms_ProviderID x)"

definition fm_init_view :: "cell heap \<Rightarrow> gKairosFleetMachineInitializationStatus \<Rightarrow> KairosFleetMachineInitializationStatus option" where
  "fm_init_view h x = map_option
     (\<lambda>p. \<lparr>fmi_Provisioned = p\<rparr>)
     (ptr_view boolE h (gmi_Provisioned x))"

definition fm_init_refs :: "cell heap \<Rightarrow> gKairosFleetMachineInitializationStatus \<Rightarrow> addr set" where
  "fm_init_refs h x = ptr_refs h (gmi_Provisioned x)"

definition fm_status_view :: "cell heap \<Rightarrow> gKairosFleetMachineStatus \<Rightarrow> KairosFleetMachineStatus option" where
  "fm_status_view h x = map_option
     (\<lambda>(i, as, cs, r, m). \<lparr>fmt_Initialization = i, fmt_Addresses = go_list as, fmt_Conditions = go_list cs,
        fmt_FailureReason = r, fmt_FailureMessage = m\<rparr>)
     (pair_view fm_init_view (pair_view (slice_view addressE value_view) (pair_view (slice_view conditionE value_view) (pair_view (ptr_view stringE) (ptr_view stringE)))) h (gmt_Initialization x, gmt_Addresses x, gmt_Conditions x, gmt_FailureReason x, gmt_FailureMessage x))"

definition fm_status_refs :: "cell heap \<Rightarrow> gKairosFleetMachineStatus \<Rightarrow> addr set" where
  "fm_status_refs h x = pair_refs fm_init_refs (pair_refs (slice_refs addressE value_refs) (pair_refs (slice_refs conditionE value_refs) (pair_refs ptr_refs ptr_refs))) h (gmt_Initialization x, gmt_Addresses x, gmt_Conditions x, gmt_FailureReason x, gmt_FailureMessage x)"

text \<open>The type metadata is plain data; it comes first in the value of an object.\<close>

definition fc_view :: "cell heap \<Rightarrow> gKairosFleetCluster \<Rightarrow> (TypeMeta \<times> KairosFleetCluster) option" where
  "fc_view h x = map_option
     (\<lambda>(m, s, t). (gfc_TypeMeta x, \<lparr>fc_Meta = m, fc_Spec = s, fc_Status = t\<rparr>))
     (pair_view object_meta_view (pair_view fc_spec_view fc_status_view) h (gfc_ObjectMeta x, gfc_Spec x, gfc_Status x))"

definition fc_refs :: "cell heap \<Rightarrow> gKairosFleetCluster \<Rightarrow> addr set" where
  "fc_refs h x = pair_refs object_meta_refs (pair_refs fc_spec_refs fc_status_refs) h (gfc_ObjectMeta x, gfc_Spec x, gfc_Status x)"

definition fc_tmpl_resource_view :: "cell heap \<Rightarrow> gKairosFleetClusterTemplateResource \<Rightarrow> KairosFleetClusterTemplateResource option" where
  "fc_tmpl_resource_view h x = map_option
     (\<lambda>(m, s). \<lparr>fctr_ObjectMeta = m, fctr_Spec = s\<rparr>)
     (pair_view template_meta_view fc_spec_view h (gctr_ObjectMeta x, gctr_Spec x))"

definition fc_tmpl_resource_refs :: "cell heap \<Rightarrow> gKairosFleetClusterTemplateResource \<Rightarrow> addr set" where
  "fc_tmpl_resource_refs h x = pair_refs template_meta_refs fc_spec_refs h (gctr_ObjectMeta x, gctr_Spec x)"

definition fc_tmpl_spec_view :: "cell heap \<Rightarrow> gKairosFleetClusterTemplateSpec \<Rightarrow> KairosFleetClusterTemplateSpec option" where
  "fc_tmpl_spec_view h x = map_option
     (\<lambda>t. \<lparr>fcts_Template = t\<rparr>)
     (fc_tmpl_resource_view h (gcts_Template x))"

definition fc_tmpl_spec_refs :: "cell heap \<Rightarrow> gKairosFleetClusterTemplateSpec \<Rightarrow> addr set" where
  "fc_tmpl_spec_refs h x = fc_tmpl_resource_refs h (gcts_Template x)"

definition fc_tmpl_view :: "cell heap \<Rightarrow> gKairosFleetClusterTemplate \<Rightarrow> (TypeMeta \<times> KairosFleetClusterTemplate) option" where
  "fc_tmpl_view h x = map_option
     (\<lambda>(m, s). (gctp_TypeMeta x, \<lparr>fctp_Meta = m, fctp_Spec = s\<rparr>))
     (pair_view object_meta_view fc_tmpl_spec_view h (gctp_ObjectMeta x, gctp_Spec x))"

definition fc_tmpl_refs :: "cell heap \<Rightarrow> gKairosFleetClusterTemplate \<Rightarrow> addr set" where
  "fc_tmpl_refs h x = pair_refs object_meta_refs fc_tmpl_spec_refs h (gctp_ObjectMeta x, gctp_Spec x)"

definition fm_view :: "cell heap \<Rightarrow> gKairosFleetMachine \<Rightarrow> (TypeMeta \<times> KairosFleetMachine) option" where
  "fm_view h x = map_option
     (\<lambda>(m, s, t). (gfm_TypeMeta x, \<lparr>fm_Meta = m, fm_Spec = s, fm_Status = t\<rparr>))
     (pair_view object_meta_view (pair_view fm_spec_view fm_status_view) h (gfm_ObjectMeta x, gfm_Spec x, gfm_Status x))"

definition fm_refs :: "cell heap \<Rightarrow> gKairosFleetMachine \<Rightarrow> addr set" where
  "fm_refs h x = pair_refs object_meta_refs (pair_refs fm_spec_refs fm_status_refs) h (gfm_ObjectMeta x, gfm_Spec x, gfm_Status x)"

definition fm_tmpl_resource_view :: "cell heap \<Rightarrow> gKairosFleetMachineTemplateResource \<Rightarrow> KairosFleetMachineTemplateResource option" where
  "fm_tmpl_resource_view h x = map_option
     (\<lambda>(m, s). \<lparr>fmtr_ObjectMeta = m, fmtr_Spec = s\<rparr>)
     (pair_view template_meta_view fm_spec_view h (gmtr_ObjectMeta x, gmtr_Spec x))"

definition fm_tmpl_resource_refs :: "cell heap \<Rightarrow> gKairosFleetMachineTemplateResource \<Rightarrow> addr set" where
  "fm_tmpl_resource_refs h x = pair_refs template_meta_refs fm_spec_refs h (gmtr_ObjectMeta x, gmtr_Spec x)"

definition fm_tmpl_spec_view :: "cell heap \<Rightarrow> gKairosFleetMachineTemplateSpec \<Rightarrow> KairosFleetMachineTemplateSpec option" where
  "fm_tmpl_spec_view h x = map_option
     (\<lambda>t. \<lparr>fmts_Template = t\<rparr>)
     (fm_tmpl_resource_view h (gmts_Template x))"

definition fm_tmpl_spec_refs :: "cell heap \<Rightarrow> gKairosFleetMachineTemplateSpec \<Rightarrow> addr set" where
  "fm_tmpl_spec_refs h x = fm_tmpl_resource_refs h (gmts_Template x)"

definition fm_tmpl_view :: "cell heap \<Rightarrow> gKairosFleetMachineTemplate \<Rightarrow> (TypeMeta \<times> KairosFleetMachineTemplate) option" where
  "fm_tmpl_view h x = map_option
     (\<lambda>(m, s). (gmtp_TypeMeta x, \<lparr>fmtp_Meta = m, fmtp_Spec = s\<rparr>))
     (pair_view object_meta_view fm_tmpl_spec_view h (gmtp_ObjectMeta x, gmtp_Spec x))"

definition fm_tmpl_refs :: "cell heap \<Rightarrow> gKairosFleetMachineTemplate \<Rightarrow> addr set" where
  "fm_tmpl_refs h x = pair_refs object_meta_refs fm_tmpl_spec_refs h (gmtp_ObjectMeta x, gmtp_Spec x)"

text \<open>A list of items of one type: its type metadata, its own metadata and the items' values.\<close>

definition list_view ::
  "(cell, 'x) embedding \<Rightarrow> (cell heap \<Rightarrow> 'x \<Rightarrow> 'v option) \<Rightarrow> cell heap \<Rightarrow> gList
     \<Rightarrow> (TypeMeta \<times> ListMeta \<times> 'v list option) option" where
  "list_view E item h x = map_option (\<lambda>(m, is). (gl_TypeMeta x, m, is))
     (pair_view list_meta_view (slice_view E item) h (gl_ListMeta x, gl_Items x))"

definition list_refs ::
  "(cell, 'x) embedding \<Rightarrow> (cell heap \<Rightarrow> 'x \<Rightarrow> addr set) \<Rightarrow> cell heap \<Rightarrow> gList \<Rightarrow> addr set" where
  "list_refs E item h x = pair_refs list_meta_refs (slice_refs E item) h (gl_ListMeta x, gl_Items x)"

subsection \<open>Zero values\<close>

definition zero_LocalSecretReference :: "LocalSecretReference" where
  "zero_LocalSecretReference = \<lparr>sr_Name = ''''\<rparr>"

definition zero_AuroraBootConnection :: "AuroraBootConnection" where
  "zero_AuroraBootConnection = \<lparr>ab_URL = '''', ab_AdminTokenSecretRef = zero_LocalSecretReference\<rparr>"

definition zero_TypeMeta :: "TypeMeta" where
  "zero_TypeMeta = \<lparr>ty_Kind = '''', ty_APIVersion = ''''\<rparr>"

definition zero_ListMeta :: "gListMeta" where
  "zero_ListMeta = \<lparr>glm_ResourceVersion = '''', glm_Continue = '''', glm_RemainingItemCount = None\<rparr>"

definition zero_ObjectMeta :: "gObjectMeta" where
  "zero_ObjectMeta = \<lparr>gom_Namespace = '''', gom_Name = '''', gom_UID = '''', gom_Generation = 0,
     gom_Annotations = None, gom_Labels = None, gom_Finalizers = None, gom_OwnerReferences = None,
     gom_DeletionTimestamp = None\<rparr>"

definition zero_TemplateMeta :: "gTemplateMeta" where
  "zero_TemplateMeta = \<lparr>gtm_Labels = None, gtm_Annotations = None\<rparr>"

definition zero_Condition :: "Condition" where
  "zero_Condition = new_condition '''' ConditionUnknown 0 '''' ''''"

definition zero_KairosFleetClusterSpec :: "gKairosFleetClusterSpec" where
  "zero_KairosFleetClusterSpec = \<lparr>gcs_ControlPlaneEndpoint = None, gcs_AuroraBoot = zero_AuroraBootConnection\<rparr>"

definition zero_KairosFleetClusterInitializationStatus :: "gKairosFleetClusterInitializationStatus" where
  "zero_KairosFleetClusterInitializationStatus = \<lparr>gci_Provisioned = None\<rparr>"

definition zero_KairosFleetClusterStatus :: "gKairosFleetClusterStatus" where
  "zero_KairosFleetClusterStatus = \<lparr>gct_Initialization = zero_KairosFleetClusterInitializationStatus,
     gct_Conditions = None, gct_FailureReason = None, gct_FailureMessage = None\<rparr>"

definition zero_KairosFleetMachineSpec :: "gKairosFleetMachineSpec" where
  "zero_KairosFleetMachineSpec = \<lparr>gms_Group = '''', gms_ProviderID = None\<rparr>"

definition zero_KairosFleetMachineInitializationStatus :: "gKairosFleetMachineInitializationStatus" where
  "zero_KairosFleetMachineInitializationStatus = \<lparr>gmi_Provisioned = None\<rparr>"

definition zero_KairosFleetMachineStatus :: "gKairosFleetMachineStatus" where
  "zero_KairosFleetMachineStatus = \<lparr>gmt_Initialization = zero_KairosFleetMachineInitializationStatus,
     gmt_Addresses = None, gmt_Conditions = None, gmt_FailureReason = None, gmt_FailureMessage = None\<rparr>"

definition zero_KairosFleetCluster :: "gKairosFleetCluster" where
  "zero_KairosFleetCluster = \<lparr>gfc_TypeMeta = zero_TypeMeta, gfc_ObjectMeta = zero_ObjectMeta,
     gfc_Spec = zero_KairosFleetClusterSpec, gfc_Status = zero_KairosFleetClusterStatus\<rparr>"

definition zero_KairosFleetClusterTemplateResource :: "gKairosFleetClusterTemplateResource" where
  "zero_KairosFleetClusterTemplateResource = \<lparr>gctr_ObjectMeta = zero_TemplateMeta, gctr_Spec = zero_KairosFleetClusterSpec\<rparr>"

definition zero_KairosFleetClusterTemplateSpec :: "gKairosFleetClusterTemplateSpec" where
  "zero_KairosFleetClusterTemplateSpec = \<lparr>gcts_Template = zero_KairosFleetClusterTemplateResource\<rparr>"

definition zero_KairosFleetClusterTemplate :: "gKairosFleetClusterTemplate" where
  "zero_KairosFleetClusterTemplate = \<lparr>gctp_TypeMeta = zero_TypeMeta, gctp_ObjectMeta = zero_ObjectMeta,
     gctp_Spec = zero_KairosFleetClusterTemplateSpec\<rparr>"

definition zero_KairosFleetMachine :: "gKairosFleetMachine" where
  "zero_KairosFleetMachine = \<lparr>gfm_TypeMeta = zero_TypeMeta, gfm_ObjectMeta = zero_ObjectMeta,
     gfm_Spec = zero_KairosFleetMachineSpec, gfm_Status = zero_KairosFleetMachineStatus\<rparr>"

definition zero_KairosFleetMachineTemplateResource :: "gKairosFleetMachineTemplateResource" where
  "zero_KairosFleetMachineTemplateResource = \<lparr>gmtr_ObjectMeta = zero_TemplateMeta, gmtr_Spec = zero_KairosFleetMachineSpec\<rparr>"

definition zero_KairosFleetMachineTemplateSpec :: "gKairosFleetMachineTemplateSpec" where
  "zero_KairosFleetMachineTemplateSpec = \<lparr>gmts_Template = zero_KairosFleetMachineTemplateResource\<rparr>"

definition zero_KairosFleetMachineTemplate :: "gKairosFleetMachineTemplate" where
  "zero_KairosFleetMachineTemplate = \<lparr>gmtp_TypeMeta = zero_TypeMeta, gmtp_ObjectMeta = zero_ObjectMeta,
     gmtp_Spec = zero_KairosFleetMachineTemplateSpec\<rparr>"

definition zero_List :: "gList" where
  "zero_List = \<lparr>gl_TypeMeta = zero_TypeMeta, gl_ListMeta = zero_ListMeta, gl_Items = None\<rparr>"

subsection \<open>DeepCopyInto\<close>

text \<open>In the order of the types. A function that copies metadata or conditions takes the library.\<close>

definition LocalSecretReference_DeepCopyInto :: "LocalSecretReference \<Rightarrow> (cell, LocalSecretReference) cmd" where
  "LocalSecretReference_DeepCopyInto inp =
     (let out = inp in ret out)"

definition AuroraBootConnection_DeepCopyInto :: "AuroraBootConnection \<Rightarrow> (cell, AuroraBootConnection) cmd" where
  "AuroraBootConnection_DeepCopyInto inp =
     (let out = inp in 
      let out = out\<lparr>ab_AdminTokenSecretRef := ab_AdminTokenSecretRef inp\<rparr> in
      ret out)"

definition KairosFleetClusterSpec_DeepCopyInto :: "gKairosFleetClusterSpec \<Rightarrow> (cell, gKairosFleetClusterSpec) cmd" where
  "KairosFleetClusterSpec_DeepCopyInto inp =
     (let out = inp in 
      bnd (copy_ptr endpointE \<lparr>ep_Host = '''', ep_Port = 0\<rparr> (gcs_ControlPlaneEndpoint inp)) (\<lambda>v. let out = out\<lparr>gcs_ControlPlaneEndpoint := v\<rparr> in
      let out = out\<lparr>gcs_AuroraBoot := gcs_AuroraBoot inp\<rparr> in
      ret out))"

definition KairosFleetClusterInitializationStatus_DeepCopyInto :: "gKairosFleetClusterInitializationStatus \<Rightarrow> (cell, gKairosFleetClusterInitializationStatus) cmd" where
  "KairosFleetClusterInitializationStatus_DeepCopyInto inp =
     (let out = inp in 
      bnd (copy_ptr boolE False (gci_Provisioned inp)) (\<lambda>v. let out = out\<lparr>gci_Provisioned := v\<rparr> in
      ret out))"

definition KairosFleetClusterStatus_DeepCopyInto :: "copy_lib \<Rightarrow> gKairosFleetClusterStatus \<Rightarrow> (cell, gKairosFleetClusterStatus) cmd" where
  "KairosFleetClusterStatus_DeepCopyInto L inp =
     (let out = inp in 
      bnd (KairosFleetClusterInitializationStatus_DeepCopyInto (gct_Initialization inp)) (\<lambda>v. let out = out\<lparr>gct_Initialization := v\<rparr> in
      bnd (copy_slice conditionE zero_Condition (Condition_DeepCopyInto L) (gct_Conditions inp)) (\<lambda>v. let out = out\<lparr>gct_Conditions := v\<rparr> in
      bnd (copy_ptr stringE [] (gct_FailureReason inp)) (\<lambda>v. let out = out\<lparr>gct_FailureReason := v\<rparr> in
      bnd (copy_ptr stringE [] (gct_FailureMessage inp)) (\<lambda>v. let out = out\<lparr>gct_FailureMessage := v\<rparr> in
      ret out)))))"

definition KairosFleetMachineSpec_DeepCopyInto :: "gKairosFleetMachineSpec \<Rightarrow> (cell, gKairosFleetMachineSpec) cmd" where
  "KairosFleetMachineSpec_DeepCopyInto inp =
     (let out = inp in 
      bnd (copy_ptr stringE [] (gms_ProviderID inp)) (\<lambda>v. let out = out\<lparr>gms_ProviderID := v\<rparr> in
      ret out))"

definition KairosFleetMachineInitializationStatus_DeepCopyInto :: "gKairosFleetMachineInitializationStatus \<Rightarrow> (cell, gKairosFleetMachineInitializationStatus) cmd" where
  "KairosFleetMachineInitializationStatus_DeepCopyInto inp =
     (let out = inp in 
      bnd (copy_ptr boolE False (gmi_Provisioned inp)) (\<lambda>v. let out = out\<lparr>gmi_Provisioned := v\<rparr> in
      ret out))"

definition KairosFleetMachineStatus_DeepCopyInto :: "copy_lib \<Rightarrow> gKairosFleetMachineStatus \<Rightarrow> (cell, gKairosFleetMachineStatus) cmd" where
  "KairosFleetMachineStatus_DeepCopyInto L inp =
     (let out = inp in 
      bnd (KairosFleetMachineInitializationStatus_DeepCopyInto (gmt_Initialization inp)) (\<lambda>v. let out = out\<lparr>gmt_Initialization := v\<rparr> in
      bnd (copy_slice addressE \<lparr>ma_Type = '''', ma_Address = ''''\<rparr> ret (gmt_Addresses inp)) (\<lambda>v. let out = out\<lparr>gmt_Addresses := v\<rparr> in
      bnd (copy_slice conditionE zero_Condition (Condition_DeepCopyInto L) (gmt_Conditions inp)) (\<lambda>v. let out = out\<lparr>gmt_Conditions := v\<rparr> in
      bnd (copy_ptr stringE [] (gmt_FailureReason inp)) (\<lambda>v. let out = out\<lparr>gmt_FailureReason := v\<rparr> in
      bnd (copy_ptr stringE [] (gmt_FailureMessage inp)) (\<lambda>v. let out = out\<lparr>gmt_FailureMessage := v\<rparr> in
      ret out))))))"

definition KairosFleetCluster_DeepCopyInto :: "copy_lib \<Rightarrow> gKairosFleetCluster \<Rightarrow> (cell, gKairosFleetCluster) cmd" where
  "KairosFleetCluster_DeepCopyInto L inp =
     (let out = inp in 
      let out = out\<lparr>gfc_TypeMeta := gfc_TypeMeta inp\<rparr> in
      bnd (ObjectMeta_DeepCopyInto L (gfc_ObjectMeta inp)) (\<lambda>v. let out = out\<lparr>gfc_ObjectMeta := v\<rparr> in
      bnd (KairosFleetClusterSpec_DeepCopyInto (gfc_Spec inp)) (\<lambda>v. let out = out\<lparr>gfc_Spec := v\<rparr> in
      bnd (KairosFleetClusterStatus_DeepCopyInto L (gfc_Status inp)) (\<lambda>v. let out = out\<lparr>gfc_Status := v\<rparr> in
      ret out))))"

definition KairosFleetClusterTemplateResource_DeepCopyInto :: "copy_lib \<Rightarrow> gKairosFleetClusterTemplateResource \<Rightarrow> (cell, gKairosFleetClusterTemplateResource) cmd" where
  "KairosFleetClusterTemplateResource_DeepCopyInto L inp =
     (let out = inp in 
      bnd (TemplateMeta_DeepCopyInto L (gctr_ObjectMeta inp)) (\<lambda>v. let out = out\<lparr>gctr_ObjectMeta := v\<rparr> in
      bnd (KairosFleetClusterSpec_DeepCopyInto (gctr_Spec inp)) (\<lambda>v. let out = out\<lparr>gctr_Spec := v\<rparr> in
      ret out)))"

definition KairosFleetClusterTemplateSpec_DeepCopyInto :: "copy_lib \<Rightarrow> gKairosFleetClusterTemplateSpec \<Rightarrow> (cell, gKairosFleetClusterTemplateSpec) cmd" where
  "KairosFleetClusterTemplateSpec_DeepCopyInto L inp =
     (let out = inp in 
      bnd (KairosFleetClusterTemplateResource_DeepCopyInto L (gcts_Template inp)) (\<lambda>v. let out = out\<lparr>gcts_Template := v\<rparr> in
      ret out))"

definition KairosFleetClusterTemplate_DeepCopyInto :: "copy_lib \<Rightarrow> gKairosFleetClusterTemplate \<Rightarrow> (cell, gKairosFleetClusterTemplate) cmd" where
  "KairosFleetClusterTemplate_DeepCopyInto L inp =
     (let out = inp in 
      let out = out\<lparr>gctp_TypeMeta := gctp_TypeMeta inp\<rparr> in
      bnd (ObjectMeta_DeepCopyInto L (gctp_ObjectMeta inp)) (\<lambda>v. let out = out\<lparr>gctp_ObjectMeta := v\<rparr> in
      bnd (KairosFleetClusterTemplateSpec_DeepCopyInto L (gctp_Spec inp)) (\<lambda>v. let out = out\<lparr>gctp_Spec := v\<rparr> in
      ret out)))"

definition KairosFleetMachine_DeepCopyInto :: "copy_lib \<Rightarrow> gKairosFleetMachine \<Rightarrow> (cell, gKairosFleetMachine) cmd" where
  "KairosFleetMachine_DeepCopyInto L inp =
     (let out = inp in 
      let out = out\<lparr>gfm_TypeMeta := gfm_TypeMeta inp\<rparr> in
      bnd (ObjectMeta_DeepCopyInto L (gfm_ObjectMeta inp)) (\<lambda>v. let out = out\<lparr>gfm_ObjectMeta := v\<rparr> in
      bnd (KairosFleetMachineSpec_DeepCopyInto (gfm_Spec inp)) (\<lambda>v. let out = out\<lparr>gfm_Spec := v\<rparr> in
      bnd (KairosFleetMachineStatus_DeepCopyInto L (gfm_Status inp)) (\<lambda>v. let out = out\<lparr>gfm_Status := v\<rparr> in
      ret out))))"

definition KairosFleetMachineTemplateResource_DeepCopyInto :: "copy_lib \<Rightarrow> gKairosFleetMachineTemplateResource \<Rightarrow> (cell, gKairosFleetMachineTemplateResource) cmd" where
  "KairosFleetMachineTemplateResource_DeepCopyInto L inp =
     (let out = inp in 
      bnd (TemplateMeta_DeepCopyInto L (gmtr_ObjectMeta inp)) (\<lambda>v. let out = out\<lparr>gmtr_ObjectMeta := v\<rparr> in
      bnd (KairosFleetMachineSpec_DeepCopyInto (gmtr_Spec inp)) (\<lambda>v. let out = out\<lparr>gmtr_Spec := v\<rparr> in
      ret out)))"

definition KairosFleetMachineTemplateSpec_DeepCopyInto :: "copy_lib \<Rightarrow> gKairosFleetMachineTemplateSpec \<Rightarrow> (cell, gKairosFleetMachineTemplateSpec) cmd" where
  "KairosFleetMachineTemplateSpec_DeepCopyInto L inp =
     (let out = inp in 
      bnd (KairosFleetMachineTemplateResource_DeepCopyInto L (gmts_Template inp)) (\<lambda>v. let out = out\<lparr>gmts_Template := v\<rparr> in
      ret out))"

definition KairosFleetMachineTemplate_DeepCopyInto :: "copy_lib \<Rightarrow> gKairosFleetMachineTemplate \<Rightarrow> (cell, gKairosFleetMachineTemplate) cmd" where
  "KairosFleetMachineTemplate_DeepCopyInto L inp =
     (let out = inp in 
      let out = out\<lparr>gmtp_TypeMeta := gmtp_TypeMeta inp\<rparr> in
      bnd (ObjectMeta_DeepCopyInto L (gmtp_ObjectMeta inp)) (\<lambda>v. let out = out\<lparr>gmtp_ObjectMeta := v\<rparr> in
      bnd (KairosFleetMachineTemplateSpec_DeepCopyInto L (gmtp_Spec inp)) (\<lambda>v. let out = out\<lparr>gmtp_Spec := v\<rparr> in
      ret out)))"

definition KairosFleetClusterList_DeepCopyInto :: "copy_lib \<Rightarrow> gList \<Rightarrow> (cell, gList) cmd" where
  "KairosFleetClusterList_DeepCopyInto L inp =
     (let out = inp in 
      let out = out\<lparr>gl_TypeMeta := gl_TypeMeta inp\<rparr> in
      bnd (ListMeta_DeepCopyInto L (gl_ListMeta inp)) (\<lambda>v. let out = out\<lparr>gl_ListMeta := v\<rparr> in
      bnd (copy_slice KairosFleetCluster_E zero_KairosFleetCluster (KairosFleetCluster_DeepCopyInto L) (gl_Items inp)) (\<lambda>v. let out = out\<lparr>gl_Items := v\<rparr> in
      ret out)))"

definition KairosFleetMachineList_DeepCopyInto :: "copy_lib \<Rightarrow> gList \<Rightarrow> (cell, gList) cmd" where
  "KairosFleetMachineList_DeepCopyInto L inp =
     (let out = inp in 
      let out = out\<lparr>gl_TypeMeta := gl_TypeMeta inp\<rparr> in
      bnd (ListMeta_DeepCopyInto L (gl_ListMeta inp)) (\<lambda>v. let out = out\<lparr>gl_ListMeta := v\<rparr> in
      bnd (copy_slice KairosFleetMachine_E zero_KairosFleetMachine (KairosFleetMachine_DeepCopyInto L) (gl_Items inp)) (\<lambda>v. let out = out\<lparr>gl_Items := v\<rparr> in
      ret out)))"

definition KairosFleetClusterTemplateList_DeepCopyInto :: "copy_lib \<Rightarrow> gList \<Rightarrow> (cell, gList) cmd" where
  "KairosFleetClusterTemplateList_DeepCopyInto L inp =
     (let out = inp in 
      let out = out\<lparr>gl_TypeMeta := gl_TypeMeta inp\<rparr> in
      bnd (ListMeta_DeepCopyInto L (gl_ListMeta inp)) (\<lambda>v. let out = out\<lparr>gl_ListMeta := v\<rparr> in
      bnd (copy_slice KairosFleetClusterTemplate_E zero_KairosFleetClusterTemplate (KairosFleetClusterTemplate_DeepCopyInto L) (gl_Items inp)) (\<lambda>v. let out = out\<lparr>gl_Items := v\<rparr> in
      ret out)))"

definition KairosFleetMachineTemplateList_DeepCopyInto :: "copy_lib \<Rightarrow> gList \<Rightarrow> (cell, gList) cmd" where
  "KairosFleetMachineTemplateList_DeepCopyInto L inp =
     (let out = inp in 
      let out = out\<lparr>gl_TypeMeta := gl_TypeMeta inp\<rparr> in
      bnd (ListMeta_DeepCopyInto L (gl_ListMeta inp)) (\<lambda>v. let out = out\<lparr>gl_ListMeta := v\<rparr> in
      bnd (copy_slice KairosFleetMachineTemplate_E zero_KairosFleetMachineTemplate (KairosFleetMachineTemplate_DeepCopyInto L) (gl_Items inp)) (\<lambda>v. let out = out\<lparr>gl_Items := v\<rparr> in
      ret out)))"

subsection \<open>DeepCopy\<close>

definition LocalSecretReference_DeepCopy :: "ptr option \<Rightarrow> (cell, ptr option) cmd" where
  "LocalSecretReference_DeepCopy inp = new_copy LocalSecretReference_E zero_LocalSecretReference LocalSecretReference_DeepCopyInto inp"

definition AuroraBootConnection_DeepCopy :: "ptr option \<Rightarrow> (cell, ptr option) cmd" where
  "AuroraBootConnection_DeepCopy inp = new_copy AuroraBootConnection_E zero_AuroraBootConnection AuroraBootConnection_DeepCopyInto inp"

definition KairosFleetClusterSpec_DeepCopy :: "ptr option \<Rightarrow> (cell, ptr option) cmd" where
  "KairosFleetClusterSpec_DeepCopy inp = new_copy KairosFleetClusterSpec_E zero_KairosFleetClusterSpec KairosFleetClusterSpec_DeepCopyInto inp"

definition KairosFleetClusterInitializationStatus_DeepCopy :: "ptr option \<Rightarrow> (cell, ptr option) cmd" where
  "KairosFleetClusterInitializationStatus_DeepCopy inp = new_copy KairosFleetClusterInitializationStatus_E zero_KairosFleetClusterInitializationStatus KairosFleetClusterInitializationStatus_DeepCopyInto inp"

definition KairosFleetClusterStatus_DeepCopy :: "copy_lib \<Rightarrow> ptr option \<Rightarrow> (cell, ptr option) cmd" where
  "KairosFleetClusterStatus_DeepCopy L inp = new_copy KairosFleetClusterStatus_E zero_KairosFleetClusterStatus (KairosFleetClusterStatus_DeepCopyInto L) inp"

definition KairosFleetCluster_DeepCopy :: "copy_lib \<Rightarrow> ptr option \<Rightarrow> (cell, ptr option) cmd" where
  "KairosFleetCluster_DeepCopy L inp = new_copy KairosFleetCluster_E zero_KairosFleetCluster (KairosFleetCluster_DeepCopyInto L) inp"

definition KairosFleetMachineSpec_DeepCopy :: "ptr option \<Rightarrow> (cell, ptr option) cmd" where
  "KairosFleetMachineSpec_DeepCopy inp = new_copy KairosFleetMachineSpec_E zero_KairosFleetMachineSpec KairosFleetMachineSpec_DeepCopyInto inp"

definition KairosFleetMachineInitializationStatus_DeepCopy :: "ptr option \<Rightarrow> (cell, ptr option) cmd" where
  "KairosFleetMachineInitializationStatus_DeepCopy inp = new_copy KairosFleetMachineInitializationStatus_E zero_KairosFleetMachineInitializationStatus KairosFleetMachineInitializationStatus_DeepCopyInto inp"

definition KairosFleetMachineStatus_DeepCopy :: "copy_lib \<Rightarrow> ptr option \<Rightarrow> (cell, ptr option) cmd" where
  "KairosFleetMachineStatus_DeepCopy L inp = new_copy KairosFleetMachineStatus_E zero_KairosFleetMachineStatus (KairosFleetMachineStatus_DeepCopyInto L) inp"

definition KairosFleetMachine_DeepCopy :: "copy_lib \<Rightarrow> ptr option \<Rightarrow> (cell, ptr option) cmd" where
  "KairosFleetMachine_DeepCopy L inp = new_copy KairosFleetMachine_E zero_KairosFleetMachine (KairosFleetMachine_DeepCopyInto L) inp"

definition KairosFleetClusterTemplateResource_DeepCopy :: "copy_lib \<Rightarrow> ptr option \<Rightarrow> (cell, ptr option) cmd" where
  "KairosFleetClusterTemplateResource_DeepCopy L inp = new_copy KairosFleetClusterTemplateResource_E zero_KairosFleetClusterTemplateResource (KairosFleetClusterTemplateResource_DeepCopyInto L) inp"

definition KairosFleetClusterTemplateSpec_DeepCopy :: "copy_lib \<Rightarrow> ptr option \<Rightarrow> (cell, ptr option) cmd" where
  "KairosFleetClusterTemplateSpec_DeepCopy L inp = new_copy KairosFleetClusterTemplateSpec_E zero_KairosFleetClusterTemplateSpec (KairosFleetClusterTemplateSpec_DeepCopyInto L) inp"

definition KairosFleetClusterTemplate_DeepCopy :: "copy_lib \<Rightarrow> ptr option \<Rightarrow> (cell, ptr option) cmd" where
  "KairosFleetClusterTemplate_DeepCopy L inp = new_copy KairosFleetClusterTemplate_E zero_KairosFleetClusterTemplate (KairosFleetClusterTemplate_DeepCopyInto L) inp"

definition KairosFleetMachineTemplateResource_DeepCopy :: "copy_lib \<Rightarrow> ptr option \<Rightarrow> (cell, ptr option) cmd" where
  "KairosFleetMachineTemplateResource_DeepCopy L inp = new_copy KairosFleetMachineTemplateResource_E zero_KairosFleetMachineTemplateResource (KairosFleetMachineTemplateResource_DeepCopyInto L) inp"

definition KairosFleetMachineTemplateSpec_DeepCopy :: "copy_lib \<Rightarrow> ptr option \<Rightarrow> (cell, ptr option) cmd" where
  "KairosFleetMachineTemplateSpec_DeepCopy L inp = new_copy KairosFleetMachineTemplateSpec_E zero_KairosFleetMachineTemplateSpec (KairosFleetMachineTemplateSpec_DeepCopyInto L) inp"

definition KairosFleetMachineTemplate_DeepCopy :: "copy_lib \<Rightarrow> ptr option \<Rightarrow> (cell, ptr option) cmd" where
  "KairosFleetMachineTemplate_DeepCopy L inp = new_copy KairosFleetMachineTemplate_E zero_KairosFleetMachineTemplate (KairosFleetMachineTemplate_DeepCopyInto L) inp"

definition KairosFleetClusterList_DeepCopy :: "copy_lib \<Rightarrow> ptr option \<Rightarrow> (cell, ptr option) cmd" where
  "KairosFleetClusterList_DeepCopy L inp = new_copy KairosFleetClusterList_E zero_List (KairosFleetClusterList_DeepCopyInto L) inp"

definition KairosFleetMachineList_DeepCopy :: "copy_lib \<Rightarrow> ptr option \<Rightarrow> (cell, ptr option) cmd" where
  "KairosFleetMachineList_DeepCopy L inp = new_copy KairosFleetMachineList_E zero_List (KairosFleetMachineList_DeepCopyInto L) inp"

definition KairosFleetClusterTemplateList_DeepCopy :: "copy_lib \<Rightarrow> ptr option \<Rightarrow> (cell, ptr option) cmd" where
  "KairosFleetClusterTemplateList_DeepCopy L inp = new_copy KairosFleetClusterTemplateList_E zero_List (KairosFleetClusterTemplateList_DeepCopyInto L) inp"

definition KairosFleetMachineTemplateList_DeepCopy :: "copy_lib \<Rightarrow> ptr option \<Rightarrow> (cell, ptr option) cmd" where
  "KairosFleetMachineTemplateList_DeepCopy L inp = new_copy KairosFleetMachineTemplateList_E zero_List (KairosFleetMachineTemplateList_DeepCopyInto L) inp"

subsection \<open>DeepCopyObject\<close>

text \<open>A \<open>runtime.Object\<close> is nil or a pointer with its type.\<close>

datatype runtime_Object =
    ClusterObject ptr
  | MachineObject ptr
  | ClusterTemplateObject ptr
  | MachineTemplateObject ptr
  | ClusterListObject ptr
  | MachineListObject ptr
  | ClusterTemplateListObject ptr
  | MachineTemplateListObject ptr

definition KairosFleetCluster_DeepCopyObject :: "copy_lib \<Rightarrow> ptr option \<Rightarrow> (cell, runtime_Object option) cmd" where
  "KairosFleetCluster_DeepCopyObject L inp = bnd (KairosFleetCluster_DeepCopy L inp)
     (\<lambda>c. case c of Some c \<Rightarrow> ret (Some (ClusterObject c)) | None \<Rightarrow> ret None)"

definition KairosFleetMachine_DeepCopyObject :: "copy_lib \<Rightarrow> ptr option \<Rightarrow> (cell, runtime_Object option) cmd" where
  "KairosFleetMachine_DeepCopyObject L inp = bnd (KairosFleetMachine_DeepCopy L inp)
     (\<lambda>c. case c of Some c \<Rightarrow> ret (Some (MachineObject c)) | None \<Rightarrow> ret None)"

definition KairosFleetClusterTemplate_DeepCopyObject :: "copy_lib \<Rightarrow> ptr option \<Rightarrow> (cell, runtime_Object option) cmd" where
  "KairosFleetClusterTemplate_DeepCopyObject L inp = bnd (KairosFleetClusterTemplate_DeepCopy L inp)
     (\<lambda>c. case c of Some c \<Rightarrow> ret (Some (ClusterTemplateObject c)) | None \<Rightarrow> ret None)"

definition KairosFleetMachineTemplate_DeepCopyObject :: "copy_lib \<Rightarrow> ptr option \<Rightarrow> (cell, runtime_Object option) cmd" where
  "KairosFleetMachineTemplate_DeepCopyObject L inp = bnd (KairosFleetMachineTemplate_DeepCopy L inp)
     (\<lambda>c. case c of Some c \<Rightarrow> ret (Some (MachineTemplateObject c)) | None \<Rightarrow> ret None)"

definition KairosFleetClusterList_DeepCopyObject :: "copy_lib \<Rightarrow> ptr option \<Rightarrow> (cell, runtime_Object option) cmd" where
  "KairosFleetClusterList_DeepCopyObject L inp = bnd (KairosFleetClusterList_DeepCopy L inp)
     (\<lambda>c. case c of Some c \<Rightarrow> ret (Some (ClusterListObject c)) | None \<Rightarrow> ret None)"

definition KairosFleetMachineList_DeepCopyObject :: "copy_lib \<Rightarrow> ptr option \<Rightarrow> (cell, runtime_Object option) cmd" where
  "KairosFleetMachineList_DeepCopyObject L inp = bnd (KairosFleetMachineList_DeepCopy L inp)
     (\<lambda>c. case c of Some c \<Rightarrow> ret (Some (MachineListObject c)) | None \<Rightarrow> ret None)"

definition KairosFleetClusterTemplateList_DeepCopyObject :: "copy_lib \<Rightarrow> ptr option \<Rightarrow> (cell, runtime_Object option) cmd" where
  "KairosFleetClusterTemplateList_DeepCopyObject L inp = bnd (KairosFleetClusterTemplateList_DeepCopy L inp)
     (\<lambda>c. case c of Some c \<Rightarrow> ret (Some (ClusterTemplateListObject c)) | None \<Rightarrow> ret None)"

definition KairosFleetMachineTemplateList_DeepCopyObject :: "copy_lib \<Rightarrow> ptr option \<Rightarrow> (cell, runtime_Object option) cmd" where
  "KairosFleetMachineTemplateList_DeepCopyObject L inp = bnd (KairosFleetMachineTemplateList_DeepCopy L inp)
     (\<lambda>c. case c of Some c \<Rightarrow> ret (Some (MachineTemplateListObject c)) | None \<Rightarrow> ret None)"

subsection \<open>Every copy is deep\<close>

lemma fc_spec_copier: "deep_copier fc_spec_view fc_spec_refs KairosFleetClusterSpec_DeepCopyInto"
  by (rule struct_copier [where put = "\<lambda>a x. x\<lparr>gcs_ControlPlaneEndpoint := a, gcs_AuroraBoot := gcs_AuroraBoot x\<rparr>",
      OF ptr_copier [where E = endpointE and zero = "\<lparr>ep_Host = '''', ep_Port = 0\<rparr>"]
        fc_spec_view_def fc_spec_refs_def])
    (auto simp: KairosFleetClusterSpec_DeepCopyInto_def pair_copy_def Let_def)

lemma fc_init_copier: "deep_copier fc_init_view fc_init_refs KairosFleetClusterInitializationStatus_DeepCopyInto"
  by (rule struct_copier [where put = "\<lambda>a x. x\<lparr>gci_Provisioned := a\<rparr>",
      OF ptr_copier [where E = boolE and zero = False]
        fc_init_view_def fc_init_refs_def])
    (auto simp: KairosFleetClusterInitializationStatus_DeepCopyInto_def pair_copy_def Let_def)

lemma fm_spec_copier: "deep_copier fm_spec_view fm_spec_refs KairosFleetMachineSpec_DeepCopyInto"
  by (rule struct_copier [where put = "\<lambda>a x. x\<lparr>gms_ProviderID := a\<rparr>",
      OF ptr_copier [where E = stringE and zero = "[]"]
        fm_spec_view_def fm_spec_refs_def])
    (auto simp: KairosFleetMachineSpec_DeepCopyInto_def pair_copy_def Let_def)

lemma fm_init_copier: "deep_copier fm_init_view fm_init_refs KairosFleetMachineInitializationStatus_DeepCopyInto"
  by (rule struct_copier [where put = "\<lambda>a x. x\<lparr>gmi_Provisioned := a\<rparr>",
      OF ptr_copier [where E = boolE and zero = False]
        fm_init_view_def fm_init_refs_def])
    (auto simp: KairosFleetMachineInitializationStatus_DeepCopyInto_def pair_copy_def Let_def)

lemma plain_copies:
  "AuroraBootConnection_DeepCopyInto = ret" "LocalSecretReference_DeepCopyInto = ret"
proof -
  have "AuroraBootConnection_DeepCopyInto x = ret x" for x
    by (cases x) (simp add: AuroraBootConnection_DeepCopyInto_def)
  then show "AuroraBootConnection_DeepCopyInto = ret" by auto
  show "LocalSecretReference_DeepCopyInto = ret" by (auto simp: LocalSecretReference_DeepCopyInto_def)
qed

context copying
begin

lemma fc_status_copier: "deep_copier fc_status_view fc_status_refs (KairosFleetClusterStatus_DeepCopyInto L)"
  by (rule struct_copier [where put = "\<lambda>(a, b, c, d) x. x\<lparr>gct_Initialization := a, gct_Conditions := b, gct_FailureReason := c, gct_FailureMessage := d\<rparr>",
      OF pair_copier [OF fc_init_copier pair_copier [OF slice_copier [OF condition, where E = conditionE and zero = zero_Condition] pair_copier [OF ptr_copier [where E = stringE and zero = "[]"] ptr_copier [where E = stringE and zero = "[]"]]]]
        fc_status_view_def fc_status_refs_def])
    (auto simp: KairosFleetClusterStatus_DeepCopyInto_def pair_copy_def Let_def)

lemma fm_status_copier: "deep_copier fm_status_view fm_status_refs (KairosFleetMachineStatus_DeepCopyInto L)"
  by (rule struct_copier [where put = "\<lambda>(a, b, c, d, e) x. x\<lparr>gmt_Initialization := a, gmt_Addresses := b, gmt_Conditions := c, gmt_FailureReason := d, gmt_FailureMessage := e\<rparr>",
      OF pair_copier [OF fm_init_copier pair_copier [OF slice_copier [OF value_copier, where E = addressE and zero = "\<lparr>ma_Type = '''', ma_Address = ''''\<rparr>"] pair_copier [OF slice_copier [OF condition, where E = conditionE and zero = zero_Condition] pair_copier [OF ptr_copier [where E = stringE and zero = "[]"] ptr_copier [where E = stringE and zero = "[]"]]]]]
        fm_status_view_def fm_status_refs_def])
    (auto simp: KairosFleetMachineStatus_DeepCopyInto_def pair_copy_def Let_def)

lemma fc_copier: "deep_copier fc_view fc_refs (KairosFleetCluster_DeepCopyInto L)"
  by (rule struct_copier [where put = "\<lambda>(a, b, c) x. x\<lparr>gfc_TypeMeta := gfc_TypeMeta x, gfc_ObjectMeta := a, gfc_Spec := b, gfc_Status := c\<rparr>",
      OF pair_copier [OF object_meta pair_copier [OF fc_spec_copier fc_status_copier]]
        fc_view_def fc_refs_def])
    (auto simp: KairosFleetCluster_DeepCopyInto_def pair_copy_def Let_def)

lemma fc_tmpl_resource_copier: "deep_copier fc_tmpl_resource_view fc_tmpl_resource_refs (KairosFleetClusterTemplateResource_DeepCopyInto L)"
  by (rule struct_copier [where put = "\<lambda>(a, b) x. x\<lparr>gctr_ObjectMeta := a, gctr_Spec := b\<rparr>",
      OF pair_copier [OF template_meta fc_spec_copier]
        fc_tmpl_resource_view_def fc_tmpl_resource_refs_def])
    (auto simp: KairosFleetClusterTemplateResource_DeepCopyInto_def pair_copy_def Let_def)

lemma fc_tmpl_spec_copier: "deep_copier fc_tmpl_spec_view fc_tmpl_spec_refs (KairosFleetClusterTemplateSpec_DeepCopyInto L)"
  by (rule struct_copier [where put = "\<lambda>a x. x\<lparr>gcts_Template := a\<rparr>",
      OF fc_tmpl_resource_copier
        fc_tmpl_spec_view_def fc_tmpl_spec_refs_def])
    (auto simp: KairosFleetClusterTemplateSpec_DeepCopyInto_def pair_copy_def Let_def)

lemma fc_tmpl_copier: "deep_copier fc_tmpl_view fc_tmpl_refs (KairosFleetClusterTemplate_DeepCopyInto L)"
  by (rule struct_copier [where put = "\<lambda>(a, b) x. x\<lparr>gctp_TypeMeta := gctp_TypeMeta x, gctp_ObjectMeta := a, gctp_Spec := b\<rparr>",
      OF pair_copier [OF object_meta fc_tmpl_spec_copier]
        fc_tmpl_view_def fc_tmpl_refs_def])
    (auto simp: KairosFleetClusterTemplate_DeepCopyInto_def pair_copy_def Let_def)

lemma fm_copier: "deep_copier fm_view fm_refs (KairosFleetMachine_DeepCopyInto L)"
  by (rule struct_copier [where put = "\<lambda>(a, b, c) x. x\<lparr>gfm_TypeMeta := gfm_TypeMeta x, gfm_ObjectMeta := a, gfm_Spec := b, gfm_Status := c\<rparr>",
      OF pair_copier [OF object_meta pair_copier [OF fm_spec_copier fm_status_copier]]
        fm_view_def fm_refs_def])
    (auto simp: KairosFleetMachine_DeepCopyInto_def pair_copy_def Let_def)

lemma fm_tmpl_resource_copier: "deep_copier fm_tmpl_resource_view fm_tmpl_resource_refs (KairosFleetMachineTemplateResource_DeepCopyInto L)"
  by (rule struct_copier [where put = "\<lambda>(a, b) x. x\<lparr>gmtr_ObjectMeta := a, gmtr_Spec := b\<rparr>",
      OF pair_copier [OF template_meta fm_spec_copier]
        fm_tmpl_resource_view_def fm_tmpl_resource_refs_def])
    (auto simp: KairosFleetMachineTemplateResource_DeepCopyInto_def pair_copy_def Let_def)

lemma fm_tmpl_spec_copier: "deep_copier fm_tmpl_spec_view fm_tmpl_spec_refs (KairosFleetMachineTemplateSpec_DeepCopyInto L)"
  by (rule struct_copier [where put = "\<lambda>a x. x\<lparr>gmts_Template := a\<rparr>",
      OF fm_tmpl_resource_copier
        fm_tmpl_spec_view_def fm_tmpl_spec_refs_def])
    (auto simp: KairosFleetMachineTemplateSpec_DeepCopyInto_def pair_copy_def Let_def)

lemma fm_tmpl_copier: "deep_copier fm_tmpl_view fm_tmpl_refs (KairosFleetMachineTemplate_DeepCopyInto L)"
  by (rule struct_copier [where put = "\<lambda>(a, b) x. x\<lparr>gmtp_TypeMeta := gmtp_TypeMeta x, gmtp_ObjectMeta := a, gmtp_Spec := b\<rparr>",
      OF pair_copier [OF object_meta fm_tmpl_spec_copier]
        fm_tmpl_view_def fm_tmpl_refs_def])
    (auto simp: KairosFleetMachineTemplate_DeepCopyInto_def pair_copy_def Let_def)

lemma fc_list_copier: "deep_copier (list_view KairosFleetCluster_E fc_view) (list_refs KairosFleetCluster_E fc_refs) (KairosFleetClusterList_DeepCopyInto L)"
  by (rule struct_copier [where put = "\<lambda>(a, b) x. x\<lparr>gl_TypeMeta := gl_TypeMeta x, gl_ListMeta := a, gl_Items := b\<rparr>",
      OF pair_copier [OF list_meta slice_copier [OF fc_copier, where E = KairosFleetCluster_E and zero = zero_KairosFleetCluster]]
        list_view_def list_refs_def])
    (auto simp: KairosFleetClusterList_DeepCopyInto_def pair_copy_def Let_def)

lemma fm_list_copier: "deep_copier (list_view KairosFleetMachine_E fm_view) (list_refs KairosFleetMachine_E fm_refs) (KairosFleetMachineList_DeepCopyInto L)"
  by (rule struct_copier [where put = "\<lambda>(a, b) x. x\<lparr>gl_TypeMeta := gl_TypeMeta x, gl_ListMeta := a, gl_Items := b\<rparr>",
      OF pair_copier [OF list_meta slice_copier [OF fm_copier, where E = KairosFleetMachine_E and zero = zero_KairosFleetMachine]]
        list_view_def list_refs_def])
    (auto simp: KairosFleetMachineList_DeepCopyInto_def pair_copy_def Let_def)

lemma fc_tmpl_list_copier: "deep_copier (list_view KairosFleetClusterTemplate_E fc_tmpl_view) (list_refs KairosFleetClusterTemplate_E fc_tmpl_refs) (KairosFleetClusterTemplateList_DeepCopyInto L)"
  by (rule struct_copier [where put = "\<lambda>(a, b) x. x\<lparr>gl_TypeMeta := gl_TypeMeta x, gl_ListMeta := a, gl_Items := b\<rparr>",
      OF pair_copier [OF list_meta slice_copier [OF fc_tmpl_copier, where E = KairosFleetClusterTemplate_E and zero = zero_KairosFleetClusterTemplate]]
        list_view_def list_refs_def])
    (auto simp: KairosFleetClusterTemplateList_DeepCopyInto_def pair_copy_def Let_def)

lemma fm_tmpl_list_copier: "deep_copier (list_view KairosFleetMachineTemplate_E fm_tmpl_view) (list_refs KairosFleetMachineTemplate_E fm_tmpl_refs) (KairosFleetMachineTemplateList_DeepCopyInto L)"
  by (rule struct_copier [where put = "\<lambda>(a, b) x. x\<lparr>gl_TypeMeta := gl_TypeMeta x, gl_ListMeta := a, gl_Items := b\<rparr>",
      OF pair_copier [OF list_meta slice_copier [OF fm_tmpl_copier, where E = KairosFleetMachineTemplate_E and zero = zero_KairosFleetMachineTemplate]]
        list_view_def list_refs_def])
    (auto simp: KairosFleetMachineTemplateList_DeepCopyInto_def pair_copy_def Let_def)

end

lemmas object_copy_defs =
  KairosFleetCluster_DeepCopyObject_def KairosFleetCluster_DeepCopy_def
  KairosFleetMachine_DeepCopyObject_def KairosFleetMachine_DeepCopy_def
  KairosFleetClusterTemplate_DeepCopyObject_def KairosFleetClusterTemplate_DeepCopy_def
  KairosFleetMachineTemplate_DeepCopyObject_def KairosFleetMachineTemplate_DeepCopy_def
  KairosFleetClusterList_DeepCopyObject_def KairosFleetClusterList_DeepCopy_def
  KairosFleetMachineList_DeepCopyObject_def KairosFleetMachineList_DeepCopy_def
  KairosFleetClusterTemplateList_DeepCopyObject_def KairosFleetClusterTemplateList_DeepCopy_def
  KairosFleetMachineTemplateList_DeepCopyObject_def KairosFleetMachineTemplateList_DeepCopy_def

end
