(* ===== verification/DeepCopyProofs.thy ===== *)
theory DeepCopyProofs
  imports DeepCopy
begin

text \<open>
  What the generated deep copies achieve: each returns an object of the same value that shares no
  variable with the original, and so the edits that the controllers make in place agree with the
  value semantics of their model.
\<close>

subsection \<open>Separate copies\<close>

text \<open>\<open>q\<close> points to a separate copy of what \<open>p\<close> points to, in a heap that has grown by the copy:
  both stand for the same value, they have no variable in common, and any change to the variables
  of one leaves the other as it is.\<close>

definition separate ::
  "('c heap \<Rightarrow> ptr \<Rightarrow> 'v option) \<Rightarrow> ('c heap \<Rightarrow> ptr \<Rightarrow> addr set) \<Rightarrow> ptr \<Rightarrow> ptr \<Rightarrow> 'v \<Rightarrow> 'c heap \<Rightarrow> bool" where
  "separate view refs p q v h \<longleftrightarrow> view h p = Some v \<and> view h q = Some v \<and> refs h p \<inter> refs h q = {}
     \<and> (\<forall>h'. agree h h' (- refs h q) \<longrightarrow> view h' p = Some v) \<and> (\<forall>h'. agree h h' (- refs h p) \<longrightarrow> view h' q = Some v)"

text \<open>What is asked of a type's \<open>DeepCopyObject\<close>: nil for nil, and otherwise an object of the same
  type that is separate, in a heap where all there was is as it was.\<close>

definition copies_object ::
  "(cell, 'x) embedding \<Rightarrow> (cell heap \<Rightarrow> 'x \<Rightarrow> 'v option) \<Rightarrow> (cell heap \<Rightarrow> 'x \<Rightarrow> addr set)
     \<Rightarrow> (ptr \<Rightarrow> runtime_Object) \<Rightarrow> (ptr option \<Rightarrow> (cell, runtime_Object option) cmd) \<Rightarrow> bool" where
  "copies_object E view refs obj dco \<longleftrightarrow> (\<forall>h. dco None h = Some (None, h)) \<and>
     (\<forall>h p v. at_view E view h p = Some v \<longrightarrow>
        (\<exists>q t. dco (Some p) h = Some (Some (obj q), h @ t)
           \<and> separate (at_view E view) (at_refs E refs) p q v (h @ t)))"

lemma deref_copy_separate:
  assumes "deep_copier view refs into" "good_embedding E" "at_view E view h p = Some v"
  obtains q t where "new_copy E zero into (Some p) h = Some (Some q, h @ t)"
    "separate (at_view E view) (at_refs E refs) p q v (h @ t)"
proof (rule deep_copier.copy_is_separate [OF new_copier [OF assms(1,2)] assms(3), of zero])
  fix q t
  assume 1: "deref_copy E zero into p h = Some (q, h @ t)"
    and 2: "at_view E view (h @ t) q = Some v" "at_view E view (h @ t) p = Some v"
      "at_refs E refs (h @ t) p \<inter> at_refs E refs (h @ t) q = {}"
      "\<And>h'. agree (h @ t) h' (- at_refs E refs (h @ t) q) \<Longrightarrow> at_view E view h' p = Some v"
      "\<And>h'. agree (h @ t) h' (- at_refs E refs (h @ t) p) \<Longrightarrow> at_view E view h' q = Some v"
  from 1 have "new_copy E zero into (Some p) h = Some (Some q, h @ t)"
    by (auto simp: deref_copy_def bnd_def split: option.splits)
  with 2 show thesis using that by (auto simp: separate_def)
qed

lemma copies_object:
  assumes "deep_copier view refs into" "good_embedding E"
    and "\<And>inp. dco inp = bnd (new_copy E zero into inp) (\<lambda>c. case c of Some c \<Rightarrow> ret (Some (obj c)) | None \<Rightarrow> ret None)"
  shows "copies_object E view refs obj dco"
  unfolding copies_object_def
proof (intro conjI allI impI)
  show "dco None h = Some (None, h)" for h by (simp add: assms(3) new_copy_def ret_def)
next
  fix h p v assume v: "at_view E view h p = Some v"
  obtain q t where "new_copy E zero into (Some p) h = Some (Some q, h @ t)"
    "separate (at_view E view) (at_refs E refs) p q v (h @ t)"
    by (rule deref_copy_separate [OF assms(1,2) v])
  moreover from this have "dco (Some p) h = Some (Some (obj q), h @ t)" by (simp add: assms(3) bnd_def ret_def)
  ultimately show "\<exists>q t. dco (Some p) h = Some (Some (obj q), h @ t)
      \<and> separate (at_view E view) (at_refs E refs) p q v (h @ t)" by blast
qed

text \<open>C34: for each of the eight kinds of API object, \<open>DeepCopyObject\<close> answers nil for nil, and for
  an object a new one of the same kind and value that shares no variable with it, so that neither
  sees a change to the other. It never faults.\<close>

theorem every_object_is_copied_deeply:
  assumes "copying L"
  shows "copies_object KairosFleetCluster_E fc_view fc_refs ClusterObject (KairosFleetCluster_DeepCopyObject L)
    \<and> copies_object KairosFleetMachine_E fm_view fm_refs MachineObject (KairosFleetMachine_DeepCopyObject L)
    \<and> copies_object KairosFleetClusterTemplate_E fc_tmpl_view fc_tmpl_refs ClusterTemplateObject
        (KairosFleetClusterTemplate_DeepCopyObject L)
    \<and> copies_object KairosFleetMachineTemplate_E fm_tmpl_view fm_tmpl_refs MachineTemplateObject
        (KairosFleetMachineTemplate_DeepCopyObject L)
    \<and> copies_object KairosFleetClusterList_E (list_view KairosFleetCluster_E fc_view)
        (list_refs KairosFleetCluster_E fc_refs) ClusterListObject (KairosFleetClusterList_DeepCopyObject L)
    \<and> copies_object KairosFleetMachineList_E (list_view KairosFleetMachine_E fm_view)
        (list_refs KairosFleetMachine_E fm_refs) MachineListObject (KairosFleetMachineList_DeepCopyObject L)
    \<and> copies_object KairosFleetClusterTemplateList_E (list_view KairosFleetClusterTemplate_E fc_tmpl_view)
        (list_refs KairosFleetClusterTemplate_E fc_tmpl_refs) ClusterTemplateListObject
        (KairosFleetClusterTemplateList_DeepCopyObject L)
    \<and> copies_object KairosFleetMachineTemplateList_E (list_view KairosFleetMachineTemplate_E fm_tmpl_view)
        (list_refs KairosFleetMachineTemplate_E fm_tmpl_refs) MachineTemplateListObject
        (KairosFleetMachineTemplateList_DeepCopyObject L)"
  by (intro conjI;
      rule copies_object [OF copying.fc_copier [OF assms]] copies_object [OF copying.fm_copier [OF assms]]
        copies_object [OF copying.fc_tmpl_copier [OF assms]] copies_object [OF copying.fm_tmpl_copier [OF assms]]
        copies_object [OF copying.fc_list_copier [OF assms]] copies_object [OF copying.fm_list_copier [OF assms]]
        copies_object [OF copying.fc_tmpl_list_copier [OF assms]] copies_object [OF copying.fm_tmpl_list_copier [OF assms]];
      simp add: object_copy_defs)

subsection \<open>Edits in place\<close>

text \<open>\<open>delete(fleetMachine.Annotations, k)\<close> in the machine controller edits the map that the object
  refers to; deleting from a nil map does nothing.\<close>

definition delete_annotation :: "string \<Rightarrow> ptr \<Rightarrow> (cell, unit) cmd" where
  "delete_annotation k p = bnd (fetch KairosFleetMachine_E p) (\<lambda>m.
     case gom_Annotations (gfm_ObjectMeta m) of None \<Rightarrow> ret ()
     | Some a \<Rightarrow> bnd (fetch mapE a) (\<lambda>as. store mapE a (map_delete as k)))"

text \<open>The object without its annotations; nothing else of it refers to the annotations' map.\<close>

definition unannotated :: "gKairosFleetMachine \<Rightarrow> gKairosFleetMachine" where
  "unannotated m = m\<lparr>gfm_ObjectMeta := (gfm_ObjectMeta m)\<lparr>gom_Annotations := None\<rparr>\<rparr>"

definition owns_annotations :: "cell heap \<Rightarrow> gKairosFleetMachine \<Rightarrow> bool" where
  "owns_annotations h m \<longleftrightarrow> (case gom_Annotations (gfm_ObjectMeta m) of None \<Rightarrow> True
     | Some a \<Rightarrow> fst a \<notin> fm_refs h (unannotated m))"

lemma fm_view_annotations:
  "fm_view h m = Some (ty, fm) \<longleftrightarrow>
     (\<exists>as. ptr_view mapE h (gom_Annotations (gfm_ObjectMeta m)) = Some as \<and> fm_Annotations fm = map_of_ref as
        \<and> fm_view h (unannotated m) = Some (ty, fm\<lparr>fm_Meta := (fm_Meta fm)\<lparr>om_Annotations := Map.empty\<rparr>\<rparr>))"
  by (cases fm; cases "fm_Meta fm")
    (auto simp: fm_view_def object_meta_view_def meta_parts_def unannotated_def pair_view_Some ptr_view_def
      map_of_ref_def)

lemma fm_refs_annotations:
  "fm_refs h m = ptr_refs h (gom_Annotations (gfm_ObjectMeta m)) \<union> fm_refs h (unannotated m)"
  by (auto simp: fm_refs_def object_meta_refs_def meta_parts_def unannotated_def pair_refs_def ptr_refs_def)

lemma map_not_machine:
  assumes "load KairosFleetMachine_E p h = Some m" "load mapE a h = Some as"
  shows "fst p \<noteq> fst a"
  using assms by (auto simp: load_def array_at_def embedding_defs split: option.splits if_splits cell.splits)

lemma delete_annotation_refines:
  assumes "footprint fm_view fm_refs" "load KairosFleetMachine_E p h = Some m" "fm_view h m = Some (ty, fm)"
    and "owns_annotations h m"
  obtains h' where "delete_annotation k p h = Some ((), h')"
    "at_view KairosFleetMachine_E fm_view h' p = Some (ty, del_ann k fm)"
    "agree h h' (- at_refs KairosFleetMachine_E fm_refs h p)"
proof (cases "gom_Annotations (gfm_ObjectMeta m)")
  case None
  then have "fm_Annotations fm = Map.empty"
    using assms(3) fm_view_annotations [of h m ty fm] by (auto simp: ptr_view_def map_of_ref_def)
  then have "del_ann k fm = fm" by (simp add: del_ann_def map_delete_def)
  then show ?thesis using that [of h] None assms(2,3)
    by (simp add: delete_annotation_def bnd_def fetch_def ret_def at_view_def agree_def)
next
  case (Some a)
  then obtain as where as: "ptr_view mapE h (Some a) = Some (Some as)" "load mapE a h = Some as" "fm_Annotations fm = as"
    and bare: "fm_view h (unannotated m) = Some (ty, fm\<lparr>fm_Meta := (fm_Meta fm)\<lparr>om_Annotations := Map.empty\<rparr>\<rparr>)"
    using assms(3) fm_view_annotations [of h m ty fm] by (auto simp: ptr_view_def map_of_ref_def)
  then obtain ms where ms: "array_at mapE h (fst a) = Some ms" "snd a < length ms"
    by (auto simp: load_def split: option.splits if_splits)
  let ?h = "h[fst a := e_put mapE (ms[snd a := map_delete as k])]"
  have in_heap: "fst a < length h" using ms(1) array_at_within by blast
  have del: "delete_annotation k p h = Some ((), ?h)"
    using assms(2) Some as(2) ms by (simp add: delete_annotation_def bnd_def fetch_def store_def)
  have other: "agree h ?h A" if "fst a \<notin> A" for A using that by (auto simp: agree_def intro!: nth_list_update_neq)
  have p: "load KairosFleetMachine_E p ?h = Some m"
    using load_agree [OF assms(2) other] map_not_machine [OF assms(2) as(2)] by simp
  have "fst a \<notin> fm_refs h (unannotated m)" using assms(4) Some by (simp add: owns_annotations_def)
  from footprint.local [OF assms(1) bare other [OF this]]
  have "fm_view ?h (unannotated m) = Some (ty, fm\<lparr>fm_Meta := (fm_Meta fm)\<lparr>om_Annotations := Map.empty\<rparr>\<rparr>)" by simp
  moreover have "ptr_view mapE ?h (Some a) = Some (Some (map_delete as k))"
    using in_heap ms(2) by (simp add: ptr_view_def load_def array_at_def embedding_defs)
  ultimately have "fm_view ?h m = Some (ty, del_ann k fm)"
    using Some as(3) fm_view_annotations [of ?h m ty "del_ann k fm"] by (simp add: del_ann_def map_of_ref_def)
  then have "at_view KairosFleetMachine_E fm_view ?h p = Some (ty, del_ann k fm)" using p by (simp add: at_view_def)
  moreover have "fst a \<in> at_refs KairosFleetMachine_E fm_refs h p"
    using assms(2) Some fm_refs_annotations [of h m] by (simp add: at_refs_def ptr_refs_def)
  ultimately show ?thesis using that [OF del] other [of "- at_refs KairosFleetMachine_E fm_refs h p"] by blast
qed

text \<open>C35: the controller's edits of an object's annotations are those of the model, and stay in the
  object: what the patch helper copied before them still reads as it did, so that the patch
  compares the object before the pass with the object after it.\<close>

theorem annotation_edits_stay_in_the_object:
  assumes "copying L" "load KairosFleetMachine_E p h = Some m" "fm_view h m = Some (ty, fm)" "owns_annotations h m"
  shows "\<exists>q h1 h2. KairosFleetMachine_DeepCopy L (Some p) h = Some (Some q, h1)
    \<and> delete_annotation k p h1 = Some ((), h2)
    \<and> at_view KairosFleetMachine_E fm_view h2 p = Some (ty, del_ann k fm)
    \<and> at_view KairosFleetMachine_E fm_view h2 q = Some (ty, fm)"
proof -
  note dc = copying.fm_copier [OF assms(1)]
  note f = dc [unfolded deep_copier_def, THEN conjunct1]
  obtain q t where q: "KairosFleetMachine_DeepCopy L (Some p) h = Some (Some q, h @ t)"
    "separate (at_view KairosFleetMachine_E fm_view) (at_refs KairosFleetMachine_E fm_refs) p q (ty, fm) (h @ t)"
    using deref_copy_separate [OF dc, of KairosFleetMachine_E h p "(ty, fm)" zero_KairosFleetMachine] assms(2,3)
    by (auto simp: at_view_def KairosFleetMachine_DeepCopy_def)
  have m: "load KairosFleetMachine_E p (h @ t) = Some m" "fm_view (h @ t) m = Some (ty, fm)"
    using load_agree [OF assms(2)] load_within [OF assms(2)] agree_append [of "{fst p}" h t]
      footprint.extends [OF f assms(3)] by auto
  have "fm_refs (h @ t) (unannotated m) = fm_refs h (unannotated m)"
    using footprint.extends [OF f] assms(3) fm_view_annotations [of h m ty fm] by blast
  then have own: "owns_annotations (h @ t) m" using assms(4) by (auto simp: owns_annotations_def split: option.splits)
  show ?thesis
    by (rule delete_annotation_refines [OF f m own, of k]) (use q in \<open>auto simp: separate_def\<close>)
qed


subsection \<open>A machine in memory\<close>

text \<open>A machine with two annotations, two finalizers in a longer array, a provider ID, an address and
  a condition.\<close>

definition demo_gmachine :: gKairosFleetMachine where
  "demo_gmachine = zero_KairosFleetMachine\<lparr>
     gfm_ObjectMeta := zero_ObjectMeta\<lparr>gom_Name := ''kfm'', gom_Annotations := Some (0, 0),
       gom_Finalizers := Some \<lparr>sl_addr = 1, sl_off = 0, sl_len = 2, sl_cap = 3\<rparr>\<rparr>,
     gfm_Spec := \<lparr>gms_Group = ''workers'', gms_ProviderID = Some (2, 0)\<rparr>,
     gfm_Status := zero_KairosFleetMachineStatus\<lparr>
       gmt_Initialization := \<lparr>gmi_Provisioned = Some (5, 0)\<rparr>,
       gmt_Addresses := Some \<lparr>sl_addr = 3, sl_off = 0, sl_len = 1, sl_cap = 1\<rparr>,
       gmt_Conditions := Some \<lparr>sl_addr = 4, sl_off = 0, sl_len = 1, sl_cap = 1\<rparr>\<rparr>\<rparr>"

definition demo_annotations :: strmap where
  "demo_annotations = [''a'' \<mapsto> ''1'', ''b'' \<mapsto> ''2'']"

definition demo_condition :: Condition where
  "demo_condition = new_condition ''Ready'' ConditionTrue 1 ''Provisioned'' ''''"

definition demo_heap :: "cell heap" where
  "demo_heap = [Maps [demo_annotations], Strings [''f'', ''g'', ''spare''], Strings [''kairos-fleet://node-1''],
     AddressArrays [\<lparr>ma_Type = ''Hostname'', ma_Address = ''worker-1''\<rparr>], ConditionArrays [demo_condition],
     Bools [True], KairosFleetMachineVars [demo_gmachine]]"

definition demo_value :: KairosFleetMachine where
  "demo_value = \<lparr>
     fm_Meta = \<lparr>om_Namespace = '''', om_Name = ''kfm'', om_UID = '''', om_Generation = 0,
       om_Annotations = demo_annotations, om_Labels = Map.empty, om_Finalizers = [''f'', ''g''],
       om_OwnerReferences = [], om_DeletionTimestamp = None\<rparr>,
     fm_Spec = \<lparr>fms_Group = ''workers'', fms_ProviderID = Some ''kairos-fleet://node-1''\<rparr>,
     fm_Status = \<lparr>fmt_Initialization = \<lparr>fmi_Provisioned = Some True\<rparr>,
       fmt_Addresses = [\<lparr>ma_Type = ''Hostname'', ma_Address = ''worker-1''\<rparr>], fmt_Conditions = [demo_condition],
       fmt_FailureReason = None, fmt_FailureMessage = None\<rparr>\<rparr>"

lemmas demo_memory_defs = demo_gmachine_def demo_heap_def embedding_defs load_def array_at_def elems_def
  zero_KairosFleetMachine_def zero_ObjectMeta_def zero_KairosFleetMachineStatus_def zero_TypeMeta_def

lemma demo_machine_in_memory:
  "load KairosFleetMachine_E (6, 0) demo_heap = Some demo_gmachine"
  "fm_view demo_heap demo_gmachine = Some (zero_TypeMeta, demo_value)"
  "owns_annotations demo_heap demo_gmachine"
  by (simp add: demo_memory_defs)
    (simp_all add: demo_memory_defs demo_value_def fm_view_def object_meta_view_def meta_parts_def pair_view_def ptr_view_def
      slice_view_def fm_spec_view_def fm_status_view_def fm_init_view_def map_of_ref_def go_list_def
      owns_annotations_def unannotated_def fm_refs_def object_meta_refs_def pair_refs_def ptr_refs_def slice_refs_def
      fm_spec_refs_def fm_status_refs_def fm_init_refs_def)

theorem every_object_is_copied_deeply_witness:
  "\<exists>q t. KairosFleetMachine_DeepCopyObject ref_copy_lib (Some (6, 0)) demo_heap = Some (Some (MachineObject q), demo_heap @ t)
     \<and> at_view KairosFleetMachine_E fm_view (demo_heap @ t) q = Some (zero_TypeMeta, demo_value)"
proof -
  have "at_view KairosFleetMachine_E fm_view demo_heap (6, 0) = Some (zero_TypeMeta, demo_value)"
    using demo_machine_in_memory(1,2) by (simp add: at_view_def)
  moreover have "copies_object KairosFleetMachine_E fm_view fm_refs MachineObject (KairosFleetMachine_DeepCopyObject ref_copy_lib)"
    using every_object_is_copied_deeply [OF ref_copies.copying_axioms] by (elim conjE)
  ultimately show ?thesis unfolding copies_object_def separate_def by blast
qed

theorem annotation_edits_stay_in_the_object_witness:
  "\<exists>q h1 h2. KairosFleetMachine_DeepCopy ref_copy_lib (Some (6, 0)) demo_heap = Some (Some q, h1)
     \<and> delete_annotation ''a'' (6, 0) h1 = Some ((), h2)
     \<and> map_option (\<lambda>v. ann (snd v) ''a'') (at_view KairosFleetMachine_E fm_view h2 (6, 0)) = Some ''''
     \<and> map_option (\<lambda>v. ann (snd v) ''a'') (at_view KairosFleetMachine_E fm_view h2 q) = Some ''1''"
proof -
  have "ann demo_value ''a'' = ''1''"
    by (simp add: demo_value_def demo_annotations_def ann_def map_read_def)
  with annotation_edits_stay_in_the_object [OF ref_copies.copying_axioms demo_machine_in_memory, of "''a''"]
  show ?thesis by fastforce
qed

end
