(* ===== verification/Manager.thy ===== *)
theory Manager
  imports Connection GoHeap
begin

text \<open>
  The entry point \<open>cmd/main.go\<close>: the scheme, the command-line flags, the TLS options of the two
  servers, and the steps by which the manager is made and started. controller-runtime is behind
  the steps, which a parameter answers with an error or none. The slices of TLS options live in the
  memory of theory GoHeap, because \<open>append\<close> lets them share an array. Logging is left out.
\<close>

subsection \<open>Paths\<close>

text \<open>\<open>filepath.Join\<close> and \<open>filepath.Clean\<close> on Unix.\<close>

fun clean_parts :: "bool \<Rightarrow> string list \<Rightarrow> string list \<Rightarrow> string list" where
  "clean_parts rooted st [] = rev st"
| "clean_parts rooted st (p # ps) =
     (if p = '''' \<or> p = ''.'' then clean_parts rooted st ps
      else if p = ''..'' then
        (case st of [] \<Rightarrow> clean_parts rooted (if rooted then [] else [''..'']) ps
         | q # st' \<Rightarrow> clean_parts rooted (if q = ''..'' then ''..'' # st else st') ps)
      else clean_parts rooted (p # st) ps)"

fun join_path :: "string list \<Rightarrow> string" where
  "join_path [] = ''''"
| "join_path [p] = p"
| "join_path (p # ps) = p @ CHR ''/'' # join_path ps"

definition clean_path :: "string \<Rightarrow> string" where
  "clean_path s =
     (let rooted = (s \<noteq> '''' \<and> hd s = CHR ''/'');
          p = join_path (clean_parts rooted [] (split_path s))
      in if rooted then CHR ''/'' # p else if p = '''' then ''.'' else p)"

definition filepath_Join :: "string \<Rightarrow> string \<Rightarrow> string" where
  "filepath_Join a b = (if a \<noteq> '''' then clean_path (a @ CHR ''/'' # b)
     else if b \<noteq> '''' then clean_path b else '''')"

subsection \<open>Flags\<close>

record flags =
  metricsAddr :: string
  probeAddr :: string
  enableLeaderElection :: bool
  secureMetrics :: bool
  webhookCertPath :: string
  webhookCertName :: string
  webhookCertKey :: string
  metricsCertPath :: string
  metricsCertName :: string
  metricsCertKey :: string
  enableHTTP2 :: bool

definition default_flags :: flags where
  "default_flags = \<lparr>metricsAddr = ''0'', probeAddr = '':8081'', enableLeaderElection = False, secureMetrics = True,
     webhookCertPath = '''', webhookCertName = ''tls.crt'', webhookCertKey = ''tls.key'',
     metricsCertPath = '''', metricsCertName = ''tls.crt'', metricsCertKey = ''tls.key'', enableHTTP2 = False\<rparr>"

text \<open>A flag sets a string or a truth value. The flags that the logging package binds are a
  parameter: whether a flag of that name takes no argument, and whether it accepts a value.\<close>

datatype flag_var = StringVar "string \<Rightarrow> flags \<Rightarrow> flags" | BoolVar "bool \<Rightarrow> flags \<Rightarrow> flags"
  | ForeignVar bool "string \<Rightarrow> bool"

type_synonym zap_flags = "string \<Rightarrow> (bool \<times> (string \<Rightarrow> bool)) option"

definition flag_table :: "(string \<times> flag_var) list" where
  "flag_table =
     [(''metrics-bind-address'', StringVar (\<lambda>v f. f\<lparr>metricsAddr := v\<rparr>)),
      (''health-probe-bind-address'', StringVar (\<lambda>v f. f\<lparr>probeAddr := v\<rparr>)),
      (''leader-elect'', BoolVar (\<lambda>v f. f\<lparr>enableLeaderElection := v\<rparr>)),
      (''metrics-secure'', BoolVar (\<lambda>v f. f\<lparr>secureMetrics := v\<rparr>)),
      (''webhook-cert-path'', StringVar (\<lambda>v f. f\<lparr>webhookCertPath := v\<rparr>)),
      (''webhook-cert-name'', StringVar (\<lambda>v f. f\<lparr>webhookCertName := v\<rparr>)),
      (''webhook-cert-key'', StringVar (\<lambda>v f. f\<lparr>webhookCertKey := v\<rparr>)),
      (''metrics-cert-path'', StringVar (\<lambda>v f. f\<lparr>metricsCertPath := v\<rparr>)),
      (''metrics-cert-name'', StringVar (\<lambda>v f. f\<lparr>metricsCertName := v\<rparr>)),
      (''metrics-cert-key'', StringVar (\<lambda>v f. f\<lparr>metricsCertKey := v\<rparr>)),
      (''enable-http2'', BoolVar (\<lambda>v f. f\<lparr>enableHTTP2 := v\<rparr>))]"

definition lookup_flag :: "zap_flags \<Rightarrow> string \<Rightarrow> flag_var option" where
  "lookup_flag zap name = (case map_of flag_table name of Some v \<Rightarrow> Some v
     | None \<Rightarrow> map_option (\<lambda>(b, ok). ForeignVar b ok) (zap name))"

text \<open>\<open>strconv.ParseBool\<close>.\<close>

definition parse_bool :: "string \<Rightarrow> bool option" where
  "parse_bool s =
     (if s \<in> set [''1'', ''t'', ''T'', ''true'', ''TRUE'', ''True''] then Some True
      else if s \<in> set [''0'', ''f'', ''F'', ''false'', ''FALSE'', ''False''] then Some False else None)"

text \<open>\<open>flag.Parse\<close> on a flag set that exits on an error: \<open>Inl\<close> is the exit code, 0 when help was
  asked for.\<close>

fun is_bool_var :: "flag_var \<Rightarrow> bool" where
  "is_bool_var (StringVar _) = False" | "is_bool_var (BoolVar _) = True" | "is_bool_var (ForeignVar b _) = b"

fun set_var :: "flag_var \<Rightarrow> string \<Rightarrow> flags \<Rightarrow> flags option" where
  "set_var (StringVar upd) v f = Some (upd v f)"
| "set_var (BoolVar upd) v f = map_option (\<lambda>b. upd b f) (parse_bool v)"
| "set_var (ForeignVar _ ok) v f = (if ok v then Some f else None)"

definition split_value :: "string \<Rightarrow> string \<times> string option" where
  "split_value s = (let name = takeWhile (\<lambda>c. c \<noteq> CHR ''='') s; rest = dropWhile (\<lambda>c. c \<noteq> CHR ''='') s
     in (name, if rest = [] then None else Some (tl rest)))"

text \<open>\<open>parseOne\<close>, on the arguments \<open>s # args\<close>: the exit code of an error, \<open>None\<close> at the first
  argument that is no flag, or the flags and the arguments that are left.\<close>

definition parse_one :: "zap_flags \<Rightarrow> string \<Rightarrow> string list \<Rightarrow> flags \<Rightarrow> nat + (flags \<times> string list) option" where
  "parse_one zap s args f =
     (if length s < 2 \<or> hd s \<noteq> CHR ''-'' \<or> s = ''--'' then Inr None
      else let body = (if s ! 1 = CHR ''-'' then drop 2 s else drop 1 s) in
        if body = [] \<or> hd body = CHR ''-'' \<or> hd body = CHR ''='' then Inl 2
        else (case split_value body of (name, value) \<Rightarrow>
          (case lookup_flag zap name of
             None \<Rightarrow> Inl (if name = ''help'' \<or> name = ''h'' then 0 else 2)
           | Some var \<Rightarrow>
               (case (case value of
                   Some v \<Rightarrow> Some (v, args)
                 | None \<Rightarrow> if is_bool_var var then Some (''true'', args)
                     else (case args of [] \<Rightarrow> None | v # args' \<Rightarrow> Some (v, args'))) of
                  None \<Rightarrow> Inl 2
                | Some (v, rest) \<Rightarrow> (case set_var var v f of None \<Rightarrow> Inl 2 | Some f \<Rightarrow> Inr (Some (f, rest)))))))"

lemma parse_one_shorter: "parse_one zap s args f = Inr (Some (f', rest)) \<Longrightarrow> length rest \<le> length args"
  by (auto simp: parse_one_def Let_def split: if_splits prod.splits option.splits list.splits)

function parse_flags :: "zap_flags \<Rightarrow> string list \<Rightarrow> flags \<Rightarrow> nat + flags" where
  "parse_flags zap [] f = Inr f"
| "parse_flags zap (s # args) f = (case parse_one zap s args f of
     Inl code \<Rightarrow> Inl code | Inr None \<Rightarrow> Inr f | Inr (Some (f', rest)) \<Rightarrow> parse_flags zap rest f')"
  by pat_completeness auto
termination
  by (relation "measure (\<lambda>(_, args, _). length args)") (auto dest: parse_one_shorter)

subsection \<open>TLS options\<close>

text \<open>A certificate watcher is known by the files it watches. A TLS option is one of the two
  closures of \<open>main\<close>; the zero value of a function type is nil.\<close>

type_synonym watcher = "string \<times> string"

record tls_config =
  NextProtos :: "string list"
  GetCertificate :: "watcher option"

datatype tls_opt = DisableHTTP2 | ServeCertificate watcher

fun apply_tls_opt :: "tls_opt \<Rightarrow> tls_config \<Rightarrow> tls_config" where
  "apply_tls_opt DisableHTTP2 c = c\<lparr>NextProtos := [''http/1.1'']\<rparr>"
| "apply_tls_opt (ServeCertificate cw) c = c\<lparr>GetCertificate := Some cw\<rparr>"

type_synonym opt_cell = "tls_opt option list"

definition opt_E :: "(opt_cell, tls_opt option) embedding" where
  "opt_E = \<lparr>e_put = (\<lambda>xs. xs), e_get = Some\<rparr>"

definition append_opt :: "(nat \<Rightarrow> nat \<Rightarrow> nat) \<Rightarrow> slice option \<Rightarrow> tls_opt \<Rightarrow> (opt_cell, slice option) cmd" where
  "append_opt grow s x = append_elem opt_E None grow s (Some x)"

text \<open>A server applies its options to a configuration of its own when it starts; calling a nil
  function panics, here \<open>None\<close>.\<close>

definition server_config :: "opt_cell heap \<Rightarrow> slice option \<Rightarrow> tls_config \<Rightarrow> tls_config option" where
  "server_config h s c = (case s of None \<Rightarrow> Some c
     | Some s \<Rightarrow> (case elems opt_E h s of None \<Rightarrow> None
         | Some xs \<Rightarrow> map_option (\<lambda>os. fold apply_tls_opt os c) (those xs)))"

text \<open>The watchers' files.\<close>

definition webhook_watcher :: "flags \<Rightarrow> watcher option" where
  "webhook_watcher f = (if webhookCertPath f = '''' then None
     else Some (filepath_Join (webhookCertPath f) (webhookCertName f), filepath_Join (webhookCertPath f) (webhookCertKey f)))"

definition metrics_watcher :: "flags \<Rightarrow> watcher option" where
  "metrics_watcher f = (if metricsCertPath f = '''' then None
     else Some (filepath_Join (metricsCertPath f) (metricsCertName f), filepath_Join (metricsCertPath f) (metricsCertKey f)))"

text \<open>\<open>tlsOpts\<close>, from which both servers' options are appended, the webhook server's first. The
  result is \<open>webhookTLSOpts\<close> and \<open>metricsServerOptions.TLSOpts\<close>.\<close>

definition base_tls_opts :: "(nat \<Rightarrow> nat \<Rightarrow> nat) \<Rightarrow> flags \<Rightarrow> (opt_cell, slice option) cmd" where
  "base_tls_opts grow f = (if \<not> enableHTTP2 f then append_opt grow None DisableHTTP2 else ret None)"

definition webhook_tls_opts ::
  "(nat \<Rightarrow> nat \<Rightarrow> nat) \<Rightarrow> flags \<Rightarrow> slice option \<Rightarrow> (opt_cell, slice option) cmd" where
  "webhook_tls_opts grow f tlsOpts = (case webhook_watcher f of
     Some cw \<Rightarrow> append_opt grow tlsOpts (ServeCertificate cw) | None \<Rightarrow> ret tlsOpts)"

definition metrics_tls_opts ::
  "(nat \<Rightarrow> nat \<Rightarrow> nat) \<Rightarrow> flags \<Rightarrow> slice option \<Rightarrow> (opt_cell, slice option) cmd" where
  "metrics_tls_opts grow f tlsOpts = (case metrics_watcher f of
     Some cw \<Rightarrow> append_opt grow tlsOpts (ServeCertificate cw) | None \<Rightarrow> ret tlsOpts)"

definition tls_setup :: "(nat \<Rightarrow> nat \<Rightarrow> nat) \<Rightarrow> flags \<Rightarrow> (opt_cell, slice option \<times> slice option) cmd" where
  "tls_setup grow f =
     bnd (base_tls_opts grow f) (\<lambda>tlsOpts.
     bnd (webhook_tls_opts grow f tlsOpts) (\<lambda>webhookTLSOpts.
     bnd (metrics_tls_opts grow f tlsOpts) (\<lambda>metricsTLSOpts.
       ret (webhookTLSOpts, metricsTLSOpts))))"

subsection \<open>The scheme\<close>

text \<open>\<open>GroupVersion\<close>, and the kinds that the \<open>init\<close> functions of \<open>api/v1alpha1\<close> register with the
  scheme builder, file by file.\<close>

type_synonym gvk = "string \<times> string \<times> string"

definition GroupVersion :: "string \<times> string" where
  "GroupVersion = (''infrastructure.cluster.x-k8s.io'', ''v1alpha1'')"

definition WithKind :: "string \<Rightarrow> gvk" where
  "WithKind k = (fst GroupVersion, snd GroupVersion, k)"

definition cluster_kinds :: "string list" where
  "cluster_kinds = [''KairosFleetCluster'', ''KairosFleetClusterList'']"
definition cluster_template_kinds :: "string list" where
  "cluster_template_kinds = [''KairosFleetClusterTemplate'', ''KairosFleetClusterTemplateList'']"
definition machine_kinds :: "string list" where
  "machine_kinds = [''KairosFleetMachine'', ''KairosFleetMachineList'']"
definition machine_template_kinds :: "string list" where
  "machine_template_kinds = [''KairosFleetMachineTemplate'', ''KairosFleetMachineTemplateList'']"

definition SchemeBuilder :: "string list" where
  "SchemeBuilder = cluster_kinds @ cluster_template_kinds @ machine_kinds @ machine_template_kinds"

text \<open>The three groups that \<open>init\<close> adds to the scheme. What the first two hold is theirs.\<close>

datatype api_group = ClientGo | ClusterAPI | Infrastructure

definition group_kinds :: "gvk list \<Rightarrow> gvk list \<Rightarrow> api_group \<Rightarrow> gvk list" where
  "group_kinds clientgo clusterapi g = (case g of ClientGo \<Rightarrow> clientgo | ClusterAPI \<Rightarrow> clusterapi
     | Infrastructure \<Rightarrow> map WithKind SchemeBuilder)"

definition init_groups :: "api_group list" where
  "init_groups = [ClientGo, ClusterAPI, Infrastructure]"

definition scheme :: "gvk list \<Rightarrow> gvk list \<Rightarrow> gvk list" where
  "scheme clientgo clusterapi = concat (map (group_kinds clientgo clusterapi) init_groups)"

subsection \<open>Controllers\<close>

text \<open>What \<open>SetupWithManager\<close> asks of the manager: to reconcile objects of one kind, on their own
  events and on those of another kind, mapped to the object that refers to it.\<close>

datatype map_func = MachineToInfrastructure gvk | ClusterToInfrastructure gvk

record controller_setup =
  cs_For :: gvk
  cs_Watches :: "(gvk \<times> map_func) list"

definition clusterv1 :: "string \<Rightarrow> gvk" where
  "clusterv1 k = (''cluster.x-k8s.io'', ''v1beta2'', k)"

definition cluster_SetupWithManager :: controller_setup where
  "cluster_SetupWithManager = \<lparr>cs_For = WithKind ''KairosFleetCluster'',
     cs_Watches = [(clusterv1 ''Cluster'', ClusterToInfrastructure (WithKind ''KairosFleetCluster''))]\<rparr>"

definition machine_SetupWithManager :: controller_setup where
  "machine_SetupWithManager = \<lparr>cs_For = WithKind ''KairosFleetMachine'',
     cs_Watches = [(clusterv1 ''Machine'', MachineToInfrastructure (WithKind ''KairosFleetMachine''))]\<rparr>"

definition watched_kinds :: "controller_setup \<Rightarrow> gvk list" where
  "watched_kinds s = cs_For s # map fst (cs_Watches s)"

text \<open>The reconcilers as \<open>main\<close> makes them: no client factory, which selects the default one.\<close>

definition main_reconciler :: "'w Kube \<Rightarrow> 'w net \<Rightarrow> 'w Reconciler" where
  "main_reconciler K net = \<lparr>r_Client = K, r_FleetClientFactory = None, r_net = net\<rparr>"

subsection \<open>The steps of main\<close>

record manager_options =
  mo_MetricsBindAddress :: string
  mo_SecureServing :: bool
  mo_MetricsTLSOpts :: "slice option"
  mo_AuthFilter :: bool
  mo_WebhookTLSOpts :: "slice option"
  mo_HealthProbeBindAddress :: string
  mo_LeaderElection :: bool
  mo_LeaderElectionID :: string

definition manager_options_for :: "flags \<Rightarrow> slice option \<times> slice option \<Rightarrow> manager_options" where
  "manager_options_for f tls = \<lparr>mo_MetricsBindAddress = metricsAddr f, mo_SecureServing = secureMetrics f,
     mo_MetricsTLSOpts = snd tls, mo_AuthFilter = secureMetrics f, mo_WebhookTLSOpts = fst tls,
     mo_HealthProbeBindAddress = probeAddr f, mo_LeaderElection = enableLeaderElection f,
     mo_LeaderElectionID = ''ccb63937.cluster.x-k8s.io''\<rparr>"

datatype action = AddToScheme api_group | NewCertWatcher watcher | GetConfig | NewManager manager_options
  | Setup controller_setup | AddWatcher watcher | AddHealthzCheck string | AddReadyzCheck string | StartManager

text \<open>The environment answers an action with an error or none.\<close>

type_synonym 'w env = "action \<Rightarrow> 'w \<Rightarrow> goerror option \<times> 'w"

datatype ending = Exited nat | Panicked

text \<open>Actions in a row; the first error ends the program.\<close>

fun run_actions :: "'w env \<Rightarrow> ending \<Rightarrow> action list \<Rightarrow> 'w \<Rightarrow> ending option \<times> 'w" where
  "run_actions env failed [] w = (None, w)"
| "run_actions env failed (a # as) w = (case env a w of
     (Some _, w) \<Rightarrow> (Some failed, w) | (None, w) \<Rightarrow> run_actions env failed as w)"

text \<open>\<open>init\<close>, where \<open>utilruntime.Must\<close> panics on an error.\<close>

definition init_actions :: "action list" where
  "init_actions = map AddToScheme init_groups"

definition main_actions :: "flags \<Rightarrow> slice option \<times> slice option \<Rightarrow> action list" where
  "main_actions f tls =
     (case webhook_watcher f of Some cw \<Rightarrow> [NewCertWatcher cw] | None \<Rightarrow> [])
     @ (case metrics_watcher f of Some cw \<Rightarrow> [NewCertWatcher cw] | None \<Rightarrow> [])
     @ [GetConfig, NewManager (manager_options_for f tls), Setup cluster_SetupWithManager, Setup machine_SetupWithManager]
     @ (case metrics_watcher f of Some cw \<Rightarrow> [AddWatcher cw] | None \<Rightarrow> [])
     @ (case webhook_watcher f of Some cw \<Rightarrow> [AddWatcher cw] | None \<Rightarrow> [])
     @ [AddHealthzCheck ''healthz'', AddReadyzCheck ''readyz'', StartManager]"

text \<open>The program on its arguments, in an empty memory of TLS options. A fault of the memory
  would be a panic.\<close>

definition main_program ::
  "'w env \<Rightarrow> (nat \<Rightarrow> nat \<Rightarrow> nat) \<Rightarrow> zap_flags \<Rightarrow> string list \<Rightarrow> 'w \<Rightarrow> ending \<times> 'w" where
  "main_program env grow zap args w =
     (case run_actions env Panicked init_actions w of
        (Some e, w) \<Rightarrow> (e, w)
      | (None, w) \<Rightarrow>
          (case parse_flags zap args default_flags of
             Inl code \<Rightarrow> (Exited code, w)
           | Inr f \<Rightarrow>
               (case tls_setup grow f [] of
                  None \<Rightarrow> (Panicked, w)
                | Some (tls, h) \<Rightarrow>
                    (case run_actions env (Exited 1) (main_actions f tls) w of
                       (Some e, w) \<Rightarrow> (e, w) | (None, w) \<Rightarrow> (Exited 0, w)))))"

end
