(* ===== verification/ManagerProofs.thy ===== *)
theory ManagerProofs
  imports Manager "HOL-Library.Sublist"
begin

text \<open>
  The properties of the entry point: what each server is configured with, in what order the
  manager is made and started and how a failing step ends the program, what the flags accept.
\<close>

subsection \<open>TLS options\<close>

text \<open>What the runtime promises of \<open>append\<close>: a new array is long enough.\<close>

definition growth :: "(nat \<Rightarrow> nat \<Rightarrow> nat) \<Rightarrow> bool" where
  "growth grow \<longleftrightarrow> (\<forall>old n. n \<le> grow old n)"

lemmas tls_defs = tls_setup_def base_tls_opts_def webhook_tls_opts_def metrics_tls_opts_def append_opt_def append_elem_def bnd_def ret_def new_def opt_E_def store_def
  array_at_def elems_def server_config_def Let_def

text \<open>After the first \<open>append\<close> there is either no room, and the next one makes more, or there is.\<close>

lemma first_append:
  assumes "growth grow"
  obtains "grow 0 (Suc 0) = Suc 0" "Suc (Suc 0) \<le> grow (Suc 0) (Suc (Suc 0))"
  | k where "grow 0 (Suc 0) = Suc (Suc k)"
proof -
  have "0 < grow 0 (Suc 0)" "Suc (Suc 0) \<le> grow (Suc 0) (Suc (Suc 0))"
    using assms unfolding growth_def by (metis Suc_le_eq, blast)
  then show ?thesis using that by (cases "grow 0 (Suc 0)"; cases "grow 0 (Suc 0) - 1") auto
qed

definition own_config :: "flags \<Rightarrow> watcher option \<Rightarrow> tls_config \<Rightarrow> tls_config" where
  "own_config f cw c = \<lparr>NextProtos = (if enableHTTP2 f then NextProtos c else [''http/1.1'']),
     GetCertificate = (case cw of None \<Rightarrow> GetCertificate c | Some _ \<Rightarrow> cw)\<rparr>"

text \<open>C36: where appending to a nil slice makes room for one element only, as Go's runtime does for
  a function value, each server is configured with HTTP/1.1 alone unless HTTP/2 was asked for, and
  with the certificate of its own flags, if any, and never with the other's.\<close>

theorem servers_get_their_own_options:
  assumes "growth grow" "grow 0 1 = 1"
  shows "\<exists>wh ms h. tls_setup grow f [] = Some ((wh, ms), h)
    \<and> server_config h wh c = Some (own_config f (webhook_watcher f) c)
    \<and> server_config h ms c = Some (own_config f (metrics_watcher f) c)"
proof -
  have "Suc (Suc 0) \<le> grow (Suc 0) (Suc (Suc 0))" using assms(1) by (simp add: growth_def)
  then show ?thesis using assms(2)
    by (cases "enableHTTP2 f"; cases "webhook_watcher f"; cases "metrics_watcher f"; cases c)
      (auto simp: tls_defs own_config_def nth_append)
qed

text \<open>That room is what it rests on: with HTTP/2 off and a certificate for each server, the webhook
  server keeps its certificate exactly when the first \<open>append\<close> leaves no room in its array;
  otherwise the metrics server's option is written over it. The metrics server has its own always.\<close>

lemma webhook_certificate_needs_full_array:
  assumes "growth grow" "\<not> enableHTTP2 f" "webhook_watcher f = Some cw" "metrics_watcher f = Some cm" "cw \<noteq> cm"
  shows "\<exists>wh ms h. tls_setup grow f [] = Some ((wh, ms), h)
    \<and> (map_option GetCertificate (server_config h wh c) = Some (Some cw) \<longleftrightarrow> grow 0 1 = 1)
    \<and> map_option GetCertificate (server_config h wh c) = Some (Some (if grow 0 1 = 1 then cw else cm))
    \<and> map_option GetCertificate (server_config h ms c) = Some (Some cm)"
  using assms(2-5) by (cases rule: first_append [OF assms(1)]) (auto simp: tls_defs nth_append)

subsection \<open>Flags\<close>

text \<open>An argument that sets the flag \<open>enable-http2\<close>, in either form and with one dash or two.\<close>

definition asks_http2 :: "string \<Rightarrow> bool" where
  "asks_http2 a \<longleftrightarrow> fst (split_value (dropWhile (\<lambda>c. c = CHR ''-'') a)) = ''enable-http2''"

lemma set_var_http2:
  assumes "set_var v s f = Some f'" "lookup_flag zap name = Some v" "enableHTTP2 f'"
  shows "enableHTTP2 f \<or> name = ''enable-http2''"
  using assms by (auto simp: lookup_flag_def flag_table_def split: option.splits if_splits)

lemma flag_body:
  assumes "\<not> (length s < 2 \<or> hd s \<noteq> CHR ''-'' \<or> s = ''--'')"
    and "body = (if s ! 1 = CHR ''-'' then drop 2 s else drop 1 s)" "\<not> (body = [] \<or> hd body = CHR ''-'' \<or> hd body = CHR ''='')"
  shows "dropWhile (\<lambda>c. c = CHR ''-'') s = body"
proof -
  obtain a b t where "s = a # b # t"
    using assms(1) by (cases s; cases "tl s") auto
  then show ?thesis using assms by (cases t) auto
qed

lemma parse_one_http2:
  assumes "parse_one zap s args f = Inr (Some (f', rest))"
  shows "(enableHTTP2 f' \<longrightarrow> enableHTTP2 f \<or> asks_http2 s) \<and> set rest \<subseteq> set args"
proof -
  let ?body = "if s ! 1 = CHR ''-'' then drop 2 s else drop 1 s"
  have ok: "\<not> (length s < 2 \<or> hd s \<noteq> CHR ''-'' \<or> s = ''--'')"
    "\<not> (?body = [] \<or> hd ?body = CHR ''-'' \<or> hd ?body = CHR ''='')"
    using assms(1) by (auto simp: parse_one_def Let_def split: if_splits)
  obtain name val where nv: "split_value ?body = (name, val)" by fastforce
  have asks: "asks_http2 s \<longleftrightarrow> name = ''enable-http2''"
    using flag_body [OF ok(1) refl ok(2)] nv by (simp add: asks_http2_def)
  obtain var where var: "lookup_flag zap name = Some var"
    using assms(1) ok nv by (auto simp: parse_one_def Let_def split: option.splits)
  have "\<exists>v. set_var var v f = Some f' \<and> set rest \<subseteq> set args"
    using assms(1) ok nv var
    by (cases args) (auto simp: parse_one_def Let_def simp del: set_var.simps split: option.splits if_splits)
  with var obtain v where v: "lookup_flag zap name = Some var" "set_var var v f = Some f'" "set rest \<subseteq> set args"
    by blast
  then show ?thesis using set_var_http2 [OF v(2,1)] asks by auto
qed

lemma parse_flags_http2:
  "parse_flags zap args f0 = Inr f \<Longrightarrow> enableHTTP2 f \<Longrightarrow> enableHTTP2 f0 \<or> (\<exists>a \<in> set args. asks_http2 a)"
proof (induction zap args f0 rule: parse_flags.induct)
  case (2 zap s args f0)
  show ?case
  proof (cases "parse_one zap s args f0")
    case (Inr r)
    show ?thesis
    proof (cases r)
      case None
      then show ?thesis using 2(2,3) Inr by simp
    next
      case (Some fr)
      obtain f1 rest where fr: "fr = (f1, rest)" by fastforce
      have "enableHTTP2 f1 \<or> (\<exists>a \<in> set rest. asks_http2 a)"
        using 2(1) [OF Inr Some fr [symmetric]] 2(2,3) Inr Some fr by simp
      then show ?thesis using parse_one_http2 [of zap s args f0 f1 rest] Inr Some fr by auto
    qed
  qed (use 2 in simp)
qed simp

text \<open>C37: HTTP/2 is off on both servers unless an argument asks for it, whatever else is on the
  command line and however the runtime grows arrays.\<close>

theorem http2_is_off_unless_asked_for:
  assumes "growth grow" "parse_flags zap args default_flags = Inr f" "\<forall>a \<in> set args. \<not> asks_http2 a"
  shows "\<exists>wh ms h. tls_setup grow f [] = Some ((wh, ms), h)
    \<and> map_option NextProtos (server_config h wh c) = Some [''http/1.1'']
    \<and> map_option NextProtos (server_config h ms c) = Some [''http/1.1'']"
proof -
  have off: "\<not> enableHTTP2 f"
    using parse_flags_http2 [OF assms(2)] assms(3) by (auto simp: default_flags_def)
  show ?thesis
    using off by (cases rule: first_append [OF assms(1)]; cases "webhook_watcher f"; cases "metrics_watcher f")
      (auto simp: tls_defs nth_append)
qed

lemma flag_name:
  assumes "map_of flag_table name = Some v"
  shows "name \<noteq> [] \<and> hd name \<noteq> CHR ''-'' \<and> hd name \<noteq> CHR ''='' \<and> (\<forall>c \<in> set name. c \<noteq> CHR ''='')"
  using assms by (auto simp: flag_table_def split: if_splits)

lemma split_value_name:
  "\<forall>c \<in> set name. c \<noteq> CHR ''='' \<Longrightarrow> split_value (name @ CHR ''='' # v) = (name, Some v)"
  "\<forall>c \<in> set name. c \<noteq> CHR ''='' \<Longrightarrow> split_value name = (name, None)"
  by (auto simp: split_value_def takeWhile_append dropWhile_append Let_def)

lemma parse_one_value:
  assumes "lookup_flag zap name = Some var" "name \<noteq> []" "hd name \<noteq> CHR ''-''" "hd name \<noteq> CHR ''=''"
    and "\<forall>c \<in> set name. c \<noteq> CHR ''=''" "set_var var v f = Some f'" "dash = ''-'' \<or> dash = ''--''"
  shows "parse_one zap (dash @ name @ CHR ''='' # v) args f = Inr (Some (f', args))"
    "\<not> is_bool_var var \<Longrightarrow> parse_one zap (dash @ name) (v # args) f = Inr (Some (f', args))"
proof -
  obtain c s where c: "name = c # s" using assms(2) by (cases name) auto
  note sv = split_value_name [OF assms(5)]
  show "parse_one zap (dash @ name @ CHR ''='' # v) args f = Inr (Some (f', args))"
    using assms(7)
  proof
    assume "dash = ''-''"
    then show ?thesis using sv(1) [of v] assms(1,3,4,6) c by (simp add: parse_one_def Let_def del: set_var.simps)
  next
    assume "dash = ''--''"
    then show ?thesis using sv(1) [of v] assms(1,3,4,6) c by (simp add: parse_one_def Let_def del: set_var.simps)
  qed
  show "parse_one zap (dash @ name) (v # args) f = Inr (Some (f', args))" if "\<not> is_bool_var var"
    using assms(7)
  proof
    assume "dash = ''-''"
    then show ?thesis using sv(2) assms(1,3,4,6) c that by (simp add: parse_one_def Let_def del: set_var.simps)
  next
    assume "dash = ''--''"
    then show ?thesis using sv(2) assms(1,3,4,6) c that by (simp add: parse_one_def Let_def del: set_var.simps)
  qed
qed

lemma parse_one_bare:
  assumes "lookup_flag zap name = Some var" "name \<noteq> []" "hd name \<noteq> CHR ''-''" "hd name \<noteq> CHR ''=''"
    and "\<forall>c \<in> set name. c \<noteq> CHR ''=''" "set_var var ''true'' f = Some f'" "is_bool_var var" "dash = ''-'' \<or> dash = ''--''"
  shows "parse_one zap (dash @ name) args f = Inr (Some (f', args))"
proof -
  obtain c s where c: "name = c # s" using assms(2) by (cases name) auto
  from assms(8) show ?thesis
    using split_value_name(2) [OF assms(5)] assms(1,3,4,6,7) c
    by (elim disjE) (simp_all add: parse_one_def Let_def del: set_var.simps)
qed

text \<open>The flags with a string and those with a truth value, and an option in every form it can be
  given in: one dash or two, the value after an equals sign; a string also as the next argument,
  and a bare flag for true.\<close>

definition string_flags :: "string set" where
  "string_flags = {''metrics-bind-address'', ''health-probe-bind-address'', ''webhook-cert-path'', ''webhook-cert-name'',
     ''webhook-cert-key'', ''metrics-cert-path'', ''metrics-cert-name'', ''metrics-cert-key''}"

definition bool_flags :: "string set" where
  "bool_flags = {''leader-elect'', ''metrics-secure'', ''enable-http2''}"

definition is_option :: "string \<times> string \<Rightarrow> bool" where
  "is_option opt \<longleftrightarrow> fst opt \<in> string_flags \<or> fst opt \<in> bool_flags \<and> parse_bool (snd opt) \<noteq> None"

definition forms :: "string \<times> string \<Rightarrow> string list set" where
  "forms opt = (\<Union>dash \<in> {''-'', ''--''}. {[dash @ fst opt @ CHR ''='' # snd opt]}
     \<union> (if fst opt \<in> string_flags then {[dash @ fst opt, snd opt]} else if snd opt = ''true'' then {[dash @ fst opt]} else {}))"

text \<open>What the options of a command line mean: the last value given for a name, or the default.\<close>

definition last_value :: "(string \<times> string) list \<Rightarrow> string \<Rightarrow> string \<Rightarrow> string" where
  "last_value opts name dflt = (case map_of (rev opts) name of Some v \<Rightarrow> v | None \<Rightarrow> dflt)"

definition last_truth :: "(string \<times> string) list \<Rightarrow> string \<Rightarrow> bool \<Rightarrow> bool" where
  "last_truth opts name dflt = (case map_of (rev opts) name of Some v \<Rightarrow> parse_bool v = Some True | None \<Rightarrow> dflt)"

definition flags_of :: "(string \<times> string) list \<Rightarrow> flags" where
  "flags_of opts = \<lparr>metricsAddr = last_value opts ''metrics-bind-address'' ''0'',
     probeAddr = last_value opts ''health-probe-bind-address'' '':8081'',
     enableLeaderElection = last_truth opts ''leader-elect'' False, secureMetrics = last_truth opts ''metrics-secure'' True,
     webhookCertPath = last_value opts ''webhook-cert-path'' '''', webhookCertName = last_value opts ''webhook-cert-name'' ''tls.crt'',
     webhookCertKey = last_value opts ''webhook-cert-key'' ''tls.key'', metricsCertPath = last_value opts ''metrics-cert-path'' '''',
     metricsCertName = last_value opts ''metrics-cert-name'' ''tls.crt'', metricsCertKey = last_value opts ''metrics-cert-key'' ''tls.key'',
     enableHTTP2 = last_truth opts ''enable-http2'' False\<rparr>"

lemma last_snoc:
  "last_value (opts @ [(k, v)]) name dflt = (if name = k then v else last_value opts name dflt)"
  "last_truth (opts @ [(k, v)]) name b = (if name = k then parse_bool v = Some True else last_truth opts name b)"
  by (simp_all add: last_value_def last_truth_def)

lemma flags_of_Nil: "flags_of [] = default_flags"
  by (simp add: flags_of_def default_flags_def last_value_def last_truth_def)

text \<open>Each option is in the table, and sets the field that the reference gives its value to.\<close>

lemma option_sets_its_field:
  assumes "is_option (name, v)"
  obtains var where "map_of flag_table name = Some var" "is_bool_var var \<longleftrightarrow> name \<notin> string_flags"
    "set_var var v (flags_of opts) = Some (flags_of (opts @ [(name, v)]))"
proof -
  have "\<exists>var. map_of flag_table name = Some var \<and> (is_bool_var var \<longleftrightarrow> name \<notin> string_flags)
      \<and> set_var var v (flags_of opts) = Some (flags_of (opts @ [(name, v)]))"
    using assms unfolding is_option_def string_flags_def bool_flags_def fst_conv snd_conv
    by (elim disjE conjE insertE emptyE) (auto simp: flag_table_def flags_of_def last_snoc)
  then show ?thesis using that by blast
qed

lemma parse_one_option:
  assumes "is_option opt" "a \<in> forms opt"
  obtains s rest where "a = s # rest"
    "parse_one zap s (rest @ args) (flags_of opts) = Inr (Some (flags_of (opts @ [opt]), args))"
proof -
  obtain name v where opt: "opt = (name, v)" by (cases opt)
  obtain var where var: "map_of flag_table name = Some var" "is_bool_var var \<longleftrightarrow> name \<notin> string_flags"
    "set_var var v (flags_of opts) = Some (flags_of (opts @ [(name, v)]))"
    using option_sets_its_field assms(1) opt by blast
  have l: "lookup_flag zap name = Some var" using var(1) by (simp add: lookup_flag_def)
  have n: "name \<noteq> []" "hd name \<noteq> CHR ''-''" "hd name \<noteq> CHR ''=''" "\<forall>c \<in> set name. c \<noteq> CHR ''=''"
    using flag_name [OF var(1)] by blast+
  from assms(2) obtain dash where d: "dash \<in> {''-'', ''--''}"
    and a: "a \<in> {[dash @ name @ CHR ''='' # v]} \<union> (if name \<in> string_flags then {[dash @ name, v]}
      else if v = ''true'' then {[dash @ name]} else {})"
    unfolding opt forms_def fst_conv snd_conv by (rule UN_E)
  have dash: "dash = ''-'' \<or> dash = ''--''" using d by simp
  have form: "a = [dash @ name @ CHR ''='' # v] \<or> name \<in> string_flags \<and> a = [dash @ name, v]
      \<or> name \<notin> string_flags \<and> v = ''true'' \<and> a = [dash @ name]"
    using a by (cases "name \<in> string_flags"; cases "v = ''true''") (simp_all add: disj_commute)
  note one = parse_one_value [OF l n var(3) dash]
  from form consider (equals) "a = [dash @ name @ CHR ''='' # v]" | (separate) "name \<in> string_flags" "a = [dash @ name, v]"
    | (bare) "name \<notin> string_flags" "v = ''true''" "a = [dash @ name]" by blast
  then show ?thesis
  proof cases
    case equals
    show ?thesis by (rule that [OF equals]) (simp only: append_Nil one(1) opt)
  next
    case separate
    then have "\<not> is_bool_var var" using var(2) by simp
    show ?thesis by (rule that [OF separate(2)]) (simp only: append_Cons append_Nil one(2) [OF \<open>\<not> is_bool_var var\<close>] opt)
  next
    case bare
    then have set: "set_var var ''true'' (flags_of opts) = Some (flags_of (opts @ [(name, v)]))" "is_bool_var var"
      using var(2,3) by simp_all
    show ?thesis by (rule that [OF bare(3)]) (simp only: append_Nil parse_one_bare [OF l n set dash] opt)
  qed
qed

text \<open>C40: the program's own flags mean what their declarations say: whatever options are given, in
  whatever form and order and however often, each flag's variable ends up with the last value
  given under its name, or with its default, and no other.\<close>

theorem flags_mean_what_they_declare:
  assumes "list_all2 (\<lambda>a opt. is_option opt \<and> a \<in> forms opt) args opts"
  shows "parse_flags zap (concat args) default_flags = Inr (flags_of opts)"
proof -
  have "parse_flags zap (concat args) (flags_of before) = Inr (flags_of (before @ opts))" for before
    using assms
  proof (induction arbitrary: before rule: list_all2_induct)
    case (Cons a args opt opts)
    obtain s rest where a: "a = s # rest"
      "parse_one zap s (rest @ concat args) (flags_of before) = Inr (Some (flags_of (before @ [opt]), concat args))"
      using parse_one_option Cons.hyps(1) by blast
    then show ?case using Cons.IH [of "before @ [opt]"] by simp
  qed simp
  from this [of "[]"] show ?thesis by (simp add: flags_of_Nil)
qed

subsection \<open>Starting\<close>

text \<open>An environment that answers as \<open>fails\<close> says and records the actions.\<close>

definition tracer :: "(action \<Rightarrow> goerror option) \<Rightarrow> (action list) env" where
  "tracer fails a tr = (fails a, tr @ [a])"

lemma run_actions_tracer:
  assumes "run_actions (tracer fails) failed as tr = (e, tr')"
  shows "\<exists>ran. tr' = tr @ ran \<and> prefix ran as \<and> (\<forall>a \<in> set (butlast ran). fails a = None)
    \<and> (if e = None then ran = as \<and> (\<forall>a \<in> set as. fails a = None)
       else e = Some failed \<and> ran \<noteq> [] \<and> fails (last ran) \<noteq> None)"
  using assms
proof (induction as arbitrary: tr)
  case (Cons a as)
  have step: "tracer fails b w = (fails b, w @ [b])" for b w by (simp add: tracer_def)
  have eta: "(\<lambda>a b. (fails a, b @ [a])) = tracer fails" by (intro ext) (simp add: step)
  show ?case
  proof (cases "fails a")
    case None
    then have "run_actions (tracer fails) failed as (tr @ [a]) = (e, tr')"
      using Cons.prems by (simp only: run_actions.simps(2) step prod.case option.case) (simp only: eta)
    from Cons.IH [OF this] obtain ran where ran: "tr' = (tr @ [a]) @ ran" "prefix ran as"
      "\<forall>a \<in> set (butlast ran). fails a = None"
      "if e = None then ran = as \<and> (\<forall>a \<in> set as. fails a = None) else e = Some failed \<and> ran \<noteq> [] \<and> fails (last ran) \<noteq> None"
      by blast
    then show ?thesis using None by (intro exI [of _ "a # ran"]) (auto split: if_splits)
  next
    case (Some x)
    then show ?thesis using Cons.prems by (intro exI [of _ "[a]"]) (auto simp: step)
  qed
qed auto

lemma tls_setup_returns:
  assumes "growth grow"
  obtains tls h where "tls_setup grow f [] = Some (tls, h)"
  by (rule first_append [OF assms]; cases "enableHTTP2 f"; cases "webhook_watcher f"; cases "metrics_watcher f")
    (auto simp: tls_defs nth_append)

lemma program_with_flags:
  assumes "growth grow" "parse_flags zap args default_flags = Inr f"
    and "main_program (tracer fails) grow zap args [] = (e, tr)"
  shows "\<exists>tls h. tls_setup grow f [] = Some (tls, h) \<and> prefix tr (init_actions @ main_actions f tls)
    \<and> (\<forall>a \<in> set (butlast tr). fails a = None)
    \<and> (e = Exited 0 \<longleftrightarrow> fails (last tr) = None) \<and> (e = Exited 0 \<longrightarrow> last tr = StartManager)
    \<and> (e = Panicked \<longleftrightarrow> fails (last tr) \<noteq> None \<and> (\<exists>g. last tr = AddToScheme g))
    \<and> (e = Exited 1 \<longleftrightarrow> fails (last tr) \<noteq> None \<and> (\<nexists>g. last tr = AddToScheme g))"
proof -
  obtain tls h where tls: "tls_setup grow f [] = Some (tls, h)" by (rule tls_setup_returns [OF assms(1)])
  obtain e1 t1 where r1: "run_actions (tracer fails) Panicked init_actions [] = (e1, t1)" by fastforce
  from run_actions_tracer [OF r1] have t1: "prefix t1 init_actions" "\<forall>a \<in> set (butlast t1). fails a = None"
    "if e1 = None then t1 = init_actions \<and> (\<forall>a \<in> set init_actions. fails a = None)
     else e1 = Some Panicked \<and> t1 \<noteq> [] \<and> fails (last t1) \<noteq> None" by auto
  have scheme: "a \<in> set init_actions \<Longrightarrow> \<exists>g. a = AddToScheme g" "AddToScheme g \<notin> set (main_actions f tls)" for a g
    by (auto simp: init_actions_def main_actions_def split: option.splits)
  have end_of_main: "main_actions f tls \<noteq> []" "last (main_actions f tls) = StartManager"
    by (simp_all add: main_actions_def)
  show ?thesis
  proof (cases e1)
    case (Some x)
    then have "x = Panicked" "t1 \<noteq> []" "fails (last t1) \<noteq> None" using t1(3) by auto
    moreover from this have "e = Panicked" "tr = t1" using assms(3) Some by (auto simp: main_program_def r1)
    moreover have "last t1 \<in> set init_actions" using t1(1) \<open>t1 \<noteq> []\<close> last_in_set set_mono_prefix by blast
    ultimately show ?thesis using tls t1(1,2) scheme(1) by (auto simp: prefix_append)
  next
    case None
    then have t1': "t1 = init_actions" "\<forall>a \<in> set init_actions. fails a = None" using t1(3) by auto
    obtain e2 t2 where r2: "run_actions (tracer fails) (Exited 1) (main_actions f tls) t1 = (e2, t2)" by fastforce
    from run_actions_tracer [OF r2] obtain ran where ran: "t2 = t1 @ ran" "prefix ran (main_actions f tls)"
      "\<forall>a \<in> set (butlast ran). fails a = None"
      "if e2 = None then ran = main_actions f tls \<and> (\<forall>a \<in> set (main_actions f tls). fails a = None)
       else e2 = Some (Exited 1) \<and> ran \<noteq> [] \<and> fails (last ran) \<noteq> None" by blast
    have out: "tr = t2" "e = (case e2 of None \<Rightarrow> Exited 0 | Some x \<Rightarrow> x)"
      using assms(2,3) None tls r2 by (auto simp: main_program_def r1 split: option.splits)
    have ne: "ran \<noteq> []" using ran(4) end_of_main(1) by (auto split: if_splits)
    then have last: "last tr = last ran" "last ran \<in> set (main_actions f tls)"
      using out(1) ran(1,2) last_in_set set_mono_prefix by auto
    have "\<forall>a \<in> set (butlast tr). fails a = None"
      using out(1) ran(1,3) t1' ne by (auto simp: butlast_append)
    moreover have "prefix tr (init_actions @ main_actions f tls)" using out(1) ran(1,2) t1'(1) by simp
    moreover have "\<nexists>g. last tr = AddToScheme g" using last scheme(2) by auto
    moreover have "if e2 = None then e = Exited 0 \<and> last tr = StartManager \<and> fails (last tr) = None
        else e = Exited 1 \<and> fails (last tr) \<noteq> None"
      using ran(4) out(2) last end_of_main(2) by (auto split: if_splits)
    ultimately show ?thesis using tls by (auto split: if_splits)
  qed
qed

text \<open>An argument that asks for help.\<close>

definition asks_help :: "string \<Rightarrow> bool" where
  "asks_help a \<longleftrightarrow> fst (split_value (dropWhile (\<lambda>c. c = CHR ''-'') a)) \<in> {''help'', ''h''}"

lemma parse_one_code:
  assumes "parse_one zap s args f = Inl code"
  shows "code = 2 \<or> code = 0 \<and> asks_help s"
proof -
  let ?body = "if s ! 1 = CHR ''-'' then drop 2 s else drop 1 s"
  have flag: "\<not> (length s < 2 \<or> hd s \<noteq> CHR ''-'' \<or> s = ''--'')"
    using assms by (auto simp: parse_one_def split: if_splits)
  show ?thesis
  proof (cases "?body = [] \<or> hd ?body = CHR ''-'' \<or> hd ?body = CHR ''=''")
    case True
    then show ?thesis using assms flag by (simp add: parse_one_def Let_def)
  next
    case False
    obtain name val where nv: "split_value ?body = (name, val)" by fastforce
    have "asks_help s \<longleftrightarrow> name \<in> {''help'', ''h''}"
      using flag_body [OF flag refl False] nv by (simp add: asks_help_def)
    then show ?thesis using assms flag False nv
      by (auto simp: parse_one_def Let_def simp del: set_var.simps split: option.splits if_splits)
  qed
qed

lemma parse_one_rest: "parse_one zap s args f = Inr (Some (f', rest)) \<Longrightarrow> set rest \<subseteq> set args"
  using parse_one_http2 by blast

lemma parse_flags_code:
  "parse_flags zap args f = Inl code \<Longrightarrow> code = 2 \<or> code = 0 \<and> (\<exists>a \<in> set args. asks_help a)"
proof (induction zap args f rule: parse_flags.induct)
  case (2 zap s args f)
  show ?case
  proof (cases "parse_one zap s args f")
    case (Inl c)
    then show ?thesis using 2(2) parse_one_code [OF Inl] by auto
  next
    case (Inr p)
    show ?thesis
    proof (cases p)
      case (Some fr)
      obtain f1 rest where fr: "fr = (f1, rest)" by fastforce
      have "code = 2 \<or> code = 0 \<and> (\<exists>a \<in> set rest. asks_help a)"
        using 2(1) [OF Inr Some fr [symmetric]] 2(2) Inr Some fr by simp
      then show ?thesis using parse_one_rest [of zap s args f f1 rest] Inr Some fr by auto
    qed (use 2(2) Inr in simp)
  qed
qed simp

text \<open>C38: the program takes the steps of \<open>init\<close> and \<open>main\<close> in their order and stops at the first that
  fails: a failure of \<open>init\<close> is a panic, a later one exit code 1. Between the two the flags are
  parsed: flags that do not parse end the program before any step of \<open>main\<close>, with code 2, or
  with code 0, which takes an argument that asks for help. With flags that parse, exit code 0 means that every step
  succeeded, to the end of the manager's run; so the manager starts only with the scheme filled,
  both controllers set up, the watchers of the certificates it was given added, and both probes.\<close>

theorem start_is_last_and_failures_end_the_program:
  assumes "growth grow" "main_program (tracer fails) grow zap args [] = (e, tr)"
  shows "case parse_flags zap args default_flags of
      Inl code \<Rightarrow> prefix tr init_actions \<and> (\<forall>a \<in> set (butlast tr). fails a = None)
        \<and> (if \<forall>a \<in> set init_actions. fails a = None then tr = init_actions \<and> e = Exited code
           else e = Panicked \<and> fails (last tr) \<noteq> None)
        \<and> (code = 2 \<or> code = 0 \<and> (\<exists>a \<in> set args. asks_help a))
    | Inr f \<Rightarrow> \<exists>tls h. tls_setup grow f [] = Some (tls, h) \<and> prefix tr (init_actions @ main_actions f tls)
        \<and> (\<forall>a \<in> set (butlast tr). fails a = None)
        \<and> (e = Exited 0 \<longleftrightarrow> fails (last tr) = None) \<and> (e = Exited 0 \<longrightarrow> last tr = StartManager)
        \<and> (e = Panicked \<longleftrightarrow> fails (last tr) \<noteq> None \<and> (\<exists>g. last tr = AddToScheme g))
        \<and> (e = Exited 1 \<longleftrightarrow> fails (last tr) \<noteq> None \<and> (\<nexists>g. last tr = AddToScheme g))"
proof (cases "parse_flags zap args default_flags")
  case (Inr f)
  then show ?thesis using program_with_flags [OF assms(1) Inr assms(2)] by simp
next
  case (Inl code)
  obtain e1 t1 where r1: "run_actions (tracer fails) Panicked init_actions [] = (e1, t1)" by fastforce
  from run_actions_tracer [OF r1] have t1: "prefix t1 init_actions" "\<forall>a \<in> set (butlast t1). fails a = None"
    "if e1 = None then t1 = init_actions \<and> (\<forall>a \<in> set init_actions. fails a = None)
     else e1 = Some Panicked \<and> t1 \<noteq> [] \<and> fails (last t1) \<noteq> None" by auto
  have "tr = t1" "e = (case e1 of None \<Rightarrow> Exited code | Some x \<Rightarrow> x)"
    using assms(2) Inl by (auto simp: main_program_def r1 split: option.splits)
  moreover have "\<not> (\<forall>a \<in> set init_actions. fails a = None)" if "e1 \<noteq> None"
  proof -
    have "t1 \<noteq> []" "fails (last t1) \<noteq> None" using that t1(3) by auto
    moreover from this(1) have "last t1 \<in> set init_actions" using set_mono_prefix [OF t1(1)] last_in_set by blast
    ultimately show ?thesis by metis
  qed
  ultimately show ?thesis using Inl t1 parse_flags_code [OF Inl] by (cases e1) auto
qed

text \<open>C39: every kind that the two controllers reconcile or watch is in the scheme, given that Cluster
  API's part has its Cluster and Machine, and so is every kind of object of this API group.\<close>

theorem every_kind_is_registered:
  assumes "clusterv1 ''Cluster'' \<in> set clusterapi" "clusterv1 ''Machine'' \<in> set clusterapi"
  shows "(\<forall>s \<in> {cluster_SetupWithManager, machine_SetupWithManager}.
      set (watched_kinds s) \<subseteq> set (scheme clientgo clusterapi))
    \<and> (\<forall>k \<in> {''Cluster'', ''ClusterTemplate'', ''Machine'', ''MachineTemplate''}. \<forall>l \<in> {'''', ''List''}.
        WithKind (''KairosFleet'' @ k @ l) \<in> set (scheme clientgo clusterapi))"
  using assms
  by (simp add: scheme_def init_groups_def group_kinds_def SchemeBuilder_def cluster_kinds_def
      cluster_template_kinds_def machine_kinds_def machine_template_kinds_def watched_kinds_def
      cluster_SetupWithManager_def machine_SetupWithManager_def)

subsection \<open>The properties on a command line\<close>

text \<open>Doubling, as the runtime grows small arrays; and a runtime that leaves room.\<close>

definition doubling :: "nat \<Rightarrow> nat \<Rightarrow> nat" where "doubling old n = max n (2 * old)"
definition roomy :: "nat \<Rightarrow> nat \<Rightarrow> nat" where "roomy old n = n + 3"

lemma growths: "growth doubling" "doubling 0 1 = 1" "growth roomy" "roomy 0 1 = 4"
  by (simp_all add: growth_def doubling_def roomy_def)

definition demo_args :: "string list" where
  "demo_args = [''--webhook-cert-path=/certs/webhook'', ''-metrics-cert-path'', ''/certs//x/../metrics/'', ''--leader-elect'']"

definition demo_flags :: flags where
  "demo_flags = default_flags\<lparr>webhookCertPath := ''/certs/webhook'', metricsCertPath := ''/certs//x/../metrics/'',
     enableLeaderElection := True\<rparr>"

definition demo_tls :: tls_config where
  "demo_tls = \<lparr>NextProtos = [''h2'', ''http/1.1''], GetCertificate = None\<rparr>"

lemma demo_watchers:
  "webhook_watcher demo_flags = Some (''/certs/webhook/tls.crt'', ''/certs/webhook/tls.key'')"
  "metrics_watcher demo_flags = Some (''/certs/metrics/tls.crt'', ''/certs/metrics/tls.key'')"
  "\<not> enableHTTP2 demo_flags"
  by code_simp+

lemma demo_parse: "parse_flags (\<lambda>_. None) demo_args default_flags = Inr demo_flags"
  by code_simp

theorem servers_get_their_own_options_witness:
  "\<exists>wh ms h. tls_setup doubling demo_flags [] = Some ((wh, ms), h)
    \<and> server_config h wh demo_tls = Some \<lparr>NextProtos = [''http/1.1''],
        GetCertificate = Some (''/certs/webhook/tls.crt'', ''/certs/webhook/tls.key'')\<rparr>
    \<and> server_config h ms demo_tls = Some \<lparr>NextProtos = [''http/1.1''],
        GetCertificate = Some (''/certs/metrics/tls.crt'', ''/certs/metrics/tls.key'')\<rparr>"
  using servers_get_their_own_options [OF growths(1,2), of demo_flags demo_tls]
  by (simp add: own_config_def demo_watchers)

lemma webhook_certificate_needs_full_array_witness:
  "\<exists>wh ms h. tls_setup roomy demo_flags [] = Some ((wh, ms), h)
    \<and> map_option GetCertificate (server_config h wh demo_tls) = Some (Some (''/certs/metrics/tls.crt'', ''/certs/metrics/tls.key''))"
  using webhook_certificate_needs_full_array [OF growths(3) demo_watchers(3,1,2), of demo_tls]
  by (auto simp: roomy_def)

theorem http2_is_off_unless_asked_for_witness:
  "\<exists>wh ms h. tls_setup roomy demo_flags [] = Some ((wh, ms), h)
    \<and> map_option NextProtos (server_config h wh demo_tls) = Some [''http/1.1'']
    \<and> map_option NextProtos (server_config h ms demo_tls) = Some [''http/1.1'']"
proof -
  have "list_all (\<lambda>a. \<not> asks_http2 a) demo_args" by code_simp
  then show ?thesis
    using http2_is_off_unless_asked_for [OF growths(3) demo_parse, of demo_tls] by (simp add: list_all_iff)
qed

theorem flags_mean_what_they_declare_witness:
  "parse_flags (\<lambda>_. None) [''--health-probe-bind-address=:1'', ''-metrics-secure=false'', ''-health-probe-bind-address'', '':2'', ''--leader-elect'']
     default_flags = Inr (default_flags\<lparr>probeAddr := '':2'', secureMetrics := False, enableLeaderElection := True\<rparr>)"
proof -
  let ?opts = "[(''health-probe-bind-address'', '':1''), (''metrics-secure'', ''false''), (''health-probe-bind-address'', '':2''), (''leader-elect'', ''true'')]"
  have "list_all2 (\<lambda>a opt. is_option opt \<and> a \<in> forms opt) [[''--health-probe-bind-address=:1''], [''-metrics-secure=false''],
      [''-health-probe-bind-address'', '':2''], [''--leader-elect'']] ?opts"
    by (simp add: is_option_def forms_def string_flags_def bool_flags_def parse_bool_def) auto
  from flags_mean_what_they_declare [OF this, of "\<lambda>_. None"] show ?thesis
    by (simp add: flags_of_def default_flags_def last_value_def last_truth_def parse_bool_def)
qed

theorem start_is_last_and_failures_end_the_program_witness:
  "fst (main_program (tracer (\<lambda>a. if a = AddReadyzCheck ''readyz'' then Some (PlainErr ''x'') else None)) doubling
     (\<lambda>_. None) demo_args []) = Exited 1"
proof -
  let ?fails = "\<lambda>a. if a = AddReadyzCheck ''readyz'' then Some (PlainErr ''x'') else None"
  obtain e tr where r: "main_program (tracer ?fails) doubling (\<lambda>_. None) demo_args [] = (e, tr)" by fastforce
  have "last (snd (main_program (tracer ?fails) doubling (\<lambda>_. None) demo_args [])) = AddReadyzCheck ''readyz''"
    by code_simp
  then have "last tr = AddReadyzCheck ''readyz''" by (simp add: r)
  then show ?thesis
    using start_is_last_and_failures_end_the_program [OF growths(1) r] demo_parse r by auto
qed

theorem every_kind_is_registered_witness:
  "clusterv1 ''Machine'' \<in> set (scheme [] [clusterv1 ''Cluster'', clusterv1 ''Machine''])"
  using every_kind_is_registered [of "[clusterv1 ''Cluster'', clusterv1 ''Machine'']" "[]"]
  by (simp add: watched_kinds_def machine_SetupWithManager_def)

end
