(* ===== verification/Registry.thy ===== *)
theory Registry
  imports MachineSafety MachinePass
begin

text \<open>
  Many machines against one AuroraBoot. The locale \<open>claim_registry\<close> states what the controller
  relies on in AuroraBoot: a record of which key holds which node, which a claim extends, which
  answers a repeated claim with the same node, and which only a release shrinks. Inside the
  locale the passes of any number of machines are interleaved, their patches reach the API server
  or do not, and their reads may be stale; no two of them ever come to share a node.
\<close>

subsection \<open>The contract\<close>

text \<open>\<open>C\<close> are the clients that reach the AuroraBoot in question, whatever their token.\<close>

locale claim_registry =
  fixes C :: "'w Client set" and ok :: "'w \<Rightarrow> bool" and holds :: "'w \<Rightarrow> strmap"
    and good :: "string \<Rightarrow> bool" and good_key :: "string \<Rightarrow> bool"
  assumes good_key_ne: "good_key k \<Longrightarrow> k \<noteq> ''''"
    and held_good: "ok w \<Longrightarrow> holds w k = Some n \<Longrightarrow> good n \<and> n \<noteq> ''''"
    and one_holder: "ok w \<Longrightarrow> holds w k = Some n \<Longrightarrow> holds w k' = Some n \<Longrightarrow> k = k'"
    and resolve_quiet: "c \<in> C \<Longrightarrow> ok w \<Longrightarrow> ResolveGroupID c g w = (r0, w') \<Longrightarrow>
      ok w' \<and> holds w' = holds w \<and> (\<forall>gid. r0 = Inr gid \<longrightarrow> good gid)"
    and claim_ok: "c \<in> C \<Longrightarrow> ok w \<Longrightarrow> good g \<Longrightarrow> good_key k \<Longrightarrow> Claim c g k w = (r, w') \<Longrightarrow> ok w'"
    and claim_others: "c \<in> C \<Longrightarrow> ok w \<Longrightarrow> good g \<Longrightarrow> good_key k \<Longrightarrow> Claim c g k w = (r, w') \<Longrightarrow>
      k' \<noteq> k \<Longrightarrow> holds w' k' = holds w k'"
    and claim_keeps: "c \<in> C \<Longrightarrow> ok w \<Longrightarrow> good g \<Longrightarrow> good_key k \<Longrightarrow> Claim c g k w = (r, w') \<Longrightarrow>
      holds w k = Some n \<Longrightarrow> holds w' k = Some n \<and> (\<exists>node. r = Inr (Some node))"
    and claim_holds: "c \<in> C \<Longrightarrow> ok w \<Longrightarrow> good g \<Longrightarrow> good_key k \<Longrightarrow> Claim c g k w = (Inr (Some node), w') \<Longrightarrow>
      holds w' k = Some (node_ID node)"
    and get_quiet: "c \<in> C \<Longrightarrow> ok w \<Longrightarrow> good n \<Longrightarrow> GetNode c n w = (r1, w') \<Longrightarrow> ok w' \<and> holds w' = holds w"
    and apply_quiet: "c \<in> C \<Longrightarrow> ok w \<Longrightarrow> good n \<Longrightarrow> ApplyCloudConfig c n d w = (r2, w') \<Longrightarrow> ok w' \<and> holds w' = holds w"
    and reboot_quiet: "c \<in> C \<Longrightarrow> ok w \<Longrightarrow> good n \<Longrightarrow> Reboot c n w = (r2, w') \<Longrightarrow> ok w' \<and> holds w' = holds w"
    and commands_quiet: "c \<in> C \<Longrightarrow> ok w \<Longrightarrow> good n \<Longrightarrow> GetCommands c n w = (r3, w') \<Longrightarrow> ok w' \<and> holds w' = holds w"
    and release_ok: "c \<in> C \<Longrightarrow> ok w \<Longrightarrow> good n \<Longrightarrow> good_key k \<Longrightarrow> Release c n k w = (r4, w') \<Longrightarrow> ok w'"
    and release_others: "c \<in> C \<Longrightarrow> ok w \<Longrightarrow> good n \<Longrightarrow> good_key k \<Longrightarrow> Release c n k w = (r4, w') \<Longrightarrow>
      k' \<noteq> k \<Longrightarrow> holds w' k' = holds w k'"

text \<open>Every client a reconciler resolves is one of \<open>C\<close>.\<close>

definition drives :: "'w Reconciler \<Rightarrow> 'w Client set \<Rightarrow> bool" where
  "drives r C \<longleftrightarrow> (\<forall>name w fcl w' fc. kGetCluster (r_Client r) name w = Inr fcl \<longrightarrow>
     resolveFleetClient (r_Client r) (fleetFactory r) fcl w' = Inr fc \<longrightarrow> fc \<in> C)"

lemma drives_connected: "drives r C \<Longrightarrow> connected r cluster w = Some fc \<Longrightarrow> fc \<in> C"
  by (auto simp: connected_def fleetClientFor_def drives_def split: sum.splits)

lemma drives_delete: "drives r C \<Longrightarrow> fleetClientForDelete r cluster w = Inr fc \<Longrightarrow> fc \<in> C"
  by (auto simp: fleetClientForDelete_def drives_def split: sum.splits)

subsection \<open>What a pass does to the registry\<close>

text \<open>The two annotations that say which node a machine holds, and under which key.\<close>

definition marks :: "KairosFleetMachine \<Rightarrow> string \<times> string" where
  "marks fm = (ann fm NodeIDAnnotation, ann fm claimKeyAnnotation)"

context claim_registry
begin

lemma claimStep_registry:
  assumes "claimStep r c key fm w = (fm', out, w')" "kube_lib (r_Client r)" "c \<in> C" "ok w" "good_key key"
  shows "ok w'" "\<And>k. k \<noteq> key \<Longrightarrow> holds w' k = holds w k"
    "holds w key = Some n \<Longrightarrow> holds w' key = Some n"
    "marks fm' = marks fm \<or> (\<exists>n. marks fm' = (n, key) \<and> holds w' key = Some n)"
proof -
  have "ok w' \<and> (\<forall>k. k \<noteq> key \<longrightarrow> holds w' k = holds w k) \<and> (\<forall>n. holds w key = Some n \<longrightarrow> holds w' key = Some n)
    \<and> (marks fm' = marks fm \<or> (\<exists>n. marks fm' = (n, key) \<and> holds w' key = Some n))"
  proof (cases "ResolveGroupID c (fms_Group (fm_Spec fm)) w")
    case (Pair a w1)
    note quiet = resolve_quiet [OF assms(3,4) Pair]
    show ?thesis
    proof (cases a)
      case (Inl e)
      then show ?thesis using assms(1) Pair quiet
        by (auto simp: claimStep_def Let_def marks_def split: if_splits)
    next
      case (Inr g)
      obtain b w2 where b: "Claim c g key w1 = (b, w2)" by (cases "Claim c g key w1")
      have "ok w1" "good g" using quiet Inr by auto
      note law = claim_ok [OF assms(3) this assms(5) b] claim_others [OF assms(3) this assms(5) b]
        claim_keeps [OF assms(3) this assms(5) b] claim_holds [OF assms(3) this assms(5)]
      have "w' = w2" using assms(1) Pair Inr b
        by (auto simp: claimStep_def Let_def split: sum.splits option.splits if_splits)
      moreover have "marks fm' = marks fm \<or> (\<exists>node. b = Inr (Some node) \<and> marks fm' = (node_ID node, key))"
        using assms(1) Pair Inr b kube_lib.add_annotations_frame(1) [OF assms(2)]
        by (auto simp: claimStep_def Let_def marks_def split: sum.splits option.splits if_splits)
      ultimately show ?thesis using law quiet b by metis
    qed
  qed
  then show "ok w'" "\<And>k. k \<noteq> key \<Longrightarrow> holds w' k = holds w k" "holds w key = Some n \<Longrightarrow> holds w' key = Some n"
    "marks fm' = marks fm \<or> (\<exists>n. marks fm' = (n, key) \<and> holds w' key = Some n)" by blast+
qed

lemma commandState_quiet:
  "commandState c n i name w = (res, w') \<Longrightarrow> c \<in> C \<Longrightarrow> ok w \<Longrightarrow> good n \<Longrightarrow> ok w' \<and> holds w' = holds w"
  using commands_quiet by (auto simp: commandState_def split: prod.splits sum.splits)

lemma rebootFailed_quiet:
  "rebootFailed c fm node n w = (res, w') \<Longrightarrow> c \<in> C \<Longrightarrow> ok w \<Longrightarrow> good n \<Longrightarrow> ok w' \<and> holds w' = holds w"
  using commandState_quiet by (auto simp: rebootFailed_def split: prod.splits if_splits)

lemma later_steps_quiet:
  assumes "c \<in> C" "ok w" "good n"
  shows "applyStep r c machine ds n fm w = (fm', out, w') \<Longrightarrow> ok w' \<and> holds w' = holds w"
    "rebootStep r c n fm w = (fm', out, w') \<Longrightarrow> ok w' \<and> holds w' = holds w"
    "rejoinStep r c n fm w = (fm', out, w') \<Longrightarrow> ok w' \<and> holds w' = holds w"
proof -
  assume "applyStep r c machine ds n fm w = (fm', out, w')"
  then show "ok w' \<and> holds w' = holds w"
    by (cases rule: applyStep_cases) (use assms(2) apply_quiet [OF assms] in auto)
next
  assume step: "rebootStep r c n fm w = (fm', out, w')"
  obtain applied failed msg w1 where cs: "commandState c n (ann fm cloudConfigCommandIDAnnotation)
      CommandApplyCloudConfig w = ((applied, failed, msg), w1)" using prod_cases3 prod.exhaust by metis
  have w1: "ok w1 \<and> holds w1 = holds w" by (rule commandState_quiet [OF cs assms])
  from step cs show "ok w' \<and> holds w' = holds w"
    by (cases rule: rebootStep_cases) (use w1 reboot_quiet [OF assms(1) _ assms(3), of w1] in auto)
next
  assume "rejoinStep r c n fm w = (fm', out, w')"
  then show "ok w' \<and> holds w' = holds w"
  proof (cases rule: rejoinStep_cases)
    case (reboot_failed node w1 msg)
    then show ?thesis using get_quiet [OF assms] rebootFailed_quiet [OF _ assms(1) _ assms(3)] by metis
  next
    case (waiting node w1 msg)
    then show ?thesis using get_quiet [OF assms] rebootFailed_quiet [OF _ assms(1) _ assms(3)] by metis
  next
    case stopped
    then show ?thesis using get_quiet [OF assms, of "fst (GetNode c n w)" w'] by simp
  qed (use get_quiet [OF assms] in blast)+
qed

text \<open>What a pass may make of the registry and of the marks. Only a deletion gives a node up.\<close>

lemma body_registry:
  assumes "reconcile_body r fm machine cluster w = (fm', out, w')" "kube_lib (r_Client r)" "drives r C"
    and "ok w" "good_key (claimKeyFor fm)" "ann fm NodeIDAnnotation \<noteq> '''' \<Longrightarrow> good (ann fm NodeIDAnnotation)"
  shows "ok w' \<and> (\<forall>k. k \<noteq> claimKeyFor fm \<longrightarrow> holds w' k = holds w k)
    \<and> (is_zero_time (om_DeletionTimestamp (fm_Meta fm)) \<longrightarrow>
         (\<forall>n. holds w (claimKeyFor fm) = Some n \<longrightarrow> holds w' (claimKeyFor fm) = Some n))
    \<and> (marks fm' = marks fm \<or> ann fm NodeIDAnnotation = ''''
         \<and> (\<exists>n. marks fm' = (n, claimKeyFor fm) \<and> holds w' (claimKeyFor fm) = Some n))"
proof (rule kube_lib.reconcile_body_cases [OF assms(2,1) refl], goal_cases stopped deleting normal)
  case stopped
  then show ?case using assms(4) by (auto simp: marks_def same_state_ann)
next
  case (deleting fm0 err)
  note same = same_state_reads [OF deleting(2)]
  have kept: "marks fm' = marks fm"
    using kube_lib.reconcileDelete_state [OF assms(2) deleting(4) refl] by (simp add: marks_def same_state_ann same)
  have "ok w' \<and> (\<forall>k. k \<noteq> claimKeyFor fm \<longrightarrow> holds w' k = holds w k)"
  proof (cases "ann fm NodeIDAnnotation = '''' \<or> (\<exists>e. fleetClientForDelete r cluster w = Inl e)")
    case True
    then have "w' = w" using deleting(4) by (auto simp: reconcileDelete_def Let_def same split: if_splits)
    then show ?thesis using assms(4) by simp
  next
    case False
    then obtain fc where fc: "fleetClientForDelete r cluster w = Inr fc" and n: "ann fm NodeIDAnnotation \<noteq> ''''"
      by (cases "fleetClientForDelete r cluster w") auto
    obtain a w1 where a: "Release fc (ann fm NodeIDAnnotation) (claimKeyFor fm) w = (a, w1)"
      by (cases "Release fc (ann fm NodeIDAnnotation) (claimKeyFor fm) w")
    have "w' = w1" using deleting(4) fc n a
      by (auto simp: reconcileDelete_def Let_def same split: sum.splits if_splits)
    then show ?thesis
      using release_ok [OF drives_delete [OF assms(3) fc] assms(4) assms(6) [OF n] assms(5) a]
        release_others [OF drives_delete [OF assms(3) fc] assms(4) assms(6) [OF n] assms(5) a] by blast
  qed
  then show ?case using deleting(1) kept by blast
next
  case (normal fm0)
  note same = same_state_reads [OF normal(2)]
  have marks0: "marks fm0 = marks fm" by (simp add: marks_def same)
  from normal(4) show ?case
  proof (cases rule: reconcileNormal_cases)
    case (step ds fc)
    then have c: "fc \<in> C" using drives_connected [OF assms(3), of cluster w fc] by (simp add: connected_def)
    show ?thesis
    proof (cases "ann fm NodeIDAnnotation = ''''")
      case True
      then have "claimStep r fc (claimKeyFor fm) fm0 w = (fm', out, w')"
        using step(3) by (simp add: lifecycleStep_def same)
      from claimStep_registry [OF this assms(2) c assms(4,5)] show ?thesis using True marks0 by auto
    next
      case False
      have g: "good (ann fm NodeIDAnnotation)" by (rule assms(6) [OF False])
      have "ok w' \<and> holds w' = holds w" using step(3)
      proof (cases rule: lifecycleStep_cases)
        case at_claim
        then show ?thesis using False by (simp add: same)
      qed (use later_steps_quiet [OF c assms(4) g] in \<open>simp add: same\<close>)+
      moreover have "marks fm' = marks fm0"
        using kube_lib.lifecycleStep_key [OF assms(2) step(3) refl] False by (simp add: marks_def same)
      ultimately show ?thesis using marks0 by simp
    qed
  qed (use assms(4) marks0 in \<open>simp_all add: marks_def\<close>)
qed

end

subsection \<open>A fleet of machines\<close>

text \<open>A patch is a merge: what the pass changed is as the pass has it, the rest is as the object
  has become meanwhile.\<close>

definition merged :: "KairosFleetMachine \<Rightarrow> KairosFleetMachine \<Rightarrow> KairosFleetMachine \<Rightarrow> KairosFleetMachine \<Rightarrow> bool" where
  "merged before after cur fm \<longleftrightarrow> om_UID (fm_Meta fm) = om_UID (fm_Meta cur)
     \<and> om_DeletionTimestamp (fm_Meta fm) = om_DeletionTimestamp (fm_Meta cur)
     \<and> (\<forall>k \<in> {NodeIDAnnotation, claimKeyAnnotation}.
          ann fm k = (if ann after k = ann before k then ann cur k else ann after k))"

text \<open>All versions each machine's object has had so far, and the world. A pass may start from any of
  them (a stale read); its patch is merged into a version or lost with the pass; others edit an
  object, which a restore may give a new UID as long as it keeps the key; \<open>env\<close> is what happens
  outside: time passes, nodes report, commands complete.\<close>

type_synonym ('i, 'w) fleet = "('i \<Rightarrow> KairosFleetMachine set) \<times> 'w"

inductive fleet_run :: "'w Reconciler \<Rightarrow> ('w \<Rightarrow> 'w \<Rightarrow> bool) \<Rightarrow> ('i, 'w) fleet \<Rightarrow> ('i, 'w) fleet \<Rightarrow> bool"
  for r :: "'w Reconciler" and env :: "'w \<Rightarrow> 'w \<Rightarrow> bool" and s0 :: "('i, 'w) fleet" where
  start: "fleet_run r env s0 s0"
| pass: "fleet_run r env s0 (vers, w) \<Longrightarrow> fm \<in> vers i \<Longrightarrow> cur \<in> vers i
    \<Longrightarrow> reconcile_body r fm machine cluster w = (fm', out, w') \<Longrightarrow> merged fm fm' cur fm''
    \<Longrightarrow> fleet_run r env s0 (vers(i := insert fm'' (vers i)), w')"
| lost: "fleet_run r env s0 (vers, w) \<Longrightarrow> fm \<in> vers i
    \<Longrightarrow> reconcile_body r fm machine cluster w = (fm', out, w') \<Longrightarrow> fleet_run r env s0 (vers, w')"
| edit: "fleet_run r env s0 (vers, w) \<Longrightarrow> fm \<in> vers i \<Longrightarrow> marks fm' = marks fm
    \<Longrightarrow> claimKeyFor fm' = claimKeyFor fm \<Longrightarrow> fleet_run r env s0 (vers(i := insert fm' (vers i)), w)"
| outside: "fleet_run r env s0 (vers, w) \<Longrightarrow> env w w' \<Longrightarrow> fleet_run r env s0 (vers, w')"

definition undeleted :: "KairosFleetMachine set \<Rightarrow> bool" where
  "undeleted vs \<longleftrightarrow> (\<forall>v \<in> vs. is_zero_time (om_DeletionTimestamp (fm_Meta v)))"

text \<open>The machines \<open>I\<close> as created: no node on record, and a key of their own each.\<close>

definition fresh_fleet :: "'i set \<Rightarrow> ('i \<Rightarrow> string) \<Rightarrow> ('i \<Rightarrow> KairosFleetMachine set) \<Rightarrow> bool" where
  "fresh_fleet I key vers \<longleftrightarrow> inj_on key I
     \<and> (\<forall>i. \<forall>v \<in> vers i. i \<in> I \<and> claimKeyFor v = key i \<and> ann v NodeIDAnnotation = '''')"

lemma claimKeyFor_marks:
  "om_UID (fm_Meta fm) = om_UID (fm_Meta cur) \<Longrightarrow> ann fm claimKeyAnnotation = ann cur claimKeyAnnotation
    \<Longrightarrow> claimKeyFor fm = claimKeyFor cur"
  "ann fm claimKeyAnnotation = k \<Longrightarrow> k \<noteq> '''' \<Longrightarrow> claimKeyFor fm = k"
  by (simp_all add: claimKeyFor_def Let_def)

context claim_registry
begin

definition fleet_inv :: "'i set \<Rightarrow> ('i \<Rightarrow> string) \<Rightarrow> ('i, 'w) fleet \<Rightarrow> bool" where
  "fleet_inv I key s \<longleftrightarrow> ok (snd s) \<and> (\<forall>i. \<forall>v \<in> fst s i. i \<in> I \<and> claimKeyFor v = key i
     \<and> (ann v NodeIDAnnotation \<noteq> '''' \<longrightarrow> good (ann v NodeIDAnnotation)
          \<and> (undeleted (fst s i) \<longrightarrow> holds (snd s) (key i) = Some (ann v NodeIDAnnotation))))"

lemma fleet_invD:
  assumes "fleet_inv I key (vers, w)"
  shows "ok w" "v \<in> vers i \<Longrightarrow> i \<in> I \<and> claimKeyFor v = key i"
    "v \<in> vers i \<Longrightarrow> ann v NodeIDAnnotation \<noteq> '''' \<Longrightarrow> good (ann v NodeIDAnnotation)"
    "v \<in> vers i \<Longrightarrow> undeleted (vers i) \<Longrightarrow> ann v NodeIDAnnotation \<noteq> '''' \<Longrightarrow> holds w (key i) = Some (ann v NodeIDAnnotation)"
  using assms by (auto simp: fleet_inv_def)

text \<open>A pass keeps the invariant for the versions there were, and says what the new marks are.\<close>

lemma fleet_pass:
  assumes "fleet_inv I key (vers, w)" "fm \<in> vers i" "reconcile_body r fm machine cluster w = (fm', out, w')"
    and "kube_lib (r_Client r)" "drives r C" "good_key (key i)" "inj_on key I"
  shows "fleet_inv I key (vers, w')"
    "marks fm' = marks fm \<or> (\<exists>n. marks fm' = (n, key i) \<and> holds w' (key i) = Some n \<and> good n \<and> n \<noteq> '''')"
proof -
  note inv = fleet_invD [OF assms(1)]
  have k: "claimKeyFor fm = key i" using inv(2) [OF assms(2)] by blast
  note body = body_registry [OF assms(3-5) inv(1) _ inv(3) [OF assms(2)], unfolded k, OF assms(6)]
  show "marks fm' = marks fm \<or> (\<exists>n. marks fm' = (n, key i) \<and> holds w' (key i) = Some n \<and> good n \<and> n \<noteq> '''')"
    using body held_good by blast
  have "holds w' (key j) = Some (ann v NodeIDAnnotation)"
    if v: "v \<in> vers j" "undeleted (vers j)" "ann v NodeIDAnnotation \<noteq> ''''" for j v
  proof (cases "j = i")
    case True
    then have "is_zero_time (om_DeletionTimestamp (fm_Meta fm))" using v(2) assms(2) by (simp add: undeleted_def)
    then show ?thesis using body inv(4) [OF v] True by blast
  next
    case False
    then have "key j \<noteq> key i" using assms(7) inv(2) [OF v(1)] inv(2) [OF assms(2)] by (auto dest: inj_onD)
    then show ?thesis using body inv(4) [OF v] by simp
  qed
  then show "fleet_inv I key (vers, w')" using body inv by (auto simp: fleet_inv_def)
qed

text \<open>Adding a version.\<close>

lemma fleet_add:
  assumes "fleet_inv I key (vers, w)" "i \<in> I" "claimKeyFor fm = key i"
    and "ann fm NodeIDAnnotation \<noteq> '''' \<Longrightarrow> good (ann fm NodeIDAnnotation)
      \<and> (undeleted (vers i) \<longrightarrow> holds w (key i) = Some (ann fm NodeIDAnnotation))"
  shows "fleet_inv I key (vers(i := insert fm (vers i)), w)"
  using assms by (auto simp: fleet_inv_def undeleted_def)

lemma fresh_fleet_inv: "fresh_fleet I key vers \<Longrightarrow> ok w \<Longrightarrow> fleet_inv I key (vers, w)"
  by (auto simp: fresh_fleet_def fleet_inv_def)

lemma fleet_run_inv:
  assumes "fleet_run r env s0 s" "fleet_inv I key s0" "inj_on key I" "kube_lib (r_Client r)" "drives r C"
    and "\<forall>i \<in> I. good_key (key i)" "\<forall>w w'. env w w' \<longrightarrow> ok w \<longrightarrow> ok w' \<and> holds w' = holds w"
  shows "fleet_inv I key s"
  using assms(1)
proof (induction rule: fleet_run.induct)
  case start
  then show ?case by (rule assms(2))
next
  case (pass vers w fm i cur machine cluster fm' out w' fm'')
  note inv = fleet_invD [OF pass.IH]
  have i: "i \<in> I" "good_key (key i)" "inj_on key I" "key i \<noteq> ''''"
    using inv(2) [OF pass.hyps(2)] assms(3,6) good_key_ne by auto
  note step = fleet_pass [OF pass.IH pass.hyps(2,4) assms(4,5) i(2,3)]
  note inv' = fleet_invD [OF step(1)]
  have cur: "claimKeyFor cur = key i" using inv(2) [OF pass.hyps(3)] by blast
  have m: "om_UID (fm_Meta fm'') = om_UID (fm_Meta cur)"
    "\<And>k. k \<in> {NodeIDAnnotation, claimKeyAnnotation} \<Longrightarrow>
       ann fm'' k = ann cur k \<or> ann fm'' k = ann fm' k \<and> ann fm' k \<noteq> ann fm k"
    using pass.hyps(5) by (auto simp: merged_def)
  show ?case
  proof (rule fleet_add [OF step(1) i(1)])
    show "claimKeyFor fm'' = key i"
      using m(2) [of claimKeyAnnotation] step(2) claimKeyFor_marks(1) [OF m(1)] claimKeyFor_marks(2) [of fm'' "key i"] cur i(4)
      by (auto simp: marks_def)
  next
    assume "ann fm'' NodeIDAnnotation \<noteq> ''''"
    then show "good (ann fm'' NodeIDAnnotation) \<and>
        (undeleted (vers i) \<longrightarrow> holds w' (key i) = Some (ann fm'' NodeIDAnnotation))"
      using m(2) [of NodeIDAnnotation] step(2) inv'(3,4) [OF pass.hyps(3)] by (auto simp: marks_def)
  qed
next
  case (lost vers w fm i machine cluster fm' out w')
  have i: "good_key (key i)" "inj_on key I"
    using fleet_invD(2) [OF lost.IH lost.hyps(2)] assms(3,6) by auto
  show ?case by (rule fleet_pass(1) [OF lost.IH lost.hyps(2,3) assms(4,5) i])
next
  case (edit vers w fm i fm')
  note inv = fleet_invD [OF edit.IH]
  show ?case
    by (rule fleet_add [OF edit.IH]) (use inv(2-4) [OF edit.hyps(2)] edit.hyps(3,4) in \<open>auto simp: marks_def\<close>)
next
  case (outside vers w w')
  then show ?case using assms(7) outside.hyps(2) by (auto simp: fleet_inv_def)
qed

text \<open>A key that is none of the machines' is left alone.\<close>

lemma fleet_run_others:
  assumes "fleet_run r env s0 s" "fleet_inv I key s0" "inj_on key I" "kube_lib (r_Client r)" "drives r C"
    and "\<forall>i \<in> I. good_key (key i)" "\<forall>w w'. env w w' \<longrightarrow> ok w \<longrightarrow> ok w' \<and> holds w' = holds w"
    and "k \<notin> key ` I"
  shows "holds (snd s) k = holds (snd s0) k"
  using assms(1)
proof (induction rule: fleet_run.induct)
  case (pass vers w fm i cur machine cluster fm' out w' fm'')
  note inv = fleet_invD [OF fleet_run_inv [OF pass.hyps(1) assms(2-7)]]
  have "claimKeyFor fm = key i" "i \<in> I" using inv(2) [OF pass.hyps(2)] by auto
  with body_registry [OF pass.hyps(4) assms(4,5) inv(1) _ inv(3) [OF pass.hyps(2)]] assms(6,8)
  show ?case using pass.IH by auto
next
  case (lost vers w fm i machine cluster fm' out w')
  note inv = fleet_invD [OF fleet_run_inv [OF lost.hyps(1) assms(2-7)]]
  have "claimKeyFor fm = key i" "i \<in> I" using inv(2) [OF lost.hyps(2)] by auto
  with body_registry [OF lost.hyps(3) assms(4,5) inv(1) _ inv(3) [OF lost.hyps(2)]] assms(6,8)
  show ?case using lost.IH by auto
next
  case (outside vers w w')
  then show ?case using assms(7) fleet_invD(1) [OF fleet_run_inv [OF outside.hyps(1) assms(2-7)]] by fastforce
qed simp_all

text \<open>A claim whose patch was lost is found again.\<close>

lemma claim_found_again:
  assumes "reconcile_body r fm machine cluster w = (fm', out, w')" "kube_lib (r_Client r)" "drives r C" "ok w"
    and "active r fm machine cluster" "m_DataSecretName machine = Some ds" "connected r cluster w = Some c"
    and "good_key (claimKeyFor fm)" "ann fm NodeIDAnnotation = ''''" "holds w (claimKeyFor fm) = Some n"
    and "ResolveGroupID c (fms_Group (fm_Spec fm)) w = (Inr g, w1)"
  shows "marks fm' = (n, claimKeyFor fm)"
proof -
  have c: "c \<in> C" by (rule drives_connected [OF assms(3,7)])
  have w1: "ok w1" "good g" "holds w1 (claimKeyFor fm) = Some n"
    using resolve_quiet [OF c assms(4,11)] assms(10) by auto
  obtain a w2 where a: "Claim c g (claimKeyFor fm) w1 = (a, w2)" by (cases "Claim c g (claimKeyFor fm) w1")
  obtain node where node: "a = Inr (Some node)" "holds w2 (claimKeyFor fm) = Some n"
    using claim_keeps [OF c w1(1,2) assms(8) a w1(3)] by blast
  then have "node_ID node = n" using claim_holds [OF c w1(1,2) assms(8)] a by simp
  with kube_lib.claim_pass [OF assms(2) refl assms(5-7,9,11), of node] a node(1) assms(1)
  show ?thesis by (simp add: marks_def)
qed

text \<open>What follows: what a machine has on record AuroraBoot holds under its key, so every version
  of it names one node, and two machines name two.\<close>

lemma no_sharing:
  assumes "fleet_inv I key (vers, w)" "inj_on key I" "u \<in> vers i" "v \<in> vers j"
    and "undeleted (vers i)" "undeleted (vers j)" "ann u NodeIDAnnotation \<noteq> ''''" "ann v NodeIDAnnotation \<noteq> ''''"
  shows "ann u NodeIDAnnotation = ann v NodeIDAnnotation \<longleftrightarrow> i = j"
proof -
  note inv = fleet_invD [OF assms(1)]
  have h: "holds w (key i) = Some (ann u NodeIDAnnotation)" "holds w (key j) = Some (ann v NodeIDAnnotation)"
    using inv(4) assms(3-8) by blast+
  have "i = j" if "ann u NodeIDAnnotation = ann v NodeIDAnnotation"
    using one_holder [OF inv(1) h(1)] h(2) that assms(2) inv(2) assms(3,4) by (metis inj_onD)
  then show ?thesis using h by auto
qed

end

end
