(* ===== verification/AuroraBoot.thy ===== *)
theory AuroraBoot
  imports Http
begin

text \<open>
  The AuroraBoot server the repository states the API with: \<open>fakeAuroraBoot\<close> of
  \<open>internal/controller/fakeauroraboot_test.go\<close>, handler by handler, and \<open>net/http\<close> between the
  client and it. The controllers are run against this server in the end-to-end test; here it
  is the other end of the JSON that \<open>http.go\<close> sends. A handler gets the server and returns the
  response and the server; no response stands for a handler that panics, whose connection
  \<open>net/http\<close> closes. The mutex makes a request one step.
\<close>

subsection \<open>State\<close>

record fakeCommand =
  fc_ID :: string
  fc_Command :: string
  fc_Phase :: string

record fakeNode =
  fn_ID :: string
  fn_MachineID :: string
  fn_Hostname :: string
  fn_GroupID :: string
  fn_Phase :: string
  fn_ClaimKey :: "string option"
  fn_LastHeartbeat :: "time option"
  fn_commands :: "fakeCommand list"

record fakeAuroraBoot =
  nodes :: "string \<rightharpoonup> fakeNode"
  groupPool :: "string \<rightharpoonup> string list"
  byClaim :: strmap
  applied :: strmap
  rebooted :: "string \<rightharpoonup> bool"
  released :: strmap

text \<open>\<open>newFakeAuroraBoot\<close>; \<open>seed\<close> lists the groups in the order the range over the map meets them.\<close>

definition seed_node :: "string \<Rightarrow> fakeNode \<Rightarrow> fakeAuroraBoot \<Rightarrow> fakeAuroraBoot" where
  "seed_node g n f =
     (let n = n\<lparr>fn_GroupID := g\<rparr>;
          n = (if fn_Phase n = '''' then n\<lparr>fn_Phase := ''Online''\<rparr> else n);
          pool = (case groupPool f g of Some p \<Rightarrow> p | None \<Rightarrow> [])
      in f\<lparr>nodes := (nodes f)(fn_ID n \<mapsto> n), groupPool := (groupPool f)(g \<mapsto> pool @ [fn_ID n])\<rparr>)"

definition newFakeAuroraBoot :: "(string \<times> fakeNode list) list \<Rightarrow> fakeAuroraBoot" where
  "newFakeAuroraBoot seed = fold (\<lambda>(g, ns). fold (seed_node g) ns) seed
     \<lparr>nodes = Map.empty, groupPool = Map.empty, byClaim = Map.empty, applied = Map.empty,
      rebooted = Map.empty, released = Map.empty\<rparr>"

subsection \<open>Replies\<close>

type_synonym reply = "Response option \<times> fakeAuroraBoot"

text \<open>The members of an encoded map are in the order of their keys; the encoder ends a value with
  a newline, and so does \<open>http.Error\<close>.\<close>

definition newline :: char where "newline = char_of (10::nat)"

definition writeJSON :: "int \<Rightarrow> json \<Rightarrow> Response" where
  "writeJSON status v = \<lparr>resp_StatusCode = status, resp_Body = json_encode v @ [newline]\<rparr>"

definition http_Error :: "string \<Rightarrow> int \<Rightarrow> Response" where
  "http_Error msg status = \<lparr>resp_StatusCode = status, resp_Body = msg @ [newline]\<rparr>"

definition not_found_reply :: Response where
  "not_found_reply = http_Error ''{\"error\":\"not found\"}'' 404"

definition fake_nodeDTO :: "fakeNode \<Rightarrow> json" where
  "fake_nodeDTO n = JObj
     ((case fn_ClaimKey n of Some k \<Rightarrow> [(''claimKey'', json_string k)] | None \<Rightarrow> [])
      @ [(''groupID'', json_string (fn_GroupID n)), (''hostname'', json_string (fn_Hostname n)),
         (''id'', json_string (fn_ID n))]
      @ (case fn_LastHeartbeat n of
           Some t \<Rightarrow> [(''lastHeartbeat'', json_string (format_RFC3339Nano t))] | None \<Rightarrow> [])
      @ [(''machineID'', json_string (fn_MachineID n)), (''phase'', json_string (fn_Phase n))])"

definition fake_commandDTO :: "fakeCommand \<Rightarrow> json" where
  "fake_commandDTO c = JObj [(''command'', json_string (fc_Command c)), (''id'', json_string (fc_ID c)),
     (''phase'', json_string (fc_Phase c))]"

definition error_reply :: "string \<Rightarrow> string \<Rightarrow> Response" where
  "error_reply msg code = writeJSON 409 (JObj [(''code'', json_string code), (''error'', json_string msg)])"

subsection \<open>Request bodies\<close>

text \<open>A body that cannot be decoded leaves the struct as far as it was filled: the handlers drop
  the error.\<close>

definition decode_body :: "(json \<Rightarrow> 'a \<times> bool) \<Rightarrow> 'a \<Rightarrow> string \<Rightarrow> 'a" where
  "decode_body dec zero body = (case decode_stream body of Some j \<Rightarrow> fst (dec j) | None \<Rightarrow> zero)"

definition claimKey_of :: "string \<Rightarrow> string" where
  "claimKey_of = decode_body (dec_struct [(''claimKey'', string_field (\<lambda>v _. v))] '''') ''''"

record commandBody =
  cb_Command :: string
  cb_Args :: strmap

text \<open>A map of strings: members are added to the map there is, and one whose value does not fit
  is added as the empty string.\<close>

definition strmap_elem :: "json \<Rightarrow> string" where
  "strmap_elem j = (case j of JStr raw \<Rightarrow> json_unquote raw | _ \<Rightarrow> '''')"

definition strmap_field :: "((strmap \<Rightarrow> strmap) \<Rightarrow> 'a \<Rightarrow> 'a) \<Rightarrow> json \<Rightarrow> 'a \<Rightarrow> 'a \<times> bool" where
  "strmap_field upd j x = (case j of
     JObj ms \<Rightarrow> (upd (fold (\<lambda>(k, v) m. m(json_unquote k \<mapsto> strmap_elem v)) ms) x,
       list_ex (\<lambda>(k, v). case v of JStr _ \<Rightarrow> False | JNull \<Rightarrow> False | _ \<Rightarrow> True) ms)
   | JNull \<Rightarrow> (upd (\<lambda>_. Map.empty) x, False)
   | _ \<Rightarrow> (x, True))"

definition commandBody_fields :: "commandBody field list" where
  "commandBody_fields = [(''command'', string_field (\<lambda>v x. x\<lparr>cb_Command := v\<rparr>)),
     (''args'', strmap_field (\<lambda>g x. x\<lparr>cb_Args := g (cb_Args x)\<rparr>))]"

definition command_of :: "string \<Rightarrow> commandBody" where
  "command_of = decode_body (dec_struct commandBody_fields \<lparr>cb_Command = '''', cb_Args = Map.empty\<rparr>)
     \<lparr>cb_Command = '''', cb_Args = Map.empty\<rparr>"

subsection \<open>Handlers\<close>

text \<open>\<open>visit\<close> is the order in which the range over the map of groups meets them this time.\<close>

definition handleListGroups :: "string list \<Rightarrow> fakeAuroraBoot \<Rightarrow> reply" where
  "handleListGroups visit f =
     (Some (writeJSON 200 (JArr (map (\<lambda>g. JObj [(''id'', json_string g), (''name'', json_string g)]) visit))), f)"

definition handleClaim :: "string \<Rightarrow> string \<Rightarrow> fakeAuroraBoot \<Rightarrow> reply" where
  "handleClaim body g f =
     (let ck = claimKey_of body in
      case byClaim f ck of
        Some nid \<Rightarrow>
          (case nodes f nid of Some n \<Rightarrow> (Some (writeJSON 200 (fake_nodeDTO n)), f) | None \<Rightarrow> (None, f))
      | None \<Rightarrow>
          (case (case groupPool f g of Some pool \<Rightarrow> pool | None \<Rightarrow> []) of
             [] \<Rightarrow> (Some (error_reply ''no capacity'' ''NoCapacity''), f)
           | nid # rest \<Rightarrow>
               let f = f\<lparr>groupPool := (groupPool f)(g \<mapsto> rest)\<rparr> in
               case nodes f nid of
                 None \<Rightarrow> (None, f)
               | Some n \<Rightarrow>
                   let n = n\<lparr>fn_ClaimKey := Some ck\<rparr>
                   in (Some (writeJSON 200 (fake_nodeDTO n)),
                       f\<lparr>nodes := (nodes f)(nid \<mapsto> n), byClaim := (byClaim f)(ck \<mapsto> nid)\<rparr>)))"

definition handleGetNode :: "string \<Rightarrow> fakeAuroraBoot \<Rightarrow> reply" where
  "handleGetNode nid f = (case nodes f nid of
     None \<Rightarrow> (Some not_found_reply, f)
   | Some n \<Rightarrow> (Some (writeJSON 200 (fake_nodeDTO n)), f))"

definition handleCreateCommand :: "time \<Rightarrow> string \<Rightarrow> string \<Rightarrow> fakeAuroraBoot \<Rightarrow> reply" where
  "handleCreateCommand now reqBody nid f = (case nodes f nid of
     None \<Rightarrow> (Some not_found_reply, f)
   | Some n \<Rightarrow>
       let body = command_of reqBody;
           cmd = \<lparr>fc_ID = ''cmd-'' @ cb_Command body, fc_Command = cb_Command body, fc_Phase = ''Pending''\<rparr>;
           (f, n, cmd) =
             (if cb_Command body = ''apply-cloud-config'' then
                (f\<lparr>applied := (applied f)(nid \<mapsto> map_read (cb_Args body) ''config'')\<rparr>, n,
                 cmd\<lparr>fc_Phase := ''Completed''\<rparr>)
              else if cb_Command body = ''reboot'' then
                (f\<lparr>rebooted := (rebooted f)(nid \<mapsto> True)\<rparr>,
                 n\<lparr>fn_Phase := ''Online'', fn_LastHeartbeat := Some (time_Add now (seconds 60))\<rparr>,
                 cmd\<lparr>fc_Phase := ''Completed''\<rparr>)
              else (f, n, cmd));
           n = n\<lparr>fn_commands := fn_commands n @ [cmd]\<rparr>
       in (Some (writeJSON 200 (fake_commandDTO cmd)), f\<lparr>nodes := (nodes f)(nid \<mapsto> n)\<rparr>))"

definition handleGetCommands :: "string \<Rightarrow> fakeAuroraBoot \<Rightarrow> reply" where
  "handleGetCommands nid f = (case nodes f nid of
     None \<Rightarrow> (Some not_found_reply, f)
   | Some n \<Rightarrow> (Some (writeJSON 200 (JArr (map fake_commandDTO (fn_commands n)))), f))"

definition handleRelease :: "string \<Rightarrow> string \<Rightarrow> fakeAuroraBoot \<Rightarrow> reply" where
  "handleRelease body nid f =
     (let ck = claimKey_of body in
      case nodes f nid of
        None \<Rightarrow> (Some not_found_reply, f)
      | Some n \<Rightarrow>
          (case fn_ClaimKey n of
             None \<Rightarrow> (Some (writeJSON 200 (JObj [(''released'', JBool False)])), f)
           | Some k \<Rightarrow>
               if k \<noteq> ck then (Some (error_reply ''node is claimed by a different key'' ''ClaimMismatch''), f)
               else (Some (writeJSON 200 (JObj [(''released'', JBool True)])),
                 f\<lparr>released := (released f)(nid \<mapsto> ck), byClaim := map_delete (byClaim f) ck,
                   nodes := (nodes f)(nid \<mapsto> n\<lparr>fn_ClaimKey := None\<rparr>)\<rparr>)))"

definition wasReleased :: "fakeAuroraBoot \<Rightarrow> string \<Rightarrow> string \<Rightarrow> bool" where
  "wasReleased f nodeID claimKey \<longleftrightarrow> map_read (released f) nodeID = claimKey"

definition route :: "string list \<Rightarrow> time \<Rightarrow> string \<Rightarrow> string \<Rightarrow> string \<Rightarrow> fakeAuroraBoot \<Rightarrow> reply" where
  "route visit now method path body f =
     (let parts = split_path (trim_prefix ''/api/v1/'' path) in
      case parts of
        [a] \<Rightarrow>
          if a = ''groups'' \<and> method = ''GET'' then handleListGroups visit f else (Some not_found_reply, f)
      | [a, b] \<Rightarrow>
          if a = ''nodes'' \<and> method = ''GET'' then handleGetNode b f else (Some not_found_reply, f)
      | [a, b, c] \<Rightarrow>
          if a = ''groups'' \<and> c = ''claim'' \<and> method = ''POST'' then handleClaim body b f
          else if a = ''nodes'' \<and> c = ''commands'' \<and> method = ''POST'' then handleCreateCommand now body b f
          else if a = ''nodes'' \<and> c = ''commands'' \<and> method = ''GET'' then handleGetCommands b f
          else if a = ''nodes'' \<and> c = ''release'' \<and> method = ''POST'' then handleRelease body b f
          else (Some not_found_reply, f)
      | _ \<Rightarrow> (Some not_found_reply, f))"

subsection \<open>The network\<close>

text \<open>The path of a URL behind its host, as \<open>net/url\<close> reads it on both sides: up to the first
  question mark or number sign, with its percent escapes decoded. A control character anywhere,
  or an escape that is not one, is an error.\<close>

fun unescape :: "string \<Rightarrow> string option" where
  "unescape [] = Some []"
| "unescape (c # s) =
     (if c = CHR ''%'' then
        (case s of a # b # t \<Rightarrow> do { x \<leftarrow> hex_val a; y \<leftarrow> hex_val b; r \<leftarrow> unescape t; Some (byte_of (16 * x + y) # r) }
         | _ \<Rightarrow> None)
      else map_option (Cons c) (unescape s))"

definition url_path :: "string \<Rightarrow> string option" where
  "url_path u =
     (let path = takeWhile (\<lambda>c. c \<noteq> CHR ''?'' \<and> c \<noteq> CHR ''#'') u;
          fragment = drop 1 (dropWhile (\<lambda>c. c \<noteq> CHR ''#'') u)
      in if list_ex (\<lambda>c. byte_val c < 32 \<or> byte_val c = 127) u \<or> unescape fragment = None then None
         else map_option (\<lambda>p. if p = '''' then ''/'' else p) (unescape path))"

text \<open>What follows the server's own address in a URL, where that address is what it starts with.\<close>

definition behind_host :: "string \<Rightarrow> string \<Rightarrow> string option" where
  "behind_host base url =
     (let u = drop (length base) url in
      if has_prefix base url \<and> (u = '''' \<or> hd u = CHR ''/'' \<or> hd u = CHR ''?'' \<or> hd u = CHR ''#'')
      then Some u else None)"

text \<open>The world is the server and its clock. \<open>serve\<close> is a round trip to the server at \<open>base\<close>, and
  \<open>visit\<close> answers for the order of the map at each request. A request to any other host fails.\<close>

type_synonym aurora = "fakeAuroraBoot \<times> time"

definition serve :: "(aurora \<Rightarrow> string list) \<Rightarrow> string \<Rightarrow> aurora HTTPClient" where
  "serve visit base req w =
     (case (case behind_host base (req_URL req) of Some u \<Rightarrow> url_path u | None \<Rightarrow> None) of
        None \<Rightarrow> (Inl (ForeignErr ''no such host''), w)
      | Some path \<Rightarrow>
          let body = (case req_Body req of Some b \<Rightarrow> b | None \<Rightarrow> '''')
          in (case route (visit w) (snd w) (req_Method req) path body (fst w) of
                (Some resp, f) \<Rightarrow> (Inr resp, (f, snd w))
              | (None, f) \<Rightarrow> (Inl (ForeignErr ''EOF''), (f, snd w))))"

definition aurora_net :: "(aurora \<Rightarrow> string list) \<Rightarrow> string \<Rightarrow> aurora net" where
  "aurora_net visit base = \<lparr>
     NewRequest = (\<lambda>method url. case behind_host base url of
         Some u \<Rightarrow> if url_path u = None then Some (ForeignErr ''invalid URL'') else None
       | None \<Rightarrow> None),
     HTTPClientWithTimeout = (\<lambda>_. serve visit base)\<rparr>"

end
