(* ===== verification/AuroraBootProofs.thy ===== *)
theory AuroraBootProofs
  imports AuroraBoot JsonProofs HttpProofs
begin

text \<open>
  The HTTP client against the AuroraBoot server: what each operation of the client answers, and
  what it leaves on the server, as functions of the server's state with no URL, request or JSON
  left in them. Identifiers are plain where they go into a path.
\<close>

subsection \<open>Requests get through\<close>

text \<open>Characters that stand for themselves in a path, and are no separator.\<close>

definition url_char :: "char \<Rightarrow> bool" where
  "url_char c \<longleftrightarrow> 32 \<le> byte_val c \<and> byte_val c \<noteq> 127 \<and> c \<noteq> CHR ''%'' \<and> c \<noteq> CHR ''?'' \<and> c \<noteq> CHR ''#''"

definition plain :: "string \<Rightarrow> bool" where
  "plain s \<longleftrightarrow> list_all (\<lambda>c. url_char c \<and> c \<noteq> CHR ''/'') s"

lemma unescape_plain: "list_all url_char s \<Longrightarrow> unescape s = Some s"
  by (induction s) (auto simp: url_char_def)

lemma scan_plain_url:
  assumes "list_all url_char s"
  shows "takeWhile (\<lambda>c. c \<noteq> CHR ''?'' \<and> c \<noteq> CHR ''#'') s = s" "dropWhile (\<lambda>c. c \<noteq> CHR ''#'') s = []"
    "list_ex (\<lambda>c. byte_val c < 32 \<or> byte_val c = 127) s = False"
  using assms by (induction s) (simp_all add: url_char_def)

lemma url_path_plain: "list_all url_char s \<Longrightarrow> s \<noteq> '''' \<Longrightarrow> url_path s = Some s"
  by (simp add: url_path_def Let_def unescape_plain scan_plain_url)

lemma behind_host_path: "hd path = CHR ''/'' \<Longrightarrow> behind_host base (base @ path) = Some path"
  by (simp add: behind_host_def has_prefix_def Let_def)

lemma plain_url: "plain s \<Longrightarrow> list_all url_char s"
  by (simp add: plain_def list_all_iff)

lemma split_path_plain: "plain s \<Longrightarrow> split_path s = [s]"
  by (rule split_on_none) (auto simp: plain_def list_all_iff)

lemma split_path_append: "plain s \<Longrightarrow> split_path (s @ CHR ''/'' # t) = s # split_path t"
  by (rule split_on_append) (auto simp: plain_def list_all_iff)

text \<open>A client of the server at \<open>base\<close>.\<close>

definition at_server :: "(aurora \<Rightarrow> string list) \<Rightarrow> string \<Rightarrow> aurora httpClient \<Rightarrow> bool" where
  "at_server visit base c \<longleftrightarrow> baseURL c = base \<and> http c = serve visit base"

text \<open>What the client makes of a reply.\<close>

definition receive :: "string \<Rightarrow> string \<Rightarrow> (json \<Rightarrow> 'a \<times> bool) \<Rightarrow> Response option \<Rightarrow> 'a res" where
  "receive method path dec reply = (case reply of
     None \<Rightarrow> Inl (WrapErr (''fleet: '' @ method @ '' '' @ path @ '': '') (ForeignErr ''EOF''))
   | Some resp \<Rightarrow>
       if resp_StatusCode resp < 200 \<or> 300 \<le> resp_StatusCode resp then Inl (decodeError resp)
       else (case decode_with dec (resp_Body resp) of
               None \<Rightarrow> Inl (WrapErr ''fleet: decode response: '' (ForeignErr ''json'')) | Some out \<Rightarrow> Inr out))"

lemma http_do_server:
  assumes "at_server visit base c" "list_all url_char path" "hd path = CHR ''/''" "path \<noteq> ''''"
  shows "http_do (aurora_net visit base) c method path input dec w
     = (let (reply, f) = route (visit w) (snd w) method path
          (case input of Some j \<Rightarrow> json_encode j | None \<Rightarrow> '''') (fst w)
        in (receive method path dec reply, (f, snd w)))"
proof -
  have "behind_host base (base @ path) = Some path" "url_path path = Some path"
    using behind_host_path [OF assms(3)] url_path_plain [OF assms(2,4)] .
  then show ?thesis using assms(1)
    by (cases "route (visit w) (snd w) method path (case input of Some j \<Rightarrow> json_encode j | None \<Rightarrow> '''') (fst w)")
      (auto simp: http_do_def aurora_net_def at_server_def serve_def receive_def Let_def split: option.splits)
qed

lemma path_chars:
  "list_all url_char ''/api/v1/groups''" "list_all url_char ''/api/v1/groups/''" "list_all url_char ''/api/v1/nodes/''"
  "list_all url_char ''/claim''" "list_all url_char ''/commands''" "list_all url_char ''/release''"
  "plain ''groups''" "plain ''nodes''" "plain ''claim''" "plain ''commands''" "plain ''release''"
  by code_simp+

lemma route_parts:
  assumes "plain n"
  shows "split_path (trim_prefix ''/api/v1/'' (''/api/v1/nodes/'' @ n)) = [''nodes'', n]"
    "split_path (trim_prefix ''/api/v1/'' (''/api/v1/nodes/'' @ n @ CHR ''/'' # s)) = ''nodes'' # n # split_path s"
    "split_path (trim_prefix ''/api/v1/'' (''/api/v1/groups/'' @ n @ CHR ''/'' # s)) = ''groups'' # n # split_path s"
    "split_path (trim_prefix ''/api/v1/'' ''/api/v1/groups'') = [''groups'']"
  using assms by (simp_all add: trim_prefix_def has_prefix_def split_path_plain split_path_append)

text \<open>Each path leads to its handler.\<close>

lemma routes:
  assumes "plain n"
  shows "route visit now ''GET'' (''/api/v1/nodes/'' @ n) body f = handleGetNode n f"
    "route visit now ''POST'' (''/api/v1/nodes/'' @ n @ ''/commands'') body f = handleCreateCommand now body n f"
    "route visit now ''GET'' (''/api/v1/nodes/'' @ n @ ''/commands'') body f = handleGetCommands n f"
    "route visit now ''POST'' (''/api/v1/nodes/'' @ n @ ''/release'') body f = handleRelease body n f"
    "route visit now ''POST'' (''/api/v1/groups/'' @ n @ ''/claim'') body f = handleClaim body n f"
    "route visit now ''GET'' ''/api/v1/groups'' body f = handleListGroups visit f"
  unfolding route_def Let_def route_parts [OF assms] by simp_all

subsection \<open>What is encoded is decoded\<close>

lemma decode_reply:
  assumes "encodable j" "json_depth j \<le> 10000"
  shows "decode_with dec (resp_Body (writeJSON s j)) = (let (x, bad) = dec j in if bad then None else Some x)"
  by (simp add: decode_with_def writeJSON_def decode_encode(1) [OF assms])

lemma decode_request:
  assumes "encodable j" "json_depth j \<le> 10000"
  shows "decode_body dec zero (json_encode j) = fst (dec j)"
  using decode_encode(1) [OF assms, of "[]"] by (simp add: decode_body_def)

text \<open>Times are written in characters that JSON leaves alone.\<close>

lemma json_escape_time: "\<forall>c \<in> set s. time_char c \<Longrightarrow> json_escape s = s"
proof (induction s)
  case (Cons c s)
  have "byte_val c < 128 \<and> escape_ascii c = [c]"
  proof (cases "is_digit c")
    case True
    then show ?thesis by (simp add: is_digit_def escape_ascii_def Let_def)
  next
    case False
    then have "c \<in> set ''-T:.Z''" using Cons.prems by (simp add: time_char_def)
    moreover have "\<forall>c \<in> set ''-T:.Z''. byte_val c < 128 \<and> escape_ascii c = [c]" by code_simp
    ultimately show ?thesis by blast
  qed
  then show ?case using Cons by (simp add: json_escape.simps(2))
qed simp

lemma parse_strict_format:
  assumes "four_digit_year t"
  shows "parse_strict_RFC3339 (format_RFC3339Nano t) = Some t"
proof -
  obtain s where s: "format_RFC3339 t = s @ ''Z''" "length s = 19" "is_digit (s ! 12)"
    by (rule format_RFC3339_parts [OF assms])
  let ?f = "format_frac (t mod nanos)"
  have f: "format_RFC3339Nano t = s @ ?f @ ''Z''" by (simp add: format_RFC3339Nano_def s(1))
  have "\<not> is_digit (CHR '':'')" by code_simp
  then have 12: "(s @ ?f @ ''Z'') ! 12 \<noteq> CHR '':''" using s(2,3) by (auto simp: nth_append)
  have 19: "(s @ ?f @ ''Z'') ! 19 \<noteq> CHR '',''" using s(2) by (simp add: nth_append format_frac_def)
  show ?thesis using parse_format_RFC3339Nano [OF assms] 12 19
    by (simp add: parse_strict_RFC3339_def f)
qed

text \<open>The fields of each struct.\<close>

lemma field_names:
  "json_unquote ''id'' = ''id''" "json_unquote ''name'' = ''name''" "json_unquote ''machineID'' = ''machineID''"
  "json_unquote ''hostname'' = ''hostname''" "json_unquote ''groupID'' = ''groupID''" "json_unquote ''phase'' = ''phase''"
  "json_unquote ''claimKey'' = ''claimKey''" "json_unquote ''lastHeartbeat'' = ''lastHeartbeat''"
  "json_unquote ''command'' = ''command''" "json_unquote ''args'' = ''args''" "json_unquote ''config'' = ''config''"
  "json_unquote ''released'' = ''released''"
  by code_simp+

lemma folded_names:
  "fold_name ''id'' = ''ID''" "fold_name ''name'' = ''NAME''" "fold_name ''machineID'' = ''MACHINEID''"
  "fold_name ''hostname'' = ''HOSTNAME''" "fold_name ''groupID'' = ''GROUPID''" "fold_name ''phase'' = ''PHASE''"
  "fold_name ''claimKey'' = ''CLAIMKEY''" "fold_name ''lastHeartbeat'' = ''LASTHEARTBEAT''"
  "fold_name ''command'' = ''COMMAND''" "fold_name ''args'' = ''ARGS''" "fold_name ''result'' = ''RESULT''"
  "fold_name ''createdAt'' = ''CREATEDAT''" "fold_name ''released'' = ''RELEASED''"
  by code_simp+

lemma literals:
  "well_formed_literal ''id''" "well_formed_literal ''name''" "well_formed_literal ''machineID''"
  "well_formed_literal ''hostname''" "well_formed_literal ''groupID''" "well_formed_literal ''phase''"
  "well_formed_literal ''claimKey''" "well_formed_literal ''lastHeartbeat''" "well_formed_literal ''command''"
  "well_formed_literal ''args''" "well_formed_literal ''config''" "well_formed_literal ''released''"
  "well_formed_literal ''error''" "well_formed_literal ''code''"
  by code_simp+

lemma find_fields:
  "find_field nodeDTO_fields ''id'' = Some (string_field (\<lambda>v x. x\<lparr>nd_ID := v\<rparr>))"
  "find_field nodeDTO_fields ''machineID'' = Some (string_field (\<lambda>v x. x\<lparr>nd_MachineID := v\<rparr>))"
  "find_field nodeDTO_fields ''hostname'' = Some (string_field (\<lambda>v x. x\<lparr>nd_Hostname := v\<rparr>))"
  "find_field nodeDTO_fields ''groupID'' = Some (string_field (\<lambda>v x. x\<lparr>nd_GroupID := v\<rparr>))"
  "find_field nodeDTO_fields ''phase'' = Some (string_field (\<lambda>v x. x\<lparr>nd_Phase := v\<rparr>))"
  "find_field nodeDTO_fields ''claimKey'' = Some (string_ptr_field (\<lambda>v x. x\<lparr>nd_ClaimKey := v\<rparr>))"
  "find_field nodeDTO_fields ''lastHeartbeat'' = Some (time_ptr_field (\<lambda>v x. x\<lparr>nd_LastHeartbeat := v\<rparr>))"
  "find_field commandDTO_fields ''id'' = Some (string_field (\<lambda>v x. x\<lparr>cd_ID := v\<rparr>))"
  "find_field commandDTO_fields ''command'' = Some (string_field (\<lambda>v x. x\<lparr>cd_Command := v\<rparr>))"
  "find_field commandDTO_fields ''phase'' = Some (string_field (\<lambda>v x. x\<lparr>cd_Phase := v\<rparr>))"
  "find_field groupDTO_fields ''id'' = Some (string_field (\<lambda>v x. x\<lparr>gd_ID := v\<rparr>))"
  "find_field groupDTO_fields ''name'' = Some (string_field (\<lambda>v x. x\<lparr>gd_Name := v\<rparr>))"
  "find_field commandBody_fields ''command'' = Some (string_field (\<lambda>v x. x\<lparr>cb_Command := v\<rparr>))"
  "find_field commandBody_fields ''args'' = Some (strmap_field (\<lambda>g x. x\<lparr>cb_Args := g (cb_Args x)\<rparr>))"
  "find_field [(''claimKey'', d1)] ''claimKey'' = Some d1" "find_field [(''released'', d2)] ''released'' = Some d2"
  by (simp_all add: find_field_def nodeDTO_fields_def commandDTO_fields_def groupDTO_fields_def
      commandBody_fields_def folded_names del: fold_name.simps)

text \<open>A node whose text is UTF-8 and whose heartbeat has a year of four digits reads back as it is,
  and so do commands, groups and keys.\<close>

definition readable :: "fakeNode \<Rightarrow> bool" where
  "readable n \<longleftrightarrow> list_all utf8_valid [fn_ID n, fn_MachineID n, fn_Hostname n, fn_GroupID n, fn_Phase n]
     \<and> pred_option utf8_valid (fn_ClaimKey n) \<and> pred_option four_digit_year (fn_LastHeartbeat n)
     \<and> list_all (\<lambda>c. utf8_valid (fc_ID c) \<and> utf8_valid (fc_Command c) \<and> utf8_valid (fc_Phase c)) (fn_commands n)"

definition seen :: "fakeNode \<Rightarrow> Node" where
  "seen n = \<lparr>node_ID = fn_ID n, node_MachineID = fn_MachineID n, node_Hostname = fn_Hostname n,
     node_GroupID = fn_GroupID n, node_Phase = fn_Phase n, node_ClaimKey = fn_ClaimKey n,
     node_LastHeartbeat = fn_LastHeartbeat n\<rparr>"

definition seen_command :: "fakeCommand \<Rightarrow> Command" where
  "seen_command c = \<lparr>cmd_ID = fc_ID c, cmd_Command = fc_Command c, cmd_Phase = fc_Phase c,
     cmd_Result = '''', cmd_CreatedAt = None\<rparr>"

lemma utf8_ascii: "list_all (\<lambda>c. byte_val c < 128) s \<Longrightarrow> utf8_valid s"
  by (induction s) (simp_all add: utf8_valid.simps(2) decode_rune_ascii RuneError_def)

lemma utf8_names:
  "utf8_valid ''NoCapacity''" "utf8_valid ''ClaimMismatch''" "utf8_valid ''apply-cloud-config''" "utf8_valid ''reboot''"
  "utf8_valid ''cmd-apply-cloud-config''" "utf8_valid ''cmd-reboot''" "utf8_valid ''Completed''" "utf8_valid ''Online''"
  by (rule utf8_ascii, code_simp)+

lemma unquote_valid: "utf8_valid s \<Longrightarrow> json_unquote (json_escape s) = s"
  by (simp add: unquote_escape to_valid_iff)

lemma seen_fields [simp]:
  "node_ID (seen n) = fn_ID n" "node_Phase (seen n) = fn_Phase n" "node_LastHeartbeat (seen n) = fn_LastHeartbeat n"
  "cmd_ID (seen_command c) = fc_ID c" "cmd_Command (seen_command c) = fc_Command c"
  "cmd_Phase (seen_command c) = fc_Phase c"
  by (simp_all add: seen_def seen_command_def)

lemma encodable_DTOs:
  "encodable (fake_nodeDTO n)" "json_depth (fake_nodeDTO n) \<le> 10000"
  "encodable (fake_commandDTO c)" "json_depth (fake_commandDTO c) \<le> 10000"
  by (simp_all add: fake_nodeDTO_def fake_commandDTO_def json_string_def literals split: option.splits)

lemma dec_node:
  assumes "readable n"
  shows "(\<lambda>(x, bad). (toNode x, bad)) (dec_struct nodeDTO_fields zero_nodeDTO (fake_nodeDTO n)) = (seen n, False)"
proof -
  have t: "json_escape (format_RFC3339Nano t) = format_RFC3339Nano t" for t
    using json_escape_time format_chars by blast
  from assms show ?thesis
    by (cases "fn_ClaimKey n"; cases "fn_LastHeartbeat n")
      (simp_all add: readable_def dec_struct_def fake_nodeDTO_def field_names find_fields string_field_def
        string_ptr_field_def time_ptr_field_def json_string_def unquote_valid t parse_strict_format
        zero_nodeDTO_def toNode_def seen_def)
qed

lemma dec_command:
  assumes "utf8_valid (fc_ID c)" "utf8_valid (fc_Command c)" "utf8_valid (fc_Phase c)"
  shows "(\<lambda>(x, bad). (toCommand x, bad)) (dec_struct commandDTO_fields zero_commandDTO (fake_commandDTO c))
    = (seen_command c, False)"
  using assms by (simp add: dec_struct_def fake_commandDTO_def field_names find_fields string_field_def
      json_string_def unquote_valid zero_commandDTO_def toCommand_def seen_command_def)

lemma receive_ok:
  assumes "dec j = (x, False)" "encodable j" "json_depth j \<le> 10000"
  shows "receive method path dec (Some (writeJSON 200 j)) = Inr x"
  using assms by (simp add: receive_def decode_reply) (simp add: writeJSON_def)

lemma receive_node:
  assumes "readable n"
  shows "map_res (\<lambda>out. Some (toNode out)) (receive method path (dec_struct nodeDTO_fields zero_nodeDTO)
      (Some (writeJSON 200 (fake_nodeDTO n))), w) = (Inr (Some (seen n)), w)"
proof -
  obtain x where x: "dec_struct nodeDTO_fields zero_nodeDTO (fake_nodeDTO n) = (x, False)" "toNode x = seen n"
    using dec_node [OF assms] by (auto split: prod.splits)
  show ?thesis unfolding receive_ok [of "dec_struct nodeDTO_fields zero_nodeDTO" _ x, OF x(1) encodable_DTOs(1,2)] by (simp add: map_res_def x(2))
qed

lemma receive_command:
  assumes "utf8_valid (fc_ID c)" "utf8_valid (fc_Command c)" "utf8_valid (fc_Phase c)"
  shows "map_res (\<lambda>out. Some (toCommand out)) (receive method path (dec_struct commandDTO_fields zero_commandDTO)
      (Some (writeJSON 200 (fake_commandDTO c))), w) = (Inr (Some (seen_command c)), w)"
proof -
  obtain x where x: "dec_struct commandDTO_fields zero_commandDTO (fake_commandDTO c) = (x, False)"
    "toCommand x = seen_command c"
    using dec_command [OF assms] by (auto split: prod.splits)
  show ?thesis unfolding receive_ok [of "dec_struct commandDTO_fields zero_commandDTO" _ x, OF x(1) encodable_DTOs(3,4)] by (simp add: map_res_def x(2))
qed

lemma fold_max_const: "\<forall>x \<in> set xs. x = (1::nat) \<Longrightarrow> fold max xs m = (if xs = [] then m else max 1 m)"
  by (induction xs arbitrary: m) auto

lemma receive_commands:
  assumes "\<forall>c \<in> set cs. utf8_valid (fc_ID c) \<and> utf8_valid (fc_Command c) \<and> utf8_valid (fc_Phase c)"
  shows "map_res (map toCommand) (receive method path (dec_slice commandDTO_fields zero_commandDTO)
      (Some (writeJSON 200 (JArr (map fake_commandDTO cs)))), w) = (Inr (map seen_command cs), w)"
proof -
  let ?x = "\<lambda>c. fst (dec_struct commandDTO_fields zero_commandDTO (fake_commandDTO c))"
  have x: "toCommand (?x c) = seen_command c \<and> \<not> snd (dec_struct commandDTO_fields zero_commandDTO (fake_commandDTO c))"
    if "c \<in> set cs" for c
    using dec_command [of c] assms that by (auto split: prod.splits)
  have dec: "dec_slice commandDTO_fields zero_commandDTO (JArr (map fake_commandDTO cs)) = (map ?x cs, False)"
    using x by (auto simp: dec_slice_def list_ex_iff)
  have "\<forall>d \<in> set (map (json_depth \<circ> fake_commandDTO) cs). d = 1" by (auto simp: fake_commandDTO_def json_string_def)
  then have "json_depth (JArr (map fake_commandDTO cs)) \<le> 10000"
    by (simp add: fold_max_const split: if_splits)
  moreover have "encodable (JArr (map fake_commandDTO cs))" by (simp add: list_all_iff encodable_DTOs)
  ultimately show ?thesis using receive_ok [of "dec_slice commandDTO_fields zero_commandDTO" _ "map ?x cs", OF dec] x by (simp add: map_res_def)
qed

lemma claimKey_of_request: "claimKey_of (json_encode (json_strmap [(''claimKey'', k)])) = to_valid k"
proof -
  have e: "json_escape ''claimKey'' = ''claimKey''" by code_simp
  have "encodable (json_strmap [(''claimKey'', k)])" "json_depth (json_strmap [(''claimKey'', k)]) \<le> 10000"
    by (simp_all add: json_strmap_def json_string_def literals e)
  then show ?thesis unfolding claimKey_of_def by (subst decode_request)
    (simp_all add: json_strmap_def dec_struct_def e field_names find_fields string_field_def json_string_def unquote_escape)
qed

subsection \<open>The operations of the client\<close>

text \<open>Each operation is its handler between an encoding and a decoding.\<close>

lemma operations:
  assumes "at_server visit base c" "plain n"
  defines "net \<equiv> aurora_net visit base"
  shows "http_Claim net c n k w = (let (reply, f) = handleClaim (json_encode (json_strmap [(''claimKey'', k)])) n (fst w)
      in map_res (\<lambda>out. Some (toNode out)) (receive ''POST'' (''/api/v1/groups/'' @ n @ ''/claim'')
           (dec_struct nodeDTO_fields zero_nodeDTO) reply, (f, snd w)))"
    "http_GetNode net c n w = (let (reply, f) = handleGetNode n (fst w)
      in map_res (\<lambda>out. Some (toNode out)) (receive ''GET'' (''/api/v1/nodes/'' @ n)
           (dec_struct nodeDTO_fields zero_nodeDTO) reply, (f, snd w)))"
    "sendCommand net c n cmd args w = (let (reply, f) = handleCreateCommand (snd w)
         (json_encode (enc_createCommandDTO \<lparr>ccd_Command = cmd, ccd_Args = args\<rparr>)) n (fst w)
      in map_res (\<lambda>out. Some (toCommand out)) (receive ''POST'' (''/api/v1/nodes/'' @ n @ ''/commands'')
           (dec_struct commandDTO_fields zero_commandDTO) reply, (f, snd w)))"
    "http_GetCommands net c n w = (let (reply, f) = handleGetCommands n (fst w)
      in map_res (map toCommand) (receive ''GET'' (''/api/v1/nodes/'' @ n @ ''/commands'')
           (dec_slice commandDTO_fields zero_commandDTO) reply, (f, snd w)))"
    "http_Release net c n k w = (let (reply, f) = handleRelease (json_encode (json_strmap [(''claimKey'', k)])) n (fst w)
      in (receive ''POST'' (''/api/v1/nodes/'' @ n @ ''/release'')
           (dec_struct [(''released'', bool_field (\<lambda>v _. v))] False) reply, (f, snd w)))"
    "http_do net c ''GET'' ''/api/v1/groups'' None dec w = (let (reply, f) = handleListGroups (visit w) (fst w)
      in (receive ''GET'' ''/api/v1/groups'' dec reply, (f, snd w)))"
  unfolding net_def http_Claim_def http_GetNode_def sendCommand_def http_GetCommands_def http_Release_def
  using plain_url [OF assms(2)] path_chars
  by (subst http_do_server [OF assms(1)];
      simp add: routes [OF assms(2)] split_def Let_def del: append_Cons)+

text \<open>Error replies.\<close>

lemma decode_not_found:
  "receive method path dec (Some not_found_reply) = Inl (decodeError not_found_reply) \<and> IsNotFound (decodeError not_found_reply)"
proof -
  obtain ae where "decodeError not_found_reply = APIErr ae" "StatusCode ae = resp_StatusCode not_found_reply"
    using decodeError_APIError [of not_found_reply] by blast
  then show ?thesis by (simp add: receive_def not_found_reply_def http_Error_def IsNotFound_def)
qed

lemma decode_error_reply:
  assumes "utf8_valid code"
  shows "\<exists>e. receive method path dec (Some (error_reply msg code)) = Inl (APIErr e) \<and> StatusCode e = 409 \<and> Code e = code"
proof -
  let ?j = "JObj [(''code'', json_string code), (''error'', json_string msg)]"
  define b where "b = json_encode ?j @ [newline]"
  have j: "encodable ?j" "json_depth ?j \<le> 10000" by (simp_all add: json_string_def literals)
  have "json_value (2 * length b + 2) b = Some (?j, [newline])"
    unfolding b_def by (rule json_value_encode(1) [OF j(1)]) simp
  moreover have "skip_ws [newline] = []" by code_simp
  ultimately have d: "decode_whole b = Some ?j" using j(2) by (simp add: decode_whole_def)
  have b: "b \<noteq> []" "error_reply msg code = \<lparr>resp_StatusCode = 409, resp_Body = b\<rparr>"
    by (simp_all add: b_def error_reply_def writeJSON_def)
  then show ?thesis
    by (simp add: receive_def decodeError_def d dec_struct_def find_APIError_fields string_field_def json_string_def
        unquote_valid [OF assms] Let_def)
qed

lemma claimKey_of_valid: "utf8_valid k \<Longrightarrow> claimKey_of (json_encode (json_strmap [(''claimKey'', k)])) = k"
  by (simp only: claimKey_of_request to_valid_iff)

text \<open>\<open>Claim\<close>: the key's node again, or the first of the pool, or no capacity.\<close>

lemma claim_again:
  assumes "at_server visit base c" "plain g" "utf8_valid k"
    and "byClaim (fst w) k = Some nid" "nodes (fst w) nid = Some n" "readable n"
  shows "http_Claim (aurora_net visit base) c g k w = (Inr (Some (seen n)), w)"
proof -
  have "handleClaim (json_encode (json_strmap [(''claimKey'', k)])) g (fst w)
      = (Some (writeJSON 200 (fake_nodeDTO n)), fst w)"
    unfolding handleClaim_def claimKey_of_valid [OF assms(3)] using assms(4,5) by simp
  then show ?thesis unfolding operations(1) [OF assms(1,2)] by (simp only: Let_def prod.case receive_node [OF assms(6)] prod.collapse)
qed

definition claimed :: "string \<Rightarrow> string \<Rightarrow> string list \<Rightarrow> string \<Rightarrow> fakeNode \<Rightarrow> fakeAuroraBoot \<Rightarrow> fakeAuroraBoot" where
  "claimed g k rest nid n f = f\<lparr>groupPool := (groupPool f)(g \<mapsto> rest),
     nodes := (nodes f)(nid \<mapsto> n\<lparr>fn_ClaimKey := Some k\<rparr>), byClaim := (byClaim f)(k \<mapsto> nid)\<rparr>"

lemma claim_fresh:
  assumes "at_server visit base c" "plain g" "utf8_valid k"
    and "byClaim (fst w) k = None" "groupPool (fst w) g = Some (nid # rest)" "nodes (fst w) nid = Some n" "readable n"
  shows "http_Claim (aurora_net visit base) c g k w
    = (Inr (Some (seen (n\<lparr>fn_ClaimKey := Some k\<rparr>))), (claimed g k rest nid n (fst w), snd w))"
proof -
  have n: "readable (n\<lparr>fn_ClaimKey := Some k\<rparr>)" using assms(3,7) by (simp add: readable_def)
  have "handleClaim (json_encode (json_strmap [(''claimKey'', k)])) g (fst w)
      = (Some (writeJSON 200 (fake_nodeDTO (n\<lparr>fn_ClaimKey := Some k\<rparr>))), claimed g k rest nid n (fst w))"
    unfolding handleClaim_def claimKey_of_valid [OF assms(3)] using assms(4-6) by (simp add: claimed_def Let_def)
  then show ?thesis unfolding operations(1) [OF assms(1,2)] by (simp only: Let_def prod.case receive_node [OF n])
qed

lemma claim_no_capacity:
  assumes "at_server visit base c" "plain g" "utf8_valid k"
    and "byClaim (fst w) k = None" "groupPool (fst w) g \<in> {None, Some []}"
  shows "\<exists>e. http_Claim (aurora_net visit base) c g k w = (Inl e, w) \<and> IsNoCapacity e"
proof -
  define p where "p = ''/api/v1/groups/'' @ g @ ''/claim''"
  obtain e where
    e: "receive ''POST'' p (dec_struct nodeDTO_fields zero_nodeDTO) (Some (error_reply ''no capacity'' ''NoCapacity''))
       = Inl (APIErr e)" "Code e = ''NoCapacity''"
    using decode_error_reply [OF utf8_names(1), of "''POST''" p "dec_struct nodeDTO_fields zero_nodeDTO" "''no capacity''"]
    by (elim exE conjE)
  have "handleClaim (json_encode (json_strmap [(''claimKey'', k)])) g (fst w)
      = (Some (error_reply ''no capacity'' ''NoCapacity''), fst w)"
    unfolding handleClaim_def claimKey_of_valid [OF assms(3)] using assms(4,5) by auto
  then have "http_Claim (aurora_net visit base) c g k w = map_res (\<lambda>out. Some (toNode out)) (Inl (APIErr e), w)"
    unfolding operations(1) [OF assms(1,2)] p_def [symmetric] by (simp only: Let_def prod.case e(1) prod.collapse)
  then show ?thesis using e(2) by (simp add: map_res_def IsNoCapacity_def)
qed

text \<open>\<open>GetNode\<close> and \<open>GetCommands\<close>.\<close>

lemma get_node:
  assumes "at_server visit base c" "plain nid"
  shows "nodes (fst w) nid = Some n \<Longrightarrow> readable n \<Longrightarrow>
      http_GetNode (aurora_net visit base) c nid w = (Inr (Some (seen n)), w)"
    "nodes (fst w) nid = None \<Longrightarrow> \<exists>e. http_GetNode (aurora_net visit base) c nid w = (Inl e, w) \<and> IsNotFound e"
  unfolding operations(2) [OF assms] handleGetNode_def
  by (simp_all only: option.case Let_def prod.case receive_node decode_not_found prod.collapse)
    (simp add: map_res_def decode_not_found)

lemma readable_commands:
  "readable n \<Longrightarrow> \<forall>c \<in> set (fn_commands n). utf8_valid (fc_ID c) \<and> utf8_valid (fc_Command c) \<and> utf8_valid (fc_Phase c)"
  by (simp add: readable_def list_all_iff)

lemma get_commands:
  assumes "at_server visit base c" "plain nid"
  shows "nodes (fst w) nid = Some n \<Longrightarrow> readable n \<Longrightarrow>
      http_GetCommands (aurora_net visit base) c nid w = (Inr (map seen_command (fn_commands n)), w)"
    "nodes (fst w) nid = None \<Longrightarrow> \<exists>e. http_GetCommands (aurora_net visit base) c nid w = (Inl e, w)"
  unfolding operations(4) [OF assms] handleGetCommands_def
  by (simp_all only: option.case Let_def prod.case receive_commands [OF readable_commands] decode_not_found prod.collapse)
    (simp add: map_res_def)

end
