(* ===== verification/AuroraBootState.thy ===== *)
theory AuroraBootState
  imports AuroraBootProofs
begin

text \<open>
  The state of the AuroraBoot server under the client's calls: commands, releases and the groups,
  the invariant \<open>sound\<close> of the server, which every operation of the client preserves, and who
  holds which node.
\<close>

subsection \<open>Commands, releases, groups\<close>

text \<open>The command the server makes of a request.\<close>

definition done_command :: "string \<Rightarrow> fakeCommand" where
  "done_command name = \<lparr>fc_ID = ''cmd-'' @ name, fc_Command = name, fc_Phase = ''Completed''\<rparr>"

definition configured :: "string \<Rightarrow> string \<Rightarrow> fakeNode \<Rightarrow> fakeAuroraBoot \<Rightarrow> fakeAuroraBoot" where
  "configured data nid n f = f\<lparr>applied := (applied f)(nid \<mapsto> data),
     nodes := (nodes f)(nid \<mapsto> n\<lparr>fn_commands := fn_commands n @ [done_command ''apply-cloud-config'']\<rparr>)\<rparr>"

definition restarted :: "time \<Rightarrow> string \<Rightarrow> fakeNode \<Rightarrow> fakeAuroraBoot \<Rightarrow> fakeAuroraBoot" where
  "restarted now nid n f = f\<lparr>rebooted := (rebooted f)(nid \<mapsto> True),
     nodes := (nodes f)(nid \<mapsto> n\<lparr>fn_Phase := ''Online'', fn_LastHeartbeat := Some (time_Add now (seconds 60)),
       fn_commands := fn_commands n @ [done_command ''reboot'']\<rparr>)\<rparr>"

lemma command_of_apply:
  "command_of (json_encode (enc_createCommandDTO
      \<lparr>ccd_Command = CommandApplyCloudConfig, ccd_Args = [(ApplyCloudConfigArg, data)]\<rparr>))
    = \<lparr>cb_Command = ''apply-cloud-config'', cb_Args = [''config'' \<mapsto> to_valid data]\<rparr>"
proof -
  have e: "json_escape ApplyCloudConfigArg = ''config''" by code_simp
  let ?j = "enc_createCommandDTO \<lparr>ccd_Command = CommandApplyCloudConfig, ccd_Args = [(ApplyCloudConfigArg, data)]\<rparr>"
  have j: "encodable ?j" "json_depth ?j \<le> 10000"
    by (simp_all add: enc_createCommandDTO_def json_strmap_def json_string_def e literals)
  show ?thesis unfolding command_of_def decode_request [OF j]
    by (simp add: enc_createCommandDTO_def json_strmap_def dec_struct_def e field_names find_fields
        string_field_def strmap_field_def strmap_elem_def json_string_def unquote_escape
        to_valid_iff [THEN iffD2] utf8_names CommandApplyCloudConfig_def)
qed

lemma command_of_reboot:
  "command_of (json_encode (enc_createCommandDTO \<lparr>ccd_Command = CommandReboot, ccd_Args = []\<rparr>))
    = \<lparr>cb_Command = ''reboot'', cb_Args = Map.empty\<rparr>"
proof -
  let ?j = "enc_createCommandDTO \<lparr>ccd_Command = CommandReboot, ccd_Args = []\<rparr>"
  have j: "encodable ?j" "json_depth ?j \<le> 10000"
    by (simp_all add: enc_createCommandDTO_def json_string_def literals)
  show ?thesis unfolding command_of_def decode_request [OF j]
    by (simp add: enc_createCommandDTO_def dec_struct_def field_names find_fields string_field_def
        json_string_def unquote_valid utf8_names CommandReboot_def)
qed

lemma done_utf8:
  "utf8_valid (fc_ID (done_command ''apply-cloud-config''))" "utf8_valid (fc_ID (done_command ''reboot''))"
  "utf8_valid (fc_Command (done_command ''apply-cloud-config''))" "utf8_valid (fc_Command (done_command ''reboot''))"
  "utf8_valid (fc_Phase (done_command name))"
  using utf8_names by (simp_all add: done_command_def)

lemma apply_config:
  assumes "at_server visit base c" "plain nid"
  shows "nodes (fst w) nid = Some n \<Longrightarrow> http_ApplyCloudConfig (aurora_net visit base) c nid data w
      = (Inr (Some (seen_command (done_command ''apply-cloud-config''))), (configured (to_valid data) nid n (fst w), snd w))"
    "nodes (fst w) nid = None \<Longrightarrow> \<exists>e. http_ApplyCloudConfig (aurora_net visit base) c nid data w = (Inl e, w)"
proof -
  let ?body = "json_encode (enc_createCommandDTO \<lparr>ccd_Command = CommandApplyCloudConfig, ccd_Args = [(ApplyCloudConfigArg, data)]\<rparr>)"
  assume "nodes (fst w) nid = Some n"
  then have "handleCreateCommand (snd w) ?body nid (fst w) = (Some (writeJSON 200 (fake_commandDTO (done_command ''apply-cloud-config''))),
      configured (to_valid data) nid n (fst w))"
    unfolding handleCreateCommand_def command_of_apply by (simp add: configured_def done_command_def)
  then show "http_ApplyCloudConfig (aurora_net visit base) c nid data w
      = (Inr (Some (seen_command (done_command ''apply-cloud-config''))), (configured (to_valid data) nid n (fst w), snd w))"
    unfolding http_ApplyCloudConfig_def operations(3) [OF assms]
    by (simp only: Let_def prod.case receive_command done_utf8)
next
  assume "nodes (fst w) nid = None"
  then show "\<exists>e. http_ApplyCloudConfig (aurora_net visit base) c nid data w = (Inl e, w)"
    unfolding http_ApplyCloudConfig_def operations(3) [OF assms] handleCreateCommand_def
    by (simp only: option.case Let_def prod.case decode_not_found prod.collapse) (simp add: map_res_def)
qed

lemma reboot_node:
  assumes "at_server visit base c" "plain nid"
  shows "nodes (fst w) nid = Some n \<Longrightarrow> http_Reboot (aurora_net visit base) c nid w
      = (Inr (Some (seen_command (done_command ''reboot''))), (restarted (snd w) nid n (fst w), snd w))"
    "nodes (fst w) nid = None \<Longrightarrow> \<exists>e. http_Reboot (aurora_net visit base) c nid w = (Inl e, w)"
proof -
  let ?body = "json_encode (enc_createCommandDTO \<lparr>ccd_Command = CommandReboot, ccd_Args = []\<rparr>)"
  assume "nodes (fst w) nid = Some n"
  then have "handleCreateCommand (snd w) ?body nid (fst w) = (Some (writeJSON 200 (fake_commandDTO (done_command ''reboot''))),
      restarted (snd w) nid n (fst w))"
    unfolding handleCreateCommand_def command_of_reboot by (simp add: restarted_def done_command_def)
  then show "http_Reboot (aurora_net visit base) c nid w
      = (Inr (Some (seen_command (done_command ''reboot''))), (restarted (snd w) nid n (fst w), snd w))"
    unfolding http_Reboot_def operations(3) [OF assms] by (simp only: Let_def prod.case receive_command done_utf8)
next
  assume "nodes (fst w) nid = None"
  then show "\<exists>e. http_Reboot (aurora_net visit base) c nid w = (Inl e, w)"
    unfolding http_Reboot_def operations(3) [OF assms] handleCreateCommand_def
    by (simp only: option.case Let_def prod.case decode_not_found prod.collapse) (simp add: map_res_def)
qed

text \<open>\<open>Release\<close>.\<close>

definition unclaimed :: "string \<Rightarrow> string \<Rightarrow> fakeNode \<Rightarrow> fakeAuroraBoot \<Rightarrow> fakeAuroraBoot" where
  "unclaimed nid k n f = f\<lparr>released := (released f)(nid \<mapsto> k), byClaim := map_delete (byClaim f) k,
     nodes := (nodes f)(nid \<mapsto> n\<lparr>fn_ClaimKey := None\<rparr>)\<rparr>"

lemma receive_released:
  "receive method path (dec_struct [(''released'', bool_field (\<lambda>v _. v))] False)
     (Some (writeJSON 200 (JObj [(''released'', JBool b)]))) = Inr b"
  by (rule receive_ok) (simp_all add: dec_struct_def field_names find_fields bool_field_def literals)

lemma release_node:
  assumes "at_server visit base c" "plain nid" "utf8_valid k"
  shows "nodes (fst w) nid = Some n \<Longrightarrow> fn_ClaimKey n = Some k \<Longrightarrow>
      http_Release (aurora_net visit base) c nid k w = (Inr True, (unclaimed nid k n (fst w), snd w))"
    "nodes (fst w) nid = Some n \<Longrightarrow> fn_ClaimKey n = None \<Longrightarrow>
      http_Release (aurora_net visit base) c nid k w = (Inr False, w)"
    "nodes (fst w) nid = Some n \<Longrightarrow> fn_ClaimKey n = Some k' \<Longrightarrow> k' \<noteq> k \<Longrightarrow>
      \<exists>e. http_Release (aurora_net visit base) c nid k w = (Inl e, w) \<and> IsClaimMismatch e"
    "nodes (fst w) nid = None \<Longrightarrow>
      \<exists>e. http_Release (aurora_net visit base) c nid k w = (Inl e, w) \<and> IsNotFound e"
proof -
  let ?body = "json_encode (json_strmap [(''claimKey'', k)])"
  note op = operations(5) [OF assms(1,2), of k w] and key = claimKey_of_valid [OF assms(3)]
  {
    assume "nodes (fst w) nid = Some n" "fn_ClaimKey n = Some k"
    then have "handleRelease ?body nid (fst w) = (Some (writeJSON 200 (JObj [(''released'', JBool True)])), unclaimed nid k n (fst w))"
      unfolding handleRelease_def key by (simp add: unclaimed_def)
    then show "http_Release (aurora_net visit base) c nid k w = (Inr True, (unclaimed nid k n (fst w), snd w))"
      unfolding op by (simp only: Let_def prod.case receive_released)
  next
    assume "nodes (fst w) nid = Some n" "fn_ClaimKey n = None"
    then have "handleRelease ?body nid (fst w) = (Some (writeJSON 200 (JObj [(''released'', JBool False)])), fst w)"
      unfolding handleRelease_def key by simp
    then show "http_Release (aurora_net visit base) c nid k w = (Inr False, w)"
      unfolding op by (simp only: Let_def prod.case receive_released prod.collapse)
  next
    define p where "p = ''/api/v1/nodes/'' @ nid @ ''/release''"
    assume "nodes (fst w) nid = Some n" "fn_ClaimKey n = Some k'" "k' \<noteq> k"
    then have h: "handleRelease ?body nid (fst w)
        = (Some (error_reply ''node is claimed by a different key'' ''ClaimMismatch''), fst w)"
      unfolding handleRelease_def key by simp
    obtain e where "receive ''POST'' p (dec_struct [(''released'', bool_field (\<lambda>v _. v))] False)
        (Some (error_reply ''node is claimed by a different key'' ''ClaimMismatch'')) = Inl (APIErr e)"
      and e: "Code e = ''ClaimMismatch''"
      using decode_error_reply [OF utf8_names(2), of "''POST''" p "dec_struct [(''released'', bool_field (\<lambda>v _. v))] False"
          "''node is claimed by a different key''"] by (elim exE conjE)
    then have "http_Release (aurora_net visit base) c nid k w = (Inl (APIErr e), w)"
      unfolding op p_def [symmetric] by (simp only: h Let_def prod.case prod.collapse)
    then show "\<exists>e. http_Release (aurora_net visit base) c nid k w = (Inl e, w) \<and> IsClaimMismatch e"
      using e by (simp add: IsClaimMismatch_def)
  next
    assume "nodes (fst w) nid = None"
    then have h: "handleRelease ?body nid (fst w) = (Some not_found_reply, fst w)"
      unfolding handleRelease_def key by simp
    show "\<exists>e. http_Release (aurora_net visit base) c nid k w = (Inl e, w) \<and> IsNotFound e"
      unfolding op by (simp only: h Let_def prod.case decode_not_found prod.collapse) (simp add: decode_not_found)
  }
qed

text \<open>\<open>ResolveGroupID\<close>: groups are their own IDs on this server.\<close>

lemma resolve_group:
  assumes "at_server visit base c" "list_all utf8_valid (visit w)"
  shows "http_ResolveGroupID (aurora_net visit base) c g w = (if g \<in> set (visit w) then Inr g
      else Inl (APIErr \<lparr>StatusCode = 404, ErrorMsg = ''group '' @ go_quote g @ '' not found'', Detail = '''', Code = ''''\<rparr>), w)"
proof -
  let ?enc = "\<lambda>g. JObj [(''id'', json_string g), (''name'', json_string g)]"
  let ?dto = "\<lambda>g. \<lparr>gd_ID = g, gd_Name = g\<rparr>"
  have dec1: "dec_struct groupDTO_fields zero_groupDTO (?enc g) = (?dto g, False)" if "utf8_valid g" for g
    using that by (simp add: dec_struct_def field_names find_fields string_field_def json_string_def unquote_valid
        zero_groupDTO_def)
  then have dec: "dec_slice groupDTO_fields zero_groupDTO (JArr (map ?enc (visit w))) = (map ?dto (visit w), False)"
    using assms(2) by (auto simp: dec_slice_def list_all_iff list_ex_iff)
  have "\<forall>d \<in> set (map (json_depth \<circ> ?enc) (visit w)). d = 1" by (auto simp: json_string_def)
  then have depth: "json_depth (JArr (map ?enc (visit w))) \<le> 10000" by (simp add: fold_max_const split: if_splits)
  have enc: "encodable (JArr (map ?enc (visit w)))" by (simp add: list_all_iff json_string_def literals)
  have p: "plain ''groups''" by (rule path_chars)
  note ok = receive_ok [of "dec_slice groupDTO_fields zero_groupDTO" _ "map ?dto (visit w)", OF dec enc depth]
  have "http_do (aurora_net visit base) c ''GET'' ''/api/v1/groups'' None (dec_slice groupDTO_fields zero_groupDTO) w
      = (Inr (map ?dto (visit w)), w)"
    unfolding operations(6) [OF assms(1) p] handleListGroups_def by (simp only: Let_def prod.case ok prod.collapse)
  moreover have "pick_group g (map ?dto (visit w)) = (if g \<in> set (visit w) then Some g else None)"
  proof -
    have find: "List.find P (map ?dto xs) = (if g \<in> set xs then Some (?dto g) else None)"
      if "\<And>x. P (?dto x) \<longleftrightarrow> x = g" for P xs
      by (induction xs) (auto simp: that)
    show ?thesis using find [of "\<lambda>d. gd_ID d = g"] find [of "\<lambda>d. gd_Name d = g"] by (simp add: pick_group_def)
  qed
  ultimately show ?thesis unfolding http_ResolveGroupID_def by simp
qed

subsection \<open>The server's invariant\<close>

text \<open>Node and group identifiers are plain; \<open>byClaim\<close> lists exactly the nodes that carry a key; a
  node waits in one pool at most, once, and carries no key there.\<close>

definition good_id :: "string \<Rightarrow> bool" where "good_id s \<longleftrightarrow> plain s \<and> utf8_valid s \<and> s \<noteq> ''''"

definition sound :: "fakeAuroraBoot \<Rightarrow> bool" where
  "sound f \<longleftrightarrow>
     (\<forall>nid n. nodes f nid = Some n \<longrightarrow> fn_ID n = nid \<and> good_id nid \<and> readable n)
   \<and> (\<forall>k nid. byClaim f k = Some nid \<longleftrightarrow> (\<exists>n. nodes f nid = Some n \<and> fn_ClaimKey n = Some k))
   \<and> (\<forall>g pool. groupPool f g = Some pool \<longrightarrow> good_id g \<and> distinct pool
        \<and> (\<forall>nid \<in> set pool. \<exists>n. nodes f nid = Some n \<and> fn_ClaimKey n = None))
   \<and> (\<forall>g h p q. groupPool f g = Some p \<longrightarrow> groupPool f h = Some q \<longrightarrow> g \<noteq> h \<longrightarrow> set p \<inter> set q = {})"

lemma soundD:
  assumes "sound f"
  shows "nodes f nid = Some n \<Longrightarrow> fn_ID n = nid \<and> good_id nid \<and> readable n"
    "byClaim f k = Some nid \<longleftrightarrow> (\<exists>n. nodes f nid = Some n \<and> fn_ClaimKey n = Some k)"
    "groupPool f g = Some pool \<Longrightarrow> good_id g \<and> distinct pool"
    "groupPool f g = Some pool \<Longrightarrow> nid \<in> set pool \<Longrightarrow> \<exists>n. nodes f nid = Some n \<and> fn_ClaimKey n = None"
    "groupPool f g = Some p \<Longrightarrow> groupPool f h = Some q \<Longrightarrow> g \<noteq> h \<Longrightarrow> set p \<inter> set q = {}"
  using assms unfolding sound_def by blast+

lemma soundI [case_names node claim pool waiting pools]:
  assumes "\<And>nid n. nodes f nid = Some n \<Longrightarrow> fn_ID n = nid \<and> good_id nid \<and> readable n"
    "\<And>k nid. byClaim f k = Some nid \<longleftrightarrow> (\<exists>n. nodes f nid = Some n \<and> fn_ClaimKey n = Some k)"
    "\<And>g p. groupPool f g = Some p \<Longrightarrow> good_id g \<and> distinct p"
    "\<And>g p nid. groupPool f g = Some p \<Longrightarrow> nid \<in> set p \<Longrightarrow> \<exists>n. nodes f nid = Some n \<and> fn_ClaimKey n = None"
    "\<And>g h p q. groupPool f g = Some p \<Longrightarrow> groupPool f h = Some q \<Longrightarrow> g \<noteq> h \<Longrightarrow> set p \<inter> set q = {}"
  shows "sound f"
  unfolding sound_def using assms by blast

text \<open>No node is held under two keys.\<close>

lemma one_key:
  assumes "sound f" "byClaim f k = Some nid" "byClaim f k' = Some nid"
  shows "k = k'"
proof -
  obtain n where "nodes f nid = Some n" "fn_ClaimKey n = Some k" using soundD(2) [OF assms(1), of k] assms(2) by blast
  moreover obtain n' where "nodes f nid = Some n'" "fn_ClaimKey n' = Some k'"
    using soundD(2) [OF assms(1), of k'] assms(3) by blast
  ultimately show ?thesis by simp
qed

lemma readable_key: "readable n \<Longrightarrow> pred_option utf8_valid key \<Longrightarrow> readable (n\<lparr>fn_ClaimKey := key\<rparr>)"
  by (simp add: readable_def)

lemma sound_upd_node:
  assumes "sound f" "nodes f nid = Some n" "fn_ID m = fn_ID n" "readable m" "((nodes f)(nid \<mapsto> m)) i = Some l"
  shows "fn_ID l = i \<and> good_id i \<and> readable l"
  using soundD(1) [OF assms(1,2)] soundD(1) [OF assms(1), of i] assms(3-5) by (cases "i = nid") auto

text \<open>A change of one node that leaves its identity, its key and the maps as they are.\<close>

lemma sound_node_upd:
  assumes "sound f" "nodes f nid = Some n" "fn_ID m = nid" "readable m" "fn_ClaimKey m = fn_ClaimKey n"
    and "nodes f' = (nodes f)(nid \<mapsto> m)" "byClaim f' = byClaim f" "groupPool f' = groupPool f"
  shows "sound f'"
proof (rule soundI, unfold assms(6-8))
  fix k i
  show "byClaim f k = Some i \<longleftrightarrow> (\<exists>n. ((nodes f)(nid \<mapsto> m)) i = Some n \<and> fn_ClaimKey n = Some k)"
    using soundD(2) [OF assms(1), of k i] assms(2,5) by auto
next
  fix g p i assume "groupPool f g = Some p" "i \<in> set p"
  then show "\<exists>n. ((nodes f)(nid \<mapsto> m)) i = Some n \<and> fn_ClaimKey n = None"
    using soundD(4) [OF assms(1)] assms(2,5) by fastforce
next
  fix i l assume "((nodes f)(nid \<mapsto> m)) i = Some l"
  then show "fn_ID l = i \<and> good_id i \<and> readable l"
    by (intro sound_upd_node [OF assms(1,2) _ assms(4)]) (use soundD(1) [OF assms(1,2)] assms(3) in simp)
qed (use soundD(3,5) [OF assms(1)] in blast)+

lemma sound_configured: "sound f \<Longrightarrow> nodes f nid = Some n \<Longrightarrow> sound (configured data nid n f)"
  by (rule sound_node_upd [where m = "n\<lparr>fn_commands := fn_commands n @ [done_command ''apply-cloud-config'']\<rparr>"])
    (use done_utf8 soundD(1) in \<open>auto simp: configured_def readable_def\<close>)

lemma sound_restarted:
  "sound f \<Longrightarrow> nodes f nid = Some n \<Longrightarrow> four_digit_year (time_Add now (seconds 60)) \<Longrightarrow> sound (restarted now nid n f)"
  by (rule sound_node_upd [where m = "n\<lparr>fn_Phase := ''Online'', fn_LastHeartbeat := Some (time_Add now (seconds 60)),
       fn_commands := fn_commands n @ [done_command ''reboot'']\<rparr>"])
    (use done_utf8 utf8_names soundD(1) in \<open>auto simp: restarted_def readable_def\<close>)

lemma sound_claimed:
  assumes "sound f" "groupPool f g = Some (nid # rest)" "nodes f nid = Some n" "byClaim f k = None" "utf8_valid k"
  shows "sound (claimed g k rest nid n f)"
proof -
  let ?f = "claimed g k rest nid n f"
  have n: "fn_ClaimKey n = None" using soundD(4) [OF assms(1,2), of nid] assms(3) by simp
  have upd: "nodes ?f = (nodes f)(nid \<mapsto> n\<lparr>fn_ClaimKey := Some k\<rparr>)" "byClaim ?f = (byClaim f)(k \<mapsto> nid)"
    "groupPool ?f = (groupPool f)(g \<mapsto> rest)" by (simp_all add: claimed_def)
  have pool: "\<exists>q. groupPool f h = Some q \<and> set p \<subseteq> set q \<and> nid \<notin> set p \<and> distinct p \<and> good_id h"
    if "groupPool ?f h = Some p" for h p
  proof (cases "h = g")
    case True
    then show ?thesis using that soundD(3) [OF assms(1,2)] assms(2) by (auto simp: upd)
  next
    case False
    then show ?thesis using that soundD(3) [OF assms(1)] soundD(5) [OF assms(1) _ assms(2), of h p] by (auto simp: upd)
  qed
  show ?thesis
  proof (rule soundI)
    have r: "readable (n\<lparr>fn_ClaimKey := Some k\<rparr>)" using soundD(1) [OF assms(1,3)] assms(5) by (simp add: readable_key)
    fix i m assume "nodes ?f i = Some m"
    from sound_upd_node [OF assms(1,3) _ r this [unfolded upd]]
    show "fn_ID m = i \<and> good_id i \<and> readable m" by simp
  next
    fix k' i
    show "byClaim ?f k' = Some i \<longleftrightarrow> (\<exists>n. nodes ?f i = Some n \<and> fn_ClaimKey n = Some k')"
      using soundD(2) [OF assms(1), of k' i] soundD(2) [OF assms(1), of k i] assms(3,4) n by (auto simp: upd)
  next
    fix h p assume "groupPool ?f h = Some p"
    then show "good_id h \<and> distinct p" using pool by blast
  next
    fix h p i assume h: "groupPool ?f h = Some p" "i \<in> set p"
    then obtain q where "groupPool f h = Some q" "i \<in> set q" "i \<noteq> nid" using pool by blast
    with soundD(4) [OF assms(1), of h q i] show "\<exists>n. nodes ?f i = Some n \<and> fn_ClaimKey n = None"
      unfolding upd by simp
  next
    fix h h' p q assume "groupPool ?f h = Some p" "groupPool ?f h' = Some q" and ne: "h \<noteq> h'"
    with pool obtain p' q' where "groupPool f h = Some p'" "set p \<subseteq> set p'" "groupPool f h' = Some q'" "set q \<subseteq> set q'"
      by blast
    with soundD(5) [OF assms(1) _ _ ne, of p' q'] show "set p \<inter> set q = {}" by blast
  qed
qed

lemma sound_unclaimed:
  assumes "sound f" "nodes f nid = Some n" "fn_ClaimKey n = Some k"
  shows "sound (unclaimed nid k n f)"
proof -
  let ?f = "unclaimed nid k n f"
  have upd: "nodes ?f = (nodes f)(nid \<mapsto> n\<lparr>fn_ClaimKey := None\<rparr>)" "byClaim ?f = (byClaim f)(k := None)"
    "groupPool ?f = groupPool f" by (simp_all add: unclaimed_def map_delete_def)
  have held: "byClaim f k = Some nid" using soundD(2) [OF assms(1)] assms(2,3) by blast
  show ?thesis
  proof (rule soundI)
    have r: "readable (n\<lparr>fn_ClaimKey := None\<rparr>)" using soundD(1) [OF assms(1,2)] by (simp add: readable_key)
    fix i m assume "nodes ?f i = Some m"
    from sound_upd_node [OF assms(1,2) _ r this [unfolded upd]]
    show "fn_ID m = i \<and> good_id i \<and> readable m" by simp
  next
    fix k' i
    show "byClaim ?f k' = Some i \<longleftrightarrow> (\<exists>n. nodes ?f i = Some n \<and> fn_ClaimKey n = Some k')"
    proof (cases "i = nid")
      case True
      then have "k' = k" if "byClaim f k' = Some i" using one_key [OF assms(1) held] that by simp
      with True show ?thesis by (auto simp: upd)
    next
      case False
      then show ?thesis using soundD(2) [OF assms(1), of k' i] held by (auto simp: upd)
    qed
  next
    fix h p i assume "groupPool ?f h = Some p" "i \<in> set p"
    then have "\<exists>m. nodes f i = Some m \<and> fn_ClaimKey m = None" using soundD(4) [OF assms(1), of h p i] by (simp add: upd)
    then show "\<exists>n. nodes ?f i = Some n \<and> fn_ClaimKey n = None" unfolding upd by (cases "i = nid") auto
  qed (unfold upd, rule soundD(3) [OF assms(1)], assumption, rule soundD(5) [OF assms(1)])
qed

subsection \<open>A new server\<close>

text \<open>A node as a test seeds it: an identifier, no key yet, and text the client can read.\<close>

definition seedable :: "fakeNode \<Rightarrow> bool" where
  "seedable n \<longleftrightarrow> good_id (fn_ID n) \<and> fn_ClaimKey n = None \<and> readable (n\<lparr>fn_GroupID := ''''\<rparr>)"

definition seeds :: "(string \<times> fakeNode list) list \<Rightarrow> (string \<times> fakeNode) list" where
  "seeds seed = concat (map (\<lambda>(g, ns). map (Pair g) ns) seed)"

definition empty_server :: fakeAuroraBoot where
  "empty_server = \<lparr>nodes = Map.empty, groupPool = Map.empty, byClaim = Map.empty, applied = Map.empty,
     rebooted = Map.empty, released = Map.empty\<rparr>"

lemma newFakeAuroraBoot_seeds: "newFakeAuroraBoot seed = fold (\<lambda>(g, n). seed_node g n) (seeds seed) empty_server"
proof -
  have "fold (\<lambda>(g, ns). fold (seed_node g) ns) seed f = fold (\<lambda>(g, n). seed_node g n) (seeds seed) f" for f
    by (induction seed arbitrary: f) (auto simp: seeds_def fold_map comp_def)
  then show ?thesis by (simp add: newFakeAuroraBoot_def empty_server_def)
qed

definition seeded_node :: "string \<Rightarrow> fakeNode \<Rightarrow> fakeNode" where
  "seeded_node g n = n\<lparr>fn_GroupID := g, fn_Phase := (if fn_Phase n = '''' then ''Online'' else fn_Phase n)\<rparr>"

lemma seed_node_fields:
  "nodes (seed_node g n f) = (nodes f)(fn_ID n \<mapsto> seeded_node g n)" "byClaim (seed_node g n f) = byClaim f"
  "groupPool (seed_node g n f) = (groupPool f)(g \<mapsto> (case groupPool f g of Some p \<Rightarrow> p | None \<Rightarrow> []) @ [fn_ID n])"
  by (simp_all add: seed_node_def seeded_node_def Let_def)

lemma sound_seed_node:
  assumes "sound f" "byClaim f = Map.empty" "nodes f (fn_ID n) = None" "seedable n" "good_id g"
  shows "sound (seed_node g n f)"
proof -
  have n: "readable (seeded_node g n)" "fn_ClaimKey (seeded_node g n) = None" "fn_ID (seeded_node g n) = fn_ID n"
    using assms(4,5) utf8_names by (auto simp: seedable_def seeded_node_def readable_def good_id_def)
  have none: "fn_ClaimKey m = None" if "nodes f i = Some m" for i m
    using soundD(2) [OF assms(1)] assms(2) that by (metis not_None_eq option.distinct(1))
  have new: "fn_ID n \<notin> set p" if "groupPool f h = Some p" for h p
    using soundD(4) [OF assms(1) that, of "fn_ID n"] assms(3) by auto
  show ?thesis unfolding sound_def seed_node_fields
  proof (intro conjI allI impI, goal_cases node node' node'' claim pool pool' pool'' pools)
    case (claim k i)
    then show ?case using n none assms(2) by auto
  next
    case (pool' h p)
    then show ?case using soundD(3) [OF assms(1)] new by (auto split: if_splits option.splits)
  next
    case (pool'' h p)
    then show ?case using soundD(4) [OF assms(1)] n by (fastforce split: if_splits option.splits)
  next
    case (pools h h' p q)
    then show ?case using soundD(5) [OF assms(1)] new by (fastforce split: if_splits option.splits)
  qed (use soundD(1,3) [OF assms(1)] assms(4,5) n in \<open>auto simp: seedable_def split: if_splits\<close>)
qed

lemma new_server_sound:
  assumes "\<And>g n. (g, n) \<in> set (seeds seed) \<Longrightarrow> seedable n \<and> good_id g" "distinct (map (fn_ID \<circ> snd) (seeds seed))"
  shows "sound (newFakeAuroraBoot seed) \<and> byClaim (newFakeAuroraBoot seed) = Map.empty
    \<and> dom (groupPool (newFakeAuroraBoot seed)) = fst ` set (seeds seed)"
proof -
  have "sound (fold (\<lambda>(g, n). seed_node g n) xs f) \<and> byClaim (fold (\<lambda>(g, n). seed_node g n) xs f) = Map.empty
      \<and> dom (groupPool (fold (\<lambda>(g, n). seed_node g n) xs f)) = dom (groupPool f) \<union> fst ` set xs"
    if "sound f" "byClaim f = Map.empty" "\<forall>(g, n) \<in> set xs. seedable n \<and> good_id g \<and> nodes f (fn_ID n) = None"
      "distinct (map (fn_ID \<circ> snd) xs)" for xs f
    using that
  proof (induction xs arbitrary: f)
    case (Cons x xs)
    obtain g n where x: "x = (g, n)" by (cases x)
    have new: "\<forall>(h, m) \<in> set xs. seedable m \<and> good_id h \<and> nodes (seed_node g n f) (fn_ID m) = None"
      using Cons.prems(3,4) by (force simp: x seed_node_fields)
    have "sound (seed_node g n f)" "byClaim (seed_node g n f) = Map.empty"
      using Cons.prems by (auto simp: x seed_node_fields intro: sound_seed_node)
    from Cons.IH [OF this new] Cons.prems(4) show ?case by (auto simp: x seed_node_fields dom_fun_upd)
  qed simp
  note run = this [of empty_server "seeds seed"]
  have "sound (newFakeAuroraBoot seed) \<and> byClaim (newFakeAuroraBoot seed) = Map.empty
      \<and> dom (groupPool (newFakeAuroraBoot seed)) = dom (groupPool empty_server) \<union> fst ` set (seeds seed)"
    unfolding newFakeAuroraBoot_seeds
    by (rule run) (use assms in \<open>auto simp: sound_def empty_server_def\<close>)
  then show ?thesis by (simp add: empty_server_def)
qed

end
