(* ===== verification/EndToEnd.thy ===== *)
theory EndToEnd
  imports Registry AuroraBootState
begin

text \<open>
  The controller, its HTTP client, the JSON between them and the AuroraBoot server, put together.
  The server honours \<open>claim_registry\<close>, so a fleet of machines run against it shares no node,
  whatever is lost or stale; and a machine gets from its creation to provisioned in four passes.
\<close>

subsection \<open>The server is a registry\<close>

text \<open>The clients that \<open>New\<close> makes for the server at \<open>base\<close>, whose groups are \<open>G\<close>, with any token; the
  order in which the server meets its groups is any that meets them all.\<close>

definition aurora_clients :: "string \<Rightarrow> string set \<Rightarrow> aurora Client set" where
  "aurora_clients base G = {New (aurora_net visit base) url tok [] | visit url tok.
     trim_right url CHR ''/'' = base \<and> (\<forall>w. dom (groupPool (fst w)) = G \<longrightarrow> set (visit w) = G)}"

text \<open>The server's invariant, its groups, and a clock with which a heartbeat can be written.\<close>

definition aurora_ok :: "string set \<Rightarrow> aurora \<Rightarrow> bool" where
  "aurora_ok G w \<longleftrightarrow> sound (fst w) \<and> dom (groupPool (fst w)) = G \<and> four_digit_year (time_Add (snd w) (seconds 60))"

definition good_key :: "string \<Rightarrow> bool" where "good_key k \<longleftrightarrow> utf8_valid k \<and> k \<noteq> ''''"

lemma aurora_clientE:
  assumes "c \<in> aurora_clients base G"
  obtains visit h where "c = http_client (aurora_net visit base) h" "at_server visit base h"
    "\<And>w. dom (groupPool (fst w)) = G \<Longrightarrow> set (visit w) = G"
proof -
  from assms obtain visit url tok where c: "c = New (aurora_net visit base) url tok []" "trim_right url CHR ''/'' = base"
    and v: "\<forall>w. dom (groupPool (fst w)) = G \<longrightarrow> set (visit w) = G" by (auto simp: aurora_clients_def)
  show ?thesis
    by (rule that [of visit "new_httpClient (aurora_net visit base) url tok []"])
      (use c v in \<open>auto simp: New_def at_server_def new_httpClient_def aurora_net_def\<close>)
qed

lemma client_ops [simp]:
  "Claim (http_client net h) = http_Claim net h" "GetNode (http_client net h) = http_GetNode net h"
  "ApplyCloudConfig (http_client net h) = http_ApplyCloudConfig net h" "Reboot (http_client net h) = http_Reboot net h"
  "GetCommands (http_client net h) = http_GetCommands net h" "Release (http_client net h) = http_Release net h"
  "ResolveGroupID (http_client net h) = http_ResolveGroupID net h"
  by (simp_all add: http_client_def)

lemma updates_fields [simp]:
  "dom (groupPool (claimed g k rest nid n f)) = insert g (dom (groupPool f))"
  "byClaim (claimed g k rest nid n f) = (byClaim f)(k \<mapsto> nid)"
  "groupPool (configured d nid n f) = groupPool f" "byClaim (configured d nid n f) = byClaim f"
  "groupPool (restarted t nid n f) = groupPool f" "byClaim (restarted t nid n f) = byClaim f"
  "groupPool (unclaimed nid k n f) = groupPool f" "byClaim (unclaimed nid k n f) = (byClaim f)(k := None)"
  by (auto simp: claimed_def configured_def restarted_def unclaimed_def map_delete_def)

lemma server_groups:
  assumes "aurora_ok G w" "dom (groupPool (fst w)) = G \<Longrightarrow> set (visit w) = G"
  shows "list_all utf8_valid (visit w)" "set (visit w) = dom (groupPool (fst w))"
    "\<And>g. g \<in> set (visit w) \<Longrightarrow> good_id g"
proof -
  have s: "sound (fst w)" "set (visit w) = dom (groupPool (fst w))" using assms by (auto simp: aurora_ok_def)
  then show "set (visit w) = dom (groupPool (fst w))" by simp
  show good: "good_id g" if "g \<in> set (visit w)" for g using soundD(3) [OF s(1)] s(2) that by blast
  show "list_all utf8_valid (visit w)" using good by (simp add: list_all_iff good_id_def)
qed

text \<open>What each kind of operation does to a server that is sound.\<close>

lemma claim_on_server:
  assumes "at_server visit base h" "aurora_ok G w" "good_id g" "good_key k"
  shows "(\<exists>nid n. byClaim (fst w) k = Some nid \<and> nodes (fst w) nid = Some n
        \<and> http_Claim (aurora_net visit base) h g k w = (Inr (Some (seen n)), w) \<and> fn_ID n = nid)
    \<or> (\<exists>nid rest n. byClaim (fst w) k = None \<and> groupPool (fst w) g = Some (nid # rest) \<and> nodes (fst w) nid = Some n
        \<and> fn_ID n = nid \<and> http_Claim (aurora_net visit base) h g k w
            = (Inr (Some (seen (n\<lparr>fn_ClaimKey := Some k\<rparr>))), (claimed g k rest nid n (fst w), snd w))
        \<and> aurora_ok G (claimed g k rest nid n (fst w), snd w))
    \<or> (byClaim (fst w) k = None \<and> groupPool (fst w) g \<in> {None, Some []}
        \<and> (\<exists>e. http_Claim (aurora_net visit base) h g k w = (Inl e, w) \<and> IsNoCapacity e))"
proof -
  have s: "sound (fst w)" and g: "plain g" and k: "utf8_valid k"
    using assms by (auto simp: aurora_ok_def good_id_def good_key_def)
  show ?thesis
  proof (cases "byClaim (fst w) k")
    case (Some nid)
    then obtain n where n: "nodes (fst w) nid = Some n" using soundD(2) [OF s] by blast
    with soundD(1) [OF s n] have "fn_ID n = nid" "readable n" by auto
    with claim_again [OF assms(1) g k Some n] Some n show ?thesis by blast
  next
    case None
    show ?thesis
    proof (cases "groupPool (fst w) g \<in> {None, Some []}")
      case True
      with claim_no_capacity [OF assms(1) g k None True] None show ?thesis by blast
    next
      case False
      then obtain nid rest where p: "groupPool (fst w) g = Some (nid # rest)" by (metis insert_iff list.exhaust option.exhaust)
      then obtain n where n: "nodes (fst w) nid = Some n" using soundD(4) [OF s p, of nid] by auto
      with soundD(1) [OF s n] have "fn_ID n = nid" "readable n" by auto
      have "g \<in> G" using p assms(2) by (auto simp: aurora_ok_def)
      then have "aurora_ok G (claimed g k rest nid n (fst w), snd w)"
        using sound_claimed [OF s p n None k] assms(2) by (simp add: aurora_ok_def insert_absorb)
      with claim_fresh [OF assms(1) g k None p n] None p n \<open>fn_ID n = nid\<close> \<open>readable n\<close> show ?thesis by blast
    qed
  qed
qed

lemma get_on_server:
  assumes "at_server visit base h" "aurora_ok G w" "good_id nid"
  shows "snd (http_GetNode (aurora_net visit base) h nid w) = w" "snd (http_GetCommands (aurora_net visit base) h nid w) = w"
proof -
  have s: "sound (fst w)" and p: "plain nid" using assms by (auto simp: aurora_ok_def good_id_def)
  have r: "readable n" if "nodes (fst w) nid = Some n" for n using soundD(1) [OF s that] by blast
  show "snd (http_GetNode (aurora_net visit base) h nid w) = w"
    using get_node [OF assms(1) p, of w] r by (cases "nodes (fst w) nid") fastforce+
  show "snd (http_GetCommands (aurora_net visit base) h nid w) = w"
    using get_commands [OF assms(1) p, of w] r by (cases "nodes (fst w) nid") fastforce+
qed

lemma command_on_server:
  assumes "at_server visit base h" "aurora_ok G w" "good_id nid"
  shows "aurora_ok G (snd (http_ApplyCloudConfig (aurora_net visit base) h nid data w))
      \<and> byClaim (fst (snd (http_ApplyCloudConfig (aurora_net visit base) h nid data w))) = byClaim (fst w)"
    "aurora_ok G (snd (http_Reboot (aurora_net visit base) h nid w))
      \<and> byClaim (fst (snd (http_Reboot (aurora_net visit base) h nid w))) = byClaim (fst w)"
proof -
  have s: "sound (fst w)" "four_digit_year (time_Add (snd w) (seconds 60))" and p: "plain nid"
    using assms by (auto simp: aurora_ok_def good_id_def)
  show "aurora_ok G (snd (http_ApplyCloudConfig (aurora_net visit base) h nid data w))
      \<and> byClaim (fst (snd (http_ApplyCloudConfig (aurora_net visit base) h nid data w))) = byClaim (fst w)"
  proof (cases "nodes (fst w) nid")
    case None
    then show ?thesis using apply_config(2) [OF assms(1) p None, of data] assms(2) by auto
  next
    case (Some n)
    then show ?thesis using apply_config(1) [OF assms(1) p Some, of data] assms(2) sound_configured [OF s(1) Some]
      by (auto simp: aurora_ok_def)
  qed
  show "aurora_ok G (snd (http_Reboot (aurora_net visit base) h nid w))
      \<and> byClaim (fst (snd (http_Reboot (aurora_net visit base) h nid w))) = byClaim (fst w)"
  proof (cases "nodes (fst w) nid")
    case None
    then show ?thesis using reboot_node(2) [OF assms(1) p None] assms(2) by auto
  next
    case (Some n)
    then show ?thesis using reboot_node(1) [OF assms(1) p Some] assms(2) sound_restarted [OF s(1) Some s(2)]
      by (auto simp: aurora_ok_def)
  qed
qed

lemma release_on_server:
  assumes "at_server visit base h" "aurora_ok G w" "good_id nid" "good_key k"
  shows "aurora_ok G (snd (http_Release (aurora_net visit base) h nid k w))
    \<and> (byClaim (fst (snd (http_Release (aurora_net visit base) h nid k w)))
         = (if byClaim (fst w) k = Some nid then (byClaim (fst w))(k := None) else byClaim (fst w)))"
proof -
  have s: "sound (fst w)" and p: "plain nid" and k: "utf8_valid k"
    using assms by (auto simp: aurora_ok_def good_id_def good_key_def)
  note op = release_node [OF assms(1) p k, of w]
  show ?thesis
  proof (cases "nodes (fst w) nid")
    case None
    then have "byClaim (fst w) k \<noteq> Some nid" using soundD(2) [OF s, of k nid] by auto
    then show ?thesis using op(4) [OF None] assms(2) by auto
  next
    case (Some n)
    show ?thesis
    proof (cases "fn_ClaimKey n = Some k")
      case True
      then have "byClaim (fst w) k = Some nid" using soundD(2) [OF s, of k nid] Some by auto
      then show ?thesis using op(1) [OF Some True] sound_unclaimed [OF s Some True] assms(2) by (auto simp: aurora_ok_def)
    next
      case False
      then have "byClaim (fst w) k \<noteq> Some nid" using soundD(2) [OF s, of k nid] Some by auto
      then show ?thesis using op(2,3) [OF Some] False assms(2) by (cases "fn_ClaimKey n") auto
    qed
  qed
qed

text \<open>A release clears the claim, but this server does not put the node back into a pool, as the
  comment at \<open>Release\<close> has it: no group offers the node any more.\<close>

lemma released_node_is_not_offered_again:
  assumes "at_server visit base h" "aurora_ok G w" "utf8_valid k" "nodes (fst w) nid = Some n" "fn_ClaimKey n = Some k"
  shows "\<exists>f'. http_Release (aurora_net visit base) h nid k w = (Inr True, (f', snd w))
    \<and> byClaim f' k = None \<and> nodes f' nid = Some (n\<lparr>fn_ClaimKey := None\<rparr>)
    \<and> (\<forall>g pool. groupPool f' g = Some pool \<longrightarrow> nid \<notin> set pool)"
proof -
  have s: "sound (fst w)" and p: "plain nid"
    using assms(2) soundD(1) [of "fst w" nid n] assms(4) by (auto simp: aurora_ok_def good_id_def)
  have "nid \<notin> set pool" if "groupPool (fst w) g = Some pool" for g pool
    using soundD(4) [OF s that, of nid] assms(4,5) by auto
  then show ?thesis using release_node(1) [OF assms(1) p assms(3-5)] by (simp add: unclaimed_def map_delete_def)
qed

interpretation aurora: claim_registry "aurora_clients base G" "aurora_ok G" "\<lambda>w. byClaim (fst w)" good_id good_key
  for base :: string and G :: "string set"
proof (unfold_locales, goal_cases)
  case (1 k)
  then show ?case by (simp add: good_key_def)
next
  case (2 w k n)
  then show ?case using soundD(1,2) [of "fst w"] by (auto simp: aurora_ok_def good_id_def)
next
  case (3 w k n k')
  then show ?case using one_key by (auto simp: aurora_ok_def)
next
  case (4 c w g r w')
  from 4(1) show ?case
  proof (cases rule: aurora_clientE)
    case (1 visit h)
    note groups = server_groups [of G w visit, OF 4(2) 1(3)]
    show ?thesis using 4(3) resolve_group [OF 1(2) groups(1)] groups(3) 4(2) 1(1) by (auto split: if_splits)
  qed
next
  case (5 c w g k r w')
  from 5(1) show ?case
  proof (cases rule: aurora_clientE)
    case (1 visit h)
    then show ?thesis using claim_on_server [OF 1(2) 5(2-4)] 5(2,5) by auto
  qed
next
  case (6 c w g k r w' k')
  from 6(1) show ?case
  proof (cases rule: aurora_clientE)
    case (1 visit h)
    then show ?thesis using claim_on_server [OF 1(2) 6(2-4)] 6(5,6) by auto
  qed
next
  case (7 c w g k r w' n)
  from 7(1) show ?case
  proof (cases rule: aurora_clientE)
    case (1 visit h)
    then show ?thesis using claim_on_server [OF 1(2) 7(2-4)] 7(5,6) by auto
  qed
next
  case (8 c w g k node w')
  from 8(1) show ?case
  proof (cases rule: aurora_clientE)
    case (1 visit h)
    then show ?thesis using claim_on_server [OF 1(2) 8(2-4)] 8(5) by auto
  qed
next
  case (9 c w n r w')
  from 9(1) show ?case
  proof (cases rule: aurora_clientE)
    case (1 visit h)
    then show ?thesis using get_on_server(1) [OF 1(2) 9(2,3)] 9(2,4) by auto
  qed
next
  case (10 c w n d r w')
  from 10(1) show ?case
  proof (cases rule: aurora_clientE)
    case (1 visit h)
    then show ?thesis using command_on_server(1) [OF 1(2) 10(2,3), of d] 10(4) by auto
  qed
next
  case (11 c w n r w')
  from 11(1) show ?case
  proof (cases rule: aurora_clientE)
    case (1 visit h)
    then show ?thesis using command_on_server(2) [OF 1(2) 11(2,3)] 11(4) by auto
  qed
next
  case (12 c w n r w')
  from 12(1) show ?case
  proof (cases rule: aurora_clientE)
    case (1 visit h)
    then show ?thesis using get_on_server(2) [OF 1(2) 12(2,3)] 12(2,4) by auto
  qed
next
  case (13 c w n k r w')
  from 13(1) show ?case
  proof (cases rule: aurora_clientE)
    case (1 visit h)
    then show ?thesis using release_on_server [OF 1(2) 13(2-4)] 13(5) by auto
  qed
next
  case (14 c w n k r w' k')
  from 14(1) show ?case
  proof (cases rule: aurora_clientE)
    case (1 visit h)
    then show ?thesis using release_on_server [OF 1(2) 14(2-4)] 14(5,6) by auto
  qed
qed

subsection \<open>A fleet on the server\<close>

text \<open>The reconciler as the manager sets it up: the default factory, on a network where the server
  is, and cluster objects that give its address, with slashes at the end or without.\<close>

definition against_server :: "aurora Reconciler \<Rightarrow> string \<Rightarrow> string set \<Rightarrow> bool" where
  "against_server r base G \<longleftrightarrow> r_FleetClientFactory r = None
     \<and> (\<exists>visit. r_net r = aurora_net visit base \<and> (\<forall>w. dom (groupPool (fst w)) = G \<longrightarrow> set (visit w) = G))
     \<and> (\<forall>name w fcl. kGetCluster (r_Client r) name w = Inr fcl \<longrightarrow>
          trim_right (ab_URL (fcs_AuroraBoot (fc_Spec fcl))) CHR ''/'' = base)"

lemma against_server_drives:
  assumes "against_server r base G"
  shows "drives r (aurora_clients base G)"
  unfolding drives_def
proof (intro allI impI)
  fix name w fcl w' fc
  assume fcl: "kGetCluster (r_Client r) name w = Inr fcl"
    and fc: "resolveFleetClient (r_Client r) (fleetFactory r) fcl w' = Inr fc"
  obtain visit where v: "r_net r = aurora_net visit base" "\<forall>w. dom (groupPool (fst w)) = G \<longrightarrow> set (visit w) = G"
    using assms by (auto simp: against_server_def)
  have url: "trim_right (ab_URL (fcs_AuroraBoot (fc_Spec fcl))) CHR ''/'' = base"
    using assms fcl unfolding against_server_def by blast
  obtain tok where "fc = fleetFactory r (ab_URL (fcs_AuroraBoot (fc_Spec fcl))) tok"
    using fc by (auto simp: resolveFleetClient_def Let_def split: sum.splits if_splits)
  then have "fc = New (aurora_net visit base) (ab_URL (fcs_AuroraBoot (fc_Spec fcl))) tok []"
    using assms v(1) by (simp add: against_server_def fleetFactory_def DefaultFleetClientFactory_def)
  then show "fc \<in> aurora_clients base G" using url v(2) unfolding aurora_clients_def by blast
qed

text \<open>What happens on the server outside the controller: time passes, nodes report, commands move on;
  the claims stay as they are.\<close>

definition aurora_env :: "string set \<Rightarrow> aurora \<Rightarrow> aurora \<Rightarrow> bool" where
  "aurora_env G w w' \<longleftrightarrow> aurora_ok G w' \<and> byClaim (fst w') = byClaim (fst w)"

text \<open>Over the real client, JSON and server, whatever passes are run in whatever order, from
  stale reads or fresh ones, with patches merged, lost or cut off, two machines that are not being
  deleted name the same node only if they are the same machine, every version of a machine names
  one node, and the server holds that node under the machine's key.\<close>

lemma machines_never_share_a_node:
  assumes "kube_lib (r_Client r)" "against_server r base G" "aurora_ok G w0" "fresh_fleet I key vers0"
    and "\<forall>i \<in> I. good_key (key i)" "fleet_run r (aurora_env G) (vers0, w0) (vers, w)"
    and "u \<in> vers i" "v \<in> vers j" "undeleted (vers i)" "undeleted (vers j)"
    and "ann u NodeIDAnnotation \<noteq> ''''" "ann v NodeIDAnnotation \<noteq> ''''"
  shows "(ann u NodeIDAnnotation = ann v NodeIDAnnotation \<longleftrightarrow> i = j)
    \<and> byClaim (fst w) (key i) = Some (ann u NodeIDAnnotation)"
proof -
  have inj: "inj_on key I" using assms(4) by (simp add: fresh_fleet_def)
  have "aurora.fleet_inv G I key (vers, w)"
    by (rule aurora.fleet_run_inv [OF assms(6) aurora.fresh_fleet_inv [OF assms(4,3)] inj assms(1)
          against_server_drives [OF assms(2)] assms(5)]) (simp add: aurora_env_def)
  from aurora.no_sharing [OF this inj assms(7-12)] aurora.fleet_invD(4) [OF this assms(7,9,11)]
  show ?thesis by blast
qed

text \<open>C9: a claim whose patch never reached the API server is not lost: as long as the server holds
  the node under the machine's key, the next pass that gets as far as claiming records that node,
  and the claim stays as it is, even when the group has no node left or the machine has been
  moved to another group meanwhile.\<close>

theorem lost_claim_is_found_again:
  assumes "kube_lib (r_Client r)" "against_server r base G" "aurora_ok G w" "good_key (claimKeyFor fm)"
    and "ann fm NodeIDAnnotation = ''''" "ann fm1 NodeIDAnnotation \<noteq> ''''"
    and "reconcile_body r fm machine cluster w = (fm1, out1, w1)"
    and "aurora_ok G w2" "byClaim (fst w2) (claimKeyFor fm) = byClaim (fst w1) (claimKeyFor fm)"
    and "marks fm2 = marks fm" "claimKeyFor fm2 = claimKeyFor fm" "fms_Group (fm_Spec fm2) \<in> G"
    and "active r fm2 machine2 cluster2" "m_DataSecretName machine2 = Some ds" "connected r cluster2 w2 \<noteq> None"
    and "reconcile_body r fm2 machine2 cluster2 w2 = (fm3, out3, w3)"
  shows "ann fm3 NodeIDAnnotation = ann fm1 NodeIDAnnotation \<and> ann fm3 claimKeyAnnotation = claimKeyFor fm
    \<and> byClaim (fst w3) (claimKeyFor fm) = Some (ann fm1 NodeIDAnnotation)"
proof -
  note drives = against_server_drives [OF assms(2)]
  have held: "byClaim (fst w2) (claimKeyFor fm2) = Some (ann fm1 NodeIDAnnotation)"
    using aurora.body_registry [OF assms(7,1) drives assms(3,4)] assms(5,6,9,11) by (auto simp: marks_def)
  have fresh: "ann fm2 NodeIDAnnotation = ''''" using assms(5,10) by (simp add: marks_def)
  have key: "good_key (claimKeyFor fm2)" using assms(4,11) by simp
  obtain c where c: "connected r cluster2 w2 = Some c" using assms(15) by blast
  then obtain visit h where h: "c = http_client (aurora_net visit base) h" "at_server visit base h"
    "\<And>w. dom (groupPool (fst w)) = G \<Longrightarrow> set (visit w) = G"
    using aurora_clientE [OF drives_connected [OF drives]] by metis
  note groups = server_groups [of G w2 visit, OF assms(8) h(3)]
  have "fms_Group (fm_Spec fm2) \<in> set (visit w2)" using groups(2) assms(8,12) by (simp add: aurora_ok_def)
  then have "ResolveGroupID c (fms_Group (fm_Spec fm2)) w2 = (Inr (fms_Group (fm_Spec fm2)), w2)"
    using resolve_group [OF h(2) groups(1)] by (simp add: h(1))
  from aurora.claim_found_again [OF assms(16,1) drives assms(8,13,14) c key fresh held this]
    aurora.body_registry [OF assms(16,1) drives assms(8) key] fresh held assms(11)
  show ?thesis using assms(13) by (auto simp: marks_def active_def split: sum.splits)
qed

subsection \<open>Claims over HTTP\<close>

text \<open>C26: \<open>Claim\<close> as the interface promises it, over HTTP: it is decided by what the server holds
  under the key and, where that is nothing, by the group's pool; and once it has answered a node,
  any client of the server is answered that node again for the key, for whatever group, and the
  server is left as it is.\<close>

theorem claim_is_idempotent_on_the_server:
  assumes "c \<in> aurora_clients base G" "aurora_ok G w" "good_id g" "good_key k" "Claim c g k w = (res, w')"
  shows "(case byClaim (fst w) k of
        Some nid \<Rightarrow> w' = w \<and> res = Inr (Some (seen (the (nodes (fst w) nid))))
      | None \<Rightarrow> (case groupPool (fst w) g of
            Some (nid # rest) \<Rightarrow> w' = (claimed g k rest nid (the (nodes (fst w) nid)) (fst w), snd w)
              \<and> res = Inr (Some (seen (the (nodes (fst w') nid)))) \<and> node_ID (seen (the (nodes (fst w') nid))) = nid
          | _ \<Rightarrow> w' = w \<and> (\<exists>e. res = Inl e \<and> IsNoCapacity e)))
    \<and> (\<forall>node c' g'. res = Inr (Some node) \<longrightarrow> c' \<in> aurora_clients base G \<longrightarrow> good_id g' \<longrightarrow>
         Claim c' g' k w' = (Inr (Some node), w'))"
proof
  obtain visit h where h: "c = http_client (aurora_net visit base) h" "at_server visit base h"
    using aurora_clientE [OF assms(1)] by metis
  have claim: "http_Claim (aurora_net visit base) h g k w = (res, w')" using assms(5) h(1) by simp
  note on_server = claim_on_server [OF h(2) assms(2-4), unfolded claim]
  have w': "aurora_ok G w'" by (rule aurora.claim_ok [OF assms(1-5)])
  show "case byClaim (fst w) k of
        Some nid \<Rightarrow> w' = w \<and> res = Inr (Some (seen (the (nodes (fst w) nid))))
      | None \<Rightarrow> (case groupPool (fst w) g of
            Some (nid # rest) \<Rightarrow> w' = (claimed g k rest nid (the (nodes (fst w) nid)) (fst w), snd w)
              \<and> res = Inr (Some (seen (the (nodes (fst w') nid)))) \<and> node_ID (seen (the (nodes (fst w') nid))) = nid
          | _ \<Rightarrow> w' = w \<and> (\<exists>e. res = Inl e \<and> IsNoCapacity e))"
    using on_server by (auto simp: claimed_def)
  show "\<forall>node c' g'. res = Inr (Some node) \<longrightarrow> c' \<in> aurora_clients base G \<longrightarrow> good_id g' \<longrightarrow>
      Claim c' g' k w' = (Inr (Some node), w')"
  proof (intro allI impI)
    fix node c' g' assume node: "res = Inr (Some node)" and c': "c' \<in> aurora_clients base G" and g': "good_id g'"
    obtain visit' h' where h': "c' = http_client (aurora_net visit' base) h'" "at_server visit' base h'"
      using aurora_clientE [OF c'] by metis
    obtain nid n where n: "byClaim (fst w') k = Some nid" "nodes (fst w') nid = Some n" "node = seen n"
      using on_server node by (auto simp: claimed_def)
    then show "Claim c' g' k w' = (Inr (Some node), w')"
      using claim_on_server [OF h'(2) w' g' assms(4)] by (auto simp: h'(1))
  qed
qed

subsection \<open>A claim that no object records\<close>

text \<open>A pass that gets as far as the delete.\<close>

definition terminating :: "'w Reconciler \<Rightarrow> KairosFleetMachine \<Rightarrow> Machine \<Rightarrow> Cluster \<Rightarrow> bool" where
  "terminating r fm machine cluster = (case kSetControllerReference (r_Client r) machine (fm_Meta fm) of
     Inl _ \<Rightarrow> False
   | Inr om \<Rightarrow> \<not> kIsPaused (r_Client r) cluster om \<and> \<not> is_zero_time (om_DeletionTimestamp (fm_Meta fm)))"

lemma delete_without_node:
  assumes "kube_lib (r_Client r)" "terminating r fm machine cluster" "ann fm NodeIDAnnotation = ''''"
    and "reconcile_body r fm machine cluster w = (fm', out, w')"
  shows "w' = w" "out = Return no_requeue None" "KairosFleetMachineFinalizer \<notin> finalizers fm'"
proof -
  obtain om where om: "kSetControllerReference (r_Client r) machine (fm_Meta fm) = Inr om" "\<not> kIsPaused (r_Client r) cluster om"
    and t: "\<not> is_zero_time (om_DeletionTimestamp (fm_Meta fm))"
    using assms(2) by (auto simp: terminating_def split: sum.splits)
  let ?fm0 = "add_finalizer (r_Client r) (fm\<lparr>fm_Meta := om\<rparr>)"
  note prep = kube_lib.prepared [OF assms(1) om(1)]
  have "ann ?fm0 NodeIDAnnotation = ''''" using prep(2) assms(3) by (simp add: same_state_ann)
  then have "(fm', out, w') = (remove_finalizer (r_Client r) ?fm0, Return no_requeue None, w)"
    using assms(4) om t prep(5) by (simp add: reconcile_body_def reconcileDelete_def Let_def)
  moreover have "finalizers (remove_finalizer (r_Client r) ?fm0) = finalizers ?fm0 - {KairosFleetMachineFinalizer}"
    using kube_lib.remove_finalizer [OF assms(1)] by (simp add: remove_finalizer_def finalizers_def)
  ultimately show "w' = w" "out = Return no_requeue None" "KairosFleetMachineFinalizer \<notin> finalizers fm'" by auto
qed

text \<open>Machines whose nodes, as far as they have one on record, are held under their keys.\<close>

definition on_record :: "'i set \<Rightarrow> ('i \<Rightarrow> string) \<Rightarrow> ('i \<Rightarrow> KairosFleetMachine set) \<Rightarrow> fakeAuroraBoot \<Rightarrow> bool" where
  "on_record I key vers f \<longleftrightarrow> inj_on key I \<and> (\<forall>i. \<forall>v \<in> vers i. i \<in> I \<and> claimKeyFor v = key i
     \<and> (ann v NodeIDAnnotation \<noteq> '''' \<longrightarrow> byClaim f (key i) = Some (ann v NodeIDAnnotation)))"

text \<open>C10: the node ID and the claim key are on record only after the claim. When the patch after
  the claim does not arrive and the machine is deleted before another pass, the delete finds no
  node to release, removes the finalizer and reports success. AuroraBoot goes on holding the
  node, in no pool, under the key of a machine that is gone, whatever the passes of all other
  machines do from then on.\<close>

theorem lost_claim_of_deleted_machine_leaks:
  assumes "kube_lib (r_Client r)" "against_server r base G" "aurora_ok G w" "good_key (claimKeyFor fm)"
    and "ann fm NodeIDAnnotation = ''''" "reconcile_body r fm machine cluster w = (fm1, out1, w1)"
    and "ann fm1 NodeIDAnnotation = nid" "nid \<noteq> ''''"
    and "aurora_env G w1 w2" "marks fm2 = marks fm"
    and "terminating r fm2 machine2 cluster2" "reconcile_body r fm2 machine2 cluster2 w2 = (fm3, out3, w3)"
    and "on_record I key vers0 (fst w3)" "\<forall>i \<in> I. good_key (key i)" "claimKeyFor fm \<notin> key ` I"
    and "fleet_run r (aurora_env G) (vers0, w3) (vers, w')"
  shows "out3 = Return no_requeue None \<and> KairosFleetMachineFinalizer \<notin> finalizers fm3
    \<and> byClaim (fst w') (claimKeyFor fm) = Some nid
    \<and> (\<forall>g pool. groupPool (fst w') g = Some pool \<longrightarrow> nid \<notin> set pool)"
proof -
  note drives = against_server_drives [OF assms(2)]
  have none: "ann fm2 NodeIDAnnotation = ''''" using assms(5,10) by (simp add: marks_def)
  note delete = delete_without_node [OF assms(1,11) none assms(12)]
  have "byClaim (fst w1) (claimKeyFor fm) = Some nid"
    using aurora.body_registry [OF assms(6,1) drives assms(3,4)] assms(5,7,8) by (auto simp: marks_def)
  then have held: "byClaim (fst w3) (claimKeyFor fm) = Some nid" "aurora_ok G w3"
    using assms(9) delete(1) by (simp_all add: aurora_env_def)
  have "aurora.fleet_inv G I key (vers0, w3)"
    using assms(13) held(2) aurora.held_good [OF held(2)] by (auto simp: aurora.fleet_inv_def on_record_def)
  note run = assms(16) this assms(13) [unfolded on_record_def, THEN conjunct1] assms(1) drives assms(14)
  have quiet: "\<forall>w w'. aurora_env G w w' \<longrightarrow> aurora_ok G w \<longrightarrow> aurora_ok G w' \<and> byClaim (fst w') = byClaim (fst w)"
    by (simp add: aurora_env_def)
  have kept: "byClaim (fst w') (claimKeyFor fm) = Some nid"
    using aurora.fleet_run_others [OF run quiet assms(15)] held(1) by simp
  have "sound (fst w')" using aurora.fleet_invD(1) [OF aurora.fleet_run_inv [OF run quiet]] by (simp add: aurora_ok_def)
  with kept have "\<forall>g pool. groupPool (fst w') g = Some pool \<longrightarrow> nid \<notin> set pool"
    using soundD(2) [of "fst w'" "claimKeyFor fm" nid] soundD(4) [of "fst w'"] by fastforce
  then show ?thesis using delete kept by simp
qed

end
