(* ===== verification/ObjectStore.thy ===== *)
theory ObjectStore
  imports EndToEnd MachineOutcome
begin

text \<open>
  The API server beside AuroraBoot: \<open>Reconcile\<close> as the manager calls it, from the read of the object to
  the patch. The world is a pair of what holds the objects and of AuroraBoot; the locale
  \<open>object_store\<close> says what reads and patches have to do with the versions an object has had. Runs of
  \<open>Reconcile\<close>, with crashes, stale caches and edits of others, are runs of \<open>fleet_run\<close>.
\<close>

subsection \<open>A part of the world that the clients leave alone\<close>

locale bystander =
  fixes C :: "'w Client set" and part :: "'w \<Rightarrow> 's"
  assumes claim_part: "c \<in> C \<Longrightarrow> part (snd (Claim c g k w)) = part w"
    and get_part: "c \<in> C \<Longrightarrow> part (snd (GetNode c n w)) = part w"
    and apply_part: "c \<in> C \<Longrightarrow> part (snd (ApplyCloudConfig c n d w)) = part w"
    and reboot_part: "c \<in> C \<Longrightarrow> part (snd (Reboot c n w)) = part w"
    and commands_part: "c \<in> C \<Longrightarrow> part (snd (GetCommands c n w)) = part w"
    and release_part: "c \<in> C \<Longrightarrow> part (snd (Release c n k w)) = part w"
    and resolve_part: "c \<in> C \<Longrightarrow> part (snd (ResolveGroupID c g w)) = part w"
begin

lemma op_part:
  assumes "c \<in> C"
  shows "Claim c g k w = (r1, w') \<Longrightarrow> part w' = part w" "GetNode c n w = (r2, w') \<Longrightarrow> part w' = part w"
    "ApplyCloudConfig c n d w = (r3, w') \<Longrightarrow> part w' = part w" "Reboot c n w = (r3, w') \<Longrightarrow> part w' = part w"
    "GetCommands c n w = (r4, w') \<Longrightarrow> part w' = part w" "Release c n k w = (r5, w') \<Longrightarrow> part w' = part w"
    "ResolveGroupID c g w = (r6, w') \<Longrightarrow> part w' = part w"
  using claim_part [OF assms, of g k w] get_part [OF assms, of n w] apply_part [OF assms, of n d w] reboot_part [OF assms, of n w]
    commands_part [OF assms, of n w] release_part [OF assms, of n k w] resolve_part [OF assms, of g w] by simp_all

lemma commandState_part: "c \<in> C \<Longrightarrow> commandState c n i name w = (res, w') \<Longrightarrow> part w' = part w"
  using op_part(5) [of c] by (auto simp: commandState_def split: prod.splits sum.splits)

lemma rebootFailed_part: "c \<in> C \<Longrightarrow> rebootFailed c fm node n w = (res, w') \<Longrightarrow> part w' = part w"
  using commandState_part [of c] by (auto simp: rebootFailed_def split: prod.splits if_splits)

lemma step_part:
  assumes "c \<in> C"
  shows "claimStep r c key fm w = (fm', out, w') \<Longrightarrow> part w' = part w"
    "applyStep r c machine ds n fm w = (fm', out, w') \<Longrightarrow> part w' = part w"
    "rebootStep r c n fm w = (fm', out, w') \<Longrightarrow> part w' = part w"
    "rejoinStep r c n fm w = (fm', out, w') \<Longrightarrow> part w' = part w"
  by (auto simp: claimStep_def applyStep_def rebootStep_def rejoinStep_def Let_def
      split: prod.splits sum.splits option.splits if_splits
      dest!: op_part [OF assms] commandState_part [OF assms] rebootFailed_part [OF assms])

lemma body_part:
  assumes "reconcile_body r fm machine cluster w = (fm', out, w')" "drives r C"
  shows "part w' = part w"
proof -
  have normal: "part w1 = part w" if "reconcileNormal r f machine cluster w = (f1, o1, w1)" for f f1 o1 w1
    using that
  proof (cases rule: reconcileNormal_cases)
    case (step ds c)
    then have "c \<in> C" using drives_connected [OF assms(2), of cluster w c] by (simp add: connected_def)
    from step(3) show ?thesis by (cases rule: lifecycleStep_cases) (auto dest: step_part [OF \<open>c \<in> C\<close>])
  qed simp_all
  have delete: "part w1 = part w" if "reconcileDelete r f cluster w = (f1, e1, w1)" for f f1 e1 w1
    using that op_part(6) [OF drives_delete [OF assms(2)], of cluster w]
    by (auto simp: reconcileDelete_def Let_def split: sum.splits prod.splits if_splits)
  show ?thesis using assms(1) normal delete
    by (auto simp: reconcile_body_def Let_def split: sum.splits prod.splits if_splits)
qed

end

subsection \<open>AuroraBoot beside something else\<close>

text \<open>A network in a bigger world: requests change AuroraBoot's half of it.\<close>

definition beside :: "('w \<Rightarrow> 'x \<times> 'w) \<Rightarrow> 's \<times> 'w \<Rightarrow> 'x \<times> 's \<times> 'w" where
  "beside f = (\<lambda>(s, w). case f w of (x, w') \<Rightarrow> (x, s, w'))"

definition net_beside :: "'w net \<Rightarrow> ('s \<times> 'w) net" where
  "net_beside net = \<lparr>NewRequest = NewRequest net, HTTPClientWithTimeout = (\<lambda>t req. beside (HTTPClientWithTimeout net t req))\<rparr>"

definition client_beside :: "'w httpClient \<Rightarrow> ('s \<times> 'w) httpClient" where
  "client_beside c = \<lparr>baseURL = baseURL c, token = token c, userAgent = userAgent c, http = (\<lambda>req. beside (http c req))\<rparr>"

lemma beside_apply [simp]: "beside f (s, w) = (fst (f w), s, snd (f w))"
  by (simp add: beside_def split_def)

lemma client_beside_fields [simp]:
  "baseURL (client_beside c) = baseURL c" "token (client_beside c) = token c" "userAgent (client_beside c) = userAgent c"
  "http (client_beside c) req = beside (http c req)" "NewRequest (net_beside net) = NewRequest net"
  "HTTPClientWithTimeout (net_beside net) d req = beside (HTTPClientWithTimeout net d req)"
  by (simp_all add: client_beside_def net_beside_def)

lemma request_headers_beside [simp]: "request_headers (client_beside c) b = request_headers c b"
  by (simp add: request_headers_def Let_def)

lemma http_do_beside: "http_do (net_beside net) (client_beside c) method path input dec sw = beside (http_do net c method path input dec) sw"
proof -
  obtain s w where sw: "sw = (s, w)" by fastforce
  show ?thesis
    by (cases "http c \<lparr>req_Method = method, req_URL = baseURL c @ path, req_Header = request_headers c (input \<noteq> None),
          req_Body = map_option json_encode input\<rparr> w")
      (simp add: sw http_do_def split: option.splits sum.splits)
qed

lemma map_res_beside: "map_res f (beside g sw) = beside (\<lambda>w. map_res f (g w)) sw"
  by (cases sw) (simp add: map_res_def split_def split: sum.splits prod.splits)

lemma resolve_beside: "http_ResolveGroupID (net_beside net) (client_beside c) g sw = beside (http_ResolveGroupID net c g) sw"
proof -
  obtain s w where sw: "sw = (s, w)" by fastforce
  show ?thesis
    by (cases "http_do net c ''GET'' ''/api/v1/groups'' None (dec_slice groupDTO_fields zero_groupDTO) w")
      (simp add: sw http_ResolveGroupID_def http_do_beside split: sum.splits option.splits)
qed

lemma client_ops_beside:
  "Claim (http_client (net_beside net) (client_beside c)) g k sw = beside (Claim (http_client net c) g k) sw"
  "GetNode (http_client (net_beside net) (client_beside c)) n sw = beside (GetNode (http_client net c) n) sw"
  "ApplyCloudConfig (http_client (net_beside net) (client_beside c)) n d sw = beside (ApplyCloudConfig (http_client net c) n d) sw"
  "Reboot (http_client (net_beside net) (client_beside c)) n sw = beside (Reboot (http_client net c) n) sw"
  "GetCommands (http_client (net_beside net) (client_beside c)) n sw = beside (GetCommands (http_client net c) n) sw"
  "Release (http_client (net_beside net) (client_beside c)) n k sw = beside (Release (http_client net c) n k) sw"
  "ResolveGroupID (http_client (net_beside net) (client_beside c)) g sw = beside (ResolveGroupID (http_client net c) g) sw"
  by (simp_all add: http_Claim_def [abs_def] http_GetNode_def [abs_def] http_ApplyCloudConfig_def [abs_def]
      http_Reboot_def [abs_def] sendCommand_def [abs_def] http_GetCommands_def [abs_def] http_Release_def [abs_def]
      http_do_beside map_res_beside resolve_beside)

lemma New_beside: "New (net_beside net) url tok [] = http_client (net_beside net) (client_beside (new_httpClient net url tok []))"
  by (simp add: New_def new_httpClient_def client_beside_def net_beside_def)

text \<open>The clients of a set, each beside something else.\<close>

definition stands_for :: "('s \<times> 'w) Client \<Rightarrow> 'w Client \<Rightarrow> bool" where
  "stands_for c' c \<longleftrightarrow> (\<forall>g k n d sw. Claim c' g k sw = beside (Claim c g k) sw \<and> GetNode c' n sw = beside (GetNode c n) sw
     \<and> ApplyCloudConfig c' n d sw = beside (ApplyCloudConfig c n d) sw \<and> Reboot c' n sw = beside (Reboot c n) sw
     \<and> GetCommands c' n sw = beside (GetCommands c n) sw \<and> Release c' n k sw = beside (Release c n k) sw
     \<and> ResolveGroupID c' g sw = beside (ResolveGroupID c g) sw)"

definition clients_beside :: "'w Client set \<Rightarrow> ('s \<times> 'w) Client set" where
  "clients_beside C = {c'. \<exists>c \<in> C. stands_for c' c}"

interpretation beside: bystander "clients_beside C" fst for C :: "'w Client set"
  by unfold_locales (auto simp: clients_beside_def stands_for_def beside_def split_def)

lemma beside_ops:
  assumes "c' \<in> clients_beside C"
  shows "Claim c' g k sw = (r1, sw') \<Longrightarrow> \<exists>c \<in> C. Claim c g k (snd sw) = (r1, snd sw')"
    "GetNode c' n sw = (r2, sw') \<Longrightarrow> \<exists>c \<in> C. GetNode c n (snd sw) = (r2, snd sw')"
    "ApplyCloudConfig c' n d sw = (r3, sw') \<Longrightarrow> \<exists>c \<in> C. ApplyCloudConfig c n d (snd sw) = (r3, snd sw')"
    "Reboot c' n sw = (r3, sw') \<Longrightarrow> \<exists>c \<in> C. Reboot c n (snd sw) = (r3, snd sw')"
    "GetCommands c' n sw = (r4, sw') \<Longrightarrow> \<exists>c \<in> C. GetCommands c n (snd sw) = (r4, snd sw')"
    "Release c' n k sw = (r5, sw') \<Longrightarrow> \<exists>c \<in> C. Release c n k (snd sw) = (r5, snd sw')"
    "ResolveGroupID c' g sw = (r6, sw') \<Longrightarrow> \<exists>c \<in> C. ResolveGroupID c g (snd sw) = (r6, snd sw')"
proof -
  obtain c where c: "c \<in> C" "stands_for c' c" using assms by (auto simp: clients_beside_def)
  obtain s w where sw: "sw = (s, w)" by fastforce
  show "Claim c' g k sw = (r1, sw') \<Longrightarrow> \<exists>c \<in> C. Claim c g k (snd sw) = (r1, snd sw')"
    "GetNode c' n sw = (r2, sw') \<Longrightarrow> \<exists>c \<in> C. GetNode c n (snd sw) = (r2, snd sw')"
    "ApplyCloudConfig c' n d sw = (r3, sw') \<Longrightarrow> \<exists>c \<in> C. ApplyCloudConfig c n d (snd sw) = (r3, snd sw')"
    "Reboot c' n sw = (r3, sw') \<Longrightarrow> \<exists>c \<in> C. Reboot c n (snd sw) = (r3, snd sw')"
    "GetCommands c' n sw = (r4, sw') \<Longrightarrow> \<exists>c \<in> C. GetCommands c n (snd sw) = (r4, snd sw')"
    "Release c' n k sw = (r5, sw') \<Longrightarrow> \<exists>c \<in> C. Release c n k (snd sw) = (r5, snd sw')"
    "ResolveGroupID c' g sw = (r6, sw') \<Longrightarrow> \<exists>c \<in> C. ResolveGroupID c g (snd sw) = (r6, snd sw')"
    using c(2) by (auto simp: stands_for_def sw intro!: bexI [OF _ c(1)])
qed

text \<open>A registry stays one.\<close>

context claim_registry
begin

lemma registry_beside: "claim_registry (clients_beside C) (\<lambda>sw. ok (snd sw)) (\<lambda>sw. holds (snd sw)) good good_key"
proof (unfold_locales, goal_cases)
  case (4 c sw g r sw')
  then show ?case using beside_ops(7) [OF 4(1,3)] resolve_quiet by blast
next
  case (5 c sw g k r sw')
  then show ?case using beside_ops(1) [OF 5(1,5)] claim_ok by blast
next
  case (6 c sw g k r sw' k')
  then show ?case using beside_ops(1) [OF 6(1,5)] claim_others by blast
next
  case (7 c sw g k r sw' n)
  then show ?case using beside_ops(1) [OF 7(1,5)] claim_keeps by blast
next
  case (8 c sw g k node sw')
  then show ?case using beside_ops(1) [OF 8(1,5)] claim_holds by blast
next
  case (9 c sw n r sw')
  then show ?case using beside_ops(2) [OF 9(1,4)] get_quiet by blast
next
  case (10 c sw n d r sw')
  then show ?case using beside_ops(3) [OF 10(1,4)] apply_quiet by blast
next
  case (11 c sw n r sw')
  then show ?case using beside_ops(4) [OF 11(1,4)] reboot_quiet by blast
next
  case (12 c sw n r sw')
  then show ?case using beside_ops(5) [OF 12(1,4)] commands_quiet by blast
next
  case (13 c sw n k r sw')
  then show ?case using beside_ops(6) [OF 13(1,5)] release_ok by blast
next
  case (14 c sw n k r sw' k')
  then show ?case using beside_ops(6) [OF 14(1,5)] release_others by blast
qed (use good_key_ne held_good one_holder in blast)+

end

subsection \<open>The objects\<close>

text \<open>What the API server and the cache in front of it promise. A read answers some version the
  object has had. A patch changes no other object and nothing of AuroraBoot; it is merged into a
  version of the object it was made for, or has no effect, whatever it answers.\<close>

definition object_key :: "KairosFleetMachine \<Rightarrow> NamespacedName" where
  "object_key fm = \<lparr>nn_Namespace = om_Namespace (fm_Meta fm), nn_Name = om_Name (fm_Meta fm)\<rparr>"

type_synonym 's history = "'s \<Rightarrow> NamespacedName \<Rightarrow> KairosFleetMachine set"

text \<open>The objects get one version more.\<close>

definition adds :: "'s history \<Rightarrow> NamespacedName \<Rightarrow> KairosFleetMachine \<Rightarrow> 's \<Rightarrow> 's \<Rightarrow> bool" where
  "adds versions name fm s s' \<longleftrightarrow> versions s' = (versions s)(name := insert fm (versions s name))"

locale object_store =
  fixes K :: "('s \<times> 'w) Kube" and versions :: "'s history"
  assumes read: "kGetMachine K name sw = Inr fm \<Longrightarrow> fm \<in> versions (fst sw) name \<and> object_key fm = name"
    and patched: "kPatchMachine K before after sw = (e, sw') \<Longrightarrow> before \<in> versions (fst sw) (object_key before) \<Longrightarrow>
      snd sw' = snd sw \<and> (versions (fst sw') = versions (fst sw)
        \<or> (\<exists>cur \<in> versions (fst sw) (object_key before). \<exists>new. merged before after cur new
              \<and> adds versions (object_key before) new (fst sw) (fst sw')))"

text \<open>What the manager does to the world: it calls \<open>Reconcile\<close>, for any object and any number of times;
  it may be killed between a pass and its patch; and the rest of the world moves on.\<close>

inductive controller_run :: "'w Reconciler \<Rightarrow> ('w \<Rightarrow> 'w \<Rightarrow> bool) \<Rightarrow> 'w \<Rightarrow> 'w \<Rightarrow> bool"
  for r :: "'w Reconciler" and env :: "'w \<Rightarrow> 'w \<Rightarrow> bool" and w0 :: 'w where
  start: "controller_run r env w0 w0"
| reconcile: "controller_run r env w0 w \<Longrightarrow> Reconcile r name w = (out, w') \<Longrightarrow> controller_run r env w0 w'"
| killed: "controller_run r env w0 w \<Longrightarrow> kGetMachine (r_Client r) name w = Inr fm
    \<Longrightarrow> reconcile_body r fm machine cluster w = (fm', out, w') \<Longrightarrow> controller_run r env w0 w'"
| outside: "controller_run r env w0 w \<Longrightarrow> env w w' \<Longrightarrow> controller_run r env w0 w'"

text \<open>Others edit an object without touching its marks and its key; on AuroraBoot \<open>E\<close> may happen.\<close>

definition others_do :: "('w \<Rightarrow> 'w \<Rightarrow> bool) \<Rightarrow> 's history \<Rightarrow> 's \<times> 'w \<Rightarrow> 's \<times> 'w \<Rightarrow> bool" where
  "others_do E versions sw sw' \<longleftrightarrow> E (snd sw) (snd sw') \<and> (versions (fst sw') = versions (fst sw)
     \<or> (\<exists>name fm new. fm \<in> versions (fst sw) name \<and> marks new = marks fm \<and> claimKeyFor new = claimKeyFor fm
          \<and> adds versions name new (fst sw) (fst sw')))"

context object_store
begin

text \<open>Every run of the manager is a run of the fleet, of the versions that its world holds.\<close>

lemma run_simulated:
  assumes "controller_run r (others_do E versions) sw0 sw" "r_Client r = K" "drives r (clients_beside C)" "\<And>w. E w w"
  defines "E' \<equiv> \<lambda>sw sw'. E (snd sw) (snd sw')"
  shows "fleet_run r E' (versions (fst sw0), sw0) (versions (fst sw), sw)"
  using assms(1)
proof (induction rule: controller_run.induct)
  case start
  show ?case by (rule fleet_run.start)
next
  case (reconcile sw name out sw')
  from reconcile_patches_the_pass [where r = r and name = name and w = sw] reconcile.hyps(2)
  consider "sw' = sw" | fm machine cluster fm' ended sw1 perr where "kGetMachine K name sw = Inr fm"
      "reconcile_body r fm machine cluster sw = (fm', ended, sw1)" "kPatchMachine K fm fm' sw1 = (perr, sw')"
    by (auto simp: assms(2))
  then show ?case
  proof cases
    case (2 fm machine cluster fm' ended sw1 perr)
    have fm: "fm \<in> versions (fst sw) name" "object_key fm = name" using read [OF 2(1)] by auto
    note body = 2(2)
    have same: "fst sw1 = fst sw" by (rule beside.body_part [OF body assms(3)])
    note patch = patched [OF 2(3), unfolded same fm(2), OF fm(1)]
    then have E: "E' sw1 sw'" by (simp add: E'_def assms(4))
    from patch consider "versions (fst sw') = versions (fst sw)"
      | cur new where "cur \<in> versions (fst sw) name" "merged fm fm' cur new" "adds versions name new (fst sw) (fst sw')"
      by (auto simp: fm(2))
    then show ?thesis
    proof cases
      case 1
      from fleet_run.outside [OF fleet_run.lost [OF reconcile.IH fm(1) body] E] show ?thesis by (simp add: 1)
    next
      case (2 cur new)
      from fleet_run.outside [OF fleet_run.pass [OF reconcile.IH fm(1) 2(1) body 2(2)] E]
      show ?thesis unfolding 2(3) [unfolded adds_def] .
    qed
  qed (use reconcile.IH in simp)
next
  case (killed sw name fm machine cluster fm' out sw')
  have "fst sw' = fst sw" by (rule beside.body_part [OF killed.hyps(3) assms(3)])
  moreover have "fm \<in> versions (fst sw) name" using read [of name sw fm] killed.hyps(2) assms(2) by simp
  ultimately show ?case using fleet_run.lost [OF killed.IH _ killed.hyps(3)] by auto
next
  case (outside sw sw')
  then have E: "E' sw sw'" by (simp add: others_do_def E'_def)
  from outside.hyps(2) consider "versions (fst sw') = versions (fst sw)"
    | name fm new where "fm \<in> versions (fst sw) name" "marks new = marks fm" "claimKeyFor new = claimKeyFor fm"
        "adds versions name new (fst sw) (fst sw')" by (auto simp: others_do_def)
  then show ?case
  proof cases
    case 1
    then show ?thesis using fleet_run.outside [OF outside.IH E] by simp
  next
    case 2
    from fleet_run.outside [OF fleet_run.edit [OF outside.IH 2(1-3)] E]
    show ?thesis unfolding 2(4) [unfolded adds_def] .
  qed
qed

end

subsection \<open>The manager against the server\<close>

interpretation stored: claim_registry "clients_beside (aurora_clients base G)" "\<lambda>sw. aurora_ok G (snd sw)"
    "\<lambda>sw. byClaim (fst (snd sw))" good_id good_key
  for base :: string and G :: "string set"
  by (rule aurora.registry_beside)

text \<open>The reconciler as the manager sets it up, where the API server is next to the AuroraBoot server.\<close>

definition beside_server :: "('s \<times> aurora) Reconciler \<Rightarrow> string \<Rightarrow> string set \<Rightarrow> bool" where
  "beside_server r base G \<longleftrightarrow> r_FleetClientFactory r = None
     \<and> (\<exists>visit. r_net r = net_beside (aurora_net visit base) \<and> (\<forall>w. dom (groupPool (fst w)) = G \<longrightarrow> set (visit w) = G))
     \<and> (\<forall>name sw fcl. kGetCluster (r_Client r) name sw = Inr fcl \<longrightarrow>
          trim_right (ab_URL (fcs_AuroraBoot (fc_Spec fcl))) CHR ''/'' = base)"

lemma beside_server_drives:
  fixes r :: "('s \<times> aurora) Reconciler"
  assumes "beside_server r base G"
  shows "drives r (clients_beside (aurora_clients base G))"
  unfolding drives_def
proof (intro allI impI)
  fix name sw fcl sw' fc
  assume fcl: "kGetCluster (r_Client r) name sw = Inr fcl"
    and fc: "resolveFleetClient (r_Client r) (fleetFactory r) fcl sw' = Inr fc"
  obtain visit where v: "r_net r = net_beside (aurora_net visit base)" "\<forall>w. dom (groupPool (fst w)) = G \<longrightarrow> set (visit w) = G"
    using assms by (auto simp: beside_server_def)
  have url: "trim_right (ab_URL (fcs_AuroraBoot (fc_Spec fcl))) CHR ''/'' = base"
    using assms fcl unfolding beside_server_def by blast
  obtain tok where "fc = fleetFactory r (ab_URL (fcs_AuroraBoot (fc_Spec fcl))) tok"
    using fc by (auto simp: resolveFleetClient_def Let_def split: sum.splits if_splits)
  then have fc: "fc = New (net_beside (aurora_net visit base)) (ab_URL (fcs_AuroraBoot (fc_Spec fcl))) tok []"
    using assms v(1) by (simp add: beside_server_def fleetFactory_def DefaultFleetClientFactory_def)
  have "New (aurora_net visit base) (ab_URL (fcs_AuroraBoot (fc_Spec fcl))) tok [] \<in> aurora_clients base G"
    using url v(2) unfolding aurora_clients_def by blast
  moreover have "stands_for fc (New (aurora_net visit base) (ab_URL (fcs_AuroraBoot (fc_Spec fcl))) tok [])"
    unfolding stands_for_def fc New_beside client_ops_beside by (simp add: New_def)
  ultimately show "fc \<in> clients_beside (aurora_clients base G)" by (auto simp: clients_beside_def)
qed

text \<open>C4: however often the manager reconciles the objects on the API server, in whatever order, from
  a cache that lags behind or not, with patches that fail or take effect and still fail, killed
  between a pass and its patch and started again, while others edit the objects and nodes
  report to AuroraBoot: no two machines on the API server that are not being deleted name the
  same node, and AuroraBoot holds the node that a machine names under that machine's key.\<close>

theorem manager_never_shares_a_node:
  fixes r :: "('s \<times> aurora) Reconciler"
  assumes "kube_lib (r_Client r)" "object_store (r_Client r) versions" "beside_server r base G"
    and "aurora_ok G (snd sw0)" "fresh_fleet I key (versions (fst sw0))" "\<forall>i \<in> I. good_key (key i)"
    and "controller_run r (others_do (\<lambda>w w'. w' = w \<or> aurora_env G w w') versions) sw0 sw"
    and "u \<in> versions (fst sw) i" "v \<in> versions (fst sw) j" "undeleted (versions (fst sw) i)" "undeleted (versions (fst sw) j)"
    and "ann u NodeIDAnnotation \<noteq> ''''" "ann v NodeIDAnnotation \<noteq> ''''"
  shows "(ann u NodeIDAnnotation = ann v NodeIDAnnotation \<longleftrightarrow> i = j)
    \<and> byClaim (fst (snd sw)) (key i) = Some (ann u NodeIDAnnotation)"
proof -
  note drives = beside_server_drives [OF assms(3)]
  have inj: "inj_on key I" using assms(5) by (simp add: fresh_fleet_def)
  note run = object_store.run_simulated [OF assms(2,7) refl drives disjI1 [OF refl]]
  have "stored.fleet_inv G I key (versions (fst sw), sw)"
    by (rule stored.fleet_run_inv [OF run stored.fresh_fleet_inv [OF assms(5,4)] inj assms(1) drives assms(6)])
      (auto simp: aurora_env_def)
  from stored.no_sharing [OF this inj assms(8-13)] stored.fleet_invD(4) [OF this assms(8,10,12)]
  show ?thesis by blast
qed

end
