(* ===== verification/ServerLifecycle.thy ===== *)
theory ServerLifecycle
  imports EndToEnd MachineProgress
begin

text \<open>
  One machine against the AuroraBoot server, from its creation to provisioned: four passes, with
  the requests, the JSON and the server's state between them, and nothing assumed of AuroraBoot's
  answers. At the end, what becomes of identifiers that do not fit into a URL.
\<close>

subsection \<open>The world after a pass\<close>

context kube_lib
begin

lemma claim_world:
  assumes "r_Client r = K" "active r fm machine cluster" "m_DataSecretName machine = Some ds"
    and "connected r cluster w = Some fc" "ann fm NodeIDAnnotation = ''''"
    and "ResolveGroupID fc (fms_Group (fm_Spec fm)) w = (Inr g, w1)"
  shows "snd (snd (reconcile_body r fm machine cluster w)) = snd (Claim fc g (claimKeyFor fm) w1)"
proof -
  obtain fm0 where fm0: "same_state fm fm0"
    "reconcile_body r fm machine cluster w = lifecycleStep r fc machine ds fm0 w"
    using active_body [OF assms(1-4)] by metis
  then show ?thesis
    using assms(5,6) by (cases "Claim fc g (claimKeyFor fm) w1")
      (auto simp: lifecycleStep_def Let_def claimStep_def same_state_reads split: sum.splits option.splits)
qed

lemma apply_world:
  assumes "r_Client r = K" "active r fm machine cluster" "m_DataSecretName machine = Some ds"
    and "connected r cluster w = Some fc" "ann fm NodeIDAnnotation = n" "n \<noteq> ''''"
    and "ann fm cloudConfigAppliedAnnotation \<noteq> cloudConfigAppliedValue" "retryWait fm (kNow K w) = 0"
    and "bootstrapData K machine ds w = Inr data"
  shows "snd (snd (reconcile_body r fm machine cluster w)) = snd (ApplyCloudConfig fc n data w)"
proof -
  obtain fm0 where fm0: "same_state fm fm0"
    "reconcile_body r fm machine cluster w = lifecycleStep r fc machine ds fm0 w"
    using active_body [OF assms(1-4)] by metis
  then show ?thesis
    using assms by (cases "ApplyCloudConfig fc n data w")
      (auto simp: lifecycleStep_def Let_def applyStep_def same_state_reads split: sum.splits option.splits)
qed

lemma reboot_world:
  assumes "r_Client r = K" "active r fm machine cluster" "m_DataSecretName machine = Some ds"
    and "connected r cluster w = Some fc" "ann fm NodeIDAnnotation = n" "n \<noteq> ''''"
    and "ann fm cloudConfigAppliedAnnotation = cloudConfigAppliedValue"
    and "ann fm rebootRequestedAtAnnotation = ''''"
    and "commandState fc n (ann fm cloudConfigCommandIDAnnotation) CommandApplyCloudConfig w
      = ((True, False, ''''), w1)" "retryWait fm (kNow K w1) = 0"
  shows "snd (snd (reconcile_body r fm machine cluster w)) = snd (Reboot fc n w1)"
proof -
  obtain fm0 where fm0: "same_state fm fm0"
    "reconcile_body r fm machine cluster w = lifecycleStep r fc machine ds fm0 w"
    using active_body [OF assms(1-4)] by metis
  then show ?thesis
    using assms by (cases "Reboot fc n w1")
      (auto simp: lifecycleStep_def Let_def rebootStep_def same_state_reads split: sum.splits option.splits)
qed

lemma rejoin_world:
  assumes "r_Client r = K" "active r fm machine cluster" "m_DataSecretName machine = Some ds"
    and "connected r cluster w = Some fc" "ann fm NodeIDAnnotation = n" "n \<noteq> ''''"
    and "ann fm cloudConfigAppliedAnnotation = cloudConfigAppliedValue"
    and "heard_since_reboot fm node" "GetNode fc n w = (Inr (Some node), w1)"
  shows "snd (snd (reconcile_body r fm machine cluster w)) = w1"
proof -
  obtain fm0 where fm0: "same_state fm fm0"
    "reconcile_body r fm machine cluster w = lifecycleStep r fc machine ds fm0 w"
    using active_body [OF assms(1-4)] by metis
  then have "lifecycleStep r fc machine ds fm0 w = (provision K w1 node fm0, Return no_requeue None, w1)"
    using assms by (intro rejoin_provisions) (simp_all add: same_state_ann heard_same_state)
  then show ?thesis using fm0(2) by simp
qed

end

subsection \<open>Each stage against the server\<close>

text \<open>What a stage's pass needs: an object that gets as far as the steps, and a connection.\<close>

definition at_step :: "aurora Reconciler \<Rightarrow> KairosFleetMachine \<Rightarrow> Machine \<Rightarrow> Cluster \<Rightarrow> aurora \<Rightarrow> bool" where
  "at_step r fm machine cluster w \<longleftrightarrow> active r fm machine cluster \<and> m_DataSecretName machine \<noteq> None
     \<and> connected r cluster w \<noteq> None"

lemma at_stepE:
  assumes "at_step r fm machine cluster w" "against_server r base G"
  obtains ds visit h where "active r fm machine cluster" "m_DataSecretName machine = Some ds"
    "connected r cluster w = Some (http_client (aurora_net visit base) h)" "at_server visit base h"
    "\<And>w. dom (groupPool (fst w)) = G \<Longrightarrow> set (visit w) = G"
proof -
  from assms(1) obtain ds c where s: "active r fm machine cluster" "m_DataSecretName machine = Some ds"
    and c: "connected r cluster w = Some c" by (auto simp: at_step_def)
  from drives_connected [OF against_server_drives [OF assms(2)] c] show ?thesis
    by (rule aurora_clientE) (use s c that in auto)
qed

lemma server_claim_pass:
  assumes "kube_lib (r_Client r)" "against_server r base G" "aurora_ok G w" "at_step r fm machine cluster w"
    and "ann fm NodeIDAnnotation = ''''" "good_key (claimKeyFor fm)" "byClaim (fst w) (claimKeyFor fm) = None"
    and "groupPool (fst w) (fms_Group (fm_Spec fm)) = Some (nid # rest)" "nodes (fst w) nid = Some n"
  shows "ann (fst (reconcile_body r fm machine cluster w))
      = (ann fm)(NodeIDAnnotation := nid, claimKeyAnnotation := claimKeyFor fm)"
    "snd (snd (reconcile_body r fm machine cluster w))
      = (claimed (fms_Group (fm_Spec fm)) (claimKeyFor fm) rest nid n (fst w), snd w)"
proof -
  from at_stepE [OF assms(4,2)] obtain ds visit h where s: "active r fm machine cluster" "m_DataSecretName machine = Some ds"
    and c: "connected r cluster w = Some (http_client (aurora_net visit base) h)" "at_server visit base h"
    and "dom (groupPool (fst w)) = G \<Longrightarrow> set (visit w) = G" by metis
  then have v: "set (visit w) = G" using assms(3) by (simp add: aurora_ok_def)
  note groups = server_groups [of G w visit, OF assms(3) v]
  have g: "fms_Group (fm_Spec fm) \<in> set (visit w)" using assms(8) by (auto simp: groups(2))
  then have resolve: "ResolveGroupID (http_client (aurora_net visit base) h) (fms_Group (fm_Spec fm)) w
      = (Inr (fms_Group (fm_Spec fm)), w)" using resolve_group [OF c(2) groups(1)] by simp
  have claim: "Claim (http_client (aurora_net visit base) h) (fms_Group (fm_Spec fm)) (claimKeyFor fm) w
      = (Inr (Some (seen (n\<lparr>fn_ClaimKey := Some (claimKeyFor fm)\<rparr>))),
         (claimed (fms_Group (fm_Spec fm)) (claimKeyFor fm) rest nid n (fst w), snd w))" "fn_ID n = nid"
    using claim_on_server [OF c(2) assms(3) groups(3) [OF g] assms(6)] assms(7-9) by auto
  note pass = kube_lib.claim_pass [OF assms(1) refl s c(1) assms(5) resolve, of "seen (n\<lparr>fn_ClaimKey := Some (claimKeyFor fm)\<rparr>)"]
    and world = kube_lib.claim_world [OF assms(1) refl s c(1) assms(5) resolve]
  show "ann (fst (reconcile_body r fm machine cluster w)) = (ann fm)(NodeIDAnnotation := nid, claimKeyAnnotation := claimKeyFor fm)"
    using pass claim by simp
  show "snd (snd (reconcile_body r fm machine cluster w))
      = (claimed (fms_Group (fm_Spec fm)) (claimKeyFor fm) rest nid n (fst w), snd w)"
    using world claim by simp
qed

lemma server_apply_pass:
  assumes "kube_lib (r_Client r)" "against_server r base G" "aurora_ok G w" "at_step r fm machine cluster w"
    and "ann fm NodeIDAnnotation = nid" "nodes (fst w) nid = Some n"
    and "ann fm cloudConfigAppliedAnnotation \<noteq> cloudConfigAppliedValue" "ann fm retryNotBeforeAnnotation = ''''"
    and "m_DataSecretName machine = Some ds" "bootstrapData (r_Client r) machine ds w = Inr data"
  shows "ann (fst (reconcile_body r fm machine cluster w)) = (ann fm)(retryNotBeforeAnnotation := '''',
      cloudConfigAppliedAnnotation := cloudConfigAppliedValue, cloudConfigCommandIDAnnotation := ''cmd-apply-cloud-config'')"
    "snd (snd (reconcile_body r fm machine cluster w)) = (configured (to_valid data) nid n (fst w), snd w)"
proof -
  from at_stepE [OF assms(4,2)] obtain visit h where s: "active r fm machine cluster"
    and c: "connected r cluster w = Some (http_client (aurora_net visit base) h)" "at_server visit base h" by metis
  have nid: "plain nid" "nid \<noteq> ''''" using soundD(1) [of "fst w" nid n] assms(3,6) by (auto simp: aurora_ok_def good_id_def)
  have sent: "ApplyCloudConfig (http_client (aurora_net visit base) h) nid data w
      = (Inr (Some (seen_command (done_command ''apply-cloud-config''))), (configured (to_valid data) nid n (fst w), snd w))"
    using apply_config(1) [OF c(2) nid(1) assms(6)] by simp
  have id: "cmd_ID (seen_command (done_command ''apply-cloud-config'')) = ''cmd-apply-cloud-config''"
    by (simp add: done_command_def)
  have wait: "retryWait fm (kNow (r_Client r) w) = 0" using assms(8) by simp
  show "ann (fst (reconcile_body r fm machine cluster w)) = (ann fm)(retryNotBeforeAnnotation := '''',
      cloudConfigAppliedAnnotation := cloudConfigAppliedValue, cloudConfigCommandIDAnnotation := ''cmd-apply-cloud-config'')"
    using kube_lib.apply_pass [OF assms(1) refl s assms(9) c(1) assms(5) nid(2) assms(7) wait assms(10)] sent id by simp
  show "snd (snd (reconcile_body r fm machine cluster w)) = (configured (to_valid data) nid n (fst w), snd w)"
    using kube_lib.apply_world [OF assms(1) refl s assms(9) c(1) assms(5) nid(2) assms(7) wait assms(10)] sent by simp
qed

lemma server_reboot_pass:
  assumes "kube_lib (r_Client r)" "against_server r base G" "aurora_ok G w" "at_step r fm machine cluster w"
    and "ann fm NodeIDAnnotation = nid" "nodes (fst w) nid = Some n"
    and "ann fm cloudConfigAppliedAnnotation = cloudConfigAppliedValue" "ann fm retryNotBeforeAnnotation = ''''"
    and "ann fm cloudConfigCommandIDAnnotation = ''cmd-apply-cloud-config''" "ann fm rebootRequestedAtAnnotation = ''''"
    and "done_command ''apply-cloud-config'' \<in> set (fn_commands n)"
    and "\<forall>c \<in> set (fn_commands n). fc_ID c = ''cmd-apply-cloud-config'' \<longrightarrow> fc_Phase c = ''Completed''"
    and "\<And>w. kNow (r_Client r) w = snd w"
  shows "ann (fst (reconcile_body r fm machine cluster w)) NodeIDAnnotation = nid"
    "ann (fst (reconcile_body r fm machine cluster w)) cloudConfigAppliedAnnotation = cloudConfigAppliedValue"
    "ann (fst (reconcile_body r fm machine cluster w)) rebootRequestedAtAnnotation = format_RFC3339 (snd w)"
    "snd (snd (reconcile_body r fm machine cluster w)) = (restarted (snd w) nid n (fst w), snd w)"
proof -
  from at_stepE [OF assms(4,2)] obtain ds visit h where s: "active r fm machine cluster" "m_DataSecretName machine = Some ds"
    and c: "connected r cluster w = Some (http_client (aurora_net visit base) h)" "at_server visit base h" by metis
  let ?c = "http_client (aurora_net visit base) h"
  have nid: "plain nid" "nid \<noteq> ''''" "readable n"
    using soundD(1) [of "fst w" nid n] assms(3,6) by (auto simp: aurora_ok_def good_id_def)
  have cmds: "GetCommands ?c nid w = (Inr (map seen_command (fn_commands n)), w)"
    using get_commands(1) [OF c(2) nid(1) assms(6) nid(3)] by simp
  have "seen_command (done_command ''apply-cloud-config'') \<in> set (map seen_command (fn_commands n))" using assms(11) by simp
  from commandState_completed [of ?c nid w, unfolded cmds fst_conv, OF refl _ this]
  have completed: "commandState ?c nid (ann fm cloudConfigCommandIDAnnotation) CommandApplyCloudConfig w = ((True, False, ''''), w)"
    using assms(9,12) by (simp add: done_command_def CommandPhaseCompleted_def)
  have reboot: "Reboot ?c nid w = (Inr (Some (seen_command (done_command ''reboot''))), (restarted (snd w) nid n (fst w), snd w))"
    using reboot_node(1) [OF c(2) nid(1) assms(6)] by simp
  have wait: "retryWait fm (kNow (r_Client r) w) = 0" using assms(8) by simp
  from kube_lib.reboot_pass [OF assms(1) refl s c(1) assms(5) nid(2) assms(7,10) completed wait reboot]
  show "ann (fst (reconcile_body r fm machine cluster w)) NodeIDAnnotation = nid"
    "ann (fst (reconcile_body r fm machine cluster w)) cloudConfigAppliedAnnotation = cloudConfigAppliedValue"
    "ann (fst (reconcile_body r fm machine cluster w)) rebootRequestedAtAnnotation = format_RFC3339 (snd w)"
    by (simp_all add: assms(13))
  show "snd (snd (reconcile_body r fm machine cluster w)) = (restarted (snd w) nid n (fst w), snd w)"
    using kube_lib.reboot_world [OF assms(1) refl s c(1) assms(5) nid(2) assms(7,10) completed wait] reboot by simp
qed

lemma server_rejoin_pass:
  assumes "kube_lib (r_Client r)" "against_server r base G" "aurora_ok G w" "at_step r fm machine cluster w"
    and "ann fm NodeIDAnnotation = nid" "nodes (fst w) nid = Some n"
    and "ann fm cloudConfigAppliedAnnotation = cloudConfigAppliedValue"
    and "ann fm rebootRequestedAtAnnotation = format_RFC3339 t" "four_digit_year t"
    and "fn_Phase n = ''Online''" "fn_LastHeartbeat n = Some hb" "t < hb"
  shows "provisioned (fst (reconcile_body r fm machine cluster w)) = Some True"
    "fms_ProviderID (fm_Spec (fst (reconcile_body r fm machine cluster w))) = Some (providerIDPrefix @ nid)"
    "snd (snd (reconcile_body r fm machine cluster w)) = w"
proof -
  from at_stepE [OF assms(4,2)] obtain ds visit h where s: "active r fm machine cluster" "m_DataSecretName machine = Some ds"
    and c: "connected r cluster w = Some (http_client (aurora_net visit base) h)" "at_server visit base h" by metis
  have nid: "plain nid" "nid \<noteq> ''''" "readable n" "fn_ID n = nid"
    using soundD(1) [of "fst w" nid n] assms(3,6) by (auto simp: aurora_ok_def good_id_def)
  have get: "GetNode (http_client (aurora_net visit base) h) nid w = (Inr (Some (seen n)), w)"
    using get_node(1) [OF c(2) nid(1) assms(6) nid(3)] by simp
  then have got: "fst (GetNode (http_client (aurora_net visit base) h) nid w) = Inr (Some (seen n))" by simp
  have online: "node_Phase (seen n) = PhaseOnline" "node_LastHeartbeat (seen n) = Some hb"
    using assms(10,11) by (simp_all add: PhaseOnline_def)
  from kube_lib.rejoin_pass [OF assms(1) refl s c(1) assms(5) nid(2) assms(7-9) got online assms(12)]
  show "provisioned (fst (reconcile_body r fm machine cluster w)) = Some True"
    "fms_ProviderID (fm_Spec (fst (reconcile_body r fm machine cluster w))) = Some (providerIDPrefix @ nid)"
    by (simp_all add: nid(4))
  have "heard_since_reboot fm (seen n)"
    using assms(8,12) online parse_format_RFC3339 [OF assms(9)] whole_second_le [of t] by (simp add: heard_since_reboot_def)
  from kube_lib.rejoin_world [OF assms(1) refl s c(1) assms(5) nid(2) assms(7) this get]
  show "snd (snd (reconcile_body r fm machine cluster w)) = w" .
qed

subsection \<open>From created to provisioned\<close>

text \<open>Passes over one machine, each on the server the last one left, at the times \<open>ts\<close>.\<close>

fun server_passes :: "aurora Reconciler \<Rightarrow> Machine \<Rightarrow> Cluster \<Rightarrow> (nat \<Rightarrow> time) \<Rightarrow> nat
    \<Rightarrow> KairosFleetMachine \<times> fakeAuroraBoot \<Rightarrow> KairosFleetMachine \<times> fakeAuroraBoot" where
  "server_passes r machine cluster ts 0 s = s"
| "server_passes r machine cluster ts (Suc i) s =
     (let (fm, f) = server_passes r machine cluster ts i s;
          (fm', out, w') = reconcile_body r fm machine cluster (f, ts i) in (fm', fst w'))"

lemma server_passes_step:
  assumes "server_passes r machine cluster ts i s = (fm, f)"
  shows "server_passes r machine cluster ts (Suc i) s
    = (fst (reconcile_body r fm machine cluster (f, ts i)), fst (snd (snd (reconcile_body r fm machine cluster (f, ts i)))))"
  using assms by (simp add: Let_def split_def)

text \<open>From the second pass on: the reboot and the rejoin.\<close>

lemma last_two_passes:
  assumes lib: "kube_lib (r_Client r)" "against_server r base G" "\<And>w. kNow (r_Client r) w = snd w"
    and s2: "server_passes r machine cluster ts (Suc 1) s = (fm2, f2)" "sound f2" "dom (groupPool f2) = G" "nodes f2 nid = Some n2"
    and steps: "\<And>i fm f. i < 4 \<Longrightarrow> server_passes r machine cluster ts i s = (fm, f) \<Longrightarrow> at_step r fm machine cluster (f, ts i)"
    and marks: "ann fm2 NodeIDAnnotation = nid" "ann fm2 cloudConfigAppliedAnnotation = cloudConfigAppliedValue"
      "ann fm2 retryNotBeforeAnnotation = ''''" "ann fm2 cloudConfigCommandIDAnnotation = ''cmd-apply-cloud-config''"
      "ann fm2 rebootRequestedAtAnnotation = ''''"
    and cmds: "done_command ''apply-cloud-config'' \<in> set (fn_commands n2)"
      "\<forall>c \<in> set (fn_commands n2). fc_ID c = ''cmd-apply-cloud-config'' \<longrightarrow> fc_Phase c = ''Completed''"
    and times: "\<And>i. i < 4 \<Longrightarrow> four_digit_year (time_Add (ts i) (seconds 60))" "four_digit_year (ts 2)"
  obtains fm4 where "server_passes r machine cluster ts 4 s = (fm4, restarted (ts 2) nid n2 f2)"
    "provisioned fm4 = Some True" "fms_ProviderID (fm_Spec fm4) = Some (providerIDPrefix @ nid)"
    "sound (restarted (ts 2) nid n2 f2)"
proof -
  let ?s = "\<lambda>i. server_passes r machine cluster ts i s"
  have ok: "aurora_ok G (f', ts i)" if "sound f'" "dom (groupPool f') = G" "i < 4" for f' i
    using that times(1) by (simp add: aurora_ok_def)
  note reboot3 = server_reboot_pass [OF lib(1,2) ok [OF s2(2,3)] steps [OF _ s2(1)], of nid n2, unfolded fst_conv,
      OF _ _ marks(1) s2(4) marks(2-5) cmds lib(3)]
  obtain fm3 f3 where s3: "?s (Suc (Suc 1)) = (fm3, f3)" by (cases "?s (Suc (Suc 1))")
  with server_passes_step [OF s2(1)] reboot3
  have fm3: "ann fm3 NodeIDAnnotation = nid" "ann fm3 cloudConfigAppliedAnnotation = cloudConfigAppliedValue"
    "ann fm3 rebootRequestedAtAnnotation = format_RFC3339 (ts 2)" and f3: "f3 = restarted (ts 2) nid n2 f2"
    by (auto simp: numeral_2_eq_2)
  have sound3: "sound f3" "dom (groupPool f3) = G"
    using sound_restarted [OF s2(2,4) times(1) [of 2]] s2(3) by (simp_all add: f3)
  let ?n3 = "n2\<lparr>fn_Phase := ''Online'', fn_LastHeartbeat := Some (time_Add (ts 2) (seconds 60)),
      fn_commands := fn_commands n2 @ [done_command ''reboot'']\<rparr>"
  have n3: "nodes f3 nid = Some ?n3" by (simp add: f3 restarted_def)
  note rejoin4 = server_rejoin_pass [OF lib(1,2) ok [OF sound3] steps [OF _ s3], unfolded fst_conv,
      OF _ _ fm3(1) n3 fm3(2,3) times(2), of "time_Add (ts 2) (seconds 60)"]
  have "?s 4 = (fst (reconcile_body r fm3 machine cluster (f3, ts 3)), f3)"
    using server_passes_step [OF s3] rejoin4(3) by (simp add: eval_nat_numeral time_Add_def seconds_def nanos_def)
  with rejoin4(1,2) sound3(1) show ?thesis
    by (intro that) (simp_all add: f3 eval_nat_numeral time_Add_def seconds_def nanos_def)
qed

text \<open>Over the real client, JSON and server a new machine is provisioned by four passes, with
  nothing assumed of AuroraBoot but a free node in the group: the server then holds that node
  under the machine's UID and no longer offers it, was given the bootstrap data and was told to
  reboot the node, and the object has the node's provider ID.\<close>

lemma provisioned_over_http:
  assumes lib: "kube_lib (r_Client r)" "against_server r base G" "\<And>w. kNow (r_Client r) w = snd w"
    and new: "created fm" "good_key (om_UID (fm_Meta fm))"
    and server: "sound f" "dom (groupPool f) = G" "byClaim f (om_UID (fm_Meta fm)) = None"
      "groupPool f (fms_Group (fm_Spec fm)) = Some (nid # rest)" "nodes f nid = Some n"
      "\<forall>c \<in> set (fn_commands n). fc_ID c = ''cmd-apply-cloud-config'' \<longrightarrow> fc_Phase c = ''Completed''"
    and steps: "\<And>i. i < 4 \<Longrightarrow> (case server_passes r machine cluster ts i (fm, f) of
        (fm, f) \<Rightarrow> at_step r fm machine cluster (f, ts i))"
    and data: "m_DataSecretName machine = Some ds" "\<And>w. bootstrapData (r_Client r) machine ds w = Inr data"
    and times: "\<And>i. i < 4 \<Longrightarrow> four_digit_year (time_Add (ts i) (seconds 60))" "four_digit_year (ts 2)"
  shows "case server_passes r machine cluster ts 4 (fm, f) of (fm', f') \<Rightarrow>
      provisioned fm' = Some True \<and> fms_ProviderID (fm_Spec fm') = Some (providerIDPrefix @ nid)
      \<and> byClaim f' = (byClaim f)(om_UID (fm_Meta fm) \<mapsto> nid)
      \<and> groupPool f' = (groupPool f)(fms_Group (fm_Spec fm) \<mapsto> rest)
      \<and> applied f' nid = Some (to_valid data) \<and> rebooted f' nid = Some True \<and> sound f'"
proof -
  let ?u = "om_UID (fm_Meta fm)" and ?g = "fms_Group (fm_Spec fm)"
  let ?s = "\<lambda>i. server_passes r machine cluster ts i (fm, f)"
  have fresh: "claimKeyFor fm = ?u" "ann fm NodeIDAnnotation = ''''" "ann fm retryNotBeforeAnnotation = ''''"
    "ann fm cloudConfigAppliedAnnotation = ''''" "ann fm rebootRequestedAtAnnotation = ''''"
    using new(1) by (simp_all add: created_def claimKeyFor_fresh)
  have step: "at_step r fm' machine cluster (f', ts i)" if "?s i = (fm', f')" "i < 4" for i fm' f'
    using steps [OF that(2)] that(1) by simp
  have ok: "aurora_ok G (f', ts i)" if "sound f'" "dom (groupPool f') = G" "i < 4" for f' i
    using that times(1) by (simp add: aurora_ok_def)
  have key: "good_key (claimKeyFor fm)" "byClaim (fst (f, ts 0)) (claimKeyFor fm) = None"
    using new(2) server(3) fresh(1) by simp_all
  have 0: "?s 0 = (fm, f)" by simp
  note claim = server_claim_pass [OF lib(1,2) ok [OF server(1,2)] step [OF 0] fresh(2) key, of nid rest n,
      unfolded fst_conv, OF _ _ server(4,5)]
  obtain fm1 f1 where s1: "?s 1 = (fm1, f1)" by (cases "?s 1")
  with server_passes_step [OF 0] claim have fm1: "ann fm1 = (ann fm)(NodeIDAnnotation := nid, claimKeyAnnotation := ?u)"
    and f1: "f1 = claimed ?g ?u rest nid n f" by (simp_all add: fresh(1))
  have sound1: "sound f1" "dom (groupPool f1) = G"
    using sound_claimed [OF server(1,4,5,3)] new(2) server(2,4) by (auto simp: f1 good_key_def)
  let ?n1 = "n\<lparr>fn_ClaimKey := Some ?u\<rparr>"
  have n1: "nodes f1 nid = Some ?n1" by (simp add: f1 claimed_def)
  note apply2 = server_apply_pass [OF lib(1,2) ok [OF sound1] step [OF s1], of nid ?n1 ds data,
      unfolded fst_conv, OF _ _ _ n1 _ _ data]
  obtain fm2 f2 where s2: "?s (Suc 1) = (fm2, f2)" by (cases "?s (Suc 1)")
  with server_passes_step [OF s1] apply2 fm1 fresh have fm2: "ann fm2 = (ann fm1)(retryNotBeforeAnnotation := '''',
      cloudConfigAppliedAnnotation := cloudConfigAppliedValue, cloudConfigCommandIDAnnotation := ''cmd-apply-cloud-config'')"
    and f2: "f2 = configured (to_valid data) nid ?n1 f1" by simp_all
  have sound2: "sound f2" "dom (groupPool f2) = G" using sound_configured [OF sound1(1) n1] sound1(2) by (simp_all add: f2)
  let ?n2 = "?n1\<lparr>fn_commands := fn_commands n @ [done_command ''apply-cloud-config'']\<rparr>"
  have n2: "nodes f2 nid = Some ?n2" by (simp add: f2 configured_def)
  obtain fm4 where "?s 4 = (fm4, restarted (ts 2) nid ?n2 f2)" "provisioned fm4 = Some True"
    "fms_ProviderID (fm_Spec fm4) = Some (providerIDPrefix @ nid)" "sound (restarted (ts 2) nid ?n2 f2)"
    by (rule last_two_passes [OF lib s2 sound2 n2 step])
      (use fm1 fm2 fresh server(6) times in \<open>auto simp: done_command_def\<close>)
  then show ?thesis by (simp add: f2 f1 claimed_def configured_def restarted_def)
qed

subsection \<open>Identifiers that do not fit into a URL\<close>

lemma behind_slash:
  assumes "plain a" "plain b"
  shows "list_all url_char (''/api/v1/nodes/'' @ a @ CHR ''/'' # b)"
    "split_path (trim_prefix ''/api/v1/'' (''/api/v1/nodes/'' @ a @ CHR ''/'' # b)) = [''nodes'', a, b]"
    "list_all url_char (''/api/v1/nodes/'' @ (a @ CHR ''/'' # b) @ ''/release'')"
    "split_path (trim_prefix ''/api/v1/'' (''/api/v1/nodes/'' @ (a @ CHR ''/'' # b) @ ''/release'')) = [''nodes'', a, b, ''release'']"
  using assms path_chars plain_url [OF assms(1)] plain_url [OF assms(2)]
  by (simp_all add: trim_prefix_def has_prefix_def split_path_plain split_path_append url_char_def)

text \<open>Identifiers go into the path as they are. A node whose ID is two parts with a slash between them, the
  second not the word of a sub-resource, can be claimed on this server, but asking for it and
  releasing it are answered with 404, so that the controller takes it for gone; the server is left
  as it is. This server splits the decoded path, so an escaped slash would fare no better.\<close>

lemma node_id_with_slash_is_never_found:
  assumes "c \<in> aurora_clients base G" "plain a" "plain b" "b \<noteq> ''commands''"
  shows "(\<exists>e. GetNode c (a @ CHR ''/'' # b) w = (Inl e, w) \<and> IsNotFound e)
    \<and> (\<exists>e. Release c (a @ CHR ''/'' # b) k w = (Inl e, w) \<and> IsNotFound e)"
proof -
  obtain visit h where c: "c = http_client (aurora_net visit base) h" and h: "at_server visit base h"
    using aurora_clientE [OF assms(1)] by metis
  note path = behind_slash [OF assms(2,3)]
  have r: "route v t ''GET'' (''/api/v1/nodes/'' @ a @ CHR ''/'' # b) body f = (Some not_found_reply, f)"
    "route v t ''POST'' (''/api/v1/nodes/'' @ (a @ CHR ''/'' # b) @ ''/release'') body f = (Some not_found_reply, f)" for v t body f
    using assms(4) by (simp_all only: route_def Let_def path list.case) simp_all
  note nf = decode_not_found [THEN conjunct1]
  have "http_GetNode (aurora_net visit base) h (a @ CHR ''/'' # b) w = (Inl (decodeError not_found_reply), w)"
    unfolding http_GetNode_def by (subst http_do_server [OF h path(1)]) (simp_all only: r Let_def prod.case nf prod.collapse, simp_all add: map_res_def)
  moreover have "http_Release (aurora_net visit base) h (a @ CHR ''/'' # b) k w = (Inl (decodeError not_found_reply), w)"
    unfolding http_Release_def by (subst http_do_server [OF h path(3)]) (simp_all only: r Let_def prod.case nf prod.collapse, simp_all)
  ultimately show ?thesis using decode_not_found [THEN conjunct2] by (simp add: c)
qed

end
