(* ===== verification/MachineFrame.thy ===== *)
theory MachineFrame
  imports MachineLifecycle
begin

text \<open>
  What a pass leaves alone: of the object's metadata it writes its own annotations, its finalizer
  and the owner reference, and nothing else, so that labels, names, other controllers' finalizers
  and annotations, the pause annotation included, come out as they went in.
\<close>

definition own_annotations :: "string set" where
  "own_annotations = set [NodeIDAnnotation, cloudConfigAppliedAnnotation, cloudConfigCommandIDAnnotation,
     rebootRequestedAtAnnotation, rebootCommandIDAnnotation, retryNotBeforeAnnotation, claimKeyAnnotation]"

text \<open>The metadata without what is the controller's to write.\<close>

definition untouched :: "KairosFleetMachine \<Rightarrow> ObjectMeta" where
  "untouched fm = (fm_Meta fm)\<lparr>om_Annotations := om_Annotations (fm_Meta fm) |` (- own_annotations),
     om_Finalizers := [], om_OwnerReferences := []\<rparr>"

text \<open>All a step keeps: that, the finalizers, the owners and the group.\<close>

definition kept :: "KairosFleetMachine \<Rightarrow> ObjectMeta \<times> string list \<times> OwnerReference list \<times> string" where
  "kept fm = (untouched fm, om_Finalizers (fm_Meta fm), om_OwnerReferences (fm_Meta fm), fms_Group (fm_Spec fm))"

lemma kept_frame [simp]:
  "kept (set_ready K w p st reason msg fm) = kept fm" "kept (notReady K w reason msg fm) = kept fm"
  "kept (set_failure why msg2 fm) = kept fm" "kept (fail K w reason msg fm) = kept fm"
  by (simp_all add: kept_def untouched_def fail_def)

lemma kept_del_ann: "k \<in> own_annotations \<Longrightarrow> kept (del_ann k fm) = kept fm"
  by (auto simp: kept_def untouched_def del_ann_def map_delete_def restrict_map_def fun_eq_iff)

lemma kept_provision: "kept (provision K w node fm) = kept fm"
  by (simp add: kept_def provision_def Let_def untouched_def)

lemma own_annotations [simp]:
  "NodeIDAnnotation \<in> own_annotations" "cloudConfigAppliedAnnotation \<in> own_annotations"
  "cloudConfigCommandIDAnnotation \<in> own_annotations" "rebootRequestedAtAnnotation \<in> own_annotations"
  "rebootCommandIDAnnotation \<in> own_annotations" "retryNotBeforeAnnotation \<in> own_annotations"
  "claimKeyAnnotation \<in> own_annotations"
  by (simp_all add: own_annotations_def)

context kube_lib
begin

lemma kept_add_annotations: "dom m \<subseteq> own_annotations \<Longrightarrow> kept (add_annotations K m fm) = kept fm"
proof -
  assume "dom m \<subseteq> own_annotations"
  then have "(fm_Annotations fm ++ m) |` (- own_annotations) = fm_Annotations fm |` (- own_annotations)"
    by (intro ext) (auto simp: restrict_map_def map_add_def split: option.splits)
  then show ?thesis by (simp add: kept_def untouched_def add_annotations_def add_annotations)
qed

lemmas kept_edits = kept_del_ann kept_provision kept_add_annotations openRetryWindow_def

lemma lifecycleStep_kept:
  assumes "lifecycleStep r fc machine ds fm w = (fm', out, w')" "r_Client r = K"
  shows "kept fm' = kept fm"
  using assms(1)
proof (cases rule: lifecycleStep_cases)
  case at_claim
  from at_claim(2) show ?thesis by (cases rule: claimStep_cases) (simp_all add: assms(2) kept_edits)
next
  case at_apply
  from at_apply(3) show ?thesis by (cases rule: applyStep_cases) (simp_all add: assms(2) kept_edits)
next
  case at_reboot
  obtain applied failed msg w1 where "commandState fc (ann fm NodeIDAnnotation)
      (ann fm cloudConfigCommandIDAnnotation) CommandApplyCloudConfig w = ((applied, failed, msg), w1)"
    using prod_cases3 prod.exhaust by metis
  from at_reboot(4) this show ?thesis by (cases rule: rebootStep_cases) (simp_all add: assms(2) kept_edits)
next
  case at_rejoin
  from at_rejoin(4) show ?thesis by (cases rule: rejoinStep_cases) (simp_all add: assms(2) kept_edits)
qed

text \<open>The library's own edits of the metadata.\<close>

lemma only_finalizers: "a\<lparr>om_Finalizers := []\<rparr> = b\<lparr>om_Finalizers := []\<rparr> \<Longrightarrow> \<exists>fs. a = b\<lparr>om_Finalizers := fs\<rparr>"
  for a b :: ObjectMeta
  by (cases a, cases b) simp

lemma only_owners: "a\<lparr>om_OwnerReferences := []\<rparr> = b\<lparr>om_OwnerReferences := []\<rparr> \<Longrightarrow> \<exists>os. a = b\<lparr>om_OwnerReferences := os\<rparr>"
  for a b :: ObjectMeta
  by (cases a, cases b) simp

lemma add_finalizer_untouched:
  "untouched (add_finalizer K fm) = untouched fm" "fm_Spec (add_finalizer K fm) = fm_Spec fm"
  "om_OwnerReferences (fm_Meta (add_finalizer K fm)) = om_OwnerReferences (fm_Meta fm)"
proof -
  obtain fs where "kAddFinalizer K (fm_Meta fm) KairosFleetMachineFinalizer = (fm_Meta fm)\<lparr>om_Finalizers := fs\<rparr>"
    using only_finalizers [OF add_finalizer_frame] by blast
  then show "untouched (add_finalizer K fm) = untouched fm" "fm_Spec (add_finalizer K fm) = fm_Spec fm"
    "om_OwnerReferences (fm_Meta (add_finalizer K fm)) = om_OwnerReferences (fm_Meta fm)"
    by (simp_all add: untouched_def add_finalizer_def)
qed

lemma remove_finalizer_untouched:
  "untouched (remove_finalizer K fm) = untouched fm" "fm_Spec (remove_finalizer K fm) = fm_Spec fm"
  "om_OwnerReferences (fm_Meta (remove_finalizer K fm)) = om_OwnerReferences (fm_Meta fm)"
proof -
  obtain fs where "kRemoveFinalizer K (fm_Meta fm) KairosFleetMachineFinalizer = (fm_Meta fm)\<lparr>om_Finalizers := fs\<rparr>"
    using only_finalizers [OF remove_finalizer_frame] by blast
  then show "untouched (remove_finalizer K fm) = untouched fm" "fm_Spec (remove_finalizer K fm) = fm_Spec fm"
    "om_OwnerReferences (fm_Meta (remove_finalizer K fm)) = om_OwnerReferences (fm_Meta fm)"
    by (simp_all add: untouched_def remove_finalizer_def)
qed

lemma controller_untouched:
  assumes "kSetControllerReference K owner (fm_Meta fm) = Inr om"
  shows "untouched (fm\<lparr>fm_Meta := om\<rparr>) = untouched fm"
proof -
  obtain os where "om = (fm_Meta fm)\<lparr>om_OwnerReferences := os\<rparr>"
    using only_owners [OF set_controller_reference [OF assms]] by blast
  then show ?thesis by (simp add: untouched_def)
qed

lemma reconcileNormal_kept: "reconcileNormal r fm machine cluster w = (fm', out, w') \<Longrightarrow> r_Client r = K \<Longrightarrow> kept fm' = kept fm"
  by (erule reconcileNormal_cases) (auto dest: lifecycleStep_kept)

lemma reconcileDelete_kept:
  assumes "reconcileDelete r fm cluster w = (fm', err, w')" "r_Client r = K"
  shows "fm' = fm \<or> fm' = remove_finalizer K fm"
  using assms by (auto simp: reconcileDelete_def Let_def split: if_splits sum.splits prod.splits)

end

subsection \<open>A pass\<close>

lemma body_marks:
  assumes "kube_lib (r_Client r)" "reconcile_body r fm machine cluster w = (fm', out, w')"
  shows "untouched fm' = untouched fm \<and> fms_Group (fm_Spec fm') = fms_Group (fm_Spec fm)
    \<and> finalizers fm' - {KairosFleetMachineFinalizer} = finalizers fm - {KairosFleetMachineFinalizer}
    \<and> om_OwnerReferences (fm_Meta fm') = (case kSetControllerReference (r_Client r) machine (fm_Meta fm) of
         Inl _ \<Rightarrow> om_OwnerReferences (fm_Meta fm) | Inr om \<Rightarrow> om_OwnerReferences om)"
proof (cases "kSetControllerReference (r_Client r) machine (fm_Meta fm)")
  case (Inl e)
  then show ?thesis using assms(2) by (simp add: reconcile_body_def)
next
  case (Inr om)
  define fm0 where "fm0 = add_finalizer (r_Client r) (fm\<lparr>fm_Meta := om\<rparr>)"
  note prep = kube_lib.prepared(3) [OF assms(1) Inr] kube_lib.controller_untouched [OF assms(1) Inr]
    kube_lib.add_finalizer_untouched [OF assms(1), of "fm\<lparr>fm_Meta := om\<rparr>"]
  have fm0: "kept fm0 = (untouched fm, om_Finalizers (fm_Meta fm0), om_OwnerReferences om, fms_Group (fm_Spec fm))"
    "finalizers fm0 = insert KairosFleetMachineFinalizer (finalizers fm)"
    using prep by (simp_all add: kept_def fm0_def)
  obtain fd err wd where del: "reconcileDelete r fm0 cluster w = (fd, err, wd)" by (cases "reconcileDelete r fm0 cluster w")
  have step: "(fm', out, w') = (if kIsPaused (r_Client r) cluster om then (fm\<lparr>fm_Meta := om\<rparr>, Return no_requeue None, w)
      else if \<not> is_zero_time (om_DeletionTimestamp (fm_Meta fm0)) then (fd, Return no_requeue err, wd)
      else reconcileNormal r fm0 machine cluster w)"
    unfolding assms(2) [symmetric] reconcile_body_def Let_def Inr sum.case fm0_def [symmetric] del by simp
  consider "fm' = fm\<lparr>fm_Meta := om\<rparr>" | "fm' = fd" | "reconcileNormal r fm0 machine cluster w = (fm', out, w')"
    using step by (auto split: if_splits)
  then consider "fm' = fm\<lparr>fm_Meta := om\<rparr>" | "fm' = remove_finalizer (r_Client r) fm0" | "kept fm' = kept fm0"
    using kube_lib.reconcileDelete_kept [OF assms(1) del refl] kube_lib.reconcileNormal_kept [OF assms(1) _ refl]
    by cases blast+
  then show ?thesis
  proof cases
    case 1
    then show ?thesis
      using prep(2) kube_lib.prepared(4) [OF assms(1) Inr] by (simp add: Inr)
  next
    case 2
    have "finalizers fm' = finalizers fm0 - {KairosFleetMachineFinalizer}"
      using kube_lib.remove_finalizer [OF assms(1)] by (simp add: 2 finalizers_def remove_finalizer_def)
    with 2 show ?thesis using fm0 kube_lib.remove_finalizer_untouched [OF assms(1), of fm0]
      by (simp add: kept_def Inr)
  next
    case 3
    then have "finalizers fm' = finalizers fm0" by (simp add: kept_def finalizers_def)
    with 3 show ?thesis using fm0 by (simp add: kept_def Inr)
  qed
qed

text \<open>C13: whatever AuroraBoot and the API server answer, a pass writes of the object's metadata its
  own annotations, its own finalizer and the owner reference that \<open>SetControllerReference\<close> makes, and
  of the spec the provider ID; every other label, annotation, finalizer and field stays as it is.\<close>

theorem only_own_marks_change:
  assumes "kube_lib (r_Client r)" "reconcile_body r fm machine cluster w = (fm', out, w')"
  shows "untouched fm' = untouched fm \<and> fms_Group (fm_Spec fm') = fms_Group (fm_Spec fm)
    \<and> finalizers fm' - {KairosFleetMachineFinalizer} = finalizers fm - {KairosFleetMachineFinalizer}
    \<and> om_OwnerReferences (fm_Meta fm') = (case kSetControllerReference (r_Client r) machine (fm_Meta fm) of
         Inl _ \<Rightarrow> om_OwnerReferences (fm_Meta fm) | Inr om \<Rightarrow> om_OwnerReferences om)"
  using body_marks [OF assms] .

end
