(* ===== verification/StoredLifecycle.thy ===== *)
theory StoredLifecycle
  imports ObjectStore ServerLifecycle MachineFrame
begin

text \<open>
  \<open>Reconcile\<close> on objects that the API server holds, when nobody else writes them: every call takes the
  object one pass further, so that four calls bring a created machine to provisioned, and one
  call lets a deleted machine go. A pass in the bigger world is the pass over AuroraBoot alone.
\<close>

subsection \<open>A pass beside something else\<close>

text \<open>A library whose reads, apart from those of the machines, do not look at the other half of the world.\<close>

definition kube_beside :: "('s \<times> 'w) Kube \<Rightarrow> 'w Kube \<Rightarrow> bool" where
  "kube_beside K' K \<longleftrightarrow> (\<forall>s w. (\<forall>name. kGetCluster K' name (s, w) = kGetCluster K name w \<and> kGetSecret K' name (s, w) = kGetSecret K name w)
       \<and> kSetStatusCondition K' (s, w) = kSetStatusCondition K w \<and> kNow K' (s, w) = kNow K w)
     \<and> kSetControllerReference K' = kSetControllerReference K \<and> kIsPaused K' = kIsPaused K
     \<and> kContainsFinalizer K' = kContainsFinalizer K \<and> kAddFinalizer K' = kAddFinalizer K
     \<and> kRemoveFinalizer K' = kRemoveFinalizer K \<and> kAddAnnotations K' = kAddAnnotations K
     \<and> kIsNotFound K' = kIsNotFound K \<and> kIgnoreNotFound K' = kIgnoreNotFound K"

definition reconciler_beside :: "('s \<times> 'w) Reconciler \<Rightarrow> 'w Reconciler \<Rightarrow> bool" where
  "reconciler_beside r' r \<longleftrightarrow> kube_beside (r_Client r') (r_Client r) \<and> r_net r' = net_beside (r_net r)
     \<and> r_FleetClientFactory r' = None \<and> r_FleetClientFactory r = None"

lemma kube_besideD:
  assumes "kube_beside K' K"
  shows "kGetCluster K' name (s, w) = kGetCluster K name w" "kGetSecret K' name (s, w) = kGetSecret K name w"
    "kSetStatusCondition K' (s, w) = kSetStatusCondition K w" "kNow K' (s, w) = kNow K w"
    "kSetControllerReference K' = kSetControllerReference K" "kIsPaused K' = kIsPaused K"
    "add_finalizer K' = add_finalizer K" "remove_finalizer K' = remove_finalizer K"
    "add_annotations K' = add_annotations K" "openRetryWindow K' = openRetryWindow K"
    "kIsNotFound K' = kIsNotFound K" "kIgnoreNotFound K' = kIgnoreNotFound K"
    "bootstrapData K' machine ds (s, w) = bootstrapData K machine ds w"
    "notReady K' (s, w) = notReady K w" "fail K' (s, w) = fail K w" "provision K' (s, w) = provision K w"
  using assms by (simp_all add: kube_beside_def fun_eq_iff add_finalizer_def remove_finalizer_def add_annotations_def
      openRetryWindow_def bootstrapData_def notReady_def set_ready_def fail_def provision_def)

definition wrap :: "'s \<Rightarrow> 'a \<times> 'b \<times> 'w \<Rightarrow> 'a \<times> 'b \<times> 's \<times> 'w" where
  "wrap s = (\<lambda>(a, b, w). (a, b, s, w))"

lemma wrap_simps [simp]: "wrap s (a, b, w) = (a, b, s, w)"
  by (simp add: wrap_def)

lemma stands_forD:
  assumes "stands_for c' c"
  shows "Claim c' g k (s, w) = (fst (Claim c g k w), s, snd (Claim c g k w))"
    "GetNode c' n (s, w) = (fst (GetNode c n w), s, snd (GetNode c n w))"
    "ApplyCloudConfig c' n d (s, w) = (fst (ApplyCloudConfig c n d w), s, snd (ApplyCloudConfig c n d w))"
    "Reboot c' n (s, w) = (fst (Reboot c n w), s, snd (Reboot c n w))"
    "GetCommands c' n (s, w) = (fst (GetCommands c n w), s, snd (GetCommands c n w))"
    "Release c' n k (s, w) = (fst (Release c n k w), s, snd (Release c n k w))"
    "ResolveGroupID c' g (s, w) = (fst (ResolveGroupID c g w), s, snd (ResolveGroupID c g w))"
  using assms by (simp_all add: stands_for_def)

lemma commandState_beside:
  assumes "stands_for c' c"
  shows "commandState c' n i name (s, w) = (fst (commandState c n i name w), s, snd (commandState c n i name w))"
  by (simp add: commandState_def stands_forD [OF assms] split_def split: sum.splits)

lemma rebootFailed_beside:
  assumes "stands_for c' c"
  shows "rebootFailed c' fm node n (s, w) = (fst (rebootFailed c fm node n w), s, snd (rebootFailed c fm node n w))"
  by (simp add: rebootFailed_def commandState_beside [OF assms] split_def)

lemma step_beside:
  assumes "kube_beside (r_Client r') (r_Client r)" "stands_for c' c"
  shows "claimStep r' c' key fm (s, w) = wrap s (claimStep r c key fm w)"
    "applyStep r' c' machine ds n fm (s, w) = wrap s (applyStep r c machine ds n fm w)"
    "rebootStep r' c' n fm (s, w) = wrap s (rebootStep r c n fm w)"
    "rejoinStep r' c' n fm (s, w) = wrap s (rejoinStep r c n fm w)"
  by (simp_all add: claimStep_def applyStep_def rebootStep_def rejoinStep_def Let_def split_def
      kube_besideD [OF assms(1)] stands_forD [OF assms(2)] commandState_beside [OF assms(2)] rebootFailed_beside [OF assms(2)]
      split: sum.splits option.splits)

text \<open>Both sides resolve the connection to a client of the same base URL and token.\<close>

lemma stands_for_New: "stands_for (New (net_beside net) url tok []) (New net url tok [])"
  unfolding stands_for_def New_beside client_ops_beside by (simp add: New_def)

lemma resolve_beside_cases:
  assumes "reconciler_beside r' r"
  obtains (error) e where "resolveFleetClient (r_Client r') (fleetFactory r') fcl (s, w) = Inl e"
      "resolveFleetClient (r_Client r) (fleetFactory r) fcl w = Inl e"
  | (client) c' c where "resolveFleetClient (r_Client r') (fleetFactory r') fcl (s, w) = Inr c'"
      "resolveFleetClient (r_Client r) (fleetFactory r) fcl w = Inr c" "stands_for c' c"
proof -
  have K: "kube_beside (r_Client r') (r_Client r)" using assms by (simp add: reconciler_beside_def)
  have "stands_for (fleetFactory r' url tok) (fleetFactory r url tok)" for url tok
    using assms stands_for_New by (simp add: reconciler_beside_def fleetFactory_def DefaultFleetClientFactory_def)
  then have "(\<exists>e. resolveFleetClient (r_Client r') (fleetFactory r') fcl (s, w) = Inl e
        \<and> resolveFleetClient (r_Client r) (fleetFactory r) fcl w = Inl e)
    \<or> (\<exists>c' c. resolveFleetClient (r_Client r') (fleetFactory r') fcl (s, w) = Inr c'
        \<and> resolveFleetClient (r_Client r) (fleetFactory r) fcl w = Inr c \<and> stands_for c' c)"
    by (auto simp: resolveFleetClient_def Let_def kube_besideD [OF K] split: sum.splits)
  then show ?thesis using that by blast
qed

lemma body_beside:
  assumes "reconciler_beside r' r"
  shows "reconcile_body r' fm machine cluster (s, w) = wrap s (reconcile_body r fm machine cluster w)"
proof -
  have K: "kube_beside (r_Client r') (r_Client r)" using assms by (simp add: reconciler_beside_def)
  note K_simps = kube_besideD [OF K]
  have lifecycle: "lifecycleStep r' c' machine ds f (s, w) = wrap s (lifecycleStep r c machine ds f w)" if "stands_for c' c" for c' c ds f
    by (simp add: lifecycleStep_def Let_def step_beside [OF K that])
  have normal: "reconcileNormal r' f machine cluster (s, w) = wrap s (reconcileNormal r f machine cluster w)" for f
  proof (cases "kGetCluster (r_Client r) (infra_key cluster) w")
    case (Inl e)
    then show ?thesis
      by (simp add: reconcileNormal_def fleetClientFor_def K_simps split: option.splits)
  next
    case (Inr fcl)
    show ?thesis
      by (rule resolve_beside_cases [OF assms, of fcl s w])
        (use Inr lifecycle in \<open>auto simp: reconcileNormal_def fleetClientFor_def K_simps split: option.splits\<close>)
  qed
  have delete: "reconcileDelete r' f cluster (s, w) = wrap s (reconcileDelete r f cluster w)" for f
  proof (cases "kGetCluster (r_Client r) (infra_key cluster) w")
    case (Inl e)
    then show ?thesis
      by (simp add: reconcileDelete_def fleetClientForDelete_def isPermanentlyUnresolvable_def Let_def K_simps)
  next
    case (Inr fcl)
    show ?thesis
    proof (rule resolve_beside_cases [OF assms, of fcl s w])
      fix e assume "resolveFleetClient (r_Client r') (fleetFactory r') fcl (s, w) = Inl e"
        "resolveFleetClient (r_Client r) (fleetFactory r) fcl w = Inl e"
      with Inr show ?thesis
        by (simp add: reconcileDelete_def fleetClientForDelete_def isPermanentlyUnresolvable_def Let_def K_simps)
    next
      fix c' c assume "resolveFleetClient (r_Client r') (fleetFactory r') fcl (s, w) = Inr c'"
        "resolveFleetClient (r_Client r) (fleetFactory r) fcl w = Inr c" "stands_for c' c"
      with Inr show ?thesis
        by (simp add: reconcileDelete_def fleetClientForDelete_def Let_def K_simps stands_forD split_def split: sum.splits)
    qed
  qed
  show ?thesis
    by (simp add: reconcile_body_def Let_def K_simps normal delete split_def wrap_def split: sum.splits)
qed

subsection \<open>Objects that nobody else writes\<close>

text \<open>A read answers the object as it is, and a patch made on the object as it is takes effect as it was
  meant; an object that is being deleted is gone when its last finalizer is.\<close>

definition remains :: "KairosFleetMachine \<Rightarrow> KairosFleetMachine option" where
  "remains fm = (if is_zero_time (om_DeletionTimestamp (fm_Meta fm)) \<or> om_Finalizers (fm_Meta fm) \<noteq> [] then Some fm else None)"

locale current_store =
  fixes K :: "('s \<times> 'w) Kube" and current :: "'s \<Rightarrow> NamespacedName \<Rightarrow> KairosFleetMachine option"
  assumes read_current: "current s name = Some fm \<Longrightarrow> kGetMachine K name (s, w) = Inr fm \<and> object_key fm = name"
    and helper: "kNewMachineHelper K fm (s, w) = None"
    and patch_current: "current s (object_key fm) = Some fm \<Longrightarrow> untouched fm' = untouched fm \<Longrightarrow>
      \<exists>s'. kPatchMachine K fm fm' (s, w) = (None, s', w) \<and> current s' = (current s)(object_key fm := remains fm')"

lemma untouched_reads:
  "untouched fm' = untouched fm \<Longrightarrow> object_key fm' = object_key fm"
  "untouched fm' = untouched fm \<Longrightarrow> om_DeletionTimestamp (fm_Meta fm') = om_DeletionTimestamp (fm_Meta fm)"
proof -
  assume "untouched fm' = untouched fm"
  then have "om_Namespace (untouched fm') = om_Namespace (untouched fm)" "om_Name (untouched fm') = om_Name (untouched fm)"
    "om_DeletionTimestamp (untouched fm') = om_DeletionTimestamp (untouched fm)" by simp_all
  then show "object_key fm' = object_key fm" "om_DeletionTimestamp (fm_Meta fm') = om_DeletionTimestamp (fm_Meta fm)"
    by (simp_all add: untouched_def object_key_def)
qed

text \<open>The owner and its cluster, as the reads find them.\<close>

definition owned :: "('s \<times> 'w) Kube \<Rightarrow> Machine \<Rightarrow> Cluster \<Rightarrow> bool" where
  "owned K machine cluster \<longleftrightarrow> (\<forall>om sw. kGetOwnerMachine K om sw = Inr (Some machine)
     \<and> kGetClusterFromMetadata K (m_Meta machine) sw = Inr cluster)"

context current_store
begin

text \<open>One call of \<open>Reconcile\<close> is one pass.\<close>

lemma reconcile_is_pass:
  assumes "r_Client r' = K" "reconciler_beside r' r" "kube_lib (r_Client r)" "owned K machine cluster"
    and "current s name = Some fm" "reconcile_body r fm machine cluster w = (fm', out, w')"
  shows "\<exists>s'. Reconcile r' name (s, w) = (out, s', w') \<and> current s' = (current s)(name := remains fm')"
proof -
  have fm: "kGetMachine K name (s, w) = Inr fm" "object_key fm = name" using read_current [OF assms(5)] by auto
  have "reconcile_body r' fm machine cluster (s, w) = (fm', out, s, w')" by (simp add: body_beside [OF assms(2)] assms(6))
  moreover have "untouched fm' = untouched fm" using body_marks [OF assms(3,6)] by blast
  then obtain s' where "kPatchMachine K fm fm' (s, w') = (None, s', w')" "current s' = (current s)(name := remains fm')"
    using patch_current [of s fm fm' w'] assms(5) fm(2) by auto
  ultimately show ?thesis using fm(1) helper assms(1,4)
    by (auto simp: Reconcile_def Let_def owned_def deferred_patch_def split: outcome.splits option.splits)
qed

end

text \<open>Calls of \<open>Reconcile\<close> for one object, at the times \<open>ts\<close>.\<close>

fun reconciles :: "('s \<times> aurora) Reconciler \<Rightarrow> NamespacedName \<Rightarrow> (nat \<Rightarrow> time) \<Rightarrow> nat
    \<Rightarrow> 's \<times> fakeAuroraBoot \<Rightarrow> 's \<times> fakeAuroraBoot" where
  "reconciles r name ts 0 sf = sf"
| "reconciles r name ts (Suc i) sf =
     (let (s, f) = reconciles r name ts i sf; (out, s', w') = Reconcile r name (s, f, ts i) in (s', fst w'))"

text \<open>As long as it is not being deleted, the object is where the passes have taken it.\<close>

lemma reconciles_are_passes:
  fixes r' :: "('s \<times> aurora) Reconciler"
  assumes "current_store (r_Client r') current" "reconciler_beside r' r" "kube_lib (r_Client r)" "owned (r_Client r') machine cluster"
    and "current s name = Some fm" "is_zero_time (om_DeletionTimestamp (fm_Meta fm))"
    and "server_passes r machine cluster ts i (fm, f) = (fm', f')"
  obtains s' where "reconciles r' name ts i (s, f) = (s', f')" "current s' name = Some fm'"
    "is_zero_time (om_DeletionTimestamp (fm_Meta fm'))"
  using assms(7)
proof (induction i arbitrary: fm' f' thesis)
  case 0
  then show ?case using assms(5,6) by simp
next
  case (Suc i)
  obtain fm1 f1 where p: "server_passes r machine cluster ts i (fm, f) = (fm1, f1)" by fastforce
  obtain s1 where s1: "reconciles r' name ts i (s, f) = (s1, f1)" "current s1 name = Some fm1"
    "is_zero_time (om_DeletionTimestamp (fm_Meta fm1))" using Suc.IH [OF _ p] by blast
  obtain out w' where body: "reconcile_body r fm1 machine cluster (f1, ts i) = (fm', out, w')" "fst w' = f'"
    using Suc.prems(2) server_passes_step [OF p] by (cases "reconcile_body r fm1 machine cluster (f1, ts i)") auto
  obtain s' where s': "Reconcile r' name (s1, f1, ts i) = (out, s', w')" "current s' = (current s1)(name := remains fm')"
    using current_store.reconcile_is_pass [OF assms(1) refl assms(2-4) s1(2) body(1)] by blast
  have z: "is_zero_time (om_DeletionTimestamp (fm_Meta fm'))"
    using body_marks [OF assms(3) body(1)] untouched_reads(2) [of fm' fm1] s1(3) by simp
  show ?case
    by (rule Suc.prems(1) [of s']) (use s1 s' body(2) z in \<open>simp_all add: remains_def\<close>)
qed

text \<open>C5: \<open>Reconcile\<close> called four times on an object that has been created on the API server, with nothing
  assumed of AuroraBoot but a free node in the group: the object on the API server is then
  provisioned with the node's provider ID, and the AuroraBoot server holds that node under the
  machine's UID and no longer offers it, was given the bootstrap data and was told to reboot
  the node.\<close>

theorem four_reconciles_provision:
  fixes r' :: "('s \<times> aurora) Reconciler"
  assumes store: "current_store (r_Client r') current" "reconciler_beside r' r" "owned (r_Client r') machine cluster"
      "current s name = Some fm"
    and lib: "kube_lib (r_Client r)" "against_server r base G" "\<And>w. kNow (r_Client r) w = snd w"
    and new: "created fm" "good_key (om_UID (fm_Meta fm))" "is_zero_time (om_DeletionTimestamp (fm_Meta fm))"
    and server: "sound f" "dom (groupPool f) = G" "byClaim f (om_UID (fm_Meta fm)) = None"
      "groupPool f (fms_Group (fm_Spec fm)) = Some (nid # rest)" "nodes f nid = Some n"
      "\<forall>c \<in> set (fn_commands n). fc_ID c = ''cmd-apply-cloud-config'' \<longrightarrow> fc_Phase c = ''Completed''"
    and steps: "\<And>i. i < 4 \<Longrightarrow> (case server_passes r machine cluster ts i (fm, f) of
        (fm, f) \<Rightarrow> at_step r fm machine cluster (f, ts i))"
    and data: "m_DataSecretName machine = Some ds" "\<And>w. bootstrapData (r_Client r) machine ds w = Inr data"
    and times: "\<And>i. i < 4 \<Longrightarrow> four_digit_year (time_Add (ts i) (seconds 60))" "four_digit_year (ts 2)"
  shows "case reconciles r' name ts 4 (s, f) of (s', f') \<Rightarrow>
      (\<exists>fm'. current s' name = Some fm' \<and> provisioned fm' = Some True
         \<and> fms_ProviderID (fm_Spec fm') = Some (providerIDPrefix @ nid))
      \<and> byClaim f' = (byClaim f)(om_UID (fm_Meta fm) \<mapsto> nid)
      \<and> groupPool f' = (groupPool f)(fms_Group (fm_Spec fm) \<mapsto> rest)
      \<and> applied f' nid = Some (to_valid data) \<and> rebooted f' nid = Some True \<and> sound f'"
proof -
  obtain fm' f' where p: "server_passes r machine cluster ts 4 (fm, f) = (fm', f')" by fastforce
  obtain s' where "reconciles r' name ts 4 (s, f) = (s', f')" "current s' name = Some fm'"
    using reconciles_are_passes [OF store(1,2) lib(1) store(3,4) new(3) p] by blast
  with provisioned_over_http [OF lib new(1,2) server steps data times, unfolded p] show ?thesis by simp
qed

subsection \<open>From deleted to gone\<close>

lemma connected_delete: "connected r cluster w = Some c \<Longrightarrow> fleetClientForDelete r cluster w = Inr c"
  by (auto simp: connected_def fleetClientFor_def fleetClientForDelete_def split: sum.splits)

text \<open>The delete of a machine that holds its node, against the server.\<close>

lemma server_delete_pass:
  assumes "kube_lib (r_Client r)" "against_server r base G" "aurora_ok G w" "terminating r fm machine cluster"
    and "connected r cluster w \<noteq> None" "good_key (claimKeyFor fm)"
    and "byClaim (fst w) (claimKeyFor fm) = Some (ann fm NodeIDAnnotation)" "nodes (fst w) (ann fm NodeIDAnnotation) = Some n"
  obtains fm' where "reconcile_body r fm machine cluster w
      = (fm', Return no_requeue None, (unclaimed (ann fm NodeIDAnnotation) (claimKeyFor fm) n (fst w), snd w))"
    "finalizers fm' = finalizers fm - {KairosFleetMachineFinalizer}"
    "sound (unclaimed (ann fm NodeIDAnnotation) (claimKeyFor fm) n (fst w))"
proof -
  obtain om where om: "kSetControllerReference (r_Client r) machine (fm_Meta fm) = Inr om" "\<not> kIsPaused (r_Client r) cluster om"
    and t: "\<not> is_zero_time (om_DeletionTimestamp (fm_Meta fm))"
    using assms(4) by (auto simp: terminating_def split: sum.splits)
  let ?fm0 = "add_finalizer (r_Client r) (fm\<lparr>fm_Meta := om\<rparr>)" and ?n = "ann fm NodeIDAnnotation" and ?k = "claimKeyFor fm"
  note prep = kube_lib.prepared [OF assms(1) om(1)]
  note same = same_state_reads [OF prep(2)]
  obtain c where c: "connected r cluster w = Some c" using assms(5) by blast
  then obtain visit h where h: "c = http_client (aurora_net visit base) h" "at_server visit base h"
    using aurora_clientE [OF drives_connected [OF against_server_drives [OF assms(2)]]] by metis
  have s: "sound (fst w)" using assms(3) by (simp add: aurora_ok_def)
  have key: "fn_ClaimKey n = Some ?k" using soundD(2) [OF s, of ?k ?n] assms(7,8) by auto
  have n: "plain ?n" "?n \<noteq> ''''" using soundD(1) [OF s assms(8)] by (auto simp: good_id_def)
  have "Release c ?n ?k w = (Inr True, (unclaimed ?n ?k n (fst w), snd w))"
    using release_node(1) [OF h(2) n(1) _ assms(8) key] assms(6) h(1) by (simp add: good_key_def)
  then have "reconcileDelete r ?fm0 cluster w = (remove_finalizer (r_Client r) ?fm0, None, (unclaimed ?n ?k n (fst w), snd w))"
    using n(2) connected_delete [OF c] by (simp add: reconcileDelete_def Let_def same)
  then have "reconcile_body r fm machine cluster w
      = (remove_finalizer (r_Client r) ?fm0, Return no_requeue None, (unclaimed ?n ?k n (fst w), snd w))"
    using om t prep(5) by (simp add: reconcile_body_def Let_def)
  moreover have "finalizers (remove_finalizer (r_Client r) ?fm0) = finalizers fm - {KairosFleetMachineFinalizer}"
    using kube_lib.remove_finalizer [OF assms(1)] prep(3) by (simp add: remove_finalizer_def finalizers_def)
  ultimately show ?thesis using that sound_unclaimed [OF s assms(8) key] by blast
qed

text \<open>C6: a machine that is deleted on the API server is gone after one call of \<open>Reconcile\<close>, unless
  another controller's finalizer keeps it, and the AuroraBoot server has been told to release its
  node, under the key the node was claimed with; nothing else on that server changes.\<close>

theorem deleted_machine_releases_its_node:
  fixes r' :: "('s \<times> aurora) Reconciler"
  assumes store: "current_store (r_Client r') current" "reconciler_beside r' r" "owned (r_Client r') machine cluster"
      "current s name = Some fm"
    and lib: "kube_lib (r_Client r)" "against_server r base G" "aurora_ok G w"
    and delete: "terminating r fm machine cluster" "connected r cluster w \<noteq> None" "good_key (claimKeyFor fm)"
      "byClaim (fst w) (claimKeyFor fm) = Some (ann fm NodeIDAnnotation)" "nodes (fst w) (ann fm NodeIDAnnotation) = Some n"
  shows "\<exists>s'. Reconcile r' name (s, w)
        = (Return no_requeue None, s', unclaimed (ann fm NodeIDAnnotation) (claimKeyFor fm) n (fst w), snd w)
      \<and> (current s' name = None \<longleftrightarrow> finalizers fm \<subseteq> {KairosFleetMachineFinalizer})
      \<and> (\<forall>fm'. current s' name = Some fm' \<longrightarrow> finalizers fm' = finalizers fm - {KairosFleetMachineFinalizer})
      \<and> wasReleased (unclaimed (ann fm NodeIDAnnotation) (claimKeyFor fm) n (fst w)) (ann fm NodeIDAnnotation) (claimKeyFor fm)"
proof -
  obtain fm' where body: "reconcile_body r fm machine cluster w
      = (fm', Return no_requeue None, (unclaimed (ann fm NodeIDAnnotation) (claimKeyFor fm) n (fst w), snd w))"
    and fin: "finalizers fm' = finalizers fm - {KairosFleetMachineFinalizer}"
    using server_delete_pass [OF lib delete] by metis
  obtain s' where s': "Reconcile r' name (s, w)
        = (Return no_requeue None, s', unclaimed (ann fm NodeIDAnnotation) (claimKeyFor fm) n (fst w), snd w)"
    "current s' = (current s)(name := remains fm')"
    using current_store.reconcile_is_pass [OF store(1) refl store(2) lib(1) store(3,4) body] by blast
  have "\<not> is_zero_time (om_DeletionTimestamp (fm_Meta fm'))"
    using delete(1) body_marks [OF lib(1) body] untouched_reads(2) [of fm' fm] by (auto simp: terminating_def split: sum.splits)
  moreover have "om_Finalizers (fm_Meta fm') = [] \<longleftrightarrow> finalizers fm \<subseteq> {KairosFleetMachineFinalizer}"
    unfolding set_empty [symmetric] finalizers_def [of fm', symmetric] fin by blast
  ultimately have "current s' name = (if finalizers fm \<subseteq> {KairosFleetMachineFinalizer} then None else Some fm')"
    by (simp add: s'(2) remains_def)
  moreover have "wasReleased (unclaimed (ann fm NodeIDAnnotation) (claimKeyFor fm) n (fst w)) (ann fm NodeIDAnnotation) (claimKeyFor fm)"
    by (simp add: wasReleased_def unclaimed_def map_read_def)
  ultimately show ?thesis using fin s'(1) by (intro exI [of _ s']) simp
qed

end
