(* ===== verification/ServerScenario.thy ===== *)
theory ServerScenario
  imports ServerLifecycle MachineFrame
begin

text \<open>
  The properties of \<open>EndToEnd\<close>, \<open>ServerLifecycle\<close> and \<open>MachineFrame\<close> at work: a server with one group of
  two nodes, as \<open>newFakeAuroraBoot\<close> seeds it, the demo objects, and the controller as the manager sets it up.
\<close>

subsection \<open>The server and the reconciler\<close>

definition demo_fake_node :: "string \<Rightarrow> fakeNode" where
  "demo_fake_node nid = \<lparr>fn_ID = nid, fn_MachineID = ''m'', fn_Hostname = ''worker'', fn_GroupID = '''', fn_Phase = '''',
     fn_ClaimKey = None, fn_LastHeartbeat = None, fn_commands = []\<rparr>"

definition demo_server :: fakeAuroraBoot where
  "demo_server = newFakeAuroraBoot [(''workers'', [demo_fake_node ''node-1'', demo_fake_node ''node-2''])]"

definition demo_groups :: "aurora \<Rightarrow> string list" where "demo_groups w = [''workers'']"

definition demo_kube_at :: "aurora Kube" where
  "demo_kube_at = ref_lib \<lparr>
     kGetMachine = (\<lambda>_ _. Inr (demo_fm Map.empty)), kGetCluster = (\<lambda>_ _. Inr demo_fc), kGetSecret = (\<lambda>_ _. Inr demo_secret),
     kGetOwnerMachine = (\<lambda>_ _. Inr (Some demo_machine)), kGetOwnerCluster = (\<lambda>_ _. Inr (Some demo_cluster)),
     kGetClusterFromMetadata = (\<lambda>_ _. Inr demo_cluster),
     kNewMachineHelper = (\<lambda>_ _. None), kPatchMachine = (\<lambda>_ _ w. (None, w)),
     kNewClusterHelper = (\<lambda>_ _. None), kPatchCluster = (\<lambda>_ _ w. (None, w)),
     kSetControllerReference = ref_set_controller, kIsPaused = (\<lambda>_ _. False),
     kContainsFinalizer = (\<lambda>_ _. False), kAddFinalizer = (\<lambda>om _. om), kRemoveFinalizer = (\<lambda>om _. om),
     kAddAnnotations = (\<lambda>om _. om), kSetStatusCondition = (\<lambda>_ cs _. cs),
     kIsNotFound = ref_not_found, kIgnoreNotFound = Some, kNow = snd\<rparr>"

definition demo_real :: "aurora Reconciler" where
  "demo_real = \<lparr>r_Client = demo_kube_at, r_FleetClientFactory = None,
     r_net = aurora_net demo_groups ''http://auroraboot''\<rparr>"

lemma demo_real_client [simp]: "r_Client demo_real = demo_kube_at" by (simp add: demo_real_def)

lemma kube_lib_real: "kube_lib demo_kube_at"
  unfolding demo_kube_at_def by (rule ref.kube_lib_axioms)

lemma demo_real_reads [simp]:
  "kNow demo_kube_at w = snd w" "bootstrapData demo_kube_at demo_machine ds w = Inr ''#cloud-config''"
  "kGetCluster demo_kube_at name w = Inr demo_fc" "kSetControllerReference demo_kube_at = ref_set_controller"
  "kIsPaused demo_kube_at cl om \<longleftrightarrow> om_Annotations om ''cluster.x-k8s.io/paused'' \<noteq> None"
  by (simp_all add: demo_kube_at_def ref_lib_def bootstrapData_def demo_secret_def bootstrapDataSecretKey_def)

lemma demo_address: "trim_right (ab_URL (fcs_AuroraBoot (fc_Spec demo_fc))) CHR ''/'' = ''http://auroraboot''"
  by (simp add: demo_fc_def trim_right_def)

lemma demo_against: "against_server demo_real ''http://auroraboot'' {''workers''}"
  unfolding against_server_def
proof (intro conjI exI [of _ demo_groups] allI impI)
  fix name w fcl assume "kGetCluster (r_Client demo_real) name w = Inr fcl"
  then have "fcl = demo_fc" by simp
  then show "trim_right (ab_URL (fcs_AuroraBoot (fc_Spec fcl))) CHR ''/'' = ''http://auroraboot''"
    by (simp only: demo_address)
qed (simp_all add: demo_real_def demo_groups_def)

lemma demo_ids: "good_id ''workers''" "good_id ''node-1''" "good_id ''node-2''"
  "good_key ''uid-kfm''" "good_key ''uid-other''"
proof -
  have utf8: "utf8_valid s" if "s \<in> set [''workers'', ''node-1'', ''node-2'', ''uid-kfm'', ''uid-other'']" for s
    by (rule utf8_ascii) (use that in \<open>auto simp: byte_val_def\<close>)
  have "plain ''workers''" "plain ''node-1''" "plain ''node-2''" by code_simp+
  then show "good_id ''workers''" "good_id ''node-1''" "good_id ''node-2''" "good_key ''uid-kfm''" "good_key ''uid-other''"
    using utf8 by (simp_all add: good_id_def good_key_def)
qed

lemma demo_server_sound:
  "sound demo_server" "byClaim demo_server = Map.empty" "dom (groupPool demo_server) = {''workers''}"
proof -
  have utf8: "utf8_valid s" if "s \<in> set ['''', ''m'', ''worker'', ''node-1'', ''node-2'']" for s
    by (rule utf8_ascii) (use that in \<open>auto simp: byte_val_def\<close>)
  have "seeds [(''workers'', [demo_fake_node ''node-1'', demo_fake_node ''node-2''])]
      = [(''workers'', demo_fake_node ''node-1''), (''workers'', demo_fake_node ''node-2'')]" by (simp add: seeds_def)
  moreover have "seedable (demo_fake_node ''node-1'')" "seedable (demo_fake_node ''node-2'')"
    using demo_ids utf8 by (simp_all add: seedable_def demo_fake_node_def readable_def)
  ultimately show "sound demo_server" "byClaim demo_server = Map.empty" "dom (groupPool demo_server) = {''workers''}"
    using new_server_sound [of "[(''workers'', [demo_fake_node ''node-1'', demo_fake_node ''node-2''])]"] demo_ids(1)
    by (auto simp: demo_server_def demo_fake_node_def)
qed

lemma demo_server_reads:
  "groupPool demo_server ''workers'' = Some [''node-1'', ''node-2'']"
  "\<exists>n. nodes demo_server ''node-1'' = Some n \<and> fn_ID n = ''node-1'' \<and> fn_commands n = []"
  "\<exists>n. nodes demo_server ''node-2'' = Some n \<and> fn_ID n = ''node-2'' \<and> fn_commands n = []"
  by (simp_all add: demo_server_def newFakeAuroraBoot_def seed_node_def demo_fake_node_def Let_def)

definition demo_start :: aurora where "demo_start = (demo_server, demo_time)"

lemma server_years: "four_digit_year (time_Add (demo_time + seconds (60 * k)) (seconds 60))" "four_digit_year (demo_time + seconds (60 * k))"
  if "0 \<le> k" "k < 10"
  using that by (auto simp: demo_time_def four_digit_year_def nanos_def seconds_def time_Add_def)

lemma demo_start_ok: "aurora_ok {''workers''} demo_start"
  using demo_server_sound server_years(1) [of 0] by (simp add: aurora_ok_def demo_start_def seconds_def)

subsection \<open>Objects that get as far as the steps\<close>

definition demo_ready :: "KairosFleetMachine \<Rightarrow> bool" where
  "demo_ready fm \<longleftrightarrow> (\<forall>x \<in> set (om_OwnerReferences (fm_Meta fm)). or_Controller x = Some True \<longrightarrow> or_UID x = ''uid-owner'')
     \<and> om_Annotations (fm_Meta fm) ''cluster.x-k8s.io/paused'' = None \<and> om_DeletionTimestamp (fm_Meta fm) = None"

lemma demo_connected_real: "connected demo_real demo_cluster w \<noteq> None"
  by (simp add: connected_def fleetClientFor_def demo_real_def demo_kube_at_def ref_lib_def
      resolveFleetClient_def demo_fc_def demo_secret_def adminTokenSecretKey_def map_read_def Let_def)

lemma demo_ready_active: "demo_ready fm \<Longrightarrow> active demo_real fm demo_machine demo_cluster"
  by (auto simp: demo_ready_def active_def ref_set_controller_def demo_machine_def demo_meta_def is_zero_time_def Let_def)

lemma demo_at_step: "demo_ready fm \<Longrightarrow> at_step demo_real fm demo_machine demo_cluster w"
  by (simp add: at_step_def demo_ready_active demo_connected_real demo_machine_data)

lemma demo_ready_pass:
  assumes "demo_ready fm"
  shows "demo_ready (fst (reconcile_body demo_real fm demo_machine demo_cluster w))"
proof -
  obtain fm' out w' where body: "reconcile_body demo_real fm demo_machine demo_cluster w = (fm', out, w')"
    by (metis prod_cases3)
  have marks: "untouched fm' = untouched fm" "om_OwnerReferences (fm_Meta fm')
      = (case ref_set_controller demo_machine (fm_Meta fm) of
           Inl _ \<Rightarrow> om_OwnerReferences (fm_Meta fm) | Inr om \<Rightarrow> om_OwnerReferences om)"
    using body_marks [OF _ body] kube_lib_real by auto
  from marks(1) have "om_DeletionTimestamp (untouched fm') = om_DeletionTimestamp (untouched fm)"
    "om_Annotations (untouched fm') ''cluster.x-k8s.io/paused'' = om_Annotations (untouched fm) ''cluster.x-k8s.io/paused''" by simp_all
  then show ?thesis unfolding body fst_conv using assms marks(2)
    by (auto simp: demo_ready_def untouched_def own_annotations_def annotation_defs ref_set_controller_def
        demo_machine_def demo_meta_def Let_def split: if_splits)
qed

lemma demo_ready_passes: "demo_ready fm \<Longrightarrow> demo_ready (fst (server_passes demo_real demo_machine demo_cluster ts i (fm, f)))"
proof (induction i)
  case (Suc i)
  obtain fm1 f1 where "server_passes demo_real demo_machine demo_cluster ts i (fm, f) = (fm1, f1)" by fastforce
  with Suc server_passes_step [OF this] demo_ready_pass show ?case by simp
qed simp

lemma demo_new: "demo_ready (demo_fm m)" if "m ''cluster.x-k8s.io/paused'' = None"
  using that by (simp add: demo_ready_def demo_fm_def demo_meta_def)

subsection \<open>The properties at work\<close>

definition demo_times :: "nat \<Rightarrow> time" where "demo_times i = demo_time + seconds (60 * int i)"

definition demo_after :: "nat \<Rightarrow> KairosFleetMachine \<times> fakeAuroraBoot" where
  "demo_after i = server_passes demo_real demo_machine demo_cluster demo_times i (demo_fm Map.empty, demo_server)"

lemma demo_object [simp]: "om_UID (fm_Meta (demo_fm m)) = ''uid-kfm''" "fms_Group (fm_Spec (demo_fm m)) = ''workers''"
  by (simp_all add: demo_fm_def demo_meta_def)

lemma demo_steps: "case server_passes demo_real demo_machine demo_cluster demo_times i (demo_fm Map.empty, demo_server) of
    (fm, f) \<Rightarrow> at_step demo_real fm demo_machine demo_cluster (f, demo_times i)"
proof -
  have "demo_ready (fst (server_passes demo_real demo_machine demo_cluster demo_times i (demo_fm Map.empty, demo_server)))"
    by (rule demo_ready_passes) (simp add: demo_new)
  then show ?thesis by (auto simp: demo_at_step split: prod.splits)
qed

lemma demo_times_years: "i < 4 \<Longrightarrow> four_digit_year (time_Add (demo_times i) (seconds 60))" "four_digit_year (demo_times 2)"
  using server_years(1) [of "int i"] server_years(2) [of 2] by (simp_all add: demo_times_def)

text \<open>The demo machine gets its node in four passes over HTTP.\<close>

lemma provisioned_over_http_witness:
  "provisioned (fst (demo_after 4)) = Some True
    \<and> fms_ProviderID (fm_Spec (fst (demo_after 4))) = Some ''kairos-fleet://node-1''
    \<and> byClaim (snd (demo_after 4)) = [''uid-kfm'' \<mapsto> ''node-1'']
    \<and> groupPool (snd (demo_after 4)) ''workers'' = Some [''node-2'']"
proof -
  obtain n where n: "nodes demo_server ''node-1'' = Some n" "fn_commands n = []" using demo_server_reads(2) by blast
  have "case demo_after 4 of (fm', f') \<Rightarrow>
      provisioned fm' = Some True \<and> fms_ProviderID (fm_Spec fm') = Some (providerIDPrefix @ ''node-1'')
      \<and> byClaim f' = (byClaim demo_server)(om_UID (fm_Meta (demo_fm Map.empty)) \<mapsto> ''node-1'')
      \<and> groupPool f' = (groupPool demo_server)(fms_Group (fm_Spec (demo_fm Map.empty)) \<mapsto> [''node-2''])
      \<and> applied f' ''node-1'' = Some (to_valid ''#cloud-config'') \<and> rebooted f' ''node-1'' = Some True \<and> sound f'"
    unfolding demo_after_def
    by (rule provisioned_over_http [OF _ demo_against _ demo_created _ demo_server_sound(1,3) _ _ n(1), where ds = "''bootstrap''"])
      (use n demo_server_reads(1) demo_ids in \<open>simp_all add: demo_steps demo_times_years kube_lib_real demo_server_sound(2) demo_machine_data\<close>)
  then show ?thesis by (auto simp: providerIDPrefix_def demo_server_sound(2) split: prod.splits)
qed

definition demo_http :: "aurora Client" where
  "demo_http = New (aurora_net demo_groups ''http://auroraboot'') ''http://auroraboot/'' ''admin'' []"

lemma demo_http_client: "demo_http \<in> aurora_clients ''http://auroraboot'' {''workers''}"
proof -
  have "trim_right ''http://auroraboot/'' CHR ''/'' = ''http://auroraboot''" by (simp add: trim_right_def)
  then show ?thesis unfolding aurora_clients_def demo_http_def
    by (intro CollectI exI conjI) (rule refl, assumption, simp add: demo_groups_def)
qed

theorem claim_is_idempotent_on_the_server_witness:
  "\<exists>node w'. Claim demo_http ''workers'' ''uid-kfm'' demo_start = (Inr (Some node), w') \<and> node_ID node = ''node-1''
    \<and> groupPool (fst w') ''workers'' = Some [''node-2''] \<and> Claim demo_http ''workers'' ''uid-kfm'' w' = (Inr (Some node), w')"
proof -
  obtain res w' where c: "Claim demo_http ''workers'' ''uid-kfm'' demo_start = (res, w')"
    by (cases "Claim demo_http ''workers'' ''uid-kfm'' demo_start")
  have b: "byClaim (fst demo_start) ''uid-kfm'' = None" "groupPool (fst demo_start) ''workers'' = Some [''node-1'', ''node-2'']"
    by (simp_all add: demo_start_def demo_server_sound(2) demo_server_reads(1))
  note claim = claim_is_idempotent_on_the_server [OF demo_http_client demo_start_ok demo_ids(1,4) c,
      unfolded b option.case list.case]
  then have "res = Inr (Some (seen (the (nodes (fst w') ''node-1''))))" by blast
  with claim demo_http_client demo_ids(1) c show ?thesis by (auto simp: claimed_def)
qed

text \<open>A node whose ID has a slash in it.\<close>

lemma node_id_with_slash_is_never_found_witness:
  "\<exists>e. GetNode demo_http ''rack/7'' demo_start = (Inl e, demo_start) \<and> IsNotFound e"
proof -
  have "plain ''rack''" "plain ''7''" by code_simp+
  from node_id_with_slash_is_never_found [OF demo_http_client this, of demo_start] show ?thesis by simp
qed

theorem only_own_marks_change_witness:
  "om_Annotations (fm_Meta (fst (reconcile_body demo_real (demo_fm [''team'' \<mapsto> ''edge'']) demo_machine demo_cluster demo_start)))
     ''team'' = Some ''edge''"
proof -
  let ?fm = "demo_fm [''team'' \<mapsto> ''edge'']"
  obtain fm' out w' where body: "reconcile_body demo_real ?fm demo_machine demo_cluster demo_start = (fm', out, w')"
    by (metis prod_cases3)
  have "untouched fm' = untouched ?fm" using only_own_marks_change [OF _ body] kube_lib_real by simp
  then have "om_Annotations (untouched fm') ''team'' = om_Annotations (untouched ?fm) ''team''" by simp
  then show ?thesis by (simp add: body untouched_def own_annotations_def annotation_defs) (simp add: demo_fm_def)
qed

subsection \<open>Two machines\<close>

definition demo_other :: "strmap \<Rightarrow> KairosFleetMachine" where
  "demo_other m = (demo_fm m)\<lparr>fm_Meta := (fm_Meta (demo_fm m))\<lparr>om_Name := ''kfm-2'', om_UID := ''uid-other''\<rparr>\<rparr>"

definition demo_object_of :: "bool \<Rightarrow> strmap \<Rightarrow> KairosFleetMachine" where
  "demo_object_of b = (if b then demo_fm else demo_other)"

definition demo_key :: "bool \<Rightarrow> string" where "demo_key b = (if b then ''uid-kfm'' else ''uid-other'')"

definition demo_marks :: "bool \<Rightarrow> string \<Rightarrow> strmap" where
  "demo_marks b n = [NodeIDAnnotation \<mapsto> n, claimKeyAnnotation \<mapsto> demo_key b]"

lemma demo_of [simp]:
  "om_UID (fm_Meta (demo_object_of b m)) = demo_key b" "fms_Group (fm_Spec (demo_object_of b m)) = ''workers''"
  "om_DeletionTimestamp (fm_Meta (demo_object_of b m)) = None" "ann (demo_object_of b m) k = map_read m k"
  by (simp_all add: demo_object_of_def demo_other_def demo_key_def demo_fm_def demo_meta_def ann_def)

lemma demo_of_ready: "m ''cluster.x-k8s.io/paused'' = None \<Longrightarrow> demo_ready (demo_object_of b m)"
  using demo_new by (simp add: demo_object_of_def demo_other_def demo_ready_def)

lemma demo_of_marks [simp]: "ann (demo_object_of b (demo_marks b' n)) NodeIDAnnotation = n"
  "ann (demo_object_of b (demo_marks b' n)) claimKeyAnnotation = demo_key b'"
  by (simp_all add: demo_marks_def map_read_def annotation_defs)

lemma demo_keys: "good_key (demo_key b)" "demo_key b \<noteq> ''''" "demo_key b = demo_key b' \<longleftrightarrow> b = b'"
  using demo_ids by (auto simp: demo_key_def)

lemma demo_claim_keys: "claimKeyFor (demo_object_of b Map.empty) = demo_key b"
  "claimKeyFor (demo_object_of b (demo_marks b n)) = demo_key b"
  using demo_keys by (simp_all add: claimKeyFor_def Let_def map_read_def demo_marks_def)

text \<open>A machine's first pass, and the object as the API server has it after the patch.\<close>

lemma demo_first_pass:
  assumes "aurora_ok {''workers''} w" "byClaim (fst w) (demo_key b) = None"
    and "groupPool (fst w) ''workers'' = Some (nid # rest)" "nodes (fst w) nid = Some n"
  obtains fm' out where "reconcile_body demo_real (demo_object_of b Map.empty) demo_machine demo_cluster w
      = (fm', out, (claimed ''workers'' (demo_key b) rest nid n (fst w), snd w))"
    "ann fm' = (ann (demo_object_of b Map.empty))(NodeIDAnnotation := nid, claimKeyAnnotation := demo_key b)"
    "merged (demo_object_of b Map.empty) fm' (demo_object_of b Map.empty) (demo_object_of b (demo_marks b nid))"
    "aurora_ok {''workers''} (claimed ''workers'' (demo_key b) rest nid n (fst w), snd w)"
proof -
  let ?fm = "demo_object_of b Map.empty" and ?w' = "(claimed ''workers'' (demo_key b) rest nid n (fst w), snd w)"
  obtain fm' out w' where body: "reconcile_body demo_real ?fm demo_machine demo_cluster w = (fm', out, w')"
    by (metis prod_cases3)
  have "at_step demo_real ?fm demo_machine demo_cluster w" by (rule demo_at_step) (simp add: demo_of_ready)
  from server_claim_pass [OF _ demo_against assms(1) this, of nid rest n] assms(2-4)
  have 1: "ann fm' = (ann ?fm)(NodeIDAnnotation := nid, claimKeyAnnotation := demo_key b)" "w' = ?w'"
    by (simp_all add: kube_lib_real demo_claim_keys demo_keys map_read_def body)
  have "nid \<noteq> ''''" using soundD(1) [of "fst w" nid n] assms(1,4) by (auto simp: aurora_ok_def good_id_def)
  then have "merged ?fm fm' ?fm (demo_object_of b (demo_marks b nid))"
    by (auto simp: merged_def 1(1) map_read_def demo_keys annotation_defs demo_marks_def)
  moreover have "aurora_ok {''workers''} ?w'"
    using sound_claimed [OF _ assms(3,4,2)] assms(1) demo_keys(1) [of b] by (auto simp: aurora_ok_def good_key_def)
  ultimately show ?thesis using that body 1 by blast
qed

text \<open>The server after the first machine's claim, and after the second's.\<close>

definition demo_n :: "string \<Rightarrow> fakeNode" where "demo_n nid = the (nodes demo_server nid)"

definition demo_w1 :: aurora where
  "demo_w1 = (claimed ''workers'' ''uid-kfm'' [''node-2''] ''node-1'' (demo_n ''node-1'') demo_server, demo_time)"

definition demo_w2 :: aurora where
  "demo_w2 = (claimed ''workers'' ''uid-other'' [] ''node-2'' (demo_n ''node-2'') (fst demo_w1), demo_time)"

lemma demo_pool: "nodes demo_server ''node-1'' = Some (demo_n ''node-1'')" "nodes demo_server ''node-2'' = Some (demo_n ''node-2'')"
  "byClaim (fst demo_w1) = [''uid-kfm'' \<mapsto> ''node-1'']" "groupPool (fst demo_w1) ''workers'' = Some [''node-2'']"
  "nodes (fst demo_w1) ''node-2'' = Some (demo_n ''node-2'')"
  "byClaim (fst demo_w2) = [''uid-kfm'' \<mapsto> ''node-1'', ''uid-other'' \<mapsto> ''node-2'']"
  using demo_server_reads demo_server_sound(2) by (auto simp: demo_n_def demo_w1_def demo_w2_def claimed_def)

lemma server_first_claim:
  obtains fm' out where "reconcile_body demo_real (demo_object_of True Map.empty) demo_machine demo_cluster demo_start = (fm', out, demo_w1)"
    "ann fm' NodeIDAnnotation = ''node-1''"
    "merged (demo_object_of True Map.empty) fm' (demo_object_of True Map.empty) (demo_object_of True (demo_marks True ''node-1''))"
    "aurora_ok {''workers''} demo_w1"
proof -
  have s: "fst demo_start = demo_server" "snd demo_start = demo_time" by (simp_all add: demo_start_def)
  show ?thesis
    by (rule demo_first_pass [OF demo_start_ok, where b = True and nid = "''node-1''" and rest = "[''node-2'']" and n = "demo_n ''node-1''"])
      (use that demo_server_reads(1) demo_server_sound(2) demo_pool(1) in
        \<open>auto simp: s demo_w1_def demo_key_def annotation_defs\<close>)
qed

lemma server_second_claim:
  obtains fm' out where "reconcile_body demo_real (demo_object_of False Map.empty) demo_machine demo_cluster demo_w1 = (fm', out, demo_w2)"
    "merged (demo_object_of False Map.empty) fm' (demo_object_of False Map.empty) (demo_object_of False (demo_marks False ''node-2''))"
    "aurora_ok {''workers''} demo_w2"
proof -
  have ok: "aurora_ok {''workers''} demo_w1" using server_first_claim by blast
  have s: "snd demo_w1 = demo_time" by (simp add: demo_w1_def)
  show ?thesis
    by (rule demo_first_pass [OF ok, where b = False and nid = "''node-2''" and rest = "[]" and n = "demo_n ''node-2''"])
      (use that demo_pool in \<open>auto simp: s demo_w2_def demo_key_def\<close>)
qed

lemma machines_never_share_a_node_witness:
  "\<exists>vers. fleet_run demo_real (aurora_env {''workers''}) (\<lambda>b. {demo_object_of b Map.empty}, demo_start) (vers, demo_w2)
    \<and> demo_object_of True (demo_marks True ''node-1'') \<in> vers True \<and> demo_object_of False (demo_marks False ''node-2'') \<in> vers False
    \<and> (''node-1'' = ''node-2'' \<longleftrightarrow> True = False) \<and> byClaim (fst demo_w2) ''uid-kfm'' = Some ''node-1''"
proof -
  let ?v0 = "\<lambda>b. {demo_object_of b Map.empty}" and ?a = "demo_object_of True (demo_marks True ''node-1'')"
    and ?b = "demo_object_of False (demo_marks False ''node-2'')"
  let ?v1 = "?v0(True := insert ?a (?v0 True))"
  let ?v2 = "?v1(False := insert ?b (?v1 False))"
  have start: "fleet_run demo_real (aurora_env {''workers''}) (?v0, demo_start) (?v0, demo_start)" by (rule fleet_run.start)
  obtain fm1 out1 where 1: "reconcile_body demo_real (demo_object_of True Map.empty) demo_machine demo_cluster demo_start = (fm1, out1, demo_w1)"
    "merged (demo_object_of True Map.empty) fm1 (demo_object_of True Map.empty) ?a" using server_first_claim by metis
  have run1: "fleet_run demo_real (aurora_env {''workers''}) (?v0, demo_start) (?v1, demo_w1)"
    by (rule fleet_run.pass [OF start _ _ 1]) simp_all
  obtain fm2 out2 where 2: "reconcile_body demo_real (demo_object_of False Map.empty) demo_machine demo_cluster demo_w1 = (fm2, out2, demo_w2)"
    "merged (demo_object_of False Map.empty) fm2 (demo_object_of False Map.empty) ?b" using server_second_claim by metis
  have run2: "fleet_run demo_real (aurora_env {''workers''}) (?v0, demo_start) (?v2, demo_w2)"
    by (rule fleet_run.pass [OF run1 _ _ 2]) simp_all
  have fresh: "fresh_fleet UNIV demo_key ?v0"
    using demo_keys by (auto simp: fresh_fleet_def demo_claim_keys map_read_def intro: inj_onI)
  have in2: "?a \<in> ?v2 True" "?b \<in> ?v2 False" "undeleted (?v2 True)" "undeleted (?v2 False)"
    by (auto simp: undeleted_def is_zero_time_def)
  have nodes: "ann ?a NodeIDAnnotation = ''node-1''" "ann ?b NodeIDAnnotation = ''node-2''" by (rule demo_of_marks)+
  have ne: "ann ?a NodeIDAnnotation \<noteq> ''''" "ann ?b NodeIDAnnotation \<noteq> ''''" unfolding nodes by simp_all
  have lib: "kube_lib (r_Client demo_real)" and keys: "\<forall>b\<in>UNIV. good_key (demo_key b)"
    using kube_lib_real demo_keys(1) by simp_all
  from machines_never_share_a_node [where vers = ?v2 and vers0 = ?v0 and u = ?a and v = ?b and i = True and j = False, OF lib demo_against demo_start_ok fresh keys run2 in2 ne, unfolded nodes]
  have "(''node-1'' = ''node-2'' \<longleftrightarrow> True = False) \<and> byClaim (fst demo_w2) ''uid-kfm'' = Some ''node-1''"
    by (simp only: demo_key_def if_True)
  with run2 in2(1,2) show ?thesis by blast
qed

text \<open>A claim whose patch is lost, and the next pass.\<close>

theorem lost_claim_is_found_again_witness:
  "\<exists>fm3 out3 w3. reconcile_body demo_real (demo_object_of True Map.empty) demo_machine demo_cluster demo_w1 = (fm3, out3, w3)
    \<and> ann fm3 NodeIDAnnotation = ''node-1'' \<and> byClaim (fst w3) ''uid-kfm'' = Some ''node-1''"
proof -
  let ?fm = "demo_object_of True Map.empty"
  obtain fm1 out1 where 1: "reconcile_body demo_real ?fm demo_machine demo_cluster demo_start = (fm1, out1, demo_w1)"
    "ann fm1 NodeIDAnnotation = ''node-1''" and ok: "aurora_ok {''workers''} demo_w1" using server_first_claim by metis
  obtain fm3 out3 w3 where 3: "reconcile_body demo_real ?fm demo_machine demo_cluster demo_w1 = (fm3, out3, w3)"
    by (metis prod_cases3)
  have lib: "kube_lib (r_Client demo_real)" using kube_lib_real by simp
  have key: "good_key (claimKeyFor ?fm)" using demo_keys by (simp add: demo_claim_keys)
  have none: "ann ?fm NodeIDAnnotation = ''''" "ann fm1 NodeIDAnnotation \<noteq> ''''" using 1(2) by (simp_all add: map_read_def)
  have step: "fms_Group (fm_Spec ?fm) \<in> {''workers''}" "active demo_real ?fm demo_machine demo_cluster"
    by (simp_all add: demo_ready_active demo_of_ready)
  from lost_claim_is_found_again [OF lib demo_against demo_start_ok key none 1(1) ok refl refl refl step
      demo_machine_data demo_connected_real 3]
  have "ann fm3 NodeIDAnnotation = ''node-1'' \<and> byClaim (fst w3) ''uid-kfm'' = Some ''node-1''"
    using 1(2) by (simp add: demo_claim_keys demo_key_def)
  then show ?thesis using 3 by blast
qed

text \<open>A claim whose patch is lost before its machine is deleted.\<close>

theorem lost_claim_of_deleted_machine_leaks_witness:
  "\<exists>fm3 vers. reconcile_body demo_real (demo_deleted (demo_object_of True Map.empty)) demo_machine demo_cluster demo_w1
        = (fm3, Return no_requeue None, demo_w1)
    \<and> KairosFleetMachineFinalizer \<notin> finalizers fm3
    \<and> fleet_run demo_real (aurora_env {''workers''}) (\<lambda>b. if b then {} else {demo_object_of b Map.empty}, demo_w1) (vers, demo_w2)
    \<and> byClaim (fst demo_w2) ''uid-kfm'' = Some ''node-1''"
proof -
  let ?fm = "demo_object_of True Map.empty" and ?v0 = "\<lambda>b. if b then {} else {demo_object_of b Map.empty}"
    and ?b = "demo_object_of False (demo_marks False ''node-2'')"
  let ?v1 = "?v0(False := insert ?b (?v0 False))" and ?fm2 = "demo_deleted ?fm"
  obtain fm1 out1 where 1: "reconcile_body demo_real ?fm demo_machine demo_cluster demo_start = (fm1, out1, demo_w1)"
    "ann fm1 NodeIDAnnotation = ''node-1''" and ok: "aurora_ok {''workers''} demo_w1" using server_first_claim by metis
  obtain fm3 out3 w3 where 3: "reconcile_body demo_real ?fm2 demo_machine demo_cluster demo_w1 = (fm3, out3, w3)"
    by (metis prod_cases3)
  have lib: "kube_lib (r_Client demo_real)" using kube_lib_real by simp
  have key: "good_key (claimKeyFor ?fm)" "claimKeyFor ?fm = ''uid-kfm''"
    using demo_ids(4) by (simp_all add: demo_claim_keys demo_key_def)
  have none: "ann ?fm NodeIDAnnotation = ''''" "ann ?fm2 NodeIDAnnotation = ''''" "marks ?fm2 = marks ?fm"
    by (simp_all add: map_read_def demo_deleted_def ann_def marks_def) (simp_all add: demo_object_of_def demo_fm_def)
  have t: "terminating demo_real ?fm2 demo_machine demo_cluster"
    by (simp add: terminating_def ref_set_controller_def demo_deleted_def is_zero_time_def zero_time_def nanos_def demo_object_of_def demo_fm_def
        demo_meta_def Let_def)
  note del = delete_without_node [OF lib t none(2) 3]
  have env: "aurora_env {''workers''} demo_w1 demo_w1" using ok by (simp add: aurora_env_def)
  have rec: "on_record {False} demo_key ?v0 (fst w3)" "\<forall>b\<in>{False}. good_key (demo_key b)" "claimKeyFor ?fm \<notin> demo_key ` {False}"
    using demo_keys by (auto simp: on_record_def demo_claim_keys map_read_def)
  obtain fm4 out4 where 4: "reconcile_body demo_real (demo_object_of False Map.empty) demo_machine demo_cluster demo_w1 = (fm4, out4, demo_w2)"
    "merged (demo_object_of False Map.empty) fm4 (demo_object_of False Map.empty) ?b" using server_second_claim by metis
  have run: "fleet_run demo_real (aurora_env {''workers''}) (?v0, demo_w1) (?v1, demo_w2)"
    by (rule fleet_run.pass [OF fleet_run.start _ _ 4]) simp_all
  have "''node-1'' \<noteq> ''''" by simp
  from lost_claim_of_deleted_machine_leaks [where ?vers = ?v1 and ?vers0.0 = ?v0 and key = demo_key and I = "{False}",
      OF lib demo_against demo_start_ok key(1) none(1) 1 this env none(3) t 3 rec] run
  show ?thesis using 3 del by (auto simp: key(2))
qed

end
