(* ===== verification/StoreScenario.thy ===== *)
theory StoreScenario
  imports StoredLifecycle ServerScenario
begin

text \<open>
  A reference API server that keeps the laws of \<open>object_store\<close> and \<open>current_store\<close>, and the properties of
  \<open>ObjectStore\<close> and \<open>StoredLifecycle\<close> at work on it, next to the server of \<open>ServerScenario\<close>.
\<close>

subsection \<open>A reference store\<close>

text \<open>The versions of each object there have been before, and the object as it is.\<close>

record objects =
  past :: "NamespacedName \<Rightarrow> KairosFleetMachine set"
  live :: "NamespacedName \<rightharpoonup> KairosFleetMachine"

definition stored :: "objects \<Rightarrow> NamespacedName \<Rightarrow> KairosFleetMachine option" where
  "stored s name = (case live s name of Some fm \<Rightarrow> if object_key fm = name then Some fm else None | None \<Rightarrow> None)"

definition all_versions :: "objects \<Rightarrow> NamespacedName \<Rightarrow> KairosFleetMachine set" where
  "all_versions s name = past s name \<union> set_option (live s name)"

text \<open>A merge patch: of the annotations, those that the pass changed; identity and deletion stay with
  the object.\<close>

definition merge_patch :: "KairosFleetMachine \<Rightarrow> KairosFleetMachine \<Rightarrow> KairosFleetMachine \<Rightarrow> KairosFleetMachine" where
  "merge_patch before after cur = after\<lparr>fm_Meta := (fm_Meta after)\<lparr>
     om_Namespace := om_Namespace (fm_Meta cur), om_Name := om_Name (fm_Meta cur), om_UID := om_UID (fm_Meta cur),
     om_DeletionTimestamp := om_DeletionTimestamp (fm_Meta cur),
     om_Annotations := (\<lambda>k. if ann after k = ann before k
       then (if fm_Annotations cur k = fm_Annotations before k then fm_Annotations after k else fm_Annotations cur k)
       else fm_Annotations after k)\<rparr>\<rparr>"

definition patch_store :: "KairosFleetMachine \<Rightarrow> KairosFleetMachine \<Rightarrow> objects \<Rightarrow> goerror option \<times> objects" where
  "patch_store before after s =
     (let name = object_key before in
      case stored s name of
        None \<Rightarrow> (Some (ForeignErr ''NotFound''), s)
      | Some cur \<Rightarrow> (None, \<lparr>past = (past s)(name := insert (merge_patch before after cur) (all_versions s name)),
          live = (live s)(name := remains (merge_patch before after cur))\<rparr>))"

lemma merge_patch_merged: "merged before after cur (merge_patch before after cur)"
  by (auto simp: merged_def merge_patch_def ann_def map_read_def)

lemma merge_patch_same:
  assumes "untouched fm' = untouched fm"
  shows "merge_patch fm fm' fm = fm'"
proof -
  have "om_UID (untouched fm') = om_UID (untouched fm)" using assms by simp
  then have "om_UID (fm_Meta fm') = om_UID (fm_Meta fm)" by (simp add: untouched_def)
  with untouched_reads [OF assms] show ?thesis
    by (cases fm', cases "fm_Meta fm'") (auto simp: merge_patch_def object_key_def fun_eq_iff)
qed

lemma all_versions_patch:
  assumes "stored s (object_key before) = Some cur"
  shows "adds all_versions (object_key before) (merge_patch before after cur) s (snd (patch_store before after s))"
  using assms by (auto simp: adds_def all_versions_def patch_store_def Let_def remains_def fun_eq_iff)

lemma stored_patch:
  assumes "stored s (object_key fm) = Some fm" "untouched fm' = untouched fm"
  shows "fst (patch_store fm fm' s) = None"
    "stored (snd (patch_store fm fm' s)) = (stored s)(object_key fm := remains fm')"
    "adds all_versions (object_key fm) fm' s (snd (patch_store fm fm' s))"
proof -
  show "fst (patch_store fm fm' s) = None" using assms(1) by (simp add: patch_store_def Let_def)
  show "stored (snd (patch_store fm fm' s)) = (stored s)(object_key fm := remains fm')"
    using assms(1) untouched_reads(1) [OF assms(2)]
    by (simp add: patch_store_def Let_def merge_patch_same [OF assms(2)] fun_eq_iff)
      (auto simp: stored_def remains_def fun_eq_iff split: option.splits)
  show "adds all_versions (object_key fm) fm' s (snd (patch_store fm fm' s))"
    using all_versions_patch [OF assms(1), of fm'] by (simp add: merge_patch_same [OF assms(2)])
qed

lemma stored_in_versions: "stored s name = Some fm \<Longrightarrow> fm \<in> all_versions s name \<and> object_key fm = name"
  by (auto simp: stored_def all_versions_def split: option.splits if_splits)

definition stored_kube :: "(objects \<times> aurora) Kube" where
  "stored_kube = ref_lib \<lparr>
     kGetMachine = (\<lambda>name (s, w). case stored s name of Some fm \<Rightarrow> Inr fm | None \<Rightarrow> Inl (ForeignErr ''NotFound'')),
     kGetCluster = (\<lambda>_ _. Inr demo_fc), kGetSecret = (\<lambda>_ _. Inr demo_secret),
     kGetOwnerMachine = (\<lambda>_ _. Inr (Some demo_machine)), kGetOwnerCluster = (\<lambda>_ _. Inr (Some demo_cluster)),
     kGetClusterFromMetadata = (\<lambda>_ _. Inr demo_cluster),
     kNewMachineHelper = (\<lambda>_ _. None),
     kPatchMachine = (\<lambda>before after (s, w). case patch_store before after s of (e, s') \<Rightarrow> (e, s', w)),
     kNewClusterHelper = (\<lambda>_ _. None), kPatchCluster = (\<lambda>_ _ w. (None, w)),
     kSetControllerReference = ref_set_controller, kIsPaused = (\<lambda>_ _. False),
     kContainsFinalizer = (\<lambda>_ _. False), kAddFinalizer = (\<lambda>om _. om), kRemoveFinalizer = (\<lambda>om _. om),
     kAddAnnotations = (\<lambda>om _. om), kSetStatusCondition = (\<lambda>_ cs _. cs),
     kIsNotFound = ref_not_found, kIgnoreNotFound = Some, kNow = (\<lambda>(s, w). snd w)\<rparr>"

lemma stored_kube_ops [simp]:
  "kGetMachine stored_kube name (s, w) = (case stored s name of Some fm \<Rightarrow> Inr fm | None \<Rightarrow> Inl (ForeignErr ''NotFound''))"
  "kPatchMachine stored_kube before after (s, w) = (fst (patch_store before after s), snd (patch_store before after s), w)"
  "kNewMachineHelper stored_kube fm sw = None" "kGetCluster stored_kube name sw = Inr demo_fc"
  "kGetOwnerMachine stored_kube om sw = Inr (Some demo_machine)" "kGetClusterFromMetadata stored_kube om sw = Inr demo_cluster"
  by (simp_all add: stored_kube_def ref_lib_def split_def)

interpretation api: object_store stored_kube all_versions
proof (unfold_locales, goal_cases)
  case (1 name sw fm)
  then show ?case using stored_in_versions [of "fst sw" name fm] by (cases sw) (auto split: option.splits)
next
  case (2 before after sw e sw')
  obtain s w where sw: "sw = (s, w)" by (cases sw)
  have sw': "sw' = (snd (patch_store before after s), w)" using 2(1) by (simp add: sw)
  show ?case
  proof (cases "stored s (object_key before)")
    case None
    then show ?thesis by (simp add: sw sw' patch_store_def)
  next
    case (Some cur)
    from all_versions_patch [OF Some, of after] stored_in_versions [OF Some] merge_patch_merged [of before after cur]
    show ?thesis unfolding sw sw' fst_conv snd_conv by blast
  qed
qed

interpretation api_now: current_store stored_kube stored
proof (unfold_locales, goal_cases)
  case (1 s name fm w)
  then show ?case using stored_in_versions [OF 1] by simp
next
  case (3 s fm fm' w)
  then show ?case using stored_patch(1,2) [OF 3] by simp
qed simp

subsection \<open>The manager on the reference store, next to the server\<close>

definition stored_real :: "(objects \<times> aurora) Reconciler" where
  "stored_real = \<lparr>r_Client = stored_kube, r_FleetClientFactory = None,
     r_net = net_beside (aurora_net demo_groups ''http://auroraboot'')\<rparr>"

lemma stored_real_client [simp]: "r_Client stored_real = stored_kube" by (simp add: stored_real_def)

lemma kube_lib_stored: "kube_lib stored_kube"
  unfolding stored_kube_def by (rule ref.kube_lib_axioms)

lemma stored_beside: "reconciler_beside stored_real demo_real"
  by (simp add: reconciler_beside_def kube_beside_def stored_real_def demo_real_def stored_kube_def demo_kube_at_def ref_lib_def)

lemma stored_owned: "owned (r_Client stored_real) demo_machine demo_cluster"
  by (simp add: owned_def)

lemma stored_beside_server: "beside_server stored_real ''http://auroraboot'' {''workers''}"
  unfolding beside_server_def
proof (intro conjI exI [of _ demo_groups] allI impI)
  fix name sw fcl assume "kGetCluster (r_Client stored_real) name sw = Inr fcl"
  then have "fcl = demo_fc" by simp
  then show "trim_right (ab_URL (fcs_AuroraBoot (fc_Spec fcl))) CHR ''/'' = ''http://auroraboot''"
    by (simp only: demo_address)
qed (simp_all add: stored_real_def demo_groups_def)

lemma stored_reconcile:
  assumes "stored s name = Some fm" "reconcile_body demo_real fm demo_machine demo_cluster w = (fm', out, w')"
  shows "Reconcile stored_real name (s, w) = (out, snd (patch_store fm fm' s), w')"
    "stored (snd (patch_store fm fm' s)) = (stored s)(name := remains fm')"
    "adds all_versions name fm' s (snd (patch_store fm fm' s))"
proof -
  have name: "object_key fm = name" using stored_in_versions [OF assms(1)] by blast
  have same: "untouched fm' = untouched fm" using body_marks [OF _ assms(2)] kube_lib_real by simp
  note patch = stored_patch [OF assms(1) [folded name] same, unfolded name]
  from patch(2,3) show "stored (snd (patch_store fm fm' s)) = (stored s)(name := remains fm')"
    "adds all_versions name fm' s (snd (patch_store fm fm' s))" .
  have "reconcile_body stored_real fm demo_machine demo_cluster (s, w) = (fm', out, s, w')"
    by (simp add: body_beside [OF stored_beside] assms(2))
  with patch(1) assms(1) show "Reconcile stored_real name (s, w) = (out, snd (patch_store fm fm' s), w')"
    by (simp add: Reconcile_def Let_def deferred_patch_def split: outcome.splits option.splits)
qed

definition demo_name :: "bool \<Rightarrow> NamespacedName" where
  "demo_name b = \<lparr>nn_Namespace = ''default'', nn_Name = (if b then ''kfm'' else ''kfm-2'')\<rparr>"

definition one_object :: "KairosFleetMachine \<Rightarrow> objects" where
  "one_object fm = \<lparr>past = (\<lambda>_. {}), live = [object_key fm \<mapsto> fm]\<rparr>"

lemma stored_one_object: "stored (one_object fm) (object_key fm) = Some fm"
  by (simp add: stored_def one_object_def)

text \<open>Four calls of \<open>Reconcile\<close> on an object just created.\<close>

theorem four_reconciles_provision_witness:
  "\<exists>s' fm' f'. reconciles stored_real (demo_name True) demo_times 4 (one_object (demo_fm Map.empty), demo_server) = (s', f')
    \<and> stored s' (demo_name True) = Some fm' \<and> provisioned fm' = Some True
    \<and> fms_ProviderID (fm_Spec fm') = Some ''kairos-fleet://node-1''
    \<and> byClaim f' = [''uid-kfm'' \<mapsto> ''node-1''] \<and> groupPool f' ''workers'' = Some [''node-2'']"
proof -
  have key: "object_key (demo_fm Map.empty) = demo_name True"
    by (simp add: object_key_def demo_fm_def demo_meta_def demo_name_def)
  obtain n where n: "nodes demo_server ''node-1'' = Some n" "fn_commands n = []" using demo_server_reads(2) by blast
  have t: "is_zero_time (om_DeletionTimestamp (fm_Meta (demo_fm Map.empty)))"
    by (simp add: demo_fm_def demo_meta_def is_zero_time_def)
  have "case reconciles stored_real (demo_name True) demo_times 4 (one_object (demo_fm Map.empty), demo_server) of (s', f') \<Rightarrow>
      (\<exists>fm'. stored s' (demo_name True) = Some fm' \<and> provisioned fm' = Some True
         \<and> fms_ProviderID (fm_Spec fm') = Some (providerIDPrefix @ ''node-1''))
      \<and> byClaim f' = (byClaim demo_server)(om_UID (fm_Meta (demo_fm Map.empty)) \<mapsto> ''node-1'')
      \<and> groupPool f' = (groupPool demo_server)(fms_Group (fm_Spec (demo_fm Map.empty)) \<mapsto> [''node-2''])
      \<and> applied f' ''node-1'' = Some (to_valid ''#cloud-config'') \<and> rebooted f' ''node-1'' = Some True \<and> sound f'"
    by (rule four_reconciles_provision [where current = stored, OF _ stored_beside stored_owned
        stored_one_object [of "demo_fm Map.empty", unfolded key] _ demo_against _
        demo_created _ t demo_server_sound(1,3) _ _ n(1), where ds = "''bootstrap''"])
      (use n demo_server_reads(1) demo_ids api_now.current_store_axioms in
        \<open>simp_all add: demo_steps demo_times_years kube_lib_real demo_server_sound(2) demo_machine_data\<close>)
  then show ?thesis by (auto simp: providerIDPrefix_def demo_server_sound(2) split: prod.splits)
qed

text \<open>The delete of the machine that holds \<open>node-1\<close>.\<close>

definition demo_leaving :: KairosFleetMachine where
  "demo_leaving = demo_deleted (demo_object_of True (demo_marks True ''node-1''))"

lemma demo_leaving_reads:
  "ann demo_leaving NodeIDAnnotation = ''node-1''" "claimKeyFor demo_leaving = ''uid-kfm''"
  "finalizers demo_leaving = {KairosFleetMachineFinalizer}" "object_key demo_leaving = demo_name True"
proof -
  have marks: "ann demo_leaving k = map_read (demo_marks True ''node-1'') k" for k
    by (simp add: demo_leaving_def demo_object_of_def demo_deleted_def demo_fm_def ann_def)
  then show "ann demo_leaving NodeIDAnnotation = ''node-1''" "claimKeyFor demo_leaving = ''uid-kfm''"
    by (simp_all add: demo_marks_def map_read_def claimKeyFor_def annotation_defs demo_key_def)
  show "finalizers demo_leaving = {KairosFleetMachineFinalizer}" "object_key demo_leaving = demo_name True"
    by (simp_all add: demo_leaving_def demo_object_of_def demo_deleted_def demo_fm_def demo_meta_def finalizers_def
        object_key_def demo_name_def)
qed

lemma demo_leaving_terminating: "terminating demo_real demo_leaving demo_machine demo_cluster"
  by (simp add: demo_leaving_def terminating_def ref_set_controller_def demo_deleted_def is_zero_time_def zero_time_def
      nanos_def demo_object_of_def demo_fm_def demo_meta_def demo_marks_def annotation_defs Let_def)

theorem deleted_machine_releases_its_node_witness:
  "\<exists>s' f'. Reconcile stored_real (demo_name True) (one_object demo_leaving, demo_w1) = (Return no_requeue None, s', f', snd demo_w1)
    \<and> stored s' (demo_name True) = None \<and> wasReleased f' ''node-1'' ''uid-kfm'' \<and> byClaim f' ''uid-kfm'' = None"
proof -
  note reads = demo_leaving_reads
  obtain n where n: "nodes (fst demo_w1) ''node-1'' = Some n"
    using demo_pool(1) by (simp add: demo_w1_def claimed_def)
  have ok: "aurora_ok {''workers''} demo_w1" using server_first_claim by blast
  have store: "current_store (r_Client stored_real) stored" and lib: "kube_lib (r_Client demo_real)"
    using api_now.current_store_axioms kube_lib_real by simp_all
  have held: "good_key ''uid-kfm''" "byClaim (fst demo_w1) ''uid-kfm'' = Some ''node-1''"
    using demo_ids(4) demo_pool(3) by simp_all
  from deleted_machine_releases_its_node [where current = stored, OF store stored_beside stored_owned
      stored_one_object [of demo_leaving, unfolded reads] lib demo_against ok demo_leaving_terminating demo_connected_real,
      unfolded reads, OF held n]
  show ?thesis by (auto simp: unclaimed_def map_delete_def)
qed

text \<open>Two machines.\<close>

definition two_objects :: objects where
  "two_objects = \<lparr>past = (\<lambda>_. {}), live = [demo_name True \<mapsto> demo_object_of True Map.empty, demo_name False \<mapsto> demo_object_of False Map.empty]\<rparr>"

definition name_key :: "NamespacedName \<Rightarrow> string" where
  "name_key name = demo_key (name = demo_name True)"

lemma demo_names: "demo_name b = demo_name b' \<longleftrightarrow> b = b'" "object_key (demo_object_of b m) = demo_name b"
  by (simp_all add: demo_name_def object_key_def demo_object_of_def demo_other_def demo_fm_def demo_meta_def)

lemma two_objects_reads: "stored two_objects (demo_name b) = Some (demo_object_of b Map.empty)"
  "all_versions two_objects name = (if name = demo_name True then {demo_object_of True Map.empty}
     else if name = demo_name False then {demo_object_of False Map.empty} else {})"
  using demo_names by (cases b; simp add: stored_def two_objects_def) (auto simp: all_versions_def two_objects_def demo_names)

lemma two_objects_fresh: "fresh_fleet (range demo_name) name_key (all_versions two_objects)"
  using demo_keys
  by (auto simp: fresh_fleet_def two_objects_reads(2) name_key_def demo_names demo_claim_keys map_read_def intro: inj_onI split: if_splits)



lemma body_undeleted:
  assumes "reconcile_body demo_real fm demo_machine demo_cluster w = (fm', out, w')" "om_DeletionTimestamp (fm_Meta fm) = None"
  shows "is_zero_time (om_DeletionTimestamp (fm_Meta fm'))"
  using body_marks [OF _ assms(1)] kube_lib_real untouched_reads(2) [of fm' fm] assms(2) by (simp add: is_zero_time_def)

theorem manager_never_shares_a_node_witness:
  "\<exists>s fm1 fm2. controller_run stored_real (others_do (\<lambda>w w'. w' = w \<or> aurora_env {''workers''} w w') all_versions)
      (two_objects, demo_start) (s, demo_w2)
    \<and> stored s (demo_name True) = Some fm1 \<and> stored s (demo_name False) = Some fm2
    \<and> ann fm1 NodeIDAnnotation = ''node-1'' \<and> ann fm2 NodeIDAnnotation = ''node-2''
    \<and> (''node-1'' = ''node-2'' \<longleftrightarrow> demo_name True = demo_name False) \<and> byClaim (fst demo_w2) ''uid-kfm'' = Some ''node-1''"
proof -
  let ?r = stored_real and ?env = "others_do (\<lambda>w w'. w' = w \<or> aurora_env {''workers''} w w') all_versions"
    and ?a = "demo_object_of True Map.empty" and ?b = "demo_object_of False Map.empty"
  obtain fm1 out1 where 1: "reconcile_body demo_real ?a demo_machine demo_cluster demo_start = (fm1, out1, demo_w1)"
    "ann fm1 NodeIDAnnotation = ''node-1''" using server_first_claim by metis
  obtain fm2 out2 where 2: "reconcile_body demo_real ?b demo_machine demo_cluster demo_w1 = (fm2, out2, demo_w2)"
    "merged ?b fm2 ?b (demo_object_of False (demo_marks False ''node-2''))" using server_second_claim by metis
  have fm2: "ann fm2 NodeIDAnnotation = ''node-2''" using 2(2) by (auto simp: merged_def map_read_def demo_marks_def annotation_defs split: if_splits)
  define s1 where "s1 = snd (patch_store ?a fm1 two_objects)"
  define s2 where "s2 = snd (patch_store ?b fm2 s1)"
  note r1 = stored_reconcile [OF two_objects_reads(1) 1(1), folded s1_def]
  have "stored s1 (demo_name False) = Some ?b" using r1(2) two_objects_reads(1) [of False] by (simp add: demo_names)
  note r2 = stored_reconcile [OF this 2(1), folded s2_def]
  have z: "is_zero_time (om_DeletionTimestamp (fm_Meta fm1))" "is_zero_time (om_DeletionTimestamp (fm_Meta fm2))"
    using body_undeleted [OF 1(1)] body_undeleted [OF 2(1)] by simp_all
  then have now: "stored s2 (demo_name True) = Some fm1" "stored s2 (demo_name False) = Some fm2"
    using r1(2) r2(2) by (simp_all add: demo_names remains_def)
  have vers: "all_versions s2 (demo_name True) = {fm1, ?a}" "all_versions s2 (demo_name False) = {fm2, ?b}"
    using r1(3) r2(3) by (simp_all add: adds_def demo_names two_objects_reads(2))
  have run: "controller_run ?r ?env (two_objects, demo_start) (s2, demo_w2)"
    by (rule controller_run.reconcile [OF controller_run.reconcile [OF controller_run.start r1(1)] r2(1)])
  have world: "kube_lib (r_Client ?r)" "object_store (r_Client ?r) all_versions" "aurora_ok {''workers''} (snd (two_objects, demo_start))"
    "fresh_fleet (range demo_name) name_key (all_versions (fst (two_objects, demo_start)))"
    "\<forall>i \<in> range demo_name. good_key (name_key i)"
    using kube_lib_stored api.object_store_axioms demo_start_ok two_objects_fresh demo_keys(1) by (simp_all add: name_key_def)
  have in2: "fm1 \<in> all_versions (fst (s2, demo_w2)) (demo_name True)" "fm2 \<in> all_versions (fst (s2, demo_w2)) (demo_name False)"
    "undeleted (all_versions (fst (s2, demo_w2)) (demo_name True))" "undeleted (all_versions (fst (s2, demo_w2)) (demo_name False))"
    "ann fm1 NodeIDAnnotation \<noteq> ''''" "ann fm2 NodeIDAnnotation \<noteq> ''''"
    using z by (auto simp: vers undeleted_def 1(2) fm2 is_zero_time_def)
  from manager_never_shares_a_node [where sw = "(s2, demo_w2)" and i = "demo_name True" and j = "demo_name False" and u = fm1 and v = fm2,
      OF world(1,2) stored_beside_server world(3-5) run in2]
  have "(''node-1'' = ''node-2'' \<longleftrightarrow> demo_name True = demo_name False) \<and> byClaim (fst demo_w2) ''uid-kfm'' = Some ''node-1''"
    by (simp only: 1(2) fm2 name_key_def demo_key_def if_True refl snd_conv)
  with run now 1(2) fm2 show ?thesis by blast
qed

end
