(* ===== verification/TestUtils.thy ===== *)
theory TestUtils
  imports Fleet
begin

text \<open>
  \<open>test/utils/utils.go\<close>, the helpers of the end-to-end tests. The operating system is a record of
  functions, as the network is in theory \<open>Http\<close>; what is printed to Ginkgo's writer is left out.
  Then what the text functions do: they read lines, and take the comment prefix off a block.
\<close>

subsection \<open>The operating system\<close>

text \<open>\<open>exec.Cmd\<close>, and the calls of packages \<open>os\<close> and \<open>os/exec\<close>.\<close>

record ExecCmd =
  ec_Args :: "string list"
  ec_Dir :: string
  ec_Env :: "string list"

definition exec_Command :: "string \<Rightarrow> string list \<Rightarrow> ExecCmd" where
  "exec_Command name args = \<lparr>ec_Args = name # args, ec_Dir = '''', ec_Env = []\<rparr>"

record 'w os =
  Getwd :: "'w \<Rightarrow> string \<times> goerror option"
  Chdir :: "string \<Rightarrow> 'w \<Rightarrow> goerror option \<times> 'w"
  Environ :: "'w \<Rightarrow> string list"
  LookupEnv :: "string \<Rightarrow> 'w \<Rightarrow> string option"
  CombinedOutput :: "ExecCmd \<Rightarrow> 'w \<Rightarrow> (string \<times> goerror option) \<times> 'w"
  ReadFile :: "string \<Rightarrow> 'w \<Rightarrow> string res"
  WriteFile :: "string \<Rightarrow> string \<Rightarrow> nat \<Rightarrow> 'w \<Rightarrow> goerror option \<times> 'w"

subsection \<open>Text\<close>

text \<open>\<open>strings.Index\<close>, \<open>strings.Contains\<close>, \<open>strings.Join\<close>, and \<open>strings.ReplaceAll\<close> of a string that is not empty.\<close>

fun strings_Index :: "string \<Rightarrow> string \<Rightarrow> nat option" where
  "strings_Index [] sub = (if sub = [] then Some 0 else None)"
| "strings_Index (c # s) sub = (if has_prefix sub (c # s) then Some 0 else map_option Suc (strings_Index s sub))"

definition strings_Contains :: "string \<Rightarrow> string \<Rightarrow> bool" where
  "strings_Contains s sub \<longleftrightarrow> strings_Index s sub \<noteq> None"

fun strings_Join :: "string \<Rightarrow> string list \<Rightarrow> string" where
  "strings_Join sep [] = []"
| "strings_Join sep [s] = s"
| "strings_Join sep (s # t # ss) = s @ sep @ strings_Join sep (t # ss)"

function strings_ReplaceAll :: "string \<Rightarrow> string \<Rightarrow> string \<Rightarrow> string" where
  "strings_ReplaceAll [] old new = []"
| "strings_ReplaceAll (c # s) old new =
     (if old \<noteq> [] \<and> has_prefix old (c # s) then new @ strings_ReplaceAll (drop (length old) (c # s)) old new
      else c # strings_ReplaceAll s old new)"
  by pat_completeness auto
termination
  by (relation "measure (\<lambda>(s, _, _). length s)") (auto simp: neq_Nil_conv)

definition line_feed :: char where "line_feed = char_of (10::nat)"
definition carriage_return :: char where "carriage_return = char_of (13::nat)"

text \<open>A \<open>bufio.Scanner\<close> that splits lines, over the text that is left: the next line without its end, and
  what follows. A line that does not fit into the scanner's buffer of 64 KiB ends the scan.\<close>

definition MaxScanTokenSize :: nat where "MaxScanTokenSize = 65536"

definition dropCR :: "string \<Rightarrow> string" where
  "dropCR l = (if l \<noteq> [] \<and> last l = carriage_return then butlast l else l)"

definition scanner_Scan :: "string \<Rightarrow> (string \<times> string) option" where
  "scanner_Scan rest =
     (let line = takeWhile (\<lambda>c. c \<noteq> line_feed) rest in
      if rest = [] \<or> MaxScanTokenSize \<le> length line then None
      else Some (dropCR line, drop (Suc (length line)) rest))"

lemma scanner_Scan_shorter: "scanner_Scan rest = Some (line, rest') \<Longrightarrow> length rest' < length rest"
  by (auto simp: scanner_Scan_def Let_def split: if_splits)

subsection \<open>The helpers\<close>

definition GetNonEmptyLines :: "string \<Rightarrow> string list" where
  "GetNonEmptyLines output = filter (\<lambda>element. element \<noteq> []) (split_on line_feed output)"

definition GetProjectDir :: "'w os \<Rightarrow> 'w \<Rightarrow> string \<times> goerror option" where
  "GetProjectDir os w = (case Getwd os w of
     (wd, Some err) \<Rightarrow> (wd, Some err)
   | (wd, None) \<Rightarrow> (strings_ReplaceAll wd ''/test/e2e'' '''', None))"

text \<open>The error of \<open>os.Chdir\<close> is printed only.\<close>

definition Run :: "'w os \<Rightarrow> ExecCmd \<Rightarrow> 'w \<Rightarrow> (string \<times> goerror option) \<times> 'w" where
  "Run os cmd w =
     (let dir = fst (GetProjectDir os w); cmd = cmd\<lparr>ec_Dir := dir\<rparr>; w = snd (Chdir os (ec_Dir cmd) w);
          cmd = cmd\<lparr>ec_Env := Environ os w @ [''GO111MODULE=on'']\<rparr>; command = strings_Join '' '' (ec_Args cmd) in
      case CombinedOutput os cmd w of
        ((output, Some err), w) \<Rightarrow>
          ((output, Some (PlainErr (command @ '' failed with error: ('' @ Error err @ '') '' @ output))), w)
      | ((output, None), w) \<Rightarrow> ((output, None), w))"

definition prometheusOperatorVersion :: string where "prometheusOperatorVersion = ''v0.77.1''"

definition prometheusOperatorURL :: "string \<Rightarrow> string" where
  "prometheusOperatorURL version = ''https://github.com/prometheus-operator/prometheus-operator/releases/download/''
     @ version @ ''/bundle.yaml''"

definition certmanagerVersion :: string where "certmanagerVersion = ''v1.16.3''"

definition certmanagerURLTmpl :: "string \<Rightarrow> string" where
  "certmanagerURLTmpl version = ''https://github.com/cert-manager/cert-manager/releases/download/'' @ version @ ''/cert-manager.yaml''"

definition InstallPrometheusOperator :: "'w os \<Rightarrow> 'w \<Rightarrow> goerror option \<times> 'w" where
  "InstallPrometheusOperator os w =
     (let url = prometheusOperatorURL prometheusOperatorVersion in
      case Run os (exec_Command ''kubectl'' [''create'', ''-f'', url]) w of ((_, err), w) \<Rightarrow> (err, w))"

definition UninstallPrometheusOperator :: "'w os \<Rightarrow> 'w \<Rightarrow> 'w" where
  "UninstallPrometheusOperator os w =
     (let url = prometheusOperatorURL prometheusOperatorVersion in
      snd (Run os (exec_Command ''kubectl'' [''delete'', ''-f'', url]) w))"

text \<open>The loops over names and lines: whether some line has some of the names in it.\<close>

definition any_listed :: "string list \<Rightarrow> string list \<Rightarrow> bool" where
  "any_listed crds crdList = list_ex (\<lambda>crd. list_ex (\<lambda>line. strings_Contains line crd) crdList) crds"

definition IsPrometheusCRDsInstalled :: "'w os \<Rightarrow> 'w \<Rightarrow> bool \<times> 'w" where
  "IsPrometheusCRDsInstalled os w =
     (case Run os (exec_Command ''kubectl'' [''get'', ''crds'', ''-o'', ''custom-columns=NAME:.metadata.name'']) w of
        ((output, Some err), w) \<Rightarrow> (False, w)
      | ((output, None), w) \<Rightarrow>
          (any_listed [''prometheuses.monitoring.coreos.com'', ''prometheusrules.monitoring.coreos.com'',
             ''prometheusagents.monitoring.coreos.com''] (GetNonEmptyLines output), w))"

definition UninstallCertManager :: "'w os \<Rightarrow> 'w \<Rightarrow> 'w" where
  "UninstallCertManager os w =
     (let url = certmanagerURLTmpl certmanagerVersion in
      snd (Run os (exec_Command ''kubectl'' [''delete'', ''-f'', url]) w))"

definition InstallCertManager :: "'w os \<Rightarrow> 'w \<Rightarrow> goerror option \<times> 'w" where
  "InstallCertManager os w =
     (let url = certmanagerURLTmpl certmanagerVersion in
      case Run os (exec_Command ''kubectl'' [''apply'', ''-f'', url]) w of
        ((_, Some err), w) \<Rightarrow> (Some err, w)
      | ((_, None), w) \<Rightarrow>
          (case Run os (exec_Command ''kubectl'' [''wait'', ''deployment.apps/cert-manager-webhook'',
               ''--for'', ''condition=Available'', ''--namespace'', ''cert-manager'', ''--timeout'', ''5m'']) w of
             ((_, err), w) \<Rightarrow> (err, w)))"

definition IsCertManagerCRDsInstalled :: "'w os \<Rightarrow> 'w \<Rightarrow> bool \<times> 'w" where
  "IsCertManagerCRDsInstalled os w =
     (case Run os (exec_Command ''kubectl'' [''get'', ''crds'']) w of
        ((output, Some err), w) \<Rightarrow> (False, w)
      | ((output, None), w) \<Rightarrow>
          (any_listed [''certificates.cert-manager.io'', ''issuers.cert-manager.io'', ''clusterissuers.cert-manager.io'',
             ''certificaterequests.cert-manager.io'', ''orders.acme.cert-manager.io'', ''challenges.acme.cert-manager.io'']
             (GetNonEmptyLines output), w))"

definition LoadImageToKindClusterWithName :: "'w os \<Rightarrow> string \<Rightarrow> 'w \<Rightarrow> goerror option \<times> 'w" where
  "LoadImageToKindClusterWithName os name w =
     (let cluster = (case LookupEnv os ''KIND_CLUSTER'' w of Some v \<Rightarrow> v | None \<Rightarrow> ''kind'') in
      case Run os (exec_Command ''kind'' [''load'', ''docker-image'', name, ''--name'', cluster]) w of ((_, err), w) \<Rightarrow> (err, w))"

text \<open>The loop of \<open>UncommentCode\<close>: \<open>out\<close> gets the line scanned last, and a newline when another follows.\<close>

function uncomment_loop :: "string \<Rightarrow> string \<Rightarrow> string \<Rightarrow> string \<Rightarrow> string" where
  "uncomment_loop prefix line rest out =
     (let out = out @ trim_prefix prefix line in
      case scanner_Scan rest of
        None \<Rightarrow> out
      | Some (line, rest) \<Rightarrow> uncomment_loop prefix line rest (out @ [line_feed]))"
  by pat_completeness auto
termination
  by (relation "measure (\<lambda>(_, _, rest, _). length rest)") (auto dest: scanner_Scan_shorter)

declare uncomment_loop.simps [simp del]

text \<open>The mode of the file is 0644.\<close>

definition UncommentCode :: "'w os \<Rightarrow> string \<Rightarrow> string \<Rightarrow> string \<Rightarrow> 'w \<Rightarrow> goerror option \<times> 'w" where
  "UncommentCode os filename target prefix w =
     (case ReadFile os filename w of
        Inl err \<Rightarrow> (Some err, w)
      | Inr content \<Rightarrow>
          (case strings_Index content target of
             None \<Rightarrow> (Some (PlainErr (''unable to find the code '' @ target @ '' to be uncomment'')), w)
           | Some idx \<Rightarrow>
               let out = take idx content in
               (case scanner_Scan target of
                  None \<Rightarrow> (None, w)
                | Some (line, rest) \<Rightarrow>
                    let out = uncomment_loop prefix line rest out in
                    WriteFile os filename (out @ drop (idx + length target) content) 420 w)))"

subsection \<open>Reading lines\<close>

lemma strings_Join_Cons: "strings_Join sep (s # ss) = s @ concat (map (\<lambda>t. sep @ t) ss)"
  by (induction ss arbitrary: s) simp_all

lemma split_on_Join:
  assumes "ss \<noteq> []" "\<forall>s \<in> set ss. sep \<notin> set s"
  shows "split_on sep (strings_Join [sep] ss) = ss"
  using assms by (induction ss rule: list_nonempty_induct) (auto simp: split_on_none neq_Nil_conv split_on_append)

text \<open>What was printed line by line is read back, less the empty lines.\<close>

lemma lines_read_back:
  "\<forall>l \<in> set ls. line_feed \<notin> set l \<Longrightarrow> GetNonEmptyLines (strings_Join [line_feed] ls) = filter (\<lambda>l. l \<noteq> []) ls"
  by (cases "ls = []") (simp_all add: GetNonEmptyLines_def split_on_Join)

lemma strings_Index_Some:
  "strings_Index s sub = Some i \<longleftrightarrow> has_prefix sub (drop i s) \<and> i \<le> length s \<and> (\<forall>j < i. \<not> has_prefix sub (drop j s))"
proof (induction s arbitrary: i)
  case Nil
  then show ?case by (auto simp: has_prefix_def)
next
  case (Cons c s)
  show ?case
  proof (cases i)
    case (Suc k)
    then show ?thesis by (auto simp: Cons.IH All_less_Suc2)
  qed (auto simp: has_prefix_def)
qed

lemma strings_Contains_iff: "strings_Contains s sub \<longleftrightarrow> (\<exists>pre post. s = pre @ sub @ post)"
proof -
  have "strings_Index (pre @ sub @ post) sub \<noteq> None" for pre post
  proof (induction pre)
    case Nil
    have "has_prefix sub (sub @ post)" by (simp add: has_prefix_def)
    then show ?case by (cases "sub @ post") auto
  qed auto
  moreover have "\<exists>pre post. s = pre @ sub @ post" if "strings_Index s sub = Some i" for i
  proof -
    have "take (length sub) (drop i s) = sub" using that by (simp add: strings_Index_Some has_prefix_def)
    then have "s = take i s @ sub @ drop (length sub) (drop i s)" by (metis append_take_drop_id)
    then show ?thesis by blast
  qed
  ultimately show ?thesis by (auto simp: strings_Contains_def)
qed

subsection \<open>Taking the comment prefix off a block\<close>

text \<open>A line that the scanner hands over as it is.\<close>

definition scannable :: "string \<Rightarrow> bool" where
  "scannable l \<longleftrightarrow> line_feed \<notin> set l \<and> length l < MaxScanTokenSize \<and> (l \<noteq> [] \<longrightarrow> last l \<noteq> carriage_return)"

lemma scan_line:
  assumes "scannable l"
  shows "scanner_Scan (l @ line_feed # t) = Some (l, t)" "l \<noteq> [] \<Longrightarrow> scanner_Scan l = Some (l, [])"
proof -
  have line: "takeWhile (\<lambda>c. c \<noteq> line_feed) l = l" using assms by (auto simp: scannable_def takeWhile_eq_all_conv)
  have lines: "takeWhile (\<lambda>c. c \<noteq> line_feed) (l @ line_feed # t) = l"
    using assms by (subst takeWhile_append2) (auto simp: scannable_def)
  have "dropCR l = l" "\<not> MaxScanTokenSize \<le> length l" using assms by (auto simp: scannable_def dropCR_def)
  then show "scanner_Scan (l @ line_feed # t) = Some (l, t)" "l \<noteq> [] \<Longrightarrow> scanner_Scan l = Some (l, [])"
    by (simp_all add: scanner_Scan_def Let_def line lines)
qed

lemma scanner_end: "scanner_Scan [] = None"
  by (simp add: scanner_Scan_def)

lemma trim_own_prefix: "trim_prefix p (p @ l) = l"
  by (simp add: trim_prefix_def has_prefix_def)

text \<open>A block of commented lines, with or without a newline behind the last.\<close>

definition commented :: "string \<Rightarrow> string list \<Rightarrow> string \<Rightarrow> string" where
  "commented prefix ls nl = strings_Join [line_feed] (map (\<lambda>l. prefix @ l) ls) @ nl"

lemma scan_commented:
  assumes "scannable (prefix @ l)" "prefix \<noteq> []" "nl \<in> {[], [line_feed]}"
  shows "scanner_Scan (commented prefix (l # ls) nl) = Some (prefix @ l, if ls = [] then [] else commented prefix ls nl)"
  using assms scan_line [OF assms(1)] by (cases ls) (auto simp: commented_def)

lemma uncomment_block:
  assumes "\<forall>l \<in> set ls. scannable (prefix @ l)" "prefix \<noteq> []" "nl \<in> {[], [line_feed]}"
  shows "uncomment_loop prefix (prefix @ l) (if ls = [] then [] else commented prefix ls nl) out
      = out @ strings_Join [line_feed] (l # ls)"
  using assms(1)
proof (induction ls arbitrary: l out)
  case Nil
  show ?case by (simp add: uncomment_loop.simps scanner_end trim_own_prefix)
next
  case (Cons k ls)
  then show ?case
    by (subst uncomment_loop.simps) (simp add: Let_def scan_commented [OF _ assms(2,3)] trim_own_prefix split del: if_split)
qed

text \<open>\<open>UncommentCode\<close> takes the prefix off every line of the block, where the block is found, and leaves the
  rest of the file as it is; but a newline that ends the target is lost, so that what follows
  the block is joined to its last line.\<close>

lemma uncommented:
  assumes "ReadFile os filename w = Inr (pre @ target @ post)" "strings_Index (pre @ target @ post) target = Some (length pre)"
    and "target = commented prefix ls nl" "nl \<in> {[], [line_feed]}" "ls \<noteq> []" "prefix \<noteq> []"
    and "\<forall>l \<in> set ls. scannable (prefix @ l)"
  shows "UncommentCode os filename target prefix w = WriteFile os filename (pre @ strings_Join [line_feed] ls @ post) 420 w"
proof -
  obtain l ks where ls: "ls = l # ks" using assms(5) by (cases ls) simp
  then have scan: "scanner_Scan target = Some (prefix @ l, if ks = [] then [] else commented prefix ks nl)"
    using scan_commented [of prefix l nl ks] assms(3,4,6,7) by simp
  have "uncomment_loop prefix (prefix @ l) (if ks = [] then [] else commented prefix ks nl) pre = pre @ strings_Join [line_feed] ls"
    using uncomment_block [of ks prefix nl l pre] assms(4,6,7) ls by simp
  then show ?thesis by (simp add: UncommentCode_def assms(1,2) scan)
qed

text \<open>A line that is too long for the scanner ends the loop as the end of the target does: what is left
  of the block is cut out of the file, and the call succeeds.\<close>

lemma long_lines_are_cut_out:
  assumes "ReadFile os filename w = Inr (pre @ target @ post)" "strings_Index (pre @ target @ post) target = Some (length pre)"
    and "target = (prefix @ l) @ line_feed # long @ rest" "scannable (prefix @ l)"
    and "MaxScanTokenSize \<le> length long" "line_feed \<notin> set long"
  shows "UncommentCode os filename target prefix w = WriteFile os filename (pre @ l @ post) 420 w"
proof -
  have "takeWhile (\<lambda>c. c \<noteq> line_feed) (long @ rest) = long @ takeWhile (\<lambda>c. c \<noteq> line_feed) rest"
    using assms(6) by (subst takeWhile_append2) auto
  then have "scanner_Scan (long @ rest) = None" using assms(5) by (simp add: scanner_Scan_def Let_def)
  moreover have "scanner_Scan target = Some (prefix @ l, long @ rest)" unfolding assms(3) by (rule scan_line(1) [OF assms(4)])
  ultimately show ?thesis by (simp add: UncommentCode_def assms(1,2) uncomment_loop.simps trim_own_prefix)
qed

subsection \<open>At work\<close>

text \<open>A system whose world is the contents of one file, and where commands answer nothing.\<close>

definition demo_os :: "string os" where
  "demo_os = \<lparr>Getwd = (\<lambda>_. (''/src/test/e2e'', None)), Chdir = (\<lambda>_ w. (None, w)), Environ = (\<lambda>_. []), LookupEnv = (\<lambda>_ _. None),
     CombinedOutput = (\<lambda>_ w. (('''', None), w)), ReadFile = (\<lambda>_ w. Inr w), WriteFile = (\<lambda>_ s _ _. (None, s))\<rparr>"

definition demo_target :: "string \<Rightarrow> string" where
  "demo_target nl = commented ''#'' [''- a'', ''- b''] nl"

lemma line_ends: "line_feed = CHR 0x0A" "carriage_return = CHR 0x0D"
  by code_simp+

lemma demo_target_found:
  "nl \<in> {[], [line_feed]} \<Longrightarrow> strings_Index (''x'' @ demo_target nl @ post) (demo_target nl) = Some (length ''x'')"
  by (simp add: strings_Index_Some demo_target_def commented_def has_prefix_def)

text \<open>With the newline in the target the line behind the block is joined to it.\<close>

lemma uncommented_demo:
  "UncommentCode demo_os ''f'' (demo_target []) ''#'' (''x'' @ demo_target [] @ line_feed # ''y'')
    = (None, ''x- a'' @ [line_feed] @ ''- b'' @ line_feed # ''y'')"
  "UncommentCode demo_os ''f'' (demo_target [line_feed]) ''#'' (''x'' @ demo_target [line_feed] @ ''y'')
    = (None, ''x- a'' @ [line_feed] @ ''- by'')"
proof -
  have "\<forall>l \<in> set [''- a'', ''- b'']. scannable (''#'' @ l)"
    by (simp add: scannable_def MaxScanTokenSize_def line_ends)
  then have "UncommentCode demo_os ''f'' (demo_target nl) ''#'' (''x'' @ demo_target nl @ post)
      = WriteFile demo_os ''f'' (''x'' @ strings_Join [line_feed] [''- a'', ''- b''] @ post) 420 (''x'' @ demo_target nl @ post)"
    if "nl \<in> {[], [line_feed]}" for nl post
    by (intro uncommented [OF _ demo_target_found [OF that] demo_target_def that]) (simp_all add: demo_os_def)
  from this [of "[]" "line_feed # ''y''"] this [of "[line_feed]" "''y''"]
  show "UncommentCode demo_os ''f'' (demo_target []) ''#'' (''x'' @ demo_target [] @ line_feed # ''y'')
      = (None, ''x- a'' @ [line_feed] @ ''- b'' @ line_feed # ''y'')"
    "UncommentCode demo_os ''f'' (demo_target [line_feed]) ''#'' (''x'' @ demo_target [line_feed] @ ''y'')
      = (None, ''x- a'' @ [line_feed] @ ''- by'')" by (simp_all add: demo_os_def)
qed

lemma project_dir_demo: "GetProjectDir demo_os w = (''/src'', None)"
  by (simp add: GetProjectDir_def demo_os_def has_prefix_def)

end
