(* ===== verification/Spec2Isabelle.thy ===== *)
theory Spec2Isabelle
  imports ExampleOutcomes HttpProofs JsonProofs DeepCopyProofs ManagerProofs StoreScenario TestUtils
begin

text \<open>
  A verification of the Cluster API infrastructure provider for Kairos fleets: a pair of
  Kubernetes controllers that turn a \<open>KairosFleetMachine\<close> into a node claimed from AuroraBoot.

  The program. \<open>cmd/main.go\<close> parses the flags, makes a manager and starts two controllers on it.
  \<open>internal/controller/kairosfleetcluster_controller.go\<close> checks a cluster's AuroraBoot connection
  and endpoint. \<open>internal/controller/kairosfleetmachine_controller.go\<close> is a level-triggered state
  machine whose state is the object's annotations: it claims a node, sends it the bootstrap
  cloud-config, reboots it when the apply has completed, waits for a heartbeat after the reboot
  and reports the machine provisioned; a failed apply or reboot is sent again after a retry
  window, a deletion releases the node under the key it was claimed with. Both reach AuroraBoot
  through the interface of \<open>internal/fleet/client.go\<close>, which \<open>http.go\<close> implements over HTTP and JSON
  and \<open>fake.go\<close> in memory; \<open>internal/controller/fleet.go\<close> resolves the connection from the
  cluster object and its token Secret. \<open>api/v1alpha1\<close> declares the objects and their deep copies.

  Theories, in the order they build on each other.

  \<^item> Prelude: strings as byte strings, maps, words, and the collection \<open>frame_simps\<close>. GoTime: \<open>time.Time\<close> as
    nanoseconds, \<open>Add\<close>, \<open>Sub\<close> and \<open>After\<close> with their saturation, and RFC 3339 printing and parsing with the
    calendar, with the round trip \<open>parse_format_RFC3339\<close> for four-digit years.
  \<^item> Fleet: \<open>client.go\<close>, the record \<open>Client\<close> of operations over a world \<open>'w\<close>, errors as the datatype
    \<open>goerror\<close> with wrapping, and the tests \<open>IsNotFound\<close>, \<open>IsNoCapacity\<close>, \<open>IsConflict\<close>, \<open>IsClaimMismatch\<close>. Fake: \<open>fake.go\<close>.
  \<^item> Json and JsonProofs: the part of \<open>encoding/json\<close> that \<open>http.go\<close> uses, strings with UTF-8 replacement
    included. The recursive decoder runs on fuel twice the input's length plus two, which
    \<open>json_decoder_fuel_suffices\<close> shows is always enough. Http and HttpProofs: \<open>http.go\<close>, the
    request each operation sends and what each status of an answer becomes.
  \<^item> Api: the types of \<open>api/v1alpha1\<close> as records. Kube: what the controllers call in Kubernetes
    libraries, a record of functions \<open>Kube\<close>, with the locale \<open>kube_lib\<close> of its documented laws and
    a reference library that satisfies them. Connection: \<open>fleet.go\<close>.
  \<^item> MachineHelpers and MachineController: \<open>kairosfleetmachine_controller.go\<close>, one definition per helper
    and one per step of \<open>reconcileNormal\<close>; a step maps object and world to object, outcome and world.
    \<open>reconcile_body\<close> is a pass between the reads and the deferred patch, \<open>Reconcile\<close> the whole.
    MachineSteps: each step's cases as elimination rules. ClusterController: the other controller.
  \<^item> MachineLifecycle: the abstract state machine \<open>lifecycle\<close> (Unclaimed, Claimed, Configured,
    Rebooting) and its arrows \<open>advance\<close>, the markers' invariant \<open>well_marked\<close>, and \<open>reachable\<close>, the states
    an object goes through under passes and under edits of others, a restore included.
  \<^item> MachinePass, MachineProgress: what a pass does when it succeeds, the refinement of the
    lifecycle, invariants of reachable states, and four passes to a provisioned machine.
    MachineSafety: which calls a pass sends, proved over the locale \<open>recorded_client\<close> that the fake
    client implements. MachineOutcome: failures, waits, deletion, and the locale \<open>answering_client\<close>
    that the HTTP client implements. RetryWindow: after a failure, any number of passes before the
    window's end (\<open>passes_while\<close>, the clock bounded by \<open>clock_within\<close>) send nothing.
  \<^item> MachineFrame: what a pass leaves alone in the object's metadata.
  \<^item> AuroraBoot: the server that the end-to-end test runs the controllers against,
    \<open>internal/controller/fakeauroraboot_test.go\<close>, handler by handler, with \<open>net/http\<close> and URL paths between it
    and the client. AuroraBootProofs and AuroraBootState: what each operation of \<open>http.go\<close> answers and leaves
    on the server, with no request or JSON left in it, and the server's invariant \<open>sound\<close>.
  \<^item> Registry: the locale \<open>claim_registry\<close>, what the controller relies on in AuroraBoot's record of claims.
    Inside it the passes of any number of machines are interleaved (\<open>fleet_run\<close>), from stale versions or
    fresh ones, with patches merged, lost or cut off. EndToEnd: the server, over the real client,
    interprets the locale, so no two machines share a node; a claim whose patch is lost is found
    again, or leaks when the machine is deleted first. ServerLifecycle: from created to
    provisioned in four passes over HTTP. ServerScenario: these properties at work.
  \<^item> ObjectStore: the API server beside AuroraBoot. The world is a pair, and \<open>Reconcile\<close> is what the manager
    calls, from the read of the object to the deferred patch. The locale \<open>object_store\<close> says what
    reads and patches have to do with the versions an object has had; \<open>controller_run\<close> are the
    runs of the manager, with failing patches, crashes and edits of others, and every such run is
    a run of \<open>fleet_run\<close>, so that no two machines on the API server share a node.
    StoredLifecycle: under the locale \<open>current_store\<close>, where reads answer the object as it is and nobody
    else writes it, a call of \<open>Reconcile\<close> is one pass; four provision a machine, and one lets a
    deleted machine go. StoreScenario: a reference store that interprets both locales.
  \<^item> GoHeap: memory with pointers and slices, \<open>append\<close> and the patterns of a deep copy, and the
    locales \<open>footprint\<close> and \<open>deep_copier\<close>; copiers of values, pointers, slices, pairs and structs compose.
    DeepCopy and DeepCopyProofs: \<open>zz_generated.deepcopy.go\<close>. The view of an object in memory is its
    value in theory Api, which is why the controllers can be modelled on values: what
    the patch helper copied before a pass is not touched by the pass.
  \<^item> Manager and ManagerProofs: \<open>cmd/main.go\<close>, the scheme of \<open>groupversion_info.go\<close> and the \<open>init\<close>
    functions, and both \<open>SetupWithManager\<close>; what every list of command line arguments leaves in the
    flags, and how the program ends.
  \<^item> TestUtils: \<open>test/utils/utils.go\<close>, the helpers of the end-to-end tests, over a record of the calls of
    packages \<open>os\<close> and \<open>os/exec\<close>, and what they do to lines of text.
  \<^item> Scenario, Examples, ExampleOutcomes: concrete objects, a scripted AuroraBoot, and each
    property at work on them.

  What is a parameter. The network and URL parsing (\<open>net\<close>); the Kubernetes API, its
  libraries and the clock (\<open>Kube\<close>); the deep copies of Kubernetes types (\<open>copy_lib\<close>); the answers of
  controller-runtime to the entry point (\<open>env\<close>), the flags the logging package binds, and the
  growth of arrays under \<open>append\<close>. Each has its laws, and functions that satisfy them. Of the API
  server the laws are the locales \<open>kube_lib\<close> (library functions), \<open>object_store\<close> and \<open>current_store\<close>
  (reads and patches). The test helpers run over an operating system (\<open>os\<close>) of which nothing is assumed.

  Bounds. An \<open>int32\<close> or \<open>int64\<close> field is a word of its width; times are integers, durations
  saturate as in Go. Round trips through RFC 3339 hold for years of four digits. A pass has
  no loop but the scan of the commands, so nothing else needs fuel; flags are parsed by
  recursion on the number of arguments left, and a target's lines on the text left to scan.

  Not modelled. Logging, contexts and cancellation, and the concurrency of the manager's workers,
  which never run two passes over one object at a time. \<open>strings.TrimSpace\<close> trims ASCII space
  only, and \<open>%q\<close> quotes printable ASCII; both matter to messages only. A nil and an empty
  slice or map have the same view. Of the tests the AuroraBoot server is modelled, with heartbeats
  printed in UTC and without its listener, and the helpers of \<open>test/utils\<close>; the tests themselves
  are not. The passes of \<open>fleet_run\<close> start from some version the object has had and
  their patches are merges on some version; the order in which versions follow each other, which
  resource versions would give, is left open, and outside the controller (\<open>aurora_env\<close>) anything may
  happen to the server but a claim or a release.
\<close>

end
